(* ===== verification/JsPrelude.thy ===== *)
theory JsPrelude
  imports Main "HOL-Library.Char_ord" "HOL-Library.List_Lexorder" "HOL-Library.Sublist"
begin

text \<open>
  Shared vocabulary of the development: JavaScript strings and the string methods the web
  client calls, the result type of calls that may throw, and generic lemmas on lists.

  A JavaScript string is modelled as a \<^typ>\<open>string\<close>, the bytes of its UTF-8 encoding. The
  methods the client uses (\<open>startsWith\<close>, \<open>slice\<close> after a known ASCII prefix, \<open>split\<close> on
  an ASCII separator, \<open>includes\<close>, \<open>replace\<close> of an ASCII pattern, concatenation) commute with
  that encoding. \<open>trim\<close> and \<open>toLowerCase\<close> are modelled on the ASCII range.
\<close>

named_theorems js_simps \<open>evaluation rules of the JavaScript string and number operations\<close>
named_theorems page_defs \<open>definitions of the pages' handlers, for unfolding\<close>

section \<open>Results of calls that may throw\<close>

text \<open>
  A call returns \<open>Inr\<close> of its value or throws, \<open>Inl\<close> of the message of the \<open>Error\<close> thrown.
\<close>

type_synonym 'a jsresult = "string + 'a"

abbreviation Throw :: "string \<Rightarrow> 'a jsresult" where
  "Throw m \<equiv> Inl m"

abbreviation Ok :: "'a \<Rightarrow> 'a jsresult" where
  "Ok a \<equiv> Inr a"

section \<open>String methods\<close>

text \<open>\<open>s.startsWith(p)\<close>.\<close>

fun startsWith :: "string \<Rightarrow> string \<Rightarrow> bool" where
  "startsWith s [] = True"
| "startsWith [] (p # ps) = False"
| "startsWith (c # cs) (p # ps) = (c = p \<and> startsWith cs ps)"

text \<open>\<open>s.includes(p)\<close>.\<close>

fun str_includes :: "string \<Rightarrow> string \<Rightarrow> bool" where
  "str_includes [] p = (p = [])"
| "str_includes (c # cs) p = (startsWith (c # cs) p \<or> str_includes cs p)"

text \<open>\<open>s.replace(p, r)\<close> with a string pattern: the first occurrence only.\<close>

fun replace_first :: "string \<Rightarrow> string \<Rightarrow> string \<Rightarrow> string" where
  "replace_first [] p r = (if p = [] then r else [])"
| "replace_first (c # cs) p r =
     (if startsWith (c # cs) p then r @ drop (length p) (c # cs)
      else c # replace_first cs p r)"

text \<open>\<open>s.split(sep)\<close> for a one-character separator: always at least one part.\<close>

fun split_on :: "char \<Rightarrow> string \<Rightarrow> string list" where
  "split_on sep [] = [[]]"
| "split_on sep (c # cs) =
     (if c = sep then [] # split_on sep cs
      else (case split_on sep cs of [] \<Rightarrow> [[c]] | p # ps \<Rightarrow> (c # p) # ps))"

text \<open>\<open>parts.join(sep)\<close>.\<close>

fun join :: "string \<Rightarrow> string list \<Rightarrow> string" where
  "join sep [] = []"
| "join sep [p] = p"
| "join sep (p # ps) = p @ sep @ join sep ps"

text \<open>The ASCII white space and line terminators that \<open>trim\<close> and \<open>Number\<close> strip.\<close>

definition is_ws :: "char \<Rightarrow> bool" where
  "is_ws c \<longleftrightarrow> of_char c \<in> {9, 10, 11, 12, 13, 32 :: nat}"

definition trim_start :: "string \<Rightarrow> string" where
  "trim_start s = dropWhile is_ws s"

definition trim :: "string \<Rightarrow> string" where
  "trim s = rev (dropWhile is_ws (rev (dropWhile is_ws s)))"

definition lower_char :: "char \<Rightarrow> char" where
  "lower_char c = (let n = (of_char c :: nat) in
     if 65 \<le> n \<and> n \<le> 90 then char_of (n + 32) else c)"

definition upper_char :: "char \<Rightarrow> char" where
  "upper_char c = (let n = (of_char c :: nat) in
     if 97 \<le> n \<and> n \<le> 122 then char_of (n - 32) else c)"

definition toLowerCase :: "string \<Rightarrow> string" where
  "toLowerCase s = map lower_char s"

definition toUpperCase :: "string \<Rightarrow> string" where
  "toUpperCase s = map upper_char s"

text \<open>\<open>a || b\<close> on strings: the empty string is falsy.\<close>

definition str_or :: "string \<Rightarrow> string \<Rightarrow> string" where
  "str_or a b = (if a = [] then b else a)"

section \<open>Lemmas on the string methods\<close>

lemma startsWith_append [simp]: "startsWith (p @ s) p"
  by (induction p) auto

lemma startsWith_prefix: "startsWith s p \<longleftrightarrow> prefix p s"
  by (induction s p rule: startsWith.induct) auto

lemma startsWith_take: "startsWith s p \<longleftrightarrow> take (length p) s = p"
  by (induction s p rule: startsWith.induct) auto

lemma startsWith_split: "startsWith s p \<Longrightarrow> s = p @ drop (length p) s"
  by (metis append_take_drop_id startsWith_take)

lemma includes_iff_sublist: "str_includes s p \<longleftrightarrow> sublist p s"
  by (induction s p rule: str_includes.induct) (auto simp: startsWith_prefix sublist_Cons_right)

lemma includes_Nil [simp]: "str_includes s []"
  by (cases s) auto

text \<open>A pattern whose first character occurs nowhere before it is replaced where it stands.\<close>

lemma replace_first_at: "c \<notin> set pre \<Longrightarrow> replace_first (pre @ (c # p) @ post) (c # p) r = pre @ r @ post"
  by (induction pre) (auto simp: startsWith_take)

lemma split_on_not_Nil [simp]: "split_on sep s \<noteq> []"
  by (induction s) (auto split: list.splits)

lemma split_on_no_sep: "p \<in> set (split_on sep s) \<Longrightarrow> sep \<notin> set p"
  by (induction s arbitrary: p) (auto split: list.splits if_splits)

lemma join_Cons: "ps \<noteq> [] \<Longrightarrow> join sep (p # ps) = p @ sep @ join sep ps"
  by (cases ps) auto

lemma join_split_on: "join [sep] (split_on sep s) = s"
proof (induction s)
  case (Cons c s)
  obtain p ps where ps: "split_on sep s = p # ps"
    by (metis split_on_not_Nil list.exhaust)
  show ?case
  proof (cases "c = sep")
    case True
    then show ?thesis using Cons by (simp add: join_Cons)
  next
    case False
    then show ?thesis using Cons ps by (cases ps) auto
  qed
qed simp

lemma split_on_single: "sep \<notin> set s \<Longrightarrow> split_on sep s = [s]"
  by (induction s) auto

lemma split_on_append_sep:
  "split_on sep (a @ sep # b) = split_on sep a @ split_on sep b"
  by (induction a) (auto split: list.splits simp: neq_Nil_conv)

lemma split_on_append:
  "split_on sep (a @ b) = butlast (split_on sep a) @
     (last (split_on sep a) @ hd (split_on sep b)) # tl (split_on sep b)"
proof (induction a)
  case Nil
  then show ?case by (metis append_Nil butlast.simps(2) hd_Cons_tl last.simps list.sel split_on.simps(1) split_on_not_Nil)
next
  case (Cons c a)
  obtain p ps where ps: "split_on sep a = p # ps"
    by (metis split_on_not_Nil list.exhaust)
  with Cons show ?case by (cases ps) auto
qed

lemma dropWhile_id: "xs = [] \<or> \<not> P (hd xs) \<Longrightarrow> dropWhile P xs = xs"
  by (cases xs) auto

lemma trim_id: "s = [] \<or> (\<not> is_ws (hd s) \<and> \<not> is_ws (last s)) \<Longrightarrow> trim s = s"
  by (auto simp: trim_def dropWhile_id hd_rev)

lemma trim_Nil [simp]: "trim [] = []"
  by (simp add: trim_def)

lemma dropWhile_hd: "dropWhile P xs = [] \<or> \<not> P (hd (dropWhile P xs))"
  by (induction xs) auto

lemma last_dropWhile: "dropWhile P xs \<noteq> [] \<Longrightarrow> last (dropWhile P xs) = last xs"
  by (induction xs) auto

lemma trim_ends: "trim s = [] \<or> (\<not> is_ws (hd (trim s)) \<and> \<not> is_ws (last (trim s)))"
proof -
  define m where "m = dropWhile is_ws s"
  have m: "m = [] \<or> \<not> is_ws (hd m)" unfolding m_def by (rule dropWhile_hd)
  define r where "r = dropWhile is_ws (rev m)"
  have r: "r = [] \<or> \<not> is_ws (hd r)" unfolding r_def by (rule dropWhile_hd)
  have "trim s = rev r" by (simp add: trim_def r_def m_def)
  moreover have "r \<noteq> [] \<Longrightarrow> last r = hd m"
    unfolding r_def by (metis dropWhile.simps(1) last_dropWhile last_rev rev_is_Nil_conv)
  ultimately show ?thesis using m r
    by (metis dropWhile.simps(1) hd_rev last_rev r_def rev.simps(1))
qed

lemma trim_idem [simp]: "trim (trim s) = trim s"
  using trim_ends by (rule trim_id)

lemma lower_char_idem: "lower_char (lower_char c) = lower_char c"
  by (auto simp: lower_char_def Let_def)

lemma toLowerCase_idem [simp]: "toLowerCase (toLowerCase s) = toLowerCase s"
  by (simp add: toLowerCase_def lower_char_idem)

section \<open>Generic lemmas\<close>

lemma filter_filter_conj: "filter P (filter Q xs) = filter (\<lambda>x. Q x \<and> P x) xs"
  by (induction xs) auto

lemma last_append_single [simp]: "last (xs @ [x]) = x"
  by simp

lemma find_by_key: "x \<in> set xs \<Longrightarrow> distinct (map f xs) \<Longrightarrow> List.find (\<lambda>y. f y = f x) xs = Some x"
  by (induction xs) (auto simp: image_iff)

lemma filter_by_key:
  "x \<in> set xs \<Longrightarrow> distinct (map f xs) \<Longrightarrow> filter (\<lambda>y. f x = f y) xs = [x]"
  by (induction xs) (auto simp: image_iff filter_empty_conv)

end
