(* ===== verification/JsNumber.thy ===== *)
theory JsNumber
  imports Complex_Main JsPrelude
begin

text \<open>
  JavaScript numbers: IEEE 754 binary64 values with rounding to nearest, ties to even.

  A finite number is the rational it stands for (\<open>Fin\<close>); the two infinities and NaN are
  values of their own. The sign of zero is not kept: the client never divides by a computed zero
  and never prints a negative zero. Every arithmetic operation rounds its exact result with
  \<open>to_num\<close>, as the hardware does; \<open>fl\<close> is the rounding on rationals and the locale
  \<open>rounding\<close> states what the pages rely on. The formatting methods (\<open>toFixed\<close>,
  \<open>toExponential\<close>, \<open>toString\<close>) and the conversion \<open>Number(s)\<close> follow ECMA-262.
\<close>

section \<open>Binary and decimal exponents\<close>

text \<open>\<open>ilog b x\<close> is the exponent of the leading digit of \<open>x > 0\<close> in base \<open>b\<close>.\<close>

function ilog :: "int \<Rightarrow> rat \<Rightarrow> int" where
  "ilog b x =
     (if b < 2 \<or> x \<le> 0 then 0
      else if of_int b \<le> x then ilog b (x / of_int b) + 1
      else if x < 1 then ilog b (x * of_int b) - 1
      else 0)"
  by pat_completeness auto

definition ilog_measure :: "int \<Rightarrow> rat \<Rightarrow> nat" where
  "ilog_measure b x =
     (if of_int b \<le> x then nat \<lfloor>x\<rfloor> else if x < 1 then nat \<lfloor>1 / x\<rfloor> else 0)"

lemma ilog_measure_up:
  assumes "2 \<le> b" "of_int b \<le> x"
  shows "ilog_measure b (x / of_int b) < ilog_measure b x"
proof -
  have b: "(2::rat) \<le> of_int b" using assms(1) by (metis of_int_le_iff of_int_numeral)
  have x: "2 \<le> x" using assms b by simp
  have x0: "0 < x" using x by simp
  have "x / of_int b \<le> x / 2"
    using b x0 by (intro divide_left_mono) auto
  then have le: "x / of_int b \<le> x - 1" using x by linarith
  have ge: "1 \<le> x / of_int b" using assms(2) b by simp
  have "\<lfloor>x / of_int b\<rfloor> \<le> \<lfloor>x - 1\<rfloor>" using le by (rule floor_mono)
  then have "\<lfloor>x / of_int b\<rfloor> < \<lfloor>x\<rfloor>" by simp
  moreover have "1 \<le> \<lfloor>x\<rfloor>" using x by (simp add: le_floor_iff)
  ultimately show ?thesis
    using assms ge by (auto simp: ilog_measure_def)
qed

lemma ilog_measure_down:
  assumes "2 \<le> b" "0 < x" "x < 1"
  shows "ilog_measure b (x * of_int b) < ilog_measure b x"
proof -
  have b: "(2::rat) \<le> of_int b" using assms(1) by (metis of_int_le_iff of_int_numeral)
  have inv: "1 < 1 / x" using assms by simp
  then have one: "1 \<le> \<lfloor>1 / x\<rfloor>" by (simp add: le_floor_iff)
  have nb: "x * of_int b < of_int b" using assms b by simp
  have bx: "\<not> of_int b \<le> x" using assms b by simp
  show ?thesis
  proof (cases "x * of_int b < 1")
    case False
    then show ?thesis using nb bx one assms by (simp add: ilog_measure_def)
  next
    case True
    have "x * 2 \<le> x * of_int b" using b assms by simp
    then have "x * 2 < 1" using True by simp
    then have two: "2 < 1 / x" using assms by (simp add: field_simps)
    have "1 / (x * of_int b) = (1 / x) / of_int b" by simp
    also have "\<dots> \<le> (1 / x) / 2" using b assms by (intro frac_le) auto
    also have "\<dots> \<le> 1 / x - 1" using two by simp
    finally have "\<lfloor>1 / (x * of_int b)\<rfloor> \<le> \<lfloor>1 / x - 1\<rfloor>" by (rule floor_mono)
    then have "\<lfloor>1 / (x * of_int b)\<rfloor> < \<lfloor>1 / x\<rfloor>" by simp
    then show ?thesis using True nb bx one assms by (simp add: ilog_measure_def)
  qed
qed

termination ilog
  by (relation "measure (\<lambda>(b, x). ilog_measure b x)")
     (auto intro: ilog_measure_up ilog_measure_down)

declare ilog.simps [simp del]

lemma of_int_ge2: "2 \<le> b \<Longrightarrow> (2::rat) \<le> of_int b"
  by (metis of_int_le_iff of_int_numeral)

lemma powi_Suc: "(0::rat) < b \<Longrightarrow> b powi (k + 1) = b powi k * b"
  by (simp add: power_int_add_1)

lemma ilog_bounds:
  "2 \<le> b \<Longrightarrow> 0 < x \<Longrightarrow>
     of_int b powi ilog b x \<le> x \<and> x < of_int b powi (ilog b x + 1)"
proof (induction b x rule: ilog.induct)
  case (1 b x)
  have b: "(2::rat) \<le> of_int b" using "1.prems" by (simp add: of_int_ge2)
  then have b0: "(of_int b :: rat) \<noteq> 0" and bpos: "(0::rat) < of_int b" by auto
  consider (up) "of_int b \<le> x" | (down) "\<not> of_int b \<le> x" "x < 1" | (stop) "x < of_int b" "1 \<le> x"
    by linarith
  then show ?case
  proof cases
    case up
    let ?k = "ilog b (x / of_int b)"
    have IH: "of_int b powi ?k \<le> x / of_int b \<and> x / of_int b < of_int b powi (?k + 1)"
      using 1 up bpos by (simp add: divide_pos_pos)
    have k: "ilog b x = ?k + 1" using 1 up by (simp add: ilog.simps [of b x])
    have s1: "of_int b powi (?k + 1) = of_int b powi ?k * (of_int b :: rat)"
      using bpos by (rule powi_Suc)
    have s2: "of_int b powi (?k + 1 + 1) = of_int b powi (?k + 1) * (of_int b :: rat)"
      using bpos by (rule powi_Suc)
    have "of_int b powi ?k * of_int b \<le> x" using IH bpos by (simp add: pos_le_divide_eq)
    moreover have "x < of_int b powi (?k + 1) * of_int b"
      using IH bpos by (simp only: pos_divide_less_eq)
    ultimately show ?thesis by (simp only: k s1 s2)
  next
    case down
    let ?k = "ilog b (x * of_int b)"
    have IH: "of_int b powi ?k \<le> x * of_int b \<and> x * of_int b < of_int b powi (?k + 1)"
      using 1 down bpos by simp
    have k: "ilog b x = ?k - 1" using 1 down by (simp add: ilog.simps [of b x])
    have "of_int b powi ?k = of_int b powi (?k - 1) * (of_int b :: rat)"
      using power_int_add_1 [of "of_int b :: rat" "?k - 1"] b0 by simp
    moreover have "of_int b powi (?k + 1) = of_int b powi ?k * (of_int b :: rat)"
      using power_int_add_1 [of "of_int b :: rat" "?k"] b0 by simp
    ultimately show ?thesis using IH bpos by (simp add: k)
  next
    case stop
    then show ?thesis using 1 b by (simp add: ilog.simps [of b x])
  qed
qed

lemma ilog_mono:
  assumes "2 \<le> b" "0 < x" "x \<le> y"
  shows "ilog b x \<le> ilog b y"
proof (rule ccontr)
  assume "\<not> ?thesis"
  then have lt: "ilog b y + 1 \<le> ilog b x" by simp
  have b: "(1::rat) \<le> of_int b" using assms(1) of_int_ge2 [of b] by simp
  have "y < of_int b powi (ilog b y + 1)" using ilog_bounds [of b y] assms by simp
  also have "\<dots> \<le> of_int b powi (ilog b x)" using lt b by (rule power_int_increasing)
  also have "\<dots> \<le> x" using ilog_bounds [of b x] assms by simp
  finally show False using assms by simp
qed

lemma ilog_unique:
  assumes "2 \<le> b" "of_int b powi k \<le> x" "x < of_int b powi (k + 1)"
  shows "ilog b x = k"
proof -
  have b: "(1::rat) < of_int b" using assms(1) of_int_ge2 [of b] by simp
  have x: "0 < x" using assms(2) b by (metis less_le_trans of_int_0_less_iff zero_less_power_int
        less_trans zero_less_one)
  note B = ilog_bounds [OF assms(1) x]
  have "of_int b powi k < (of_int b powi (ilog b x + 1) :: rat)" using assms B by linarith
  then have "k < ilog b x + 1" using b by (metis power_int_increasing not_le order_less_imp_le leD)
  moreover have "of_int b powi (ilog b x) < (of_int b powi (k + 1) :: rat)" using assms B by linarith
  then have "ilog b x < k + 1" using b by (metis power_int_increasing not_le order_less_imp_le leD)
  ultimately show ?thesis by simp
qed

section \<open>Rounding to binary64\<close>

text \<open>Round to the nearest integer, ties to even.\<close>

definition rhe :: "rat \<Rightarrow> int" where
  "rhe x = (let n = \<lfloor>x\<rfloor>; r = x - of_int n in
     if r < 1/2 then n else if 1/2 < r then n + 1 else if even n then n else n + 1)"

text \<open>
  The unit in the last place of \<open>x\<close>: 53 significant bits, and no smaller than the
  least subnormal \<open>2 ^ -1074\<close>.
\<close>

definition ulp_exp :: "rat \<Rightarrow> int" where
  "ulp_exp x = max (-1074) (ilog 2 \<bar>x\<bar> - 52)"

definition fl :: "rat \<Rightarrow> rat" where
  "fl x = (let u = 2 powi ulp_exp x in of_int (rhe (x / u)) * u)"

lemma rhe_of_int [simp]: "rhe (of_int n) = n"
  by (simp add: rhe_def)

lemma rhe_0 [simp]: "rhe 0 = 0"
  using rhe_of_int [of 0] by simp

lemma rhe_near: "\<bar>of_int (rhe x) - x\<bar> \<le> 1/2"
proof -
  define n where "n = \<lfloor>x\<rfloor>"
  have "of_int n \<le> x" "x < of_int n + 1" unfolding n_def by linarith+
  then show ?thesis by (auto simp: rhe_def Let_def n_def [symmetric])
qed

lemma rhe_floor: "rhe x = \<lfloor>x\<rfloor> \<or> rhe x = \<lfloor>x\<rfloor> + 1"
  by (simp add: rhe_def Let_def)

lemma rhe_mono:
  assumes "x \<le> y"
  shows "rhe x \<le> rhe y"
proof -
  have f: "\<lfloor>x\<rfloor> \<le> \<lfloor>y\<rfloor>" using assms by (rule floor_mono)
  show ?thesis
  proof (cases "\<lfloor>x\<rfloor> = \<lfloor>y\<rfloor>")
    case True
    then show ?thesis using assms by (auto simp: rhe_def Let_def)
  next
    case False
    then show ?thesis using f rhe_floor [of x] rhe_floor [of y] by linarith
  qed
qed

lemma rhe_minus: "rhe (- x) = - rhe x"
proof (cases "x = of_int \<lfloor>x\<rfloor>")
  case True
  then show ?thesis by (metis of_int_minus rhe_of_int)
next
  case False
  define n where "n = \<lfloor>x\<rfloor>"
  have n: "of_int n < x" "x < of_int n + 1" using False unfolding n_def by linarith+
  then have m: "\<lfloor>- x\<rfloor> = - n - 1" by (intro floor_unique) auto
  have "x - of_int n < 1/2 \<or> x - of_int n = 1/2 \<or> 1/2 < x - of_int n" by linarith
  then show ?thesis using n
    by (auto simp: rhe_def Let_def m n_def [symmetric])
qed

lemma fl_0 [simp]: "fl 0 = 0"
  by (simp add: fl_def)

lemma ulp_exp_minus [simp]: "ulp_exp (- x) = ulp_exp x"
  by (simp add: ulp_exp_def)

lemma fl_minus: "fl (- x) = - fl x"
  by (simp add: fl_def Let_def rhe_minus)

lemma two_powi_pos [simp]: "(0::rat) < 2 powi k"
  by simp

lemma two_powi_split: "k \<le> l \<Longrightarrow> (2::rat) powi l = of_int (2 ^ nat (l - k)) * 2 powi k"
  using power_int_add [of "2::rat" "l - k" k] by (simp add: power_int_def)

lemma fl_le_pow:
  assumes "0 \<le> x" "x \<le> 2 powi l" "ulp_exp x \<le> l"
  shows "fl x \<le> 2 powi l"
proof -
  let ?u = "2 powi ulp_exp x :: rat"
  have l: "2 powi l = of_int (2 ^ nat (l - ulp_exp x)) * ?u" using assms(3) by (rule two_powi_split)
  have "x / ?u \<le> of_int (2 ^ nat (l - ulp_exp x))"
    using assms(2) l by (simp add: pos_divide_le_eq)
  then have "rhe (x / ?u) \<le> 2 ^ nat (l - ulp_exp x)"
    by (metis rhe_mono rhe_of_int)
  then have "(of_int (rhe (x / ?u)) :: rat) \<le> of_int (2 ^ nat (l - ulp_exp x))"
    by (simp only: of_int_le_iff)
  then show ?thesis
    by (simp add: fl_def Let_def l mult_right_mono)
qed

lemma fl_ge_pow:
  assumes "2 powi l \<le> x" "ulp_exp x \<le> l"
  shows "2 powi l \<le> fl x"
proof -
  let ?u = "2 powi ulp_exp x :: rat"
  have l: "2 powi l = of_int (2 ^ nat (l - ulp_exp x)) * ?u" using assms(2) by (rule two_powi_split)
  have "of_int (2 ^ nat (l - ulp_exp x)) \<le> x / ?u"
    using assms(1) l by (simp add: pos_le_divide_eq)
  then have "2 ^ nat (l - ulp_exp x) \<le> rhe (x / ?u)"
    by (metis rhe_mono rhe_of_int)
  then have "of_int (2 ^ nat (l - ulp_exp x)) \<le> (of_int (rhe (x / ?u)) :: rat)"
    by (simp only: of_int_le_iff)
  then show ?thesis
    by (simp add: fl_def Let_def l mult_right_mono)
qed

lemma fl_mono_pos:
  assumes "0 < x" "x \<le> y"
  shows "fl x \<le> fl y"
proof -
  have lg: "ilog 2 x \<le> ilog 2 y" using assms by (intro ilog_mono) auto
  show ?thesis
  proof (cases "ulp_exp x = ulp_exp y")
    case True
    have "rhe (x / 2 powi ulp_exp y) \<le> rhe (y / 2 powi ulp_exp y)"
      using assms by (intro rhe_mono divide_right_mono) auto
    then show ?thesis using True by (simp add: fl_def Let_def mult_right_mono)
  next
    case False
    then have lt: "ilog 2 x < ilog 2 y" and e: "ulp_exp y = ilog 2 y - 52"
      and ex: "ulp_exp x \<le> ilog 2 y"
      using assms lg by (auto simp: ulp_exp_def max_def split: if_splits)
    have y: "2 powi ilog 2 y \<le> y" using ilog_bounds [of 2 y] assms by simp
    have "x < 2 powi (ilog 2 x + 1)" using ilog_bounds [of 2 x] assms by simp
    also have "(2::rat) powi (ilog 2 x + 1) \<le> 2 powi ilog 2 y"
      using lt by (intro power_int_increasing) auto
    finally have "fl x \<le> 2 powi ilog 2 y"
      using assms ex by (intro fl_le_pow) auto
    also have "\<dots> \<le> fl y" using y e by (intro fl_ge_pow) auto
    finally show ?thesis .
  qed
qed

lemma fl_nonneg:
  assumes "0 \<le> x"
  shows "0 \<le> fl x"
proof -
  have "rhe 0 \<le> rhe (x / 2 powi ulp_exp x)"
    using assms by (intro rhe_mono) simp
  then show ?thesis by (simp add: fl_def Let_def)
qed

lemma fl_mono: "x \<le> y \<Longrightarrow> fl x \<le> fl y"
proof -
  assume le: "x \<le> y"
  consider "0 < x" | "x \<le> 0" "0 \<le> y" | "y < 0" by linarith
  then show ?thesis
  proof cases
    case 1
    then show ?thesis using le by (rule fl_mono_pos)
  next
    case 2
    have "fl x \<le> 0" using fl_nonneg [of "- x"] 2 by (simp add: fl_minus)
    then show ?thesis using fl_nonneg [of y] 2 by linarith
  next
    case 3
    have "fl (- y) \<le> fl (- x)" using 3 le by (intro fl_mono_pos) auto
    then show ?thesis by (simp add: fl_minus)
  qed
qed

text \<open>A value with at most 53 significant bits above the least exponent is kept as it is.\<close>

lemma fl_exact_pos:
  assumes "0 < m" "m \<le> 2 ^ 53" "- 1074 \<le> e"
  shows "fl (of_int m * 2 powi e) = of_int m * 2 powi e"
proof -
  define x :: rat where "x = of_int m * 2 powi e"
  have x: "0 < x" using assms by (simp add: x_def)
  have ub: "x \<le> 2 powi (e + 53)"
  proof -
    have "x \<le> 2 ^ 53 * 2 powi e"
      using assms(2) unfolding x_def
      by (intro mult_right_mono) (metis of_int_le_iff of_int_numeral of_int_power, simp)
    then show ?thesis by (simp add: power_int_add)
  qed
  have ex: "\<exists>n. x / 2 powi ulp_exp x = of_int n"
  proof (cases "ulp_exp x \<le> e")
    case True
    define k where "k = ulp_exp x"
    have "2 powi e = of_int (2 ^ nat (e - k)) * (2::rat) powi k"
      using True unfolding k_def by (rule two_powi_split)
    then have "x = of_int (m * 2 ^ nat (e - k)) * 2 powi k" by (simp add: x_def)
    then have "x / 2 powi k = of_int (m * 2 ^ nat (e - k))" by simp
    then show ?thesis unfolding k_def by blast
  next
    case False
    then have k: "ulp_exp x = ilog 2 x - 52" and il: "e + 53 \<le> ilog 2 x"
      using assms(3) x by (auto simp: ulp_exp_def)
    have "2 powi (e + 53) \<le> (2::rat) powi ilog 2 x"
      using il by (intro power_int_increasing) auto
    also have "\<dots> \<le> x" using ilog_bounds [of 2 x] x by simp
    finally have xe: "x = 2 powi (e + 53)" using ub by simp
    then have "ilog 2 x = e + 53"
      by (intro ilog_unique) (auto simp: power_int_add)
    then have "x / 2 powi ulp_exp x = of_int (2 ^ 52)"
      using k xe by (simp add: power_int_add field_simps)
    then show ?thesis by blast
  qed
  then obtain n where n: "x / 2 powi ulp_exp x = of_int n" by blast
  then have "x = of_int n * 2 powi ulp_exp x" by (simp add: field_simps)
  then show ?thesis unfolding x_def [symmetric] by (metis fl_def n rhe_of_int)
qed

lemma fl_exact:
  assumes "\<bar>m\<bar> \<le> 2 ^ 53" "- 1074 \<le> e"
  shows "fl (of_int m * 2 powi e) = of_int m * 2 powi e"
proof -
  consider "m = 0" | "0 < m" | "m < 0" by linarith
  then show ?thesis
  proof cases
    case 3
    have "fl (of_int (- m) * 2 powi e) = of_int (- m) * 2 powi e"
      using 3 assms by (intro fl_exact_pos) auto
    then show ?thesis using fl_minus [of "of_int m * 2 powi e"] by simp
  qed (use assms in \<open>auto intro: fl_exact_pos\<close>)
qed

lemma fl_of_int: "\<bar>n\<bar> \<le> 2 ^ 53 \<Longrightarrow> fl (of_int n) = of_int n"
  using fl_exact [of n 0] by simp

lemma rhe_abs_le:
  assumes "\<bar>x\<bar> \<le> of_int n"
  shows "\<bar>rhe x\<bar> \<le> n"
proof -
  have "rhe x \<le> rhe (of_int n)" using assms by (intro rhe_mono) simp
  moreover have "rhe (of_int (- n)) \<le> rhe x" using assms by (intro rhe_mono) simp
  ultimately show ?thesis by (simp only: rhe_of_int)
qed

lemma abs_less_ulp: "\<bar>x\<bar> < 2 ^ 53 * 2 powi ulp_exp x"
proof (cases "x = 0")
  case False
  have "\<bar>x\<bar> < 2 powi (ilog 2 \<bar>x\<bar> + 1)"
    using ilog_bounds [of 2 "\<bar>x\<bar>"] False by simp
  also have "(2::rat) powi (ilog 2 \<bar>x\<bar> + 1) \<le> 2 powi (53 + ulp_exp x)"
    by (intro power_int_increasing) (auto simp: ulp_exp_def)
  finally show ?thesis by (simp add: power_int_add)
qed simp

lemma fl_idem [simp]: "fl (fl x) = fl x"
proof -
  have "\<bar>x / 2 powi ulp_exp x\<bar> \<le> of_int (2 ^ 53)"
    using abs_less_ulp [of x] by (simp add: abs_divide pos_divide_le_eq)
  then have "\<bar>rhe (x / 2 powi ulp_exp x)\<bar> \<le> 2 ^ 53" by (rule rhe_abs_le)
  then show ?thesis
    unfolding fl_def [of x] Let_def
    by (intro fl_exact) (simp_all add: ulp_exp_def)
qed

text \<open>The rounding error is at most half a unit in the last place.\<close>

lemma fl_error: "\<bar>fl x - x\<bar> \<le> 2 powi ulp_exp x / 2"
proof -
  let ?u = "2 powi ulp_exp x :: rat"
  have "fl x - x = (of_int (rhe (x / ?u)) - x / ?u) * ?u"
    by (simp add: fl_def Let_def left_diff_distrib)
  then have "\<bar>fl x - x\<bar> = \<bar>of_int (rhe (x / ?u)) - x / ?u\<bar> * ?u"
    by (simp add: abs_mult)
  also have "\<dots> \<le> 1/2 * ?u" by (intro mult_right_mono rhe_near) simp
  finally show ?thesis by simp
qed

text \<open>
  Every value is a multiple of the least subnormal, so the difference of two distinct values
  never rounds to zero (gradual underflow).
\<close>

lemma fl_fixed_grid: "fl x = x \<Longrightarrow> \<exists>a. x = of_int a * 2 powi (-1074)"
proof -
  assume fx: "fl x = x"
  have "(2::rat) powi ulp_exp x = of_int (2 ^ nat (ulp_exp x - (-1074))) * 2 powi (-1074)"
    by (rule two_powi_split) (simp add: ulp_exp_def)
  then have "x = of_int (rhe (x / 2 powi ulp_exp x) * 2 ^ nat (ulp_exp x - (-1074))) * 2 powi (-1074)"
    using fx unfolding fl_def Let_def by (metis (no_types) mult.assoc of_int_mult)
  then show ?thesis by blast
qed

lemma fl_sub_pos:
  assumes "fl x = x" "fl y = y" "y < x"
  shows "0 < fl (x - y)"
proof -
  obtain a b where ab: "x = of_int a * 2 powi (-1074)" "y = of_int b * 2 powi (-1074)"
    using fl_fixed_grid assms by blast
  then have "b < a" using assms(3) by simp
  then have "(1::rat) \<le> of_int (a - b)" by simp
  then have "1 * 2 powi (-1074) \<le> of_int (a - b) * (2 powi (-1074) :: rat)"
    by (intro mult_right_mono) auto
  then have "of_int 1 * 2 powi (-1074) \<le> x - y" using ab by (simp add: left_diff_distrib)
  then have "fl (of_int 1 * 2 powi (-1074)) \<le> fl (x - y)" by (rule fl_mono)
  then have "of_int 1 * 2 powi (-1074) \<le> fl (x - y)" using fl_exact [of 1 "-1074"] by simp
  moreover have "(0::rat) < of_int 1 * 2 powi (-1074)" by simp
  ultimately show ?thesis by (rule less_le_trans [rotated])
qed

section \<open>What the pages need of a rounding\<close>

text \<open>
  The contract between the arithmetic and its clients: a rounding is monotone, idempotent and
  exact on the integers of magnitude at most \<open>2 ^ 53\<close>. Every bound the pages rely on follows
  from these laws alone.
\<close>

locale rounding =
  fixes rnd :: "rat \<Rightarrow> rat"
  assumes rnd_mono: "x \<le> y \<Longrightarrow> rnd x \<le> rnd y"
    and rnd_idem: "rnd (rnd x) = rnd x"
    and rnd_int: "\<bar>n\<bar> \<le> 2 ^ 53 \<Longrightarrow> rnd (of_int n) = of_int n"
begin

lemma rnd_zero: "rnd 0 = 0"
  using rnd_int [of 0] by simp

lemma rnd_nonneg: "0 \<le> x \<Longrightarrow> 0 \<le> rnd x"
  using rnd_mono [of 0 x] by (simp add: rnd_zero)

lemma rnd_nonpos: "x \<le> 0 \<Longrightarrow> rnd x \<le> 0"
  using rnd_mono [of x 0] by (simp add: rnd_zero)

lemma rnd_le_int: "x \<le> of_int n \<Longrightarrow> \<bar>n\<bar> \<le> 2 ^ 53 \<Longrightarrow> rnd x \<le> of_int n"
  using rnd_mono [of x "of_int n"] by (simp add: rnd_int)

lemma rnd_ge_int: "of_int n \<le> x \<Longrightarrow> \<bar>n\<bar> \<le> 2 ^ 53 \<Longrightarrow> of_int n \<le> rnd x"
  using rnd_mono [of "of_int n" x] by (simp add: rnd_int)

text \<open>A fixed point of the rounding bounds every rounded value below it.\<close>

lemma rnd_le_fix: "x \<le> y \<Longrightarrow> rnd y = y \<Longrightarrow> rnd x \<le> y"
  using rnd_mono [of x y] by simp

lemma rnd_ge_fix: "y \<le> x \<Longrightarrow> rnd y = y \<Longrightarrow> y \<le> rnd x"
  using rnd_mono [of y x] by simp

text \<open>A share of a maximum, scaled to a percentage, stays a percentage.\<close>

lemma rnd_percent:
  assumes "0 \<le> x" "x \<le> m" "0 < m"
  shows "0 \<le> rnd (rnd (x / m) * 100)" "rnd (rnd (x / m) * 100) \<le> 100"
proof -
  have "x / m \<le> of_int 1" using assms by simp
  then have le: "rnd (x / m) \<le> 1" using rnd_le_int [of "x / m" 1] by simp
  have ge: "0 \<le> rnd (x / m)" using assms by (intro rnd_nonneg) simp
  show "0 \<le> rnd (rnd (x / m) * 100)" using ge by (intro rnd_nonneg) simp
  have "rnd (x / m) * 100 \<le> of_int 100" using le by simp
  then show "rnd (rnd (x / m) * 100) \<le> 100"
    using rnd_le_int [of "rnd (x / m) * 100" 100] by simp
qed

text \<open>A sum of two scaled shares is monotone in every factor.\<close>

lemma rnd_scaled_mono:
  assumes "0 \<le> a" "a \<le> a'" "0 \<le> p" "p \<le> p'" "0 < d"
  shows "rnd (rnd (a / d) * p) \<le> rnd (rnd (a' / d) * p')"
proof (rule rnd_mono, rule mult_mono)
  show "rnd (a / d) \<le> rnd (a' / d)" using assms by (intro rnd_mono divide_right_mono) auto
  show "0 \<le> rnd (a' / d)" using assms by (intro rnd_nonneg) auto
qed (use assms in auto)

end

interpretation binary64: rounding fl
  by unfold_locales (auto intro: fl_mono fl_of_int)

end
