(* ===== verification/JsArith.thy ===== *)
theory JsArith
  imports JsNumber
begin

text \<open>
  The values of the JavaScript type \<open>number\<close> and the operators and \<open>Math\<close> functions the
  client applies to them. A finite value is \<open>Fin\<close> of a rational; \<open>is_number\<close> says that it
  is a binary64 value, and every operation preserves that.
\<close>

datatype jsnum = Fin rat | PInf | NInf | NaN

text \<open>The double nearest to an exact result; too large a magnitude is an infinity.\<close>

definition to_num :: "rat \<Rightarrow> jsnum" where
  "to_num x = (let y = fl x in
     if 2 ^ 1024 \<le> y then PInf else if y \<le> - (2 ^ 1024) then NInf else Fin y)"

definition is_number :: "jsnum \<Rightarrow> bool" where
  "is_number a = (case a of Fin x \<Rightarrow> fl x = x \<and> \<bar>x\<bar> < 2 ^ 1024 | _ \<Rightarrow> True)"

abbreviation num_int :: "int \<Rightarrow> jsnum" where
  "num_int n \<equiv> Fin (of_int n)"

fun num_neg :: "jsnum \<Rightarrow> jsnum" where
  "num_neg (Fin x) = Fin (- x)"
| "num_neg PInf = NInf"
| "num_neg NInf = PInf"
| "num_neg NaN = NaN"

fun num_add :: "jsnum \<Rightarrow> jsnum \<Rightarrow> jsnum" where
  "num_add NaN b = NaN"
| "num_add a NaN = NaN"
| "num_add (Fin x) (Fin y) = to_num (x + y)"
| "num_add PInf NInf = NaN"
| "num_add NInf PInf = NaN"
| "num_add PInf b = PInf"
| "num_add NInf b = NInf"
| "num_add (Fin x) b = b"

text \<open>The product with an infinity: NaN for zero, else the infinity of the product's sign.\<close>

definition inf_times :: "bool \<Rightarrow> rat \<Rightarrow> jsnum" where
  "inf_times pos y =
     (if y = 0 then NaN else if (0 < y) = pos then PInf else NInf)"

fun num_mult :: "jsnum \<Rightarrow> jsnum \<Rightarrow> jsnum" where
  "num_mult NaN b = NaN"
| "num_mult a NaN = NaN"
| "num_mult (Fin x) (Fin y) = to_num (x * y)"
| "num_mult PInf (Fin y) = inf_times True y"
| "num_mult NInf (Fin y) = inf_times False y"
| "num_mult (Fin x) PInf = inf_times True x"
| "num_mult (Fin x) NInf = inf_times False x"
| "num_mult PInf PInf = PInf"
| "num_mult NInf NInf = PInf"
| "num_mult PInf NInf = NInf"
| "num_mult NInf PInf = NInf"

text \<open>Division; a zero divisor counts as positive zero.\<close>

fun num_div :: "jsnum \<Rightarrow> jsnum \<Rightarrow> jsnum" where
  "num_div NaN b = NaN"
| "num_div a NaN = NaN"
| "num_div (Fin x) (Fin y) =
     (if y = 0 then (if x = 0 then NaN else if 0 < x then PInf else NInf) else to_num (x / y))"
| "num_div (Fin x) PInf = Fin 0"
| "num_div (Fin x) NInf = Fin 0"
| "num_div PInf (Fin y) = (if 0 \<le> y then PInf else NInf)"
| "num_div NInf (Fin y) = (if 0 \<le> y then NInf else PInf)"
| "num_div PInf b = NaN"
| "num_div NInf b = NaN"

text \<open>\<open>a < b\<close> and \<open>a \<le> b\<close>: false as soon as one side is NaN.\<close>

fun num_less :: "jsnum \<Rightarrow> jsnum \<Rightarrow> bool" where
  "num_less (Fin x) (Fin y) = (x < y)"
| "num_less NInf (Fin y) = True"
| "num_less NInf PInf = True"
| "num_less (Fin x) PInf = True"
| "num_less _ _ = False"

fun num_le :: "jsnum \<Rightarrow> jsnum \<Rightarrow> bool" where
  "num_le (Fin x) (Fin y) = (x \<le> y)"
| "num_le NInf b = (b \<noteq> NaN)"
| "num_le a PInf = (a \<noteq> NaN)"
| "num_le _ _ = False"

instantiation jsnum :: "{plus, minus, times, inverse, uminus, ord}"
begin
definition uminus_jsnum :: "jsnum \<Rightarrow> jsnum" where "uminus_jsnum = num_neg"
definition plus_jsnum :: "jsnum \<Rightarrow> jsnum \<Rightarrow> jsnum" where "plus_jsnum = num_add"
definition minus_jsnum :: "jsnum \<Rightarrow> jsnum \<Rightarrow> jsnum" where "minus_jsnum a b = num_add a (num_neg b)"
definition times_jsnum :: "jsnum \<Rightarrow> jsnum \<Rightarrow> jsnum" where "times_jsnum = num_mult"
definition divide_jsnum :: "jsnum \<Rightarrow> jsnum \<Rightarrow> jsnum" where "divide_jsnum = num_div"
definition inverse_jsnum :: "jsnum \<Rightarrow> jsnum" where "inverse_jsnum a = num_div (Fin 1) a"
definition less_eq_jsnum :: "jsnum \<Rightarrow> jsnum \<Rightarrow> bool" where "less_eq_jsnum = num_le"
definition less_jsnum :: "jsnum \<Rightarrow> jsnum \<Rightarrow> bool" where "less_jsnum = num_less"
instance ..
end

lemmas num_ops [js_simps] =
  uminus_jsnum_def plus_jsnum_def minus_jsnum_def times_jsnum_def divide_jsnum_def
  less_eq_jsnum_def less_jsnum_def

text \<open>\<open>Math.max(a, b)\<close>: NaN as soon as one argument is NaN.\<close>

definition math_max :: "jsnum \<Rightarrow> jsnum \<Rightarrow> jsnum" where
  "math_max a b = (if a = NaN \<or> b = NaN then NaN else if num_less a b then b else a)"

text \<open>\<open>Math.max(...xs, b)\<close>.\<close>

definition math_max_list :: "jsnum list \<Rightarrow> jsnum \<Rightarrow> jsnum" where
  "math_max_list xs b = foldr math_max xs b"

section \<open>Type preservation\<close>

lemma is_number_simps [simp]:
  "is_number (Fin x) \<longleftrightarrow> fl x = x \<and> \<bar>x\<bar> < 2 ^ 1024"
  "is_number PInf" "is_number NInf" "is_number NaN"
  by (auto simp: is_number_def)

lemma is_number_to_num [simp]: "is_number (to_num x)"
  by (auto simp: to_num_def Let_def abs_less_iff)

lemma is_number_inf_times [simp]: "is_number (inf_times p y)"
  by (simp add: inf_times_def)

lemma is_number_int: "\<bar>n\<bar> \<le> 2 ^ 53 \<Longrightarrow> is_number (num_int n)"
proof -
  assume n: "\<bar>n\<bar> \<le> 2 ^ 53"
  have "\<bar>of_int n :: rat\<bar> \<le> of_int (2 ^ 53)"
    using n by (metis of_int_abs of_int_le_iff)
  also have "\<dots> < (2 ^ 1024 :: rat)" by simp
  finally show ?thesis using n by (simp add: fl_of_int)
qed

lemma is_number_add: "is_number a \<Longrightarrow> is_number b \<Longrightarrow> is_number (a + b)"
  unfolding plus_jsnum_def by (cases a; cases b) auto

lemma is_number_mult: "is_number a \<Longrightarrow> is_number b \<Longrightarrow> is_number (a * b)"
  unfolding times_jsnum_def by (cases a; cases b) auto

lemma is_number_div: "is_number a \<Longrightarrow> is_number b \<Longrightarrow> is_number (a / b)"
  unfolding divide_jsnum_def by (cases a; cases b) auto

lemma is_number_max: "is_number a \<Longrightarrow> is_number b \<Longrightarrow> is_number (math_max a b)"
  by (simp add: math_max_def)

section \<open>Order\<close>

lemma num_less_irrefl [simp]: "\<not> num_less a a"
  by (cases a) auto

lemma num_le_refl: "a \<noteq> NaN \<Longrightarrow> num_le a a"
  by (cases a) auto

lemma num_le_trans: "num_le a b \<Longrightarrow> num_le b c \<Longrightarrow> num_le a c"
  by (cases a; cases b; cases c) auto

lemma num_less_le_trans: "num_less a b \<Longrightarrow> num_le b c \<Longrightarrow> num_less a c"
  by (cases a; cases b; cases c) auto

lemma num_not_less: "a \<noteq> NaN \<Longrightarrow> b \<noteq> NaN \<Longrightarrow> \<not> num_less a b \<longleftrightarrow> num_le b a"
  by (cases a; cases b) auto

lemma num_le_NaN [simp]: "\<not> num_le NaN b" "\<not> num_le a NaN"
  by (cases b; simp) (cases a; simp)

lemma num_le_PInf [simp]: "num_le a PInf \<longleftrightarrow> a \<noteq> NaN"
  by (cases a) auto

lemma num_less_NaN [simp]: "\<not> num_less NaN b" "\<not> num_less a NaN"
  by (cases b; simp) (cases a; simp)

lemma num_less_imp_le: "num_less a b \<Longrightarrow> num_le a b"
  by (cases a; cases b) auto

lemma math_max_ge:
  assumes "a \<noteq> NaN" "b \<noteq> NaN"
  shows "num_le a (math_max a b)" "num_le b (math_max a b)"
  using assms by (auto simp: math_max_def num_le_refl num_not_less intro: num_less_imp_le)

lemma math_max_not_NaN: "a \<noteq> NaN \<Longrightarrow> b \<noteq> NaN \<Longrightarrow> math_max a b \<noteq> NaN"
  by (simp add: math_max_def)

lemma math_max_list_Nil [simp]: "math_max_list [] b = b"
  and math_max_list_Cons [simp]: "math_max_list (x # xs) b = math_max x (math_max_list xs b)"
  by (simp_all add: math_max_list_def)

lemma math_max_list_not_NaN:
  "NaN \<notin> set xs \<Longrightarrow> b \<noteq> NaN \<Longrightarrow> math_max_list xs b \<noteq> NaN"
  by (induction xs) (auto simp: math_max_not_NaN)

lemma math_max_list_ge:
  assumes "NaN \<notin> set xs" "b \<noteq> NaN"
  shows "num_le b (math_max_list xs b)"
    and "x \<in> set xs \<Longrightarrow> num_le x (math_max_list xs b)"
  using assms
  by (induction xs) (auto simp: num_le_refl math_max_list_not_NaN
      intro: math_max_ge num_le_trans [OF _ math_max_ge(2)])

lemma math_max_list_mem: "NaN \<notin> set xs \<Longrightarrow> b \<noteq> NaN \<Longrightarrow> math_max_list xs b \<in> insert b (set xs)"
proof (induction xs)
  case (Cons x xs)
  then show ?case
    using math_max_list_not_NaN [of xs b] by (auto simp: math_max_def)
qed simp

section \<open>Monotone arithmetic on finite values\<close>

lemma to_num_cases:
  "to_num x = PInf \<or> to_num x = NInf \<or> to_num x = Fin (fl x)"
  by (auto simp: to_num_def Let_def)

lemma to_num_not_NaN [simp]: "to_num x \<noteq> NaN"
  using to_num_cases [of x] by auto

lemma to_num_mono: "x \<le> y \<Longrightarrow> num_le (to_num x) (to_num y)"
  using fl_mono [of x y] by (auto simp: to_num_def Let_def)

lemma to_num_nonneg: "0 \<le> x \<Longrightarrow> num_le (Fin 0) (to_num x)"
  using fl_nonneg [of x] by (auto simp: to_num_def Let_def)

lemma to_num_exact: "is_number (Fin x) \<Longrightarrow> to_num x = Fin x"
  by (auto simp: to_num_def Let_def)

lemma to_num_int: "\<bar>n\<bar> \<le> 2 ^ 53 \<Longrightarrow> to_num (of_int n) = num_int n"
  using is_number_int to_num_exact by blast

text \<open>On values that are not negative, addition and multiplication are monotone.\<close>

lemma num_add_mono:
  assumes "num_le (Fin 0) a" "num_le a a'" "num_le (Fin 0) b" "num_le b b'"
  shows "num_le (num_add a b) (num_add a' b')"
  using assms by (cases a; cases a'; cases b; cases b') (auto intro: to_num_mono)

lemma num_add_nonneg:
  "num_le (Fin 0) a \<Longrightarrow> num_le (Fin 0) b \<Longrightarrow> num_le (Fin 0) (num_add a b)"
  by (cases a; cases b) (auto intro: to_num_nonneg)

lemma num_mult_fin_mono:
  assumes "num_le (Fin 0) a" "num_le a a'" "0 \<le> p" "num_mult a' (Fin p) \<noteq> NaN"
  shows "num_le (num_mult a (Fin p)) (num_mult a' (Fin p))"
  using assms
  by (cases a; cases a') (auto simp: inf_times_def mult_right_mono intro!: to_num_mono split: if_splits)

lemma num_mult_fin_nonneg:
  assumes "num_le (Fin 0) a" "0 \<le> p" "num_mult a (Fin p) \<noteq> NaN"
  shows "num_le (Fin 0) (num_mult a (Fin p))"
  using assms by (cases a) (auto simp: inf_times_def intro: to_num_nonneg split: if_splits)

end
