(* ===== verification/JsFormat.thy ===== *)
theory JsFormat
  imports JsArith
begin

text \<open>
  Numbers as text: the decimal digits of a natural number, \<open>toFixed\<close>, \<open>toExponential\<close>,
  \<open>toString\<close> (\<open>String(n)\<close>, template literals) and \<open>Number(s)\<close>, after ECMA-262.
\<close>

section \<open>Digits\<close>

definition digit_char :: "nat \<Rightarrow> char" where
  "digit_char d = char_of (48 + d)"

definition is_digit :: "char \<Rightarrow> bool" where
  "is_digit c \<longleftrightarrow> (let n = (of_char c :: nat) in 48 \<le> n \<and> n \<le> 57)"

definition digit_val :: "char \<Rightarrow> nat" where
  "digit_val c = of_char c - 48"

fun nat_to_string :: "nat \<Rightarrow> string" where
  "nat_to_string n =
     (if n < 10 then [digit_char n] else nat_to_string (n div 10) @ [digit_char (n mod 10)])"

declare nat_to_string.simps [simp del]

definition digits_to_nat :: "string \<Rightarrow> nat" where
  "digits_to_nat s = foldl (\<lambda>n c. 10 * n + digit_val c) 0 s"

definition int_to_string :: "int \<Rightarrow> string" where
  "int_to_string i = (if i < 0 then ''-'' @ nat_to_string (nat (- i)) else nat_to_string (nat i))"

lemma of_char_digit [simp]: "d < 10 \<Longrightarrow> of_char (digit_char d) = 48 + d"
  by (simp add: digit_char_def)

lemma is_digit_char [simp]: "d < 10 \<Longrightarrow> is_digit (digit_char d)"
  by (simp add: is_digit_def)

lemma digit_val_char [simp]: "d < 10 \<Longrightarrow> digit_val (digit_char d) = d"
  by (simp add: digit_val_def)

lemma digit_char_0: "digit_char 0 = CHR ''0''"
  by code_simp

lemma digits_to_nat_snoc [simp]:
  "digits_to_nat (s @ [c]) = 10 * digits_to_nat s + digit_val c"
  by (simp add: digits_to_nat_def)

lemma digits_to_nat_Nil [simp]: "digits_to_nat [] = 0"
  by (simp add: digits_to_nat_def)

lemma nat_to_string_not_Nil [simp]: "nat_to_string n \<noteq> []"
  by (subst nat_to_string.simps) simp

lemma nat_to_string_digits: "c \<in> set (nat_to_string n) \<Longrightarrow> is_digit c"
proof (induction n rule: nat_to_string.induct)
  case (1 n)
  then show ?case
    by (cases "n < 10") (auto simp: nat_to_string.simps [of n])
qed

lemma digits_to_nat_to_string [simp]: "digits_to_nat (nat_to_string n) = n"
proof (induction n rule: nat_to_string.induct)
  case (1 n)
  show ?case
  proof (cases "n < 10")
    case True
    then show ?thesis
      using digits_to_nat_snoc [of "[]" "digit_char n"] by (simp add: nat_to_string.simps [of n])
  next
    case False
    then show ?thesis using 1 by (simp add: nat_to_string.simps [of n])
  qed
qed

lemma digits_to_nat_append:
  "digits_to_nat (s @ t) = digits_to_nat s * 10 ^ length t + digits_to_nat t"
proof (induction t rule: rev_induct)
  case (snoc c t)
  have "digits_to_nat (s @ t @ [c]) = 10 * digits_to_nat (s @ t) + digit_val c"
    using digits_to_nat_snoc [of "s @ t" c] by simp
  then show ?case using snoc by (simp add: algebra_simps)
qed simp

lemma digits_to_nat_zeros [simp]: "digits_to_nat (replicate k (CHR ''0'') @ s) = digits_to_nat s"
proof -
  have "digits_to_nat (replicate k (CHR ''0'')) = 0"
    by (induction k) (simp_all add: digits_to_nat_def digit_val_def)
  then show ?thesis by (simp add: digits_to_nat_append)
qed

section \<open>Decimal notation\<close>

text \<open>
  \<open>place_point f m\<close> writes the natural number \<open>m\<close> with its last \<open>f\<close> digits after the
  point, padded with zeros so that a digit stands before it.
\<close>

definition pad_left :: "nat \<Rightarrow> string \<Rightarrow> string" where
  "pad_left k s = replicate (k - length s) (CHR ''0'') @ s"

definition place_point :: "nat \<Rightarrow> nat \<Rightarrow> string" where
  "place_point f m =
     (if f = 0 then nat_to_string m
      else (let s = pad_left (Suc f) (nat_to_string m); k = length s - f
            in take k s @ ''.'' @ drop k s))"

text \<open>\<open>fixed_units f x\<close>: the integer nearest to \<open>x * 10 ^ f\<close>, the larger one of two.\<close>

definition fixed_units :: "nat \<Rightarrow> rat \<Rightarrow> int" where
  "fixed_units f x = \<lfloor>x * 10 ^ f + 1/2\<rfloor>"

text \<open>
  \<open>sci_parts f x\<close> for \<open>x > 0\<close>: the exponent and the \<open>f + 1\<close> digit mantissa of
  \<open>toExponential\<close>.
\<close>

definition sci_parts :: "nat \<Rightarrow> rat \<Rightarrow> int \<times> int" where
  "sci_parts f x =
     (let e = ilog 10 x; n = \<lfloor>x * 10 powi (int f - e) + 1/2\<rfloor>
      in if n = 10 ^ Suc f then (e + 1, 10 ^ f) else (e, n))"

definition exp_suffix :: "int \<Rightarrow> string" where
  "exp_suffix e = ''e'' @ (if e < 0 then ''-'' else ''+'') @ nat_to_string (nat \<bar>e\<bar>)"

definition sci_string :: "nat \<Rightarrow> rat \<Rightarrow> string" where
  "sci_string f x =
     (if x = 0 then place_point f 0 @ exp_suffix 0
      else (let (e, n) = sci_parts f x in place_point f (nat n) @ exp_suffix e))"

section \<open>Number::toString\<close>

text \<open>
  \<open>shortest x\<close> for a binary64 \<open>x > 0\<close>: the triple \<open>(k, s, n)\<close> with the fewest digits
  \<open>k\<close> such that \<open>s * 10 ^ (n - k)\<close> reads back as \<open>x\<close>, the nearest such \<open>s\<close>, the even
  one of two. Seventeen digits always suffice for binary64, so the search stops there.
\<close>

definition reads_back :: "rat \<Rightarrow> nat \<Rightarrow> int \<Rightarrow> int \<Rightarrow> bool" where
  "reads_back x k s n = (to_num (of_int s * 10 powi (n - int k)) = Fin x)"

definition nearest_digits :: "rat \<Rightarrow> nat \<Rightarrow> int \<Rightarrow> int" where
  "nearest_digits x k n = rhe (x * 10 powi (int k - n))"

fun shortest_from :: "nat \<Rightarrow> rat \<Rightarrow> nat \<Rightarrow> int \<Rightarrow> nat \<times> int \<times> int" where
  "shortest_from 0 x k n = (k, nearest_digits x k n, n)"
| "shortest_from (Suc fuel) x k n =
     (let s = nearest_digits x k n in
      if reads_back x k s n
      then (if s = 10 ^ k then (1, 1, n + 1) else (k, s, n))
      else shortest_from fuel x (Suc k) n)"

definition shortest :: "rat \<Rightarrow> nat \<times> int \<times> int" where
  "shortest x = shortest_from 16 x 1 (ilog 10 x + 1)"

definition pos_to_string :: "rat \<Rightarrow> string" where
  "pos_to_string x =
     (let (k, s, n) = shortest x; ds = nat_to_string (nat s) in
      if int k \<le> n \<and> n \<le> 21 then ds @ replicate (nat n - k) (CHR ''0'')
      else if 0 < n \<and> n \<le> 21 then take (nat n) ds @ ''.'' @ drop (nat n) ds
      else if -6 < n \<and> n \<le> 0 then ''0.'' @ replicate (nat (- n)) (CHR ''0'') @ ds
      else if k = 1 then ds @ exp_suffix (n - 1)
      else take 1 ds @ ''.'' @ drop 1 ds @ exp_suffix (n - 1))"

definition num_to_string :: "jsnum \<Rightarrow> string" where
  "num_to_string a =
     (case a of
        NaN \<Rightarrow> ''NaN'' | PInf \<Rightarrow> ''Infinity'' | NInf \<Rightarrow> ''-Infinity''
      | Fin x \<Rightarrow> if x = 0 then ''0''
                 else if x < 0 then ''-'' @ pos_to_string (- x)
                 else pos_to_string x)"

section \<open>toFixed and toExponential\<close>

definition toFixed :: "nat \<Rightarrow> jsnum \<Rightarrow> string" where
  "toFixed f a =
     (case a of
        Fin x \<Rightarrow>
          if 10 ^ 21 \<le> \<bar>x\<bar> then num_to_string a
          else (if x < 0 then ''-'' else '''') @ place_point f (nat (fixed_units f \<bar>x\<bar>))
      | _ \<Rightarrow> num_to_string a)"

definition toExponential :: "nat \<Rightarrow> jsnum \<Rightarrow> string" where
  "toExponential f a =
     (case a of
        Fin x \<Rightarrow> (if x < 0 then ''-'' else '''') @ sci_string f \<bar>x\<bar>
      | _ \<Rightarrow> num_to_string a)"

section \<open>Number(s)\<close>

definition span_digits :: "string \<Rightarrow> string \<times> string" where
  "span_digits s = (takeWhile is_digit s, dropWhile is_digit s)"

text \<open>The exponent part: empty, or \<open>e\<close> with an optional sign and at least one digit.\<close>

definition parse_exponent :: "string \<Rightarrow> int option" where
  "parse_exponent s =
     (case s of
        [] \<Rightarrow> Some 0
      | c # r \<Rightarrow>
          if c = CHR ''e'' \<or> c = CHR ''E'' then
            (let neg = (r \<noteq> [] \<and> hd r = CHR ''-'');
                 ds = (if r \<noteq> [] \<and> (hd r = CHR ''-'' \<or> hd r = CHR ''+'') then tl r else r)
             in if ds \<noteq> [] \<and> list_all is_digit ds
                then Some (if neg then - int (digits_to_nat ds) else int (digits_to_nat ds))
                else None)
          else None)"

text \<open>An unsigned decimal literal: digits, a fraction, an exponent.\<close>

definition parse_decimal :: "string \<Rightarrow> rat option" where
  "parse_decimal s =
     (let (ip, r) = span_digits s;
          (fp, r') = (if r \<noteq> [] \<and> hd r = CHR ''.'' then span_digits (tl r) else ([], r))
      in if ip = [] \<and> fp = [] then None
         else map_option
           (\<lambda>e. of_nat (digits_to_nat (ip @ fp)) * 10 powi (e - int (length fp)))
           (parse_exponent r'))"

definition hex_val :: "char \<Rightarrow> nat option" where
  "hex_val c =
     (let n = (of_char c :: nat) in
      if 48 \<le> n \<and> n \<le> 57 then Some (n - 48)
      else if 65 \<le> n \<and> n \<le> 70 then Some (n - 55)
      else if 97 \<le> n \<and> n \<le> 102 then Some (n - 87)
      else None)"

fun parse_radix :: "nat \<Rightarrow> nat \<Rightarrow> string \<Rightarrow> nat option" where
  "parse_radix b acc [] = Some acc"
| "parse_radix b acc (c # cs) =
     (case hex_val c of
        Some d \<Rightarrow> if d < b then parse_radix b (b * acc + d) cs else None
      | None \<Rightarrow> None)"

definition parse_prefixed :: "nat \<Rightarrow> string \<Rightarrow> jsnum" where
  "parse_prefixed b s =
     (if s = [] then NaN
      else case parse_radix b 0 s of Some n \<Rightarrow> to_num (of_nat n) | None \<Rightarrow> NaN)"

definition parse_unsigned :: "string \<Rightarrow> jsnum" where
  "parse_unsigned s =
     (if s = ''Infinity'' then PInf
      else case parse_decimal s of Some x \<Rightarrow> to_num x | None \<Rightarrow> NaN)"

text \<open>\<open>Number(s)\<close> of a string; the empty or blank string is zero.\<close>

definition js_Number :: "string \<Rightarrow> jsnum" where
  "js_Number str =
     (let s = trim str in
      if s = [] then Fin 0
      else if startsWith s ''0x'' \<or> startsWith s ''0X'' then parse_prefixed 16 (drop 2 s)
      else if startsWith s ''0o'' \<or> startsWith s ''0O'' then parse_prefixed 8 (drop 2 s)
      else if startsWith s ''0b'' \<or> startsWith s ''0B'' then parse_prefixed 2 (drop 2 s)
      else if hd s = CHR ''-'' then num_neg (parse_unsigned (tl s))
      else if hd s = CHR ''+'' then parse_unsigned (tl s)
      else parse_unsigned s)"

end
