(* ===== verification/Vdom.thy ===== *)
theory Vdom
  imports JsFormat
begin

text \<open>
  What a component renders: a tree of elements and texts. An element keeps the attributes that
  carry behaviour or state (\<open>value\<close>, \<open>disabled\<close>, \<open>href\<close>, \<open>key\<close>, event handlers, and the
  style properties the code computes); class names and constant style properties are left out.
  A handler is the event it raises, as a function of the input's value where the code reads it.
\<close>

datatype 'e attr =
    AStr string
  | ABool bool
  | ANum jsnum
  | On 'e
  | OnValue "string \<Rightarrow> 'e"

datatype 'e node =
    Text string
  | Elem string "(string \<times> 'e attr) list" "'e node list"

text \<open>\<open>{cond && <X/>}\<close> and a component that renders nothing.\<close>

definition cond_nodes :: "bool \<Rightarrow> 'e node list \<Rightarrow> 'e node list" where
  "cond_nodes c ns = (if c then ns else [])"

fun text_of :: "'e node \<Rightarrow> string" where
  "text_of (Text s) = s"
| "text_of (Elem tag as cs) = concat (map text_of cs)"

definition is_disabled :: "(string \<times> 'e attr) list \<Rightarrow> bool" where
  "is_disabled as = (case map_of as ''disabled'' of Some (ABool d) \<Rightarrow> d | _ \<Rightarrow> False)"

fun attr_events :: "'e attr \<Rightarrow> 'e list" where
  "attr_events (On e) = [e]"
| "attr_events _ = []"

text \<open>
  The events a user can raise without typing: the handlers of the elements that are not
  disabled, in document order.
\<close>

fun events_of :: "'e node \<Rightarrow> 'e list" where
  "events_of (Text s) = []"
| "events_of (Elem tag as cs) =
     (if is_disabled as then [] else concat (map (\<lambda>a. attr_events (snd a)) as))
     @ concat (map events_of cs)"

text \<open>The elements with a given tag, in document order.\<close>

fun by_tag :: "string \<Rightarrow> 'e node \<Rightarrow> 'e node list" where
  "by_tag t (Text s) = []"
| "by_tag t (Elem tag as cs) =
     (if tag = t then [Elem tag as cs] else []) @ concat (map (by_tag t) cs)"

definition attr_of :: "string \<Rightarrow> 'e node \<Rightarrow> 'e attr option" where
  "attr_of k n = (case n of Text s \<Rightarrow> None | Elem tag as cs \<Rightarrow> map_of as k)"

definition children :: "'e node \<Rightarrow> 'e node list" where
  "children n = (case n of Text s \<Rightarrow> [] | Elem tag as cs \<Rightarrow> cs)"

abbreviation el :: "string \<Rightarrow> 'e node list \<Rightarrow> 'e node" where
  "el tag cs \<equiv> Elem tag [] cs"

lemma cond_nodes_simps [simp]: "cond_nodes True ns = ns" "cond_nodes False ns = []"
  by (simp_all add: cond_nodes_def)

lemma is_disabled_simps [simp]:
  "\<not> is_disabled []"
  "is_disabled ((k, a) # as) =
     (if k = ''disabled'' then (case a of ABool d \<Rightarrow> d | _ \<Rightarrow> False) else is_disabled as)"
  by (simp_all add: is_disabled_def)

lemma children_Elem [simp]: "children (Elem tag as cs) = cs"
  by (simp add: children_def)

lemma attr_of_Elem [simp]: "attr_of k (Elem tag as cs) = map_of as k"
  by (simp add: attr_of_def)

lemma concat_map_cond: "concat (map f (cond_nodes c ns)) = (if c then concat (map f ns) else [])"
  by (simp add: cond_nodes_def)

lemma concat_map_Nil: "(\<And>x. x \<in> set xs \<Longrightarrow> f x = []) \<Longrightarrow> concat (map f xs) = []"
  by (induction xs) auto

lemma concat_map_single: "(\<And>x. x \<in> set xs \<Longrightarrow> f x = [g x]) \<Longrightarrow> concat (map f xs) = map g xs"
  by (induction xs) auto

text \<open>Wrapping the events of a component: the header in a page.\<close>

lemma is_disabled_map: "is_disabled (map (map_prod id (map_attr f)) as) = is_disabled as"
proof (induction as)
  case (Cons ka as)
  then show ?case by (cases ka; cases "snd ka") auto
qed simp

lemma attr_events_map: "attr_events (map_attr f a) = map f (attr_events a)"
  by (cases a) simp_all

lemma events_of_map_node: "events_of (map_node f n) = map f (events_of n)"
proof (induction n)
  case (Elem tag as cs)
  have "concat (map (events_of \<circ> map_node f) cs) = map f (concat (map events_of cs))"
    using Elem.IH by (simp add: map_concat o_def cong: map_cong)
  moreover have "concat (map (\<lambda>a. attr_events (map_attr f (snd a))) as) = map f (concat (map (\<lambda>a. attr_events (snd a)) as))"
    by (simp add: attr_events_map map_concat o_def)
  ultimately show ?case by (simp add: is_disabled_map o_def)
qed simp

lemma by_tag_map_node: "by_tag tag (map_node f n) = map (map_node f) (by_tag tag n)"
  by (induction n) (auto simp: map_concat o_def intro!: arg_cong [of _ _ concat])

end
