(* ===== verification/Json.thy ===== *)
theory Json
  imports JsFormat
begin

text \<open>
  JSON values as the client sees them: property access with optional chaining, truthiness,
  conversion to a string, \<open>JSON.stringify\<close> and \<open>JSON.parse\<close>. An object keeps its members
  in order; a duplicate key means the last one, as \<open>JSON.parse\<close> has it. \<open>undefined\<close> is
  \<^const>\<open>None\<close>.
\<close>

datatype json =
    JNull
  | JBool bool
  | JNum jsnum
  | JStr string
  | JArr "json list"
  | JObj "(string \<times> json) list"

section \<open>Access\<close>

text \<open>\<open>v.k\<close> on a value that is not null.\<close>

fun get_prop :: "json \<Rightarrow> string \<Rightarrow> json option" where
  "get_prop (JObj kvs) k = map_of (rev kvs) k"
| "get_prop (JArr xs) k = (if k = ''length'' then Some (JNum (num_int (int (length xs)))) else None)"
| "get_prop (JStr s) k = (if k = ''length'' then Some (JNum (num_int (int (length s)))) else None)"
| "get_prop _ k = None"

text \<open>\<open>v[i]\<close> on a value that is not null.\<close>

fun get_index :: "json \<Rightarrow> nat \<Rightarrow> json option" where
  "get_index (JArr xs) i = (if i < length xs then Some (xs ! i) else None)"
| "get_index (JStr s) i = (if i < length s then Some (JStr [s ! i]) else None)"
| "get_index (JObj kvs) i = map_of (rev kvs) (nat_to_string i)"
| "get_index _ i = None"

text \<open>\<open>v?.k\<close> and \<open>v?.[i]\<close>: undefined on undefined and on null.\<close>

definition opt_prop :: "json option \<Rightarrow> string \<Rightarrow> json option" where
  "opt_prop v k = (case v of None \<Rightarrow> None | Some JNull \<Rightarrow> None | Some j \<Rightarrow> get_prop j k)"

definition opt_index :: "json option \<Rightarrow> nat \<Rightarrow> json option" where
  "opt_index v i = (case v of None \<Rightarrow> None | Some JNull \<Rightarrow> None | Some j \<Rightarrow> get_index j i)"

fun truthy :: "json option \<Rightarrow> bool" where
  "truthy None = False"
| "truthy (Some JNull) = False"
| "truthy (Some (JBool b)) = b"
| "truthy (Some (JNum n)) = (n \<noteq> Fin 0 \<and> n \<noteq> NaN)"
| "truthy (Some (JStr s)) = (s \<noteq> [])"
| "truthy (Some (JArr _)) = True"
| "truthy (Some (JObj _)) = True"

text \<open>\<open>String(v)\<close>, the conversion of \<open>new Error(v)\<close> and of \<open>+\<close> with a string.\<close>

fun js_String :: "json \<Rightarrow> string" where
  "js_String JNull = ''null''"
| "js_String (JBool b) = (if b then ''true'' else ''false'')"
| "js_String (JNum n) = num_to_string n"
| "js_String (JStr s) = s"
| "js_String (JArr xs) =
     join '','' (map (\<lambda>x. if x = JNull then '''' else js_String x) xs)"
| "js_String (JObj _) = ''[object Object]''"

section \<open>JSON.stringify\<close>

abbreviation dquote :: char where "dquote \<equiv> CHR 0x22"
abbreviation backslash :: char where "backslash \<equiv> CHR 0x5C"

definition hex_digit :: "nat \<Rightarrow> char" where
  "hex_digit d = (if d < 10 then char_of (48 + d) else char_of (87 + d))"

definition escape_char :: "char \<Rightarrow> string" where
  "escape_char c =
     (let n = (of_char c :: nat) in
      if n = 34 \<or> n = 92 then [backslash, c]
      else if n = 8 then [backslash, CHR ''b'']
      else if n = 9 then [backslash, CHR ''t'']
      else if n = 10 then [backslash, CHR ''n'']
      else if n = 12 then [backslash, CHR ''f'']
      else if n = 13 then [backslash, CHR ''r'']
      else if n < 32 then
        [backslash, CHR ''u'', CHR ''0'', CHR ''0'', hex_digit (n div 16), hex_digit (n mod 16)]
      else [c])"

definition quote_string :: "string \<Rightarrow> string" where
  "quote_string s = [dquote] @ concat (map escape_char s) @ [dquote]"

fun JSON_stringify :: "json \<Rightarrow> string" where
  "JSON_stringify JNull = ''null''"
| "JSON_stringify (JBool b) = (if b then ''true'' else ''false'')"
| "JSON_stringify (JNum (Fin x)) = num_to_string (Fin x)"
| "JSON_stringify (JNum n) = ''null''"
| "JSON_stringify (JStr s) = quote_string s"
| "JSON_stringify (JArr xs) = ''['' @ join '','' (map JSON_stringify xs) @ '']''"
| "JSON_stringify (JObj kvs) =
     ''{'' @ join '','' (map (\<lambda>(k, v). quote_string k @ '':'' @ JSON_stringify v) kvs) @ ''}''"

section \<open>JSON.parse\<close>

definition is_json_ws :: "char \<Rightarrow> bool" where
  "is_json_ws c \<longleftrightarrow> of_char c \<in> {9, 10, 13, 32 :: nat}"

definition skip_ws :: "string \<Rightarrow> string" where
  "skip_ws s = dropWhile is_json_ws s"

text \<open>The UTF-8 bytes of a code point.\<close>

definition utf8 :: "nat \<Rightarrow> string" where
  "utf8 n =
     (if n < 128 then [char_of n]
      else if n < 2048 then [char_of (192 + n div 64), char_of (128 + n mod 64)]
      else if n < 65536 then
        [char_of (224 + n div 4096), char_of (128 + n div 64 mod 64), char_of (128 + n mod 64)]
      else
        [char_of (240 + n div 262144), char_of (128 + n div 4096 mod 64),
         char_of (128 + n div 64 mod 64), char_of (128 + n mod 64)])"

definition hex4 :: "char \<Rightarrow> char \<Rightarrow> char \<Rightarrow> char \<Rightarrow> nat option" where
  "hex4 a b c d =
     (case (hex_val a, hex_val b, hex_val c, hex_val d) of
        (Some w, Some x, Some y, Some z) \<Rightarrow> Some (4096 * w + 256 * x + 16 * y + z)
      | _ \<Rightarrow> None)"

definition simple_escape :: "char \<Rightarrow> char option" where
  "simple_escape e =
     (if e = dquote \<or> e = backslash \<or> e = CHR ''/'' then Some e
      else if e = CHR ''b'' then Some (CHR 8)
      else if e = CHR ''f'' then Some (CHR 12)
      else if e = CHR ''n'' then Some (CHR 10)
      else if e = CHR ''r'' then Some (CHR 13)
      else if e = CHR ''t'' then Some (CHR 9)
      else None)"

text \<open>A low surrogate escape at the start of the rest: its value and what follows.\<close>

definition low_surrogate :: "string \<Rightarrow> (nat \<times> string) option" where
  "low_surrogate s =
     (case s of
        b # u # a1 # a2 # a3 # a4 # r \<Rightarrow>
          (if b = backslash \<and> u = CHR ''u'' then
             (case hex4 a1 a2 a3 a4 of
                Some n \<Rightarrow> if 56320 \<le> n \<and> n < 57344 then Some (n, r) else None
              | None \<Rightarrow> None)
           else None)
      | _ \<Rightarrow> None)"

lemma low_surrogate_shorter: "low_surrogate s = Some (n, r) \<Longrightarrow> length r < length s"
  by (auto simp: low_surrogate_def split: list.splits option.splits if_splits)

text \<open>The rest of a string literal after its opening quote.\<close>

function unescape :: "string \<Rightarrow> (string \<times> string) option" where
  "unescape [] = None"
| "unescape (c # cs) =
     (if c = dquote then Some ([], cs)
      else if c = backslash then
        (case cs of
           [] \<Rightarrow> None
         | e # r \<Rightarrow>
           (if e = CHR ''u'' then
              (case r of
                 a1 # a2 # a3 # a4 # r1 \<Rightarrow>
                   (case hex4 a1 a2 a3 a4 of
                      None \<Rightarrow> None
                    | Some n \<Rightarrow>
                      (if 55296 \<le> n \<and> n < 56320 then
                         (case low_surrogate r1 of
                            Some (m, r2) \<Rightarrow>
                              map_option (apfst ((@) (utf8 (65536 + 1024 * (n - 55296) + (m - 56320)))))
                                (unescape r2)
                          | None \<Rightarrow> map_option (apfst ((@) (utf8 n))) (unescape r1))
                       else map_option (apfst ((@) (utf8 n))) (unescape r1)))
               | _ \<Rightarrow> None)
            else (case simple_escape e of
                    None \<Rightarrow> None
                  | Some x \<Rightarrow> map_option (apfst ((#) x)) (unescape r))))
      else if (of_char c :: nat) < 32 then None
      else map_option (apfst ((#) c)) (unescape cs))"
  by pat_completeness auto
termination
  by (relation "measure length") (auto dest: low_surrogate_shorter)

text \<open>
  A number token is the longest run of number characters; it must have the shape of the JSON
  grammar. A shorter match would leave a sign, a point or an exponent mark behind, which no
  JSON text has after a number, so the outcome of the whole parse is the same.
\<close>

definition is_num_char :: "char \<Rightarrow> bool" where
  "is_num_char c \<longleftrightarrow> is_digit c \<or> c \<in> set ''+-.eE''"

definition json_number_ok :: "string \<Rightarrow> bool" where
  "json_number_ok t =
     (let (ip, r) = span_digits t in
      ip \<noteq> [] \<and> (length ip = 1 \<or> hd ip \<noteq> CHR ''0'') \<and>
      (r \<noteq> [] \<and> hd r = CHR ''.'' \<longrightarrow> tl r \<noteq> [] \<and> is_digit (hd (tl r))))"

definition parse_json_number :: "string \<Rightarrow> jsnum option" where
  "parse_json_number tok =
     (let neg = (tok \<noteq> [] \<and> hd tok = CHR ''-''); t = (if neg then tl tok else tok) in
      if json_number_ok t
      then map_option (\<lambda>x. if neg then num_neg (to_num x) else to_num x) (parse_decimal t)
      else None)"

definition parse_number :: "string \<Rightarrow> (json \<times> string) option" where
  "parse_number s =
     map_option (\<lambda>n. (JNum n, dropWhile is_num_char s)) (parse_json_number (takeWhile is_num_char s))"

text \<open>The scalar values: everything that is not an array or an object.\<close>

definition parse_scalar :: "string \<Rightarrow> (json \<times> string) option" where
  "parse_scalar s =
     (if s \<noteq> [] \<and> hd s = dquote then map_option (apfst JStr) (unescape (tl s))
      else if startsWith s ''true'' then Some (JBool True, drop 4 s)
      else if startsWith s ''false'' then Some (JBool False, drop 5 s)
      else if startsWith s ''null'' then Some (JNull, drop 4 s)
      else parse_number s)"

text \<open>The first character after white space, with the rest.\<close>

definition next_char :: "string \<Rightarrow> (char \<times> string) option" where
  "next_char s = (case skip_ws s of [] \<Rightarrow> None | c # r \<Rightarrow> Some (c, r))"

text \<open>
  The parser proper. Its fuel bounds the depth of the calls; \<open>JSON_parse\<close> starts with twice
  the length of the text, and \<open>parse_fuel_enough\<close> below shows that more fuel changes nothing.
\<close>

fun parse_value :: "nat \<Rightarrow> string \<Rightarrow> (json \<times> string) option"
  and parse_elems :: "nat \<Rightarrow> string \<Rightarrow> (json list \<times> string) option"
  and parse_members :: "nat \<Rightarrow> string \<Rightarrow> ((string \<times> json) list \<times> string) option"
where
  "parse_value 0 s = None"
| "parse_value (Suc n) s =
     (case next_char s of
        None \<Rightarrow> None
      | Some (c, r) \<Rightarrow>
          if c = CHR ''['' then
            (case next_char r of
               None \<Rightarrow> None
             | Some (c', r') \<Rightarrow>
                 if c' = CHR '']'' then Some (JArr [], r')
                 else map_option (apfst JArr) (parse_elems n r))
          else if c = CHR ''{'' then
            (case next_char r of
               None \<Rightarrow> None
             | Some (c', r') \<Rightarrow>
                 if c' = CHR ''}'' then Some (JObj [], r')
                 else map_option (apfst JObj) (parse_members n r))
          else parse_scalar (c # r))"
| "parse_elems 0 s = None"
| "parse_elems (Suc n) s =
     (case parse_value n s of
        None \<Rightarrow> None
      | Some (v, r) \<Rightarrow>
          (case next_char r of
             None \<Rightarrow> None
           | Some (c, r') \<Rightarrow>
               if c = CHR '','' then map_option (apfst ((#) v)) (parse_elems n r')
               else if c = CHR '']'' then Some ([v], r')
               else None))"
| "parse_members 0 s = None"
| "parse_members (Suc n) s =
     (case next_char s of
        None \<Rightarrow> None
      | Some (q, r) \<Rightarrow>
          if q \<noteq> dquote then None
          else (case unescape r of
            None \<Rightarrow> None
          | Some (k, r1) \<Rightarrow>
              (case next_char r1 of
                 None \<Rightarrow> None
               | Some (d, r2) \<Rightarrow>
                   if d \<noteq> CHR '':'' then None
                   else (case parse_value n r2 of
                     None \<Rightarrow> None
                   | Some (v, r3) \<Rightarrow>
                       (case next_char r3 of
                          None \<Rightarrow> None
                        | Some (c, r4) \<Rightarrow>
                            if c = CHR '','' then map_option (apfst ((#) (k, v))) (parse_members n r4)
                            else if c = CHR ''}'' then Some ([(k, v)], r4)
                            else None)))))"

definition JSON_parse :: "string \<Rightarrow> json option" where
  "JSON_parse s =
     (case parse_value (2 * length s + 1) s of
        Some (v, r) \<Rightarrow> if skip_ws r = [] then Some v else None
      | None \<Rightarrow> None)"

end
