(* ===== verification/Messages_En.thy ===== *)
theory Messages_En
  imports Json
begin

text \<open>
  The English texts (\<open>web/src/lib/i18n/messages/en.ts\<close>): one list per section of the
  nested object, keyed by the path a page reads (\<open>t.dashboard.tabs.keys\<close> is
  \<open>dashboard.tabs.keys\<close>). \<open>cp\<close> writes characters beyond ASCII by their code points.
\<close>

definition cp :: "nat list \<Rightarrow> string" where
  "cp ns = concat (map utf8 ns)"

definition en_nav :: "(string \<times> string) list" where
  \<open>en_nav =
    [(''nav.models'', ''Models''),
     (''nav.playground'', ''Playground''),
     (''nav.docs'', ''Docs''),
     (''nav.calculator'', ''Calculator''),
     (''nav.signIn'', ''Sign In''),
     (''nav.dashboard'', ''Dashboard''),
     (''nav.logout'', ''Logout'')]\<close>

definition en_theme :: "(string \<times> string) list" where
  \<open>en_theme =
    [(''theme.switchToLight'', ''Switch to light mode''),
     (''theme.switchToDark'', ''Switch to dark mode'')]\<close>

definition en_locale :: "(string \<times> string) list" where
  \<open>en_locale =
    [(''locale.label'', ''Language'')]\<close>

definition en_home :: "(string \<times> string) list" where
  \<open>en_home =
    [(''home.heroTitle'', ''One API for All Leading''),
     (''home.heroTitleHighlight'', ''AI Models''),
     (''home.heroSubtitle'', ''Access Claude, Gemini, DeepSeek and more through a single OpenAI-compatible API. No vendor lock-in, transparent pricing, instant setup.''),
     (''home.getStarted'', ''Get Started Free''),
     (''home.viewModels'', ''View Models''),
     (''home.terminal'', ''Terminal''),
     (''home.statsModels'', ''Models''),
     (''home.statsVendors'', ''Vendors''),
     (''home.statsUptime'', ''Uptime''),
     (''home.statsLatency'', ''Latency''),
     (''home.featuresTitle'', ''Everything You Need''),
     (''home.featuresSubtitle'', ''A complete platform to integrate AI models into your product, without the complexity.''),
     (''home.modelsTitle'', ''Available Models''),
     (''home.modelsSubtitle'', ''Access the best models from every major provider, all through one consistent API.''),
     (''home.loadingModels'', ''Loading models...''),
     (''home.noModels'', ''No models available at the moment.''),
     (''home.viewAllModels'', ''View All Models''),
     (''home.input'', ''Input''),
     (''home.output'', ''Output''),
     (''home.perMillion'', ''/1M''),
     (''home.pricingTitle'', ''Simple, Transparent Pricing''),
     (''home.pricingSubtitle'', ''Pay per token. No monthly fees. No minimums.''),
     (''home.pricingModel'', ''Model''),
     (''home.pricingInput'', ''Input / 1M tokens''),
     (''home.pricingOutput'', ''Output / 1M tokens''),
     (''home.pricingLoading'', ''Pricing data loading...''),
     (''home.startFreeCredit'', ''Start with $1 Free Credit''),
     (''home.footer'', ''Built for developers.''),
     (''home.features.openai.title'', ''OpenAI Compatible''),
     (''home.features.openai.description'', ''Drop-in replacement for the OpenAI SDK. Just change the base URL and you're ready to go.''),
     (''home.features.pricing.title'', ''Transparent Pricing''),
     (''home.features.pricing.description'', ''Pay only for tokens used. See costs in real-time on your dashboard with per-request breakdowns.''),
     (''home.features.multiVendor.title'', ''Multi-Vendor''),
     (''home.features.multiVendor.description'', ''Access Anthropic, Google, DeepSeek, and more from a single API key. No separate accounts needed.''),
     (''home.features.failover.title'', ''Built-in Failover''),
     (''home.features.failover.description'', ''Auto-retry with circuit breaker protection. Your app stays up even when providers go down.''),
     (''home.features.dashboard.title'', ''Real-time Dashboard''),
     (''home.features.dashboard.description'', ''Monitor usage, costs, and latency live. Track every request with detailed logging.''),
     (''home.features.devFirst.title'', ''Developer First''),
     (''home.features.devFirst.description'', ''Full API docs, interactive playground, and SDK support. Ship faster with tools built for devs.'')]\<close>

definition en_login :: "(string \<times> string) list" where
  \<open>en_login =
    [(''login.tagline'', ''One API for all leading AI models''),
     (''login.signIn'', ''Sign In''),
     (''login.createAccount'', ''Create Account''),
     (''login.name'', ''Name''),
     (''login.email'', ''Email''),
     (''login.password'', ''Password''),
     (''login.namePlaceholder'', ''Your name''),
     (''login.emailPlaceholder'', ''you@example.com''),
     (''login.passwordPlaceholder'', ''Min 8 characters''),
     (''login.loading'', ''...''),
     (''login.hasAccount'', ''Already have an account?''),
     (''login.noAccount'', ''Don't have an account?''),
     (''login.register'', ''Register''),
     (''login.failed'', ''Failed'')]\<close>

definition en_models :: "(string \<times> string) list" where
  \<open>en_models =
    [(''models.title'', ''Model Marketplace''),
     (''models.subtitle'', ''{count} models available across {vendors} vendors. All accessible via a single OpenAI-compatible API.''),
     (''models.searchPlaceholder'', ''Search models...''),
     (''models.allVendors'', ''All Vendors''),
     (''models.allCapabilities'', ''All Capabilities''),
     (''models.vision'', ''Vision''),
     (''models.tools'', ''Function Calling''),
     (''models.streaming'', ''Streaming''),
     (''models.loading'', ''Loading models...''),
     (''models.noResults'', ''No models match your filters.''),
     (''models.input'', ''Input''),
     (''models.output'', ''Output''),
     (''models.maxTokens'', ''Max Tokens''),
     (''models.quickStart'', ''Quick Start'')]\<close>

definition en_calculator :: "(string \<times> string) list" where
  \<open>en_calculator =
    [(''calculator.title'', ''Cost Calculator''),
     (''calculator.subtitle'', ''Estimate your API costs based on expected usage''),
     (''calculator.selectModel'', ''Model''),
     (''calculator.inputTokensPerRequest'', ''Input tokens per request''),
     (''calculator.outputTokensPerRequest'', ''Output tokens per request''),
     (''calculator.requestsPerDay'', ''Requests per day''),
     (''calculator.costPerRequest'', ''Cost per Request''),
     (''calculator.dailyCost'', ''Daily Cost''),
     (''calculator.monthlyCost'', ''Monthly Cost (30d)''),
     (''calculator.yearlyCost'', ''Yearly Cost (365d)''),
     (''calculator.compareTitle'', ''Model Comparison (sorted by cost)''),
     (''calculator.colModel'', ''Model''),
     (''calculator.colVendor'', ''Vendor''),
     (''calculator.colInput'', ''Input $/1M''),
     (''calculator.colOutput'', ''Output $/1M''),
     (''calculator.colPerRequest'', ''Cost/Request''),
     (''calculator.colDaily'', ''Daily Cost''),
     (''calculator.colMonthly'', ''Monthly Cost''),
     (''calculator.loading'', ''Loading models...'')]\<close>

definition en_common :: "(string \<times> string) list" where
  \<open>en_common =
    [(''common.loading'', ''Loading...''),
     (''common.failed'', ''Failed''),
     (''common.delete'', ''Delete''),
     (''common.create'', ''Create''),
     (''common.enable'', ''Enable''),
     (''common.disable'', ''Disable''),
     (''common.active'', ''active''),
     (''common.disabled'', ''disabled''),
     (''common.action'', ''Action''),
     (''common.status'', ''Status''),
     (''common.confirmDeleteKey'', ''Delete this API key?'')]\<close>

definition en_dashboard :: "(string \<times> string) list" where
  \<open>en_dashboard =
    [(''dashboard.balance'', ''Balance''),
     (''dashboard.tabs.overview'', ''Overview''),
     (''dashboard.tabs.logs'', ''Logs''),
     (''dashboard.tabs.keys'', ''API Keys''),
     (''dashboard.tabs.settings'', ''Settings''),
     (''dashboard.stats.totalRequests'', ''Total Requests''),
     (''dashboard.stats.totalTokens'', ''Total Tokens''),
     (''dashboard.stats.totalCost'', ''Total Cost''),
     (''dashboard.stats.todayCost'', ''Today Cost''),
     (''dashboard.stats.avgLatency'', ''Avg Latency''),
     (''dashboard.stats.successRate'', ''Success Rate''),
     (''dashboard.usageTrend'', ''USAGE TREND''),
     (''dashboard.usageByModel'', ''USAGE BY MODEL''),
     (''dashboard.noUsage'', ''No usage yet''),
     (''dashboard.recentRequests'', ''RECENT REQUESTS''),
     (''dashboard.apiKeys'', ''API KEYS''),
     (''dashboard.keyNamePlaceholder'', ''Key name (e.g. production)''),
     (''dashboard.keyCreatedHint'', ''Key created! Copy it now '' @ cp [0x2014] @ '' it won't be shown again.''),
     (''dashboard.noApiKeys'', ''No API keys yet''),
     (''dashboard.colName'', ''Name''),
     (''dashboard.colKey'', ''Key''),
     (''dashboard.colScope'', ''Scope''),
     (''dashboard.colCreated'', ''Created''),
     (''dashboard.changePassword'', ''CHANGE PASSWORD''),
     (''dashboard.currentPassword'', ''Current password''),
     (''dashboard.newPassword'', ''New password (min 8 characters)''),
     (''dashboard.updatePassword'', ''Update Password''),
     (''dashboard.passwordChanged'', ''Password changed successfully''),
     (''dashboard.chartDailyRequests'', ''Daily Requests (last 30 days)''),
     (''dashboard.chartDailyCost'', ''Daily Cost (last 30 days)'')]\<close>

definition en_playground :: "(string \<times> string) list" where
  \<open>en_playground =
    [(''playground.title'', ''Playground''),
     (''playground.apiKey'', ''API Key''),
     (''playground.apiKeyPlaceholder'', ''Paste your API key (sk-...)''),
     (''playground.model'', ''Model''),
     (''playground.clear'', ''Clear''),
     (''playground.systemPrompt'', ''System Prompt''),
     (''playground.systemPromptPlaceholder'', ''System prompt...''),
     (''playground.emptyHint'', ''Send a message to get started''),
     (''playground.roleYou'', ''You''),
     (''playground.roleAssistant'', ''Assistant''),
     (''playground.thinking'', ''Thinking...''),
     (''playground.messagePlaceholder'', ''Type a message...''),
     (''playground.needApiKey'', ''Select an API key first''),
     (''playground.send'', ''Send''),
     (''playground.emptyResponse'', ''(empty response)''),
     (''playground.requestFailed'', ''Request failed''),
     (''playground.defaultSystemPrompt'', ''You are a helpful assistant.''),
     (''playground.errorPrefix'', ''Error:'')]\<close>

definition en_docs :: "(string \<times> string) list" where
  \<open>en_docs =
    [(''docs.title'', ''API Documentation''),
     (''docs.sdkIntro'', ''UniLLM is compatible with any OpenAI SDK or HTTP client. Select your preferred language below.''),
     (''docs.sections.quickstart'', ''Quick Start''),
     (''docs.sections.auth'', ''Authentication''),
     (''docs.sections.chat'', ''Chat Completions''),
     (''docs.sections.models'', ''List Models''),
     (''docs.sections.streaming'', ''Streaming''),
     (''docs.sections.sdks'', ''SDK Examples''),
     (''docs.sections.functions'', ''Function Calling''),
     (''docs.sections.errors'', ''Error Codes''),
     (''docs.sections.ratelimits'', ''Rate Limits''),
     (''docs.sections.pricing'', ''Pricing''),
     (''docs.sdkExamples'', ''SDK Examples''),
     (''docs.copy'', ''Copy''),
     (''docs.copied'', ''Copied!'')]\<close>

definition en_admin :: "(string \<times> string) list" where
  \<open>en_admin =
    [(''admin.badge'', ''Admin''),
     (''admin.loading'', ''Loading admin panel...''),
     (''admin.tabs.overview'', ''Overview''),
     (''admin.tabs.users'', ''Users''),
     (''admin.tabs.providers'', ''Providers''),
     (''admin.tabs.models'', ''Models''),
     (''admin.tabs.keys'', ''Provider Keys''),
     (''admin.stats.totalUsers'', ''Total Users''),
     (''admin.stats.totalRequests'', ''Total Requests''),
     (''admin.stats.totalCost'', ''Total Cost''),
     (''admin.stats.totalTokens'', ''Total Tokens''),
     (''admin.stats.activeKeys'', ''Active Keys''),
     (''admin.userManagement'', ''USER MANAGEMENT''),
     (''admin.userId'', ''User ID''),
     (''admin.amount'', ''Amount ($)''),
     (''admin.reason'', ''Reason''),
     (''admin.addBalance'', ''Add Balance''),
     (''admin.colId'', ''ID''),
     (''admin.colEmail'', ''Email''),
     (''admin.colName'', ''Name''),
     (''admin.colRole'', ''Role''),
     (''admin.colBalance'', ''Balance''),
     (''admin.colJoined'', ''Joined''),
     (''admin.providersTitle'', ''PROVIDERS''),
     (''admin.colBaseUrl'', ''Base URL''),
     (''admin.modelsTitle'', ''MODEL CONFIGURATIONS''),
     (''admin.colPublicName'', ''Public Name''),
     (''admin.colUpstream'', ''Upstream Model''),
     (''admin.colMaxTokens'', ''Max Tokens''),
     (''admin.keysTitle'', ''UPSTREAM API KEYS''),
     (''admin.providerId'', ''Provider ID''),
     (''admin.selectProvider'', ''Select...''),
     (''admin.apiKey'', ''API Key''),
     (''admin.rpm'', ''RPM''),
     (''admin.addKey'', ''Add Key''),
     (''admin.colProvider'', ''Provider''),
     (''admin.colKeyPrefix'', ''Key Prefix''),
     (''admin.noProviderKeys'', ''No provider keys configured'')]\<close>

definition en_status :: "(string \<times> string) list" where
  \<open>en_status =
    [(''status.title'', ''UniLLM Status''),
     (''status.subtitle'', ''Real-time provider health monitoring''),
     (''status.fetchError'', ''Failed to fetch status''),
     (''status.lastUpdated'', ''Last updated''),
     (''status.autoRefresh'', ''Auto-refreshes every 30 seconds''),
     (''status.overall'', ''Overall Status''),
     (''status.providers'', ''Providers''),
     (''status.latency'', ''Latency''),
     (''status.circuit'', ''Circuit''),
     (''status.noData'', ''No provider data available''),
     (''status.operational'', ''All Systems Operational''),
     (''status.degraded'', ''Some Systems Degraded''),
     (''status.circuitLabel'', ''circuit'')]\<close>

definition en_logs :: "(string \<times> string) list" where
  \<open>en_logs =
    [(''logs.noRequests'', ''No requests yet''),
     (''logs.colTime'', ''Time''),
     (''logs.colModel'', ''Model''),
     (''logs.colTokens'', ''Tokens''),
     (''logs.colCost'', ''Cost''),
     (''logs.colLatency'', ''Latency''),
     (''logs.colStatus'', ''Status'')]\<close>

definition en_catalog :: "(string \<times> string) list" where
  "en_catalog =
     en_nav @ en_theme @ en_locale @ en_home @ en_login @
     en_models @ en_calculator @ en_common @ en_dashboard @ en_playground @
     en_docs @ en_admin @ en_status @ en_logs"

lemmas en_defs = en_nav_def en_theme_def en_locale_def en_home_def en_login_def en_models_def en_calculator_def en_common_def en_dashboard_def en_playground_def en_docs_def en_admin_def en_status_def en_logs_def

end
