(* ===== verification/Messages_Zh.thy ===== *)
theory Messages_Zh
  imports Messages_En
begin

text \<open>
  The Chinese texts (\<open>web/src/lib/i18n/messages/zh-CN.ts\<close>), keyed as the English ones.
\<close>

definition zh_nav :: "(string \<times> string) list" where
  \<open>zh_nav =
    [(''nav.models'', cp [0x6A21, 0x578B]),
     (''nav.playground'', cp [0x8BD5, 0x7528, 0x53F0]),
     (''nav.docs'', cp [0x6587, 0x6863]),
     (''nav.calculator'', cp [0x8D39, 0x7528, 0x8BA1, 0x7B97, 0x5668]),
     (''nav.signIn'', cp [0x767B, 0x5F55]),
     (''nav.dashboard'', cp [0x63A7, 0x5236, 0x53F0]),
     (''nav.logout'', cp [0x9000, 0x51FA])]\<close>

definition zh_theme :: "(string \<times> string) list" where
  \<open>zh_theme =
    [(''theme.switchToLight'', cp [0x5207, 0x6362, 0x5230, 0x6D45, 0x8272, 0x6A21, 0x5F0F]),
     (''theme.switchToDark'', cp [0x5207, 0x6362, 0x5230, 0x6DF1, 0x8272, 0x6A21, 0x5F0F])]\<close>

definition zh_locale :: "(string \<times> string) list" where
  \<open>zh_locale =
    [(''locale.label'', cp [0x8BED, 0x8A00])]\<close>

definition zh_home :: "(string \<times> string) list" where
  \<open>zh_home =
    [(''home.heroTitle'', cp [0x4E00, 0x4E2A] @ '' API '' @ cp [0x63A5, 0x5165, 0x6240, 0x6709, 0x4E3B, 0x6D41]),
     (''home.heroTitleHighlight'', cp [0x5927, 0x6A21, 0x578B]),
     (''home.heroSubtitle'', cp [0x901A, 0x8FC7, 0x7EDF, 0x4E00, 0x7684] @ '' OpenAI '' @ cp [0x517C, 0x5BB9, 0x63A5, 0x53E3, 0x8C03, 0x7528] @ '' Claude'' @ cp [0x3001] @ ''Gemini'' @ cp [0x3001] @ ''DeepSeek '' @ cp [0x7B49, 0x6A21, 0x578B, 0x3002, 0x65E0, 0x5382, 0x5546, 0x9501, 0x5B9A, 0xFF0C, 0x4EF7, 0x683C, 0x900F, 0x660E, 0xFF0C, 0x5373, 0x5F00, 0x5373, 0x7528, 0x3002]),
     (''home.getStarted'', cp [0x514D, 0x8D39, 0x5F00, 0x59CB]),
     (''home.viewModels'', cp [0x67E5, 0x770B, 0x6A21, 0x578B]),
     (''home.terminal'', cp [0x7EC8, 0x7AEF]),
     (''home.statsModels'', cp [0x6A21, 0x578B]),
     (''home.statsVendors'', cp [0x5382, 0x5546]),
     (''home.statsUptime'', cp [0x53EF, 0x7528, 0x6027]),
     (''home.statsLatency'', cp [0x5EF6, 0x8FDF]),
     (''home.featuresTitle'', cp [0x4F60, 0x6240, 0x9700, 0x7684, 0x4E00, 0x5207]),
     (''home.featuresSubtitle'', cp [0x5B8C, 0x6574, 0x7684, 0x591A, 0x6A21, 0x578B, 0x63A5, 0x5165, 0x5E73, 0x53F0, 0xFF0C, 0x65E0, 0x9700, 0x4E3A, 0x590D, 0x6742, 0x6027, 0x5206, 0x5FC3, 0x3002]),
     (''home.modelsTitle'', cp [0x53EF, 0x7528, 0x6A21, 0x578B]),
     (''home.modelsSubtitle'', cp [0x4E00, 0x7AD9, 0x5F0F, 0x8BBF, 0x95EE, 0x5404, 0x5927, 0x5382, 0x5546, 0x7684, 0x4F18, 0x8D28, 0x6A21, 0x578B, 0xFF0C, 0x63A5, 0x53E3, 0x7EDF, 0x4E00, 0x3001, 0x7A33, 0x5B9A, 0x3002]),
     (''home.loadingModels'', cp [0x6B63, 0x5728, 0x52A0, 0x8F7D, 0x6A21, 0x578B] @ ''...''),
     (''home.noModels'', cp [0x6682, 0x65E0, 0x53EF, 0x7528, 0x6A21, 0x578B, 0x3002]),
     (''home.viewAllModels'', cp [0x67E5, 0x770B, 0x5168, 0x90E8, 0x6A21, 0x578B]),
     (''home.input'', cp [0x8F93, 0x5165]),
     (''home.output'', cp [0x8F93, 0x51FA]),
     (''home.perMillion'', ''/'' @ cp [0x767E, 0x4E07]),
     (''home.pricingTitle'', cp [0x7B80, 0x5355, 0x900F, 0x660E, 0x7684, 0x5B9A, 0x4EF7]),
     (''home.pricingSubtitle'', cp [0x6309] @ '' Token '' @ cp [0x8BA1, 0x8D39, 0xFF0C, 0x65E0, 0x6708, 0x8D39, 0xFF0C, 0x65E0, 0x6700, 0x4F4E, 0x6D88, 0x8D39, 0x3002]),
     (''home.pricingModel'', cp [0x6A21, 0x578B]),
     (''home.pricingInput'', cp [0x8F93, 0x5165] @ '' / '' @ cp [0x767E, 0x4E07] @ '' Token''),
     (''home.pricingOutput'', cp [0x8F93, 0x51FA] @ '' / '' @ cp [0x767E, 0x4E07] @ '' Token''),
     (''home.pricingLoading'', cp [0x6B63, 0x5728, 0x52A0, 0x8F7D, 0x4EF7, 0x683C] @ ''...''),
     (''home.startFreeCredit'', cp [0x9886, 0x53D6] @ '' $1 '' @ cp [0x514D, 0x8D39, 0x989D, 0x5EA6]),
     (''home.footer'', cp [0x4E3A, 0x5F00, 0x53D1, 0x8005, 0x6253, 0x9020, 0x3002]),
     (''home.features.openai.title'', ''OpenAI '' @ cp [0x517C, 0x5BB9]),
     (''home.features.openai.description'', cp [0x53EF, 0x76F4, 0x63A5, 0x66FF, 0x6362] @ '' OpenAI SDK'' @ cp [0xFF0C, 0x53EA, 0x9700, 0x4FEE, 0x6539] @ '' base URL '' @ cp [0x5373, 0x53EF, 0x63A5, 0x5165, 0x3002]),
     (''home.features.pricing.title'', cp [0x4EF7, 0x683C, 0x900F, 0x660E]),
     (''home.features.pricing.description'', cp [0x6309, 0x5B9E, 0x9645] @ '' Token '' @ cp [0x8BA1, 0x8D39, 0xFF0C, 0x63A7, 0x5236, 0x53F0, 0x5B9E, 0x65F6, 0x67E5, 0x770B, 0x6BCF, 0x6B21, 0x8BF7, 0x6C42, 0x7684, 0x6210, 0x672C, 0x660E, 0x7EC6, 0x3002]),
     (''home.features.multiVendor.title'', cp [0x591A, 0x5382, 0x5546, 0x7EDF, 0x4E00]),
     (''home.features.multiVendor.description'', cp [0x4E00, 0x4E2A] @ '' API Key '' @ cp [0x8BBF, 0x95EE] @ '' Anthropic'' @ cp [0x3001] @ ''Google'' @ cp [0x3001] @ ''DeepSeek '' @ cp [0x7B49, 0xFF0C, 0x65E0, 0x9700, 0x5206, 0x522B, 0x5F00, 0x6237, 0x3002]),
     (''home.features.failover.title'', cp [0x5185, 0x7F6E, 0x5BB9, 0x9519]),
     (''home.features.failover.description'', cp [0x81EA, 0x52A8, 0x91CD, 0x8BD5, 0x4E0E, 0x7194, 0x65AD, 0x4FDD, 0x62A4, 0xFF0C, 0x4E0A, 0x6E38, 0x6545, 0x969C, 0x65F6, 0x4F60, 0x7684, 0x5E94, 0x7528, 0x4ECD, 0x53EF, 0x4FDD, 0x6301, 0x53EF, 0x7528, 0x3002]),
     (''home.features.dashboard.title'', cp [0x5B9E, 0x65F6, 0x63A7, 0x5236, 0x53F0]),
     (''home.features.dashboard.description'', cp [0x5B9E, 0x65F6, 0x76D1, 0x63A7, 0x7528, 0x91CF, 0x3001, 0x8D39, 0x7528, 0x4E0E, 0x5EF6, 0x8FDF, 0xFF0C, 0x5B8C, 0x6574, 0x8BF7, 0x6C42, 0x65E5, 0x5FD7, 0x53EF, 0x8FFD, 0x6EAF, 0x3002]),
     (''home.features.devFirst.title'', cp [0x5F00, 0x53D1, 0x8005, 0x4F18, 0x5148]),
     (''home.features.devFirst.description'', cp [0x5B8C, 0x6574] @ '' API '' @ cp [0x6587, 0x6863, 0x3001, 0x5728, 0x7EBF] @ '' Playground '' @ cp [0x4E0E] @ '' SDK '' @ cp [0x652F, 0x6301, 0xFF0C, 0x66F4, 0x5FEB, 0x4E0A, 0x7EBF, 0x3002])]\<close>

definition zh_login :: "(string \<times> string) list" where
  \<open>zh_login =
    [(''login.tagline'', cp [0x4E00, 0x4E2A] @ '' API '' @ cp [0x63A5, 0x5165, 0x6240, 0x6709, 0x4E3B, 0x6D41, 0x5927, 0x6A21, 0x578B]),
     (''login.signIn'', cp [0x767B, 0x5F55]),
     (''login.createAccount'', cp [0x6CE8, 0x518C, 0x8D26, 0x53F7]),
     (''login.name'', cp [0x59D3, 0x540D]),
     (''login.email'', cp [0x90AE, 0x7BB1]),
     (''login.password'', cp [0x5BC6, 0x7801]),
     (''login.namePlaceholder'', cp [0x4F60, 0x7684, 0x540D, 0x5B57]),
     (''login.emailPlaceholder'', ''you@example.com''),
     (''login.passwordPlaceholder'', cp [0x81F3, 0x5C11] @ '' 8 '' @ cp [0x4F4D]),
     (''login.loading'', ''...''),
     (''login.hasAccount'', cp [0x5DF2, 0x6709, 0x8D26, 0x53F7, 0xFF1F]),
     (''login.noAccount'', cp [0x8FD8, 0x6CA1, 0x6709, 0x8D26, 0x53F7, 0xFF1F]),
     (''login.register'', cp [0x6CE8, 0x518C]),
     (''login.failed'', cp [0x64CD, 0x4F5C, 0x5931, 0x8D25])]\<close>

definition zh_models :: "(string \<times> string) list" where
  \<open>zh_models =
    [(''models.title'', cp [0x6A21, 0x578B, 0x5E7F, 0x573A]),
     (''models.subtitle'', cp [0x5171] @ '' {count} '' @ cp [0x4E2A, 0x6A21, 0x578B, 0x3001] @ ''{vendors} '' @ cp [0x5BB6, 0x5382, 0x5546, 0xFF0C, 0x5747, 0x53EF, 0x901A, 0x8FC7, 0x7EDF, 0x4E00, 0x7684] @ '' OpenAI '' @ cp [0x517C, 0x5BB9] @ '' API '' @ cp [0x8BBF, 0x95EE, 0x3002]),
     (''models.searchPlaceholder'', cp [0x641C, 0x7D22, 0x6A21, 0x578B] @ ''...''),
     (''models.allVendors'', cp [0x5168, 0x90E8, 0x5382, 0x5546]),
     (''models.allCapabilities'', cp [0x5168, 0x90E8, 0x80FD, 0x529B]),
     (''models.vision'', cp [0x89C6, 0x89C9]),
     (''models.tools'', cp [0x5DE5, 0x5177, 0x8C03, 0x7528]),
     (''models.streaming'', cp [0x6D41, 0x5F0F]),
     (''models.loading'', cp [0x6B63, 0x5728, 0x52A0, 0x8F7D, 0x6A21, 0x578B] @ ''...''),
     (''models.noResults'', cp [0x6CA1, 0x6709, 0x7B26, 0x5408, 0x7B5B, 0x9009, 0x6761, 0x4EF6, 0x7684, 0x6A21, 0x578B, 0x3002]),
     (''models.input'', cp [0x8F93, 0x5165]),
     (''models.output'', cp [0x8F93, 0x51FA]),
     (''models.maxTokens'', cp [0x6700, 0x5927] @ '' Token''),
     (''models.quickStart'', cp [0x5FEB, 0x901F, 0x5F00, 0x59CB])]\<close>

definition zh_calculator :: "(string \<times> string) list" where
  \<open>zh_calculator =
    [(''calculator.title'', cp [0x8D39, 0x7528, 0x8BA1, 0x7B97, 0x5668]),
     (''calculator.subtitle'', cp [0x6839, 0x636E, 0x9884, 0x671F, 0x7528, 0x91CF, 0x4F30, 0x7B97] @ '' API '' @ cp [0x6210, 0x672C]),
     (''calculator.selectModel'', cp [0x6A21, 0x578B]),
     (''calculator.inputTokensPerRequest'', cp [0x6BCF, 0x6B21, 0x8BF7, 0x6C42, 0x8F93, 0x5165] @ '' Token''),
     (''calculator.outputTokensPerRequest'', cp [0x6BCF, 0x6B21, 0x8BF7, 0x6C42, 0x8F93, 0x51FA] @ '' Token''),
     (''calculator.requestsPerDay'', cp [0x6BCF, 0x65E5, 0x8BF7, 0x6C42, 0x6570]),
     (''calculator.costPerRequest'', cp [0x5355, 0x6B21, 0x8BF7, 0x6C42, 0x6210, 0x672C]),
     (''calculator.dailyCost'', cp [0x6BCF, 0x65E5, 0x6210, 0x672C]),
     (''calculator.monthlyCost'', cp [0x6BCF, 0x6708, 0x6210, 0x672C, 0xFF08] @ ''30 '' @ cp [0x5929, 0xFF09]),
     (''calculator.yearlyCost'', cp [0x6BCF, 0x5E74, 0x6210, 0x672C, 0xFF08] @ ''365 '' @ cp [0x5929, 0xFF09]),
     (''calculator.compareTitle'', cp [0x6A21, 0x578B, 0x5BF9, 0x6BD4, 0xFF08, 0x6309, 0x6210, 0x672C, 0x6392, 0x5E8F, 0xFF09]),
     (''calculator.colModel'', cp [0x6A21, 0x578B]),
     (''calculator.colVendor'', cp [0x5382, 0x5546]),
     (''calculator.colInput'', cp [0x8F93, 0x5165] @ '' $/'' @ cp [0x767E, 0x4E07]),
     (''calculator.colOutput'', cp [0x8F93, 0x51FA] @ '' $/'' @ cp [0x767E, 0x4E07]),
     (''calculator.colPerRequest'', cp [0x5355, 0x6B21, 0x6210, 0x672C]),
     (''calculator.colDaily'', cp [0x6BCF, 0x65E5, 0x6210, 0x672C]),
     (''calculator.colMonthly'', cp [0x6BCF, 0x6708, 0x6210, 0x672C]),
     (''calculator.loading'', cp [0x6B63, 0x5728, 0x52A0, 0x8F7D, 0x6A21, 0x578B] @ ''...'')]\<close>

definition zh_common :: "(string \<times> string) list" where
  \<open>zh_common =
    [(''common.loading'', cp [0x52A0, 0x8F7D, 0x4E2D] @ ''...''),
     (''common.failed'', cp [0x64CD, 0x4F5C, 0x5931, 0x8D25]),
     (''common.delete'', cp [0x5220, 0x9664]),
     (''common.create'', cp [0x521B, 0x5EFA]),
     (''common.enable'', cp [0x542F, 0x7528]),
     (''common.disable'', cp [0x7981, 0x7528]),
     (''common.active'', cp [0x542F, 0x7528]),
     (''common.disabled'', cp [0x7981, 0x7528]),
     (''common.action'', cp [0x64CD, 0x4F5C]),
     (''common.status'', cp [0x72B6, 0x6001]),
     (''common.confirmDeleteKey'', cp [0x786E, 0x5B9A, 0x5220, 0x9664, 0x6B64] @ '' API Key'' @ cp [0xFF1F])]\<close>

definition zh_dashboard :: "(string \<times> string) list" where
  \<open>zh_dashboard =
    [(''dashboard.balance'', cp [0x4F59, 0x989D]),
     (''dashboard.tabs.overview'', cp [0x6982, 0x89C8]),
     (''dashboard.tabs.logs'', cp [0x65E5, 0x5FD7]),
     (''dashboard.tabs.keys'', ''API Key''),
     (''dashboard.tabs.settings'', cp [0x8BBE, 0x7F6E]),
     (''dashboard.stats.totalRequests'', cp [0x603B, 0x8BF7, 0x6C42, 0x6570]),
     (''dashboard.stats.totalTokens'', cp [0x603B] @ '' Token''),
     (''dashboard.stats.totalCost'', cp [0x603B, 0x8D39, 0x7528]),
     (''dashboard.stats.todayCost'', cp [0x4ECA, 0x65E5, 0x8D39, 0x7528]),
     (''dashboard.stats.avgLatency'', cp [0x5E73, 0x5747, 0x5EF6, 0x8FDF]),
     (''dashboard.stats.successRate'', cp [0x6210, 0x529F, 0x7387]),
     (''dashboard.usageTrend'', cp [0x7528, 0x91CF, 0x8D8B, 0x52BF]),
     (''dashboard.usageByModel'', cp [0x6309, 0x6A21, 0x578B, 0x7EDF, 0x8BA1]),
     (''dashboard.noUsage'', cp [0x6682, 0x65E0, 0x7528, 0x91CF]),
     (''dashboard.recentRequests'', cp [0x6700, 0x8FD1, 0x8BF7, 0x6C42]),
     (''dashboard.apiKeys'', ''API Key '' @ cp [0x7BA1, 0x7406]),
     (''dashboard.keyNamePlaceholder'', ''Key '' @ cp [0x540D, 0x79F0, 0xFF08, 0x5982] @ '' production'' @ cp [0xFF09]),
     (''dashboard.keyCreatedHint'', ''Key '' @ cp [0x5DF2, 0x521B, 0x5EFA, 0xFF01, 0x8BF7, 0x7ACB, 0x5373, 0x590D, 0x5236, 0xFF0C, 0x4E4B, 0x540E, 0x4E0D, 0x4F1A, 0x518D, 0x663E, 0x793A, 0x3002]),
     (''dashboard.noApiKeys'', cp [0x6682, 0x65E0] @ '' API Key''),
     (''dashboard.colName'', cp [0x540D, 0x79F0]),
     (''dashboard.colKey'', ''Key''),
     (''dashboard.colScope'', cp [0x6743, 0x9650]),
     (''dashboard.colCreated'', cp [0x521B, 0x5EFA, 0x65F6, 0x95F4]),
     (''dashboard.changePassword'', cp [0x4FEE, 0x6539, 0x5BC6, 0x7801]),
     (''dashboard.currentPassword'', cp [0x5F53, 0x524D, 0x5BC6, 0x7801]),
     (''dashboard.newPassword'', cp [0x65B0, 0x5BC6, 0x7801, 0xFF08, 0x81F3, 0x5C11] @ '' 8 '' @ cp [0x4F4D, 0xFF09]),
     (''dashboard.updatePassword'', cp [0x66F4, 0x65B0, 0x5BC6, 0x7801]),
     (''dashboard.passwordChanged'', cp [0x5BC6, 0x7801, 0x4FEE, 0x6539, 0x6210, 0x529F]),
     (''dashboard.chartDailyRequests'', cp [0x6BCF, 0x65E5, 0x8BF7, 0x6C42, 0x6570, 0xFF08, 0x8FD1] @ '' 30 '' @ cp [0x5929, 0xFF09]),
     (''dashboard.chartDailyCost'', cp [0x6BCF, 0x65E5, 0x8D39, 0x7528, 0xFF08, 0x8FD1] @ '' 30 '' @ cp [0x5929, 0xFF09])]\<close>

definition zh_playground :: "(string \<times> string) list" where
  \<open>zh_playground =
    [(''playground.title'', cp [0x5BF9, 0x8BDD, 0x8BD5, 0x7528]),
     (''playground.apiKey'', ''API Key''),
     (''playground.apiKeyPlaceholder'', cp [0x7C98, 0x8D34, 0x4F60, 0x7684] @ '' API Key'' @ cp [0xFF08] @ ''sk-...'' @ cp [0xFF09]),
     (''playground.model'', cp [0x6A21, 0x578B]),
     (''playground.clear'', cp [0x6E05, 0x7A7A]),
     (''playground.systemPrompt'', cp [0x7CFB, 0x7EDF, 0x63D0, 0x793A, 0x8BCD]),
     (''playground.systemPromptPlaceholder'', cp [0x7CFB, 0x7EDF, 0x63D0, 0x793A, 0x8BCD] @ ''...''),
     (''playground.emptyHint'', cp [0x53D1, 0x9001, 0x4E00, 0x6761, 0x6D88, 0x606F, 0x5F00, 0x59CB, 0x5BF9, 0x8BDD]),
     (''playground.roleYou'', cp [0x4F60]),
     (''playground.roleAssistant'', cp [0x52A9, 0x624B]),
     (''playground.thinking'', cp [0x601D, 0x8003, 0x4E2D] @ ''...''),
     (''playground.messagePlaceholder'', cp [0x8F93, 0x5165, 0x6D88, 0x606F] @ ''...''),
     (''playground.needApiKey'', cp [0x8BF7, 0x5148, 0x586B, 0x5199] @ '' API Key''),
     (''playground.send'', cp [0x53D1, 0x9001]),
     (''playground.emptyResponse'', cp [0xFF08, 0x7A7A, 0x54CD, 0x5E94, 0xFF09]),
     (''playground.requestFailed'', cp [0x8BF7, 0x6C42, 0x5931, 0x8D25]),
     (''playground.defaultSystemPrompt'', cp [0x4F60, 0x662F, 0x4E00, 0x4E2A, 0x6709, 0x5E2E, 0x52A9, 0x7684, 0x52A9, 0x624B, 0x3002]),
     (''playground.errorPrefix'', cp [0x9519, 0x8BEF, 0xFF1A])]\<close>

definition zh_docs :: "(string \<times> string) list" where
  \<open>zh_docs =
    [(''docs.title'', ''API '' @ cp [0x6587, 0x6863]),
     (''docs.sdkIntro'', ''UniLLM '' @ cp [0x517C, 0x5BB9, 0x4EFB, 0x610F] @ '' OpenAI SDK '' @ cp [0x6216] @ '' HTTP '' @ cp [0x5BA2, 0x6237, 0x7AEF, 0x3002, 0x8BF7, 0x5728, 0x4E0B, 0x65B9, 0x9009, 0x62E9, 0x4F60, 0x4F7F, 0x7528, 0x7684, 0x8BED, 0x8A00, 0x3002]),
     (''docs.sections.quickstart'', cp [0x5FEB, 0x901F, 0x5F00, 0x59CB]),
     (''docs.sections.auth'', cp [0x8EAB, 0x4EFD, 0x8BA4, 0x8BC1]),
     (''docs.sections.chat'', cp [0x5BF9, 0x8BDD, 0x8865, 0x5168]),
     (''docs.sections.models'', cp [0x6A21, 0x578B, 0x5217, 0x8868]),
     (''docs.sections.streaming'', cp [0x6D41, 0x5F0F, 0x8F93, 0x51FA]),
     (''docs.sections.sdks'', ''SDK '' @ cp [0x793A, 0x4F8B]),
     (''docs.sections.functions'', cp [0x51FD, 0x6570, 0x8C03, 0x7528]),
     (''docs.sections.errors'', cp [0x9519, 0x8BEF, 0x7801]),
     (''docs.sections.ratelimits'', cp [0x901F, 0x7387, 0x9650, 0x5236]),
     (''docs.sections.pricing'', cp [0x5B9A, 0x4EF7]),
     (''docs.sdkExamples'', ''SDK '' @ cp [0x793A, 0x4F8B]),
     (''docs.copy'', cp [0x590D, 0x5236]),
     (''docs.copied'', cp [0x5DF2, 0x590D, 0x5236, 0xFF01])]\<close>

definition zh_admin :: "(string \<times> string) list" where
  \<open>zh_admin =
    [(''admin.badge'', cp [0x7BA1, 0x7406, 0x540E, 0x53F0]),
     (''admin.loading'', cp [0x6B63, 0x5728, 0x52A0, 0x8F7D, 0x7BA1, 0x7406, 0x9762, 0x677F] @ ''...''),
     (''admin.tabs.overview'', cp [0x6982, 0x89C8]),
     (''admin.tabs.users'', cp [0x7528, 0x6237]),
     (''admin.tabs.providers'', cp [0x4E0A, 0x6E38]),
     (''admin.tabs.models'', cp [0x6A21, 0x578B]),
     (''admin.tabs.keys'', cp [0x4E0A, 0x6E38] @ '' Key''),
     (''admin.stats.totalUsers'', cp [0x7528, 0x6237, 0x603B, 0x6570]),
     (''admin.stats.totalRequests'', cp [0x8BF7, 0x6C42, 0x603B, 0x6570]),
     (''admin.stats.totalCost'', cp [0x603B, 0x8D39, 0x7528]),
     (''admin.stats.totalTokens'', cp [0x603B] @ '' Token''),
     (''admin.stats.activeKeys'', cp [0x6D3B, 0x8DC3] @ '' Key''),
     (''admin.userManagement'', cp [0x7528, 0x6237, 0x7BA1, 0x7406]),
     (''admin.userId'', cp [0x7528, 0x6237] @ '' ID''),
     (''admin.amount'', cp [0x91D1, 0x989D, 0xFF08] @ ''$'' @ cp [0xFF09]),
     (''admin.reason'', cp [0x539F, 0x56E0]),
     (''admin.addBalance'', cp [0x5145, 0x503C]),
     (''admin.colId'', ''ID''),
     (''admin.colEmail'', cp [0x90AE, 0x7BB1]),
     (''admin.colName'', cp [0x59D3, 0x540D]),
     (''admin.colRole'', cp [0x89D2, 0x8272]),
     (''admin.colBalance'', cp [0x4F59, 0x989D]),
     (''admin.colJoined'', cp [0x6CE8, 0x518C, 0x65F6, 0x95F4]),
     (''admin.providersTitle'', cp [0x4E0A, 0x6E38] @ '' Provider''),
     (''admin.colBaseUrl'', ''Base URL''),
     (''admin.modelsTitle'', cp [0x6A21, 0x578B, 0x914D, 0x7F6E]),
     (''admin.colPublicName'', cp [0x5BF9, 0x5916, 0x540D, 0x79F0]),
     (''admin.colUpstream'', cp [0x4E0A, 0x6E38, 0x6A21, 0x578B]),
     (''admin.colMaxTokens'', cp [0x6700, 0x5927] @ '' Token''),
     (''admin.keysTitle'', cp [0x4E0A, 0x6E38] @ '' API Key''),
     (''admin.providerId'', ''Provider ID''),
     (''admin.selectProvider'', cp [0x9009, 0x62E9] @ ''...''),
     (''admin.apiKey'', ''API Key''),
     (''admin.rpm'', ''RPM''),
     (''admin.addKey'', cp [0x6DFB, 0x52A0] @ '' Key''),
     (''admin.colProvider'', ''Provider''),
     (''admin.colKeyPrefix'', ''Key '' @ cp [0x524D, 0x7F00]),
     (''admin.noProviderKeys'', cp [0x672A, 0x914D, 0x7F6E, 0x4E0A, 0x6E38] @ '' Key'')]\<close>

definition zh_status :: "(string \<times> string) list" where
  \<open>zh_status =
    [(''status.title'', ''UniLLM '' @ cp [0x72B6, 0x6001]),
     (''status.subtitle'', cp [0x4E0A, 0x6E38, 0x670D, 0x52A1, 0x5B9E, 0x65F6, 0x5065, 0x5EB7, 0x76D1, 0x63A7]),
     (''status.fetchError'', cp [0x83B7, 0x53D6, 0x72B6, 0x6001, 0x5931, 0x8D25]),
     (''status.lastUpdated'', cp [0x6700, 0x540E, 0x66F4, 0x65B0]),
     (''status.autoRefresh'', cp [0x6BCF] @ '' 30 '' @ cp [0x79D2, 0x81EA, 0x52A8, 0x5237, 0x65B0]),
     (''status.overall'', cp [0x6574, 0x4F53, 0x72B6, 0x6001]),
     (''status.providers'', cp [0x4E0A, 0x6E38, 0x670D, 0x52A1]),
     (''status.latency'', cp [0x5EF6, 0x8FDF]),
     (''status.circuit'', cp [0x7194, 0x65AD]),
     (''status.noData'', cp [0x6682, 0x65E0, 0x4E0A, 0x6E38, 0x6570, 0x636E]),
     (''status.operational'', cp [0x6240, 0x6709, 0x7CFB, 0x7EDF, 0x8FD0, 0x884C, 0x6B63, 0x5E38]),
     (''status.degraded'', cp [0x90E8, 0x5206, 0x7CFB, 0x7EDF, 0x5F02, 0x5E38]),
     (''status.circuitLabel'', cp [0x7194, 0x65AD])]\<close>

definition zh_logs :: "(string \<times> string) list" where
  \<open>zh_logs =
    [(''logs.noRequests'', cp [0x6682, 0x65E0, 0x8BF7, 0x6C42]),
     (''logs.colTime'', cp [0x65F6, 0x95F4]),
     (''logs.colModel'', cp [0x6A21, 0x578B]),
     (''logs.colTokens'', ''Token''),
     (''logs.colCost'', cp [0x8D39, 0x7528]),
     (''logs.colLatency'', cp [0x5EF6, 0x8FDF]),
     (''logs.colStatus'', cp [0x72B6, 0x6001])]\<close>

definition zh_catalog :: "(string \<times> string) list" where
  "zh_catalog =
     zh_nav @ zh_theme @ zh_locale @ zh_home @ zh_login @
     zh_models @ zh_calculator @ zh_common @ zh_dashboard @ zh_playground @
     zh_docs @ zh_admin @ zh_status @ zh_logs"

lemmas zh_defs = zh_nav_def zh_theme_def zh_locale_def zh_home_def zh_login_def zh_models_def zh_calculator_def zh_common_def zh_dashboard_def zh_playground_def zh_docs_def zh_admin_def zh_status_def zh_logs_def

end
