(* ===== verification/Catalog.thy ===== *)
theory Catalog
  imports Messages_En Messages_Zh JsPrelude
begin

text \<open>
  The two message catalogs side by side: which section a path belongs to, and that both
  languages define the same paths.
\<close>

definition section_of :: "string \<Rightarrow> string" where
  "section_of k = takeWhile (\<lambda>c. c \<noteq> CHR ''.'') k"

definition in_section :: "string \<Rightarrow> (string \<times> string) list \<Rightarrow> bool" where
  "in_section p kvs \<longleftrightarrow> list_all (\<lambda>(k, v). section_of k = p) kvs"

lemma map_of_other_section: "in_section p kvs \<Longrightarrow> section_of k \<noteq> p \<Longrightarrow> map_of kvs k = None"
  by (induction kvs) (auto simp: in_section_def)

lemma en_sections:
  "in_section ''nav'' en_nav"
  "in_section ''theme'' en_theme"
  "in_section ''locale'' en_locale"
  "in_section ''home'' en_home"
  "in_section ''login'' en_login"
  "in_section ''models'' en_models"
  "in_section ''calculator'' en_calculator"
  "in_section ''common'' en_common"
  "in_section ''dashboard'' en_dashboard"
  "in_section ''playground'' en_playground"
  "in_section ''docs'' en_docs"
  "in_section ''admin'' en_admin"
  "in_section ''status'' en_status"
  "in_section ''logs'' en_logs"
  by (simp_all add: in_section_def section_of_def en_defs)

lemma zh_sections:
  "in_section ''nav'' zh_nav"
  "in_section ''theme'' zh_theme"
  "in_section ''locale'' zh_locale"
  "in_section ''home'' zh_home"
  "in_section ''login'' zh_login"
  "in_section ''models'' zh_models"
  "in_section ''calculator'' zh_calculator"
  "in_section ''common'' zh_common"
  "in_section ''dashboard'' zh_dashboard"
  "in_section ''playground'' zh_playground"
  "in_section ''docs'' zh_docs"
  "in_section ''admin'' zh_admin"
  "in_section ''status'' zh_status"
  "in_section ''logs'' zh_logs"
  by (simp_all add: in_section_def section_of_def zh_defs)

lemmas other_sections = en_sections [THEN map_of_other_section] zh_sections [THEN map_of_other_section]

text \<open>A path is looked up in its own section.\<close>

lemma catalog_models:
  assumes "section_of k = ''models''"
  shows "map_of en_catalog k = map_of en_models k" "map_of zh_catalog k = map_of zh_models k"
  using assms by (simp_all add: en_catalog_def zh_catalog_def other_sections map_add_def split: option.splits)

lemma catalog_docs:
  assumes "section_of k = ''docs''"
  shows "map_of en_catalog k = map_of en_docs k" "map_of zh_catalog k = map_of zh_docs k"
  using assms by (simp_all add: en_catalog_def zh_catalog_def other_sections map_add_def split: option.splits)

lemma catalog_home:
  assumes "section_of k = ''home''"
  shows "map_of en_catalog k = map_of en_home k" "map_of zh_catalog k = map_of zh_home k"
  using assms by (simp_all add: en_catalog_def zh_catalog_def other_sections map_add_def split: option.splits)

text \<open>The bytes of a character beyond ASCII are beyond ASCII.\<close>

lemma utf8_beyond_ascii:
  assumes "128 \<le> n" "n < 0x110000" "c \<in> set (utf8 n)"
  shows "128 \<le> (of_char c :: nat)"
proof -
  have b: "128 \<le> (of_char (char_of (k + m) :: char) :: nat)" if "128 \<le> k" "k + m < 256" for k m :: nat
    using that by simp
  have c: "128 \<le> (of_char (char_of (128 + k mod 64) :: char) :: nat)" for k :: nat
    by (rule b) (simp_all add: less_imp_le mod_less_divisor trans_less_add1 [OF mod_less_divisor])
  consider "n < 2048" | "2048 \<le> n" "n < 65536" | "65536 \<le> n" by linarith
  then show ?thesis
  proof cases
    case 1
    then have "192 + n div 64 < 256" by (simp add: less_mult_imp_div_less)
    then show ?thesis using 1 assms b [of 192] c by (auto simp: utf8_def simp del: of_char_of)
  next
    case 2
    then have "224 + n div 4096 < 256" by (simp add: less_mult_imp_div_less)
    then show ?thesis using 2 assms b [of 224] c by (auto simp: utf8_def simp del: of_char_of)
  next
    case 3
    have "240 + n div 262144 < 256" using assms(2) by (simp add: less_mult_imp_div_less)
    then show ?thesis using 3 assms b [of 240] c by (auto simp: utf8_def simp del: of_char_of)
  qed
qed

lemma cp_beyond_ascii:
  "list_all (\<lambda>n. 128 \<le> n \<and> n < 0x110000) ns \<Longrightarrow> (of_char c :: nat) < 128 \<Longrightarrow> c \<notin> set (cp ns)"
  using utf8_beyond_ascii [of _ c] by (force simp: cp_def list_all_iff)

section \<open>The same paths in both languages\<close>

lemma same_section_keys:
  "map fst en_nav = map fst zh_nav"
  "map fst en_theme = map fst zh_theme"
  "map fst en_locale = map fst zh_locale"
  "map fst en_home = map fst zh_home"
  "map fst en_login = map fst zh_login"
  "map fst en_models = map fst zh_models"
  "map fst en_calculator = map fst zh_calculator"
  "map fst en_common = map fst zh_common"
  "map fst en_dashboard = map fst zh_dashboard"
  "map fst en_playground = map fst zh_playground"
  "map fst en_docs = map fst zh_docs"
  "map fst en_admin = map fst zh_admin"
  "map fst en_status = map fst zh_status"
  "map fst en_logs = map fst zh_logs"
  by (simp_all add: en_defs zh_defs)

lemma same_keys: "map fst en_catalog = map fst zh_catalog"
  by (simp add: en_catalog_def zh_catalog_def same_section_keys)

lemma same_dom: "dom (map_of en_catalog) = dom (map_of zh_catalog)"
  using arg_cong [OF same_keys, of set] by (simp add: dom_map_of_conv_image_fst)

section \<open>No path twice, no text empty\<close>

definition well_sectioned :: "(string \<times> (string \<times> string) list) list \<Rightarrow> bool" where
  "well_sectioned ss \<longleftrightarrow>
     distinct (map fst ss) \<and> (\<forall>(p, kvs) \<in> set ss. in_section p kvs \<and> distinct (map fst kvs))"

lemma in_sectionD: "in_section p kvs \<Longrightarrow> k \<in> set (map fst kvs) \<Longrightarrow> section_of k = p"
  by (auto simp: in_section_def list_all_iff)

lemma distinct_sections: "well_sectioned ss \<Longrightarrow> distinct (map fst (concat (map snd ss)))"
proof (induction ss)
  case (Cons s ss)
  obtain p kvs where s: "s = (p, kvs)" by (rule prod.exhaust)
  have "section_of k \<noteq> p" if k: "k \<in> set (map fst (concat (map snd ss)))" for k
  proof -
    obtain q ls where q: "(q, ls) \<in> set ss" "k \<in> set (map fst ls)" using k by force
    have "in_section q ls" using Cons.prems q(1) by (auto simp: well_sectioned_def)
    then have "section_of k = q" using q(2) by (rule in_sectionD)
    moreover have "q \<in> fst ` set ss" using q(1) by (rule image_eqI [rotated]) simp
    then have "p \<noteq> q" using Cons.prems s by (auto simp: well_sectioned_def)
    ultimately show ?thesis by simp
  qed
  moreover have "section_of k = p" if "k \<in> set (map fst kvs)" for k
    using Cons.prems s that by (intro in_sectionD [of p kvs]) (simp_all add: well_sectioned_def)
  ultimately have "set (map fst kvs) \<inter> set (map fst (concat (map snd ss))) = {}" by blast
  then show ?case using Cons s by (simp add: well_sectioned_def)
qed simp

lemma en_distinct:
  "distinct (map fst en_nav)"
  "distinct (map fst en_theme)"
  "distinct (map fst en_locale)"
  "distinct (map fst en_home)"
  "distinct (map fst en_login)"
  "distinct (map fst en_models)"
  "distinct (map fst en_calculator)"
  "distinct (map fst en_common)"
  "distinct (map fst en_dashboard)"
  "distinct (map fst en_playground)"
  "distinct (map fst en_docs)"
  "distinct (map fst en_admin)"
  "distinct (map fst en_status)"
  "distinct (map fst en_logs)"
  by (simp_all add: en_defs)

lemma en_catalog_distinct: "distinct (map fst en_catalog)"
proof -
  have "en_catalog = concat (map snd [(''nav'', en_nav), (''theme'', en_theme), (''locale'', en_locale), (''home'', en_home), (''login'', en_login), (''models'', en_models), (''calculator'', en_calculator), (''common'', en_common), (''dashboard'', en_dashboard), (''playground'', en_playground), (''docs'', en_docs), (''admin'', en_admin), (''status'', en_status), (''logs'', en_logs)])"
    by (simp add: en_catalog_def)
  moreover have "well_sectioned [(''nav'', en_nav), (''theme'', en_theme), (''locale'', en_locale), (''home'', en_home), (''login'', en_login), (''models'', en_models), (''calculator'', en_calculator), (''common'', en_common), (''dashboard'', en_dashboard), (''playground'', en_playground), (''docs'', en_docs), (''admin'', en_admin), (''status'', en_status), (''logs'', en_logs)]"
    by (simp add: well_sectioned_def en_sections en_distinct)
  ultimately show ?thesis using distinct_sections by metis
qed

lemma cp_not_Nil [simp]: "cp (n # ns) \<noteq> []"
  by (simp add: cp_def utf8_def)

definition texts_present :: "(string \<times> string) list \<Rightarrow> bool" where
  "texts_present kvs \<longleftrightarrow> list_all (\<lambda>(k, v). v \<noteq> []) kvs"

lemma section_texts:
  "texts_present en_nav" "texts_present zh_nav"
  "texts_present en_theme" "texts_present zh_theme"
  "texts_present en_locale" "texts_present zh_locale"
  "texts_present en_home" "texts_present zh_home"
  "texts_present en_login" "texts_present zh_login"
  "texts_present en_models" "texts_present zh_models"
  "texts_present en_calculator" "texts_present zh_calculator"
  "texts_present en_common" "texts_present zh_common"
  "texts_present en_dashboard" "texts_present zh_dashboard"
  "texts_present en_playground" "texts_present zh_playground"
  "texts_present en_docs" "texts_present zh_docs"
  "texts_present en_admin" "texts_present zh_admin"
  "texts_present en_status" "texts_present zh_status"
  "texts_present en_logs" "texts_present zh_logs"
  by (simp_all add: texts_present_def en_defs zh_defs)

lemma texts_present_append [simp]: "texts_present (xs @ ys) \<longleftrightarrow> texts_present xs \<and> texts_present ys"
  by (simp add: texts_present_def)

lemma catalog_texts: "texts_present en_catalog" "texts_present zh_catalog"
  by (simp_all add: en_catalog_def zh_catalog_def section_texts)

lemma present_text:
  assumes "texts_present kvs" "k \<in> set (map fst kvs)"
  shows "\<exists>v. map_of kvs k = Some v \<and> v \<noteq> []"
proof -
  obtain v where "map_of kvs k = Some v" using assms(2) by (metis map_of_eq_None_iff not_None_eq list.set_map)
  moreover from this have "(k, v) \<in> set kvs" by (rule map_of_SomeD)
  ultimately show ?thesis using assms(1) by (auto simp: texts_present_def list_all_iff)
qed

end
