(* ===== verification/JsonRoundtrip.thy ===== *)
theory JsonRoundtrip
  imports Json
begin

text \<open>
  Facts about JSON text that the pages' requests rest on: an integer is printed as its decimal
  digits, the parser's fuel is enough, and parsing what \<open>JSON.stringify\<close> printed gives the
  value back.
\<close>

section \<open>Integers are printed exactly\<close>

lemma nat_to_string_mult10:
  assumes "0 < s"
  shows "nat_to_string (s * 10 ^ j) = nat_to_string s @ replicate j (CHR ''0'')"
proof (induction j)
  case (Suc j)
  have "nat_to_string (s * 10 ^ Suc j) = nat_to_string (s * 10 ^ j) @ [digit_char 0]"
    using assms by (subst nat_to_string.simps) (simp add: mult.commute mult.left_commute)
  also note digit_char_0
  finally show ?case using Suc by (simp add: replicate_append_same)
qed simp

lemma to_num_int_inject:
  assumes "\<bar>m\<bar> < 2 ^ 53" "to_num (of_int n) = num_int m" "0 \<le> n"
  shows "n = m"
proof -
  have fl: "fl (of_int n) = of_int m"
    using assms(2) by (auto simp: to_num_def Let_def split: if_splits)
  have "n < 2 ^ 53"
  proof (rule ccontr)
    assume "\<not> ?thesis"
    then have "(of_int (2 ^ 53) :: rat) \<le> of_int n" by (simp only: of_int_le_iff not_less)
    then have "fl (of_int (2 ^ 53)) \<le> fl (of_int n)" by (rule fl_mono)
    then have "(of_int (2 ^ 53) :: rat) \<le> of_int m" using fl fl_of_int [of "2 ^ 53"] by simp
    then show False using assms(1) by (simp only: of_int_le_iff)
  qed
  then have "fl (of_int n) = of_int n" using assms(3) by (intro fl_of_int) simp
  then show ?thesis using fl by simp
qed

definition dec_len :: "nat \<Rightarrow> nat" where
  "dec_len m = nat (ilog 10 (of_nat m) + 1)"

lemma dec_len:
  assumes "0 < m"
  shows "0 < dec_len m" "ilog 10 (of_nat m) + 1 = int (dec_len m)" "m < 10 ^ dec_len m"
proof -
  have B: "10 powi ilog 10 (of_nat m) \<le> (of_nat m :: rat)"
    "(of_nat m :: rat) < 10 powi (ilog 10 (of_nat m) + 1)"
    using ilog_bounds [of 10 "of_nat m"] assms by simp_all
  have ge: "0 \<le> ilog 10 (of_nat m)"
  proof -
    have "ilog 10 1 \<le> ilog 10 (of_nat m)" using assms by (intro ilog_mono) auto
    then show ?thesis by (simp add: ilog.simps [of 10 1])
  qed
  then show "0 < dec_len m" "ilog 10 (of_nat m) + 1 = int (dec_len m)"
    by (simp_all add: dec_len_def)
  then have "(of_nat m :: rat) < 10 ^ dec_len m" using B(2) by simp
  then show "m < 10 ^ dec_len m"
    by (metis of_nat_less_iff of_nat_numeral of_nat_power)
qed

lemma dec_len_le:
  assumes "0 < m" "m < 10 ^ k"
  shows "dec_len m \<le> k"
proof (rule ccontr)
  assume "\<not> ?thesis"
  then have "int k \<le> ilog 10 (of_nat m)" using dec_len(2) [OF assms(1)] by linarith
  then have "(10::rat) powi int k \<le> 10 powi ilog 10 (of_nat m)" by (intro power_int_increasing) auto
  also have "\<dots> \<le> of_nat m" using ilog_bounds [of 10 "of_nat m"] assms by simp
  finally have "(10::rat) ^ k \<le> of_nat m" by simp
  then have "10 ^ k \<le> m" by (metis of_nat_le_iff of_nat_numeral of_nat_power)
  then show False using assms by simp
qed

lemma nearest_digits_nonneg: "0 \<le> x \<Longrightarrow> 0 \<le> nearest_digits x k n"
  using rhe_mono [of 0 "x * 10 powi (int k - n)"] by (simp add: nearest_digits_def)

lemma reads_back_int:
  assumes "0 < m" "m < 2 ^ 53" "k \<le> L" "reads_back (of_nat m) k s (int L)" "0 \<le> s"
  shows "s * 10 ^ (L - k) = int m"
proof -
  have "10 powi (int L - int k) = (of_int (10 ^ (L - k)) :: rat)"
    using assms(3) by (simp add: power_int_def nat_diff_distrib)
  then have "to_num (of_int (s * 10 ^ (L - k))) = num_int (int m)"
    using assms(4) by (simp add: reads_back_def)
  then show ?thesis
    by (rule to_num_int_inject [rotated]) (use assms in auto)
qed

lemma shortest_from_int:
  assumes "0 < m" "m < 2 ^ 53" "L = dec_len m" "k \<le> L" "L \<le> fuel + k"
  shows "\<exists>k' s. shortest_from fuel (of_nat m) k (int L) = (k', s, int L) \<and> k' \<le> L \<and>
           s * 10 ^ (L - k') = int m"
  using assms(4,5)
proof (induction fuel arbitrary: k)
  case 0
  then have "k = L" by simp
  then show ?case by (simp add: nearest_digits_def) (metis of_int_of_nat_eq rhe_of_int)
next
  case (Suc fuel)
  let ?s = "nearest_digits (of_nat m) k (int L)"
  have s0: "0 \<le> ?s" by (rule nearest_digits_nonneg) simp
  show ?case
  proof (cases "reads_back (of_nat m) k ?s (int L)")
    case True
    have eq: "?s * 10 ^ (L - k) = int m"
      using assms(1,2) Suc.prems True s0 by (intro reads_back_int) auto
    have "?s \<noteq> 10 ^ k"
    proof
      assume "?s = 10 ^ k"
      then have "int m = 10 ^ L" using eq Suc.prems by (simp flip: power_add)
      then have "m = 10 ^ L" by (metis of_nat_eq_iff of_nat_numeral of_nat_power)
      then show False using dec_len(3) [OF assms(1)] assms(3) by simp
    qed
    then show ?thesis using True eq Suc.prems by (simp add: Let_def)
  next
    case False
    have "k \<noteq> L"
    proof
      assume "k = L"
      then have "?s = int m" by (simp add: nearest_digits_def) (metis of_int_of_nat_eq rhe_of_int)
      moreover have "to_num (of_int (int m)) = num_int (int m)"
        using assms(2) by (intro to_num_int) auto
      ultimately show False using False \<open>k = L\<close> by (simp add: reads_back_def)
    qed
    then show ?thesis using Suc.IH [of "Suc k"] Suc.prems False by (simp add: Let_def)
  qed
qed

theorem num_to_string_int:
  assumes "\<bar>i\<bar> < 2 ^ 53"
  shows "num_to_string (num_int i) = int_to_string i"
proof -
  have pos: "pos_to_string (of_nat m) = nat_to_string m" if m: "0 < m" "m < 2 ^ 53" for m
  proof -
    define L where "L = dec_len m"
    have L: "0 < L" "L \<le> 16" unfolding L_def
      using dec_len(1) [OF m(1)] dec_len_le [OF m(1), of 16] m(2) by auto
    obtain k s where ks: "shortest (of_nat m) = (k, s, int L)" "k \<le> L"
      "s * 10 ^ (L - k) = int m"
      using shortest_from_int [OF m L_def, of 1 16] L dec_len(2) [OF m(1)]
      unfolding shortest_def L_def by auto
    have s: "0 < s" using ks(3) m(1) by (metis of_nat_0_less_iff zero_less_mult_pos2 zero_less_power
          zero_less_numeral)
    have "int (nat s * 10 ^ (L - k)) = int m" using ks(3) s by simp
    then have "nat s * 10 ^ (L - k) = m" by (simp only: of_nat_eq_iff)
    then have "nat_to_string m = nat_to_string (nat s) @ replicate (L - k) (CHR ''0'')"
      using nat_to_string_mult10 [of "nat s" "L - k"] s by simp
    then show ?thesis using ks L by (simp add: pos_to_string_def)
  qed
  consider "i = 0" | "0 < i" | "i < 0" by linarith
  then show ?thesis
  proof cases
    case 1
    then show ?thesis
      by (simp add: num_to_string_def int_to_string_def nat_to_string.simps [of 0] digit_char_0)
  next
    case 2
    then show ?thesis using assms pos [of "nat i"]
      by (simp add: num_to_string_def int_to_string_def)
  next
    case 3
    then show ?thesis using assms pos [of "nat (- i)"]
      by (simp add: num_to_string_def int_to_string_def)
  qed
qed

section \<open>The parser's fuel\<close>

lemma length_skip_ws: "length (skip_ws s) \<le> length s"
  by (simp add: skip_ws_def length_dropWhile_le)

lemma next_char_shorter: "next_char s = Some (c, r) \<Longrightarrow> length r < length s"
  using length_skip_ws [of s] by (auto simp: next_char_def split: list.splits)

lemma unescape_shorter: "unescape s = Some (x, r) \<Longrightarrow> length r < length s"
proof (induction s arbitrary: x r rule: measure_induct_rule [of length])
  case (less s)
  have IH: "length t < length s \<longrightarrow> length r' < length t" if "unescape t = Some (x', r')" for t x' r'
    using less.IH that by blast
  show ?case
  proof (cases s)
    case (Cons c cs)
    then show ?thesis using less.prems
      by (simp split: if_splits list.splits option.splits)
         (auto dest!: low_surrogate_shorter IH)
  qed (use less.prems in simp)
qed

lemma parse_number_shorter:
  assumes "parse_number s = Some (v, r)"
  shows "length r < length s"
proof (cases s)
  case Nil
  then show ?thesis using assms
    by (simp add: parse_number_def parse_json_number_def json_number_ok_def span_digits_def)
next
  case (Cons c cs)
  have "is_num_char c"
    using assms Cons
    by (auto simp: parse_number_def parse_json_number_def json_number_ok_def span_digits_def
        split: if_splits)
  then show ?thesis using assms Cons
    by (auto simp: parse_number_def le_imp_less_Suc length_dropWhile_le)
qed

lemma parse_scalar_shorter: "parse_scalar s = Some (v, r) \<Longrightarrow> length r < length s"
  by (cases s) (auto simp: parse_scalar_def startsWith_take split: if_splits
      dest: unescape_shorter parse_number_shorter)

lemmas shorter = next_char_shorter unescape_shorter parse_scalar_shorter

lemma parse_shorter:
  "parse_value n s = Some (v, r) \<Longrightarrow> length r < length s"
  "parse_elems n s = Some (vs, r) \<Longrightarrow> length r < length s"
  "parse_members n s = Some (kvs, r) \<Longrightarrow> length r < length s"
proof (induction n arbitrary: s v r vs kvs)
  case (Suc n)
  {
    case 1
    then show ?case
      by (auto split: option.splits prod.splits if_splits dest!: shorter Suc.IH)
  next
    case 2
    then show ?case
      by (auto split: option.splits prod.splits if_splits dest!: shorter Suc.IH)
  next
    case 3
    then show ?case
      by (auto split: option.splits prod.splits if_splits dest!: shorter Suc.IH)
  }
qed auto

text \<open>More fuel than twice the length of the text changes nothing.\<close>

lemma parse_fuel_enough:
  "2 * length s < n \<Longrightarrow> 2 * length s < m \<Longrightarrow> parse_value n s = parse_value m s"
  "2 * length s + 1 < n \<Longrightarrow> 2 * length s + 1 < m \<Longrightarrow> parse_elems n s = parse_elems m s"
  "2 * length s + 1 < n \<Longrightarrow> 2 * length s + 1 < m \<Longrightarrow> parse_members n s = parse_members m s"
proof (induction s arbitrary: n m rule: measure_induct_rule [of length])
  case (less s)
  have V: "parse_value n s = parse_value m s"
    if nm: "2 * length s < n" "2 * length s < m" for n m
  proof -
    obtain n' m' where S: "n = Suc n'" "m = Suc m'" using nm by (metis not_less0 old.nat.exhaust)
    have "parse_elems n' r = parse_elems m' r" "parse_members n' r = parse_members m' r"
      if "next_char s = Some (c, r)" for c r
      using next_char_shorter [OF that] nm S by (auto intro!: less.IH)
    then show ?thesis by (auto simp: S split: option.splits prod.splits)
  qed
  {
    case 1
    then show ?case by (rule V)
  next
    case 2
    then obtain n' m' where S: "n = Suc n'" "m = Suc m'" by (metis not_less0 old.nat.exhaust)
    have v: "parse_value n' s = parse_value m' s" using 2 S by (intro V) auto
    have "parse_elems n' r' = parse_elems m' r'"
      if "parse_value m' s = Some (v, r)" "next_char r = Some (c, r')" for v r c r'
      using parse_shorter(1) [OF that(1)] next_char_shorter [OF that(2)] 2 S
      by (intro less.IH) auto
    then show ?case by (auto simp: S v split: option.splits prod.splits)
  next
    case 3
    then obtain n' m' where S: "n = Suc n'" "m = Suc m'" by (metis not_less0 old.nat.exhaust)
    have v: "parse_value n' r2 = parse_value m' r2"
      if "next_char s = Some (q, r)" "unescape r = Some (k, r1)" "next_char r1 = Some (d, r2)"
      for q r k r1 d r2
      using next_char_shorter [OF that(1)] unescape_shorter [OF that(2)]
        next_char_shorter [OF that(3)] 3 S
      by (intro less.IH) auto
    have ms: "parse_members n' r4 = parse_members m' r4"
      if "next_char s = Some (q, r)" "unescape r = Some (k, r1)" "next_char r1 = Some (d, r2)"
        "parse_value m' r2 = Some (v, r3)" "next_char r3 = Some (c, r4)"
      for q r k r1 d r2 v r3 c r4
      using next_char_shorter [OF that(1)] unescape_shorter [OF that(2)] next_char_shorter [OF that(3)]
        parse_shorter(1) [OF that(4)] next_char_shorter [OF that(5)] 3 S
      by (intro less.IH) auto
    show ?case
      by (auto simp: S v ms split: option.splits prod.splits)
  }
qed

corollary JSON_parse_fuel:
  "2 * length s < n \<Longrightarrow>
     JSON_parse s = (case parse_value n s of
        Some (v, r) \<Rightarrow> if skip_ws r = [] then Some v else None | None \<Rightarrow> None)"
  using parse_fuel_enough(1) [of s n "2 * length s + 1"] by (simp add: JSON_parse_def)

section \<open>Parsing what was printed\<close>

lemma hex_val_digit: "d < 16 \<Longrightarrow> hex_val (hex_digit d) = Some d"
  by (auto simp: hex_val_def hex_digit_def Let_def)

lemma hex4_control:
  assumes "n < 32"
  shows "hex4 (CHR ''0'') (CHR ''0'') (hex_digit (n div 16)) (hex_digit (n mod 16)) = Some n"
proof -
  have "hex_val (CHR ''0'') = Some 0" by (simp add: hex_val_def)
  moreover have "n div 16 < 16" using assms by simp
  ultimately show ?thesis by (simp add: hex4_def hex_val_digit)
qed

lemma control_chars:
  "char_of (8::nat) = CHR 0x08" "char_of (9::nat) = CHR 0x09" "char_of (10::nat) = CHR 0x0A"
  "char_of (12::nat) = CHR 0x0C" "char_of (13::nat) = CHR 0x0D"
  "char_of (34::nat) = CHR 0x22" "char_of (92::nat) = CHR 0x5C"
  by code_simp+

lemma unescape_escape_char:
  "unescape (escape_char c @ s) = map_option (apfst ((#) c)) (unescape s)"
proof -
  define n where "n = (of_char c :: nat)"
  have c: "c = char_of n" by (simp add: n_def)
  consider "n = 34 \<or> n = 92" | "n = 8" | "n = 9" | "n = 10" | "n = 12" | "n = 13"
    | (ctl) "n < 32" "n \<notin> {8, 9, 10, 12, 13}" | (raw) "32 \<le> n" "n \<noteq> 34" "n \<noteq> 92" by fastforce
  then show ?thesis
  proof cases
    case ctl
    have e: "escape_char c = [backslash, CHR ''u'', CHR ''0'', CHR ''0'',
        hex_digit (n div 16), hex_digit (n mod 16)]"
      using ctl by (simp add: escape_char_def n_def [symmetric] Let_def)
    have u: "(@) (utf8 n) = (#) c" using ctl by (auto simp: utf8_def c)
    show ?thesis using ctl hex4_control [OF ctl(1)] by (simp add: e u)
  next
    case raw
    have "c \<noteq> dquote" "c \<noteq> backslash" using raw unfolding n_def by auto
    then show ?thesis using raw by (simp add: escape_char_def n_def [symmetric] Let_def)
  qed (auto simp: escape_char_def Let_def c control_chars simple_escape_def)
qed

lemma unescape_quote:
  "unescape (concat (map escape_char s) @ dquote # r) = Some (s, r)"
  by (induction s) (simp_all add: unescape_escape_char)

text \<open>A number that its printed form reads back, and a value all of whose numbers do.\<close>

definition num_prints :: "jsnum \<Rightarrow> bool" where
  "num_prints n =
     (case n of
        Fin x \<Rightarrow> num_to_string n \<noteq> [] \<and> list_all is_num_char (num_to_string n) \<and>
                 parse_json_number (num_to_string n) = Some n
      | _ \<Rightarrow> False)"

fun json_wf :: "json \<Rightarrow> bool" where
  "json_wf (JNum n) = num_prints n"
| "json_wf (JArr xs) = (\<forall>x \<in> set xs. json_wf x)"
| "json_wf (JObj kvs) = (\<forall>kv \<in> set kvs. json_wf (snd kv))"
| "json_wf _ = True"

lemma nat_to_string_hd:
  assumes "0 < m"
  shows "hd (nat_to_string m) \<noteq> CHR ''0''"
  using assms
proof (induction m rule: nat_to_string.induct)
  case (1 m)
  show ?case
  proof (cases "m < 10")
    case True
    have "digit_val (digit_char m) \<noteq> digit_val (CHR ''0'')" using 1 True by (simp add: digit_val_def)
    then have "digit_char m \<noteq> CHR ''0''" by metis
    then show ?thesis using True by (simp add: nat_to_string.simps [of m])
  next
    case False
    then show ?thesis using 1 by (simp add: nat_to_string.simps [of m])
  qed
qed

lemma all_digits_nat: "list_all is_digit (nat_to_string m)"
  using nat_to_string_digits by (auto simp: list_all_iff)

lemma span_all_digits: "list_all is_digit t \<Longrightarrow> span_digits t = (t, [])"
  by (simp add: span_digits_def list_all_iff)

lemma parse_decimal_nat: "parse_decimal (nat_to_string m) = Some (of_nat m)"
  using span_all_digits [OF all_digits_nat, of m] by (simp add: parse_decimal_def parse_exponent_def)

lemma json_number_ok_nat: "json_number_ok (nat_to_string m)"
proof (cases "m = 0")
  case True
  then show ?thesis
    by (simp add: json_number_ok_def span_all_digits [OF all_digits_nat])
       (simp add: nat_to_string.simps)
next
  case False
  then show ?thesis
    using nat_to_string_hd [of m] by (simp add: json_number_ok_def span_all_digits [OF all_digits_nat])
qed

lemma digit_is_num_char: "is_digit c \<Longrightarrow> is_num_char c"
  by (simp add: is_num_char_def)

lemma minus_not_digit [simp]: "\<not> is_digit (CHR ''-'')"
  by (simp add: is_digit_def)

lemma num_prints_int:
  assumes "\<bar>i\<bar> < 2 ^ 53"
  shows "num_prints (num_int i)"
proof -
  have tn: "to_num (of_nat m) = Fin (of_nat m)" if "m < 2 ^ 53" for m :: nat
    using to_num_int [of "int m"] that by simp
  have hd: "hd (nat_to_string m) \<noteq> CHR ''-''" for m
    using nat_to_string_digits [OF hd_in_set [OF nat_to_string_not_Nil]] minus_not_digit by metis
  have all: "list_all is_num_char (nat_to_string m)" for m
    using all_digits_nat [of m] digit_is_num_char by (auto simp: list_all_iff)
  show ?thesis
  proof (cases "i < 0")
    case True
    have "num_to_string (num_int i) = CHR ''-'' # nat_to_string (nat (- i))"
      using assms True by (simp add: num_to_string_int int_to_string_def)
    then show ?thesis using True assms all [of "nat (- i)"] tn [of "nat (- i)"]
      by (simp add: num_prints_def parse_json_number_def json_number_ok_nat parse_decimal_nat
          is_num_char_def)
  next
    case False
    have "num_to_string (num_int i) = nat_to_string (nat i)"
      using assms False by (simp add: num_to_string_int int_to_string_def)
    then show ?thesis using False assms all [of "nat i"] tn [of "nat i"] hd [of "nat i"]
      by (simp add: num_prints_def parse_json_number_def json_number_ok_nat parse_decimal_nat)
  qed
qed

definition num_stops :: "string \<Rightarrow> bool" where
  "num_stops r \<longleftrightarrow> (r = [] \<or> \<not> is_num_char (hd r))"

lemma num_stops_Nil [simp]: "num_stops []"
  and num_stops_Cons [simp]: "num_stops (c # r) = (\<not> is_num_char c)"
  by (simp_all add: num_stops_def)

lemma punctuation [simp]:
  "\<not> is_num_char (CHR '','')" "\<not> is_num_char (CHR '']'')" "\<not> is_num_char (CHR ''}'')"
  "\<not> is_num_char dquote" "\<not> is_num_char (CHR ''t'')" "\<not> is_num_char (CHR ''f'')"
  "\<not> is_num_char (CHR ''n'')" "\<not> is_num_char (CHR ''['')" "\<not> is_num_char (CHR ''{'')"
  by (simp_all add: is_num_char_def is_digit_def)

lemma is_json_ws_simps [simp]:
  "\<not> is_json_ws (CHR '','')" "\<not> is_json_ws (CHR '']'')" "\<not> is_json_ws (CHR ''}'')"
  "\<not> is_json_ws dquote" "\<not> is_json_ws (CHR ''t'')" "\<not> is_json_ws (CHR ''f'')"
  "\<not> is_json_ws (CHR ''n'')" "\<not> is_json_ws (CHR ''['')" "\<not> is_json_ws (CHR ''{'')"
  "\<not> is_json_ws (CHR '':'')"
  by (simp_all add: is_json_ws_def)

lemma num_char_not_ws: "is_num_char c \<Longrightarrow> \<not> is_json_ws c"
  by (auto simp: is_num_char_def is_json_ws_def is_digit_def)

lemma next_char_Cons [simp]: "\<not> is_json_ws c \<Longrightarrow> next_char (c # r) = Some (c, r)"
  by (simp add: next_char_def skip_ws_def)

lemma parse_scalar_number:
  assumes "num_prints n" "num_stops r"
  shows "parse_scalar (num_to_string n @ r) = Some (JNum n, r)"
proof -
  let ?t = "num_to_string n"
  have t: "?t \<noteq> []" "\<forall>c \<in> set ?t. is_num_char c" "parse_json_number ?t = Some n"
    using assms(1) by (auto simp: num_prints_def list_all_iff split: jsnum.splits)
  have tw: "takeWhile is_num_char (?t @ r) = ?t" "dropWhile is_num_char (?t @ r) = r"
    using t(2) assms(2) by (cases r; simp add: takeWhile_append2 dropWhile_append2)+
  obtain c u where cu: "?t = c # u" using t(1) by (cases ?t) auto
  then have c: "is_num_char c" using t(2) by simp
  then have "c \<noteq> dquote" "c \<noteq> CHR ''t''" "c \<noteq> CHR ''f''" "c \<noteq> CHR ''n''"
    using punctuation by auto
  then show ?thesis
    using tw t(3) cu by (simp add: parse_scalar_def parse_number_def)
qed

lemma stringify_head:
  assumes "json_wf v"
  obtains c t where "JSON_stringify v = c # t" "\<not> is_json_ws c" "c \<noteq> CHR '']''"
proof (cases v)
  case (JNum n)
  then obtain x where x: "n = Fin x" using assms by (auto simp: num_prints_def split: jsnum.splits)
  then obtain c t where ct: "num_to_string n = c # t" "is_num_char c"
    using assms JNum by (cases "num_to_string n") (auto simp: num_prints_def)
  then have "c \<noteq> CHR '']''" using punctuation by auto
  then show ?thesis using that ct JNum x num_char_not_ws by simp
next
  case (JBool b)
  then show ?thesis using that by (cases b) auto
qed (use that in \<open>auto simp: quote_string_def split: if_splits\<close>)

definition parses_back :: "json \<Rightarrow> bool" where
  "parses_back v \<longleftrightarrow> (\<forall>r n. num_stops r \<longrightarrow> 2 * length (JSON_stringify v @ r) < n \<longrightarrow>
     parse_value n (JSON_stringify v @ r) = Some (v, r))"

lemma parse_elems_back:
  assumes "\<forall>x \<in> set xs. parses_back x" "xs \<noteq> []"
    "2 * length (join '','' (map JSON_stringify xs) @ CHR '']'' # r) + 1 < n"
  shows "parse_elems n (join '','' (map JSON_stringify xs) @ CHR '']'' # r) = Some (xs, r)"
  using assms
proof (induction xs arbitrary: n)
  case (Cons x xs)
  obtain n' where n: "n = Suc n'" using Cons.prems by (cases n) auto
  show ?case
  proof (cases "xs = []")
    case True
    then show ?thesis using Cons.prems by (simp add: n parses_back_def)
  next
    case False
    let ?rest = "join '','' (map JSON_stringify xs) @ CHR '']'' # r"
    have shape: "join '','' (map JSON_stringify (x # xs)) @ CHR '']'' # r
        = JSON_stringify x @ CHR '','' # ?rest"
      using False by (simp add: join_Cons)
    have "parse_value n' (JSON_stringify x @ CHR '','' # ?rest) = Some (x, CHR '','' # ?rest)"
      using Cons.prems n False by (simp add: parses_back_def join_Cons)
    moreover have "parse_elems n' ?rest = Some (xs, r)"
      using Cons.prems n False by (intro Cons.IH) (simp_all add: join_Cons)
    ultimately show ?thesis unfolding shape by (simp add: n)
  qed
qed simp

definition member_string :: "string \<times> json \<Rightarrow> string" where
  "member_string kv = quote_string (fst kv) @ '':'' @ JSON_stringify (snd kv)"

lemma stringify_obj:
  "JSON_stringify (JObj kvs) = ''{'' @ join '','' (map member_string kvs) @ ''}''"
  by (simp add: member_string_def [abs_def] case_prod_beta')

lemma parse_member_back:
  assumes "parses_back (snd kv)" "num_stops r"
    "2 * length (member_string kv @ r) + 1 < Suc n"
    "r = c # r'" "\<not> is_json_ws c"
  shows "parse_members (Suc n) (member_string kv @ r) =
     (if c = CHR '','' then map_option (apfst ((#) kv)) (parse_members n r')
      else if c = CHR ''}'' then Some ([kv], r') else None)"
proof -
  have "parse_value n (JSON_stringify (snd kv) @ r) = Some (snd kv, r)"
    using assms(1-3) by (simp add: parses_back_def member_string_def)
  then show ?thesis using assms(4,5)
    by (simp add: member_string_def quote_string_def unescape_quote)
qed

lemma parse_members_back:
  assumes "\<forall>kv \<in> set kvs. parses_back (snd kv)" "kvs \<noteq> []"
    "2 * length (join '','' (map member_string kvs) @ CHR ''}'' # r) + 1 < n"
  shows "parse_members n (join '','' (map member_string kvs) @ CHR ''}'' # r) = Some (kvs, r)"
  using assms
proof (induction kvs arbitrary: n)
  case (Cons kv kvs)
  obtain n' where n: "n = Suc n'" using Cons.prems by (cases n) auto
  show ?case
  proof (cases "kvs = []")
    case True
    then show ?thesis using Cons.prems n
      by (simp add: parse_member_back [where c = "CHR ''}''" and r' = r] del: parse_members.simps)
  next
    case False
    let ?rest = "join '','' (map member_string kvs) @ CHR ''}'' # r"
    have shape: "join '','' (map member_string (kv # kvs)) @ CHR ''}'' # r
        = member_string kv @ CHR '','' # ?rest"
      using False by (simp add: join_Cons)
    have len: "2 * length (member_string kv @ CHR '','' # ?rest) + 1 < Suc n'"
      using Cons.prems(3) n unfolding shape by simp
    have "parse_members (Suc n') (member_string kv @ CHR '','' # ?rest) =
        map_option (apfst ((#) kv)) (parse_members n' ?rest)"
      using Cons.prems(1) len
      by (subst parse_member_back [where c = "CHR '',''" and r' = "?rest"]) auto
    moreover have "parse_members n' ?rest = Some (kvs, r)"
      using Cons.prems False len by (intro Cons.IH) auto
    ultimately show ?thesis unfolding shape n by simp
  qed
qed simp

lemma parses_back_scalar:
  assumes "JSON_stringify v = c # t" "c \<noteq> CHR ''[''" "c \<noteq> CHR ''{''" "\<not> is_json_ws c"
    "\<And>r. num_stops r \<Longrightarrow> parse_scalar (c # t @ r) = Some (v, r)"
  shows "parses_back v"
  unfolding parses_back_def
proof (intro allI impI)
  fix r n assume r: "num_stops r" and n: "2 * length (JSON_stringify v @ r) < n"
  obtain n' where "n = Suc n'" using n by (cases n) auto
  then show "parse_value n (JSON_stringify v @ r) = Some (v, r)"
    using assms r by simp
qed

lemma parses_back_number: "num_prints n \<Longrightarrow> parses_back (JNum n)"
proof -
  assume p: "num_prints n"
  then obtain x where x: "n = Fin x" by (auto simp: num_prints_def split: jsnum.splits)
  obtain c t where ct: "num_to_string n = c # t" "is_num_char c"
    using p x by (cases "num_to_string n") (auto simp: num_prints_def)
  show ?thesis
  proof (rule parses_back_scalar)
    show "JSON_stringify (JNum n) = c # t" using ct x by simp
    show "c \<noteq> CHR ''[''" "c \<noteq> CHR ''{''" using ct punctuation by auto
    show "\<not> is_json_ws c" using ct by (simp add: num_char_not_ws)
    show "parse_scalar (c # t @ r) = Some (JNum n, r)" if "num_stops r" for r
      using parse_scalar_number [OF p that] ct by simp
  qed
qed

theorem json_parses_back: "json_wf v \<Longrightarrow> parses_back v"
proof (induction v)
  case (JNum n)
  then show ?case by (simp add: parses_back_number)
next
  case (JArr xs)
  have xs: "\<forall>x \<in> set xs. parses_back x" using JArr by auto
  show ?case unfolding parses_back_def
  proof (intro allI impI)
    fix r n assume n: "2 * length (JSON_stringify (JArr xs) @ r) < n"
    obtain n' where S: "n = Suc n'" using n by (cases n) auto
    show "parse_value n (JSON_stringify (JArr xs) @ r) = Some (JArr xs, r)"
    proof (cases xs)
      case (Cons x xs')
      obtain c t where "JSON_stringify x = c # t" "\<not> is_json_ws c" "c \<noteq> CHR '']''"
        using stringify_head [of x] JArr Cons by auto
      then have "next_char (join '','' (map JSON_stringify xs) @ CHR '']'' # r) =
          Some (c, tl (join '','' (map JSON_stringify xs) @ CHR '']'' # r))"
        using Cons by (cases xs') (simp_all add: join_Cons)
      moreover have "parse_elems n' (join '','' (map JSON_stringify xs) @ CHR '']'' # r) = Some (xs, r)"
        using xs Cons n S by (intro parse_elems_back) auto
      ultimately show ?thesis using S \<open>c \<noteq> CHR '']''\<close> by simp
    qed (simp add: S)
  qed
next
  case (JObj kvs)
  have kvs: "\<forall>kv \<in> set kvs. parses_back (snd kv)" using JObj by (auto simp: snds.simps)
  show ?case unfolding parses_back_def
  proof (intro allI impI)
    fix r n assume n: "2 * length (JSON_stringify (JObj kvs) @ r) < n"
    obtain n' where S: "n = Suc n'" using n by (cases n) auto
    show "parse_value n (JSON_stringify (JObj kvs) @ r) = Some (JObj kvs, r)"
    proof (cases kvs)
      case (Cons kv kvs')
      have "next_char (join '','' (map member_string kvs) @ CHR ''}'' # r) =
          Some (dquote, tl (join '','' (map member_string kvs) @ CHR ''}'' # r))"
        using Cons by (cases kvs') (simp_all add: join_Cons member_string_def quote_string_def)
      moreover have "parse_members n' (join '','' (map member_string kvs) @ CHR ''}'' # r) = Some (kvs, r)"
        using kvs Cons n S by (intro parse_members_back) (auto simp del: JSON_stringify.simps simp: stringify_obj)
      ultimately show ?thesis using S by (simp add: stringify_obj del: JSON_stringify.simps)
    qed (simp add: S)
  qed
next
  case (JStr s)
  show ?case
    by (rule parses_back_scalar [where c = dquote and t = "concat (map escape_char s) @ [dquote]"])
       (simp_all add: quote_string_def parse_scalar_def unescape_quote)
next
  case (JBool b)
  show ?case
    by (cases b; rule parses_back_scalar) (auto simp: parse_scalar_def)
next
  case JNull
  show ?case
    by (rule parses_back_scalar) (auto simp: parse_scalar_def)
qed

corollary JSON_parse_stringify: "json_wf v \<Longrightarrow> JSON_parse (JSON_stringify v) = Some v"
  using json_parses_back [of v] unfolding parses_back_def JSON_parse_def
  by (auto dest!: spec [where x = "[]"] simp: skip_ws_def)

text \<open>The decimal digits of a natural number read back as that number.\<close>

lemma digit_not_special:
  assumes "is_digit c"
  shows "\<not> is_ws c" "c \<noteq> CHR ''-''" "c \<noteq> CHR ''+''" "c \<notin> {CHR ''x'', CHR ''X'', CHR ''o'', CHR ''O'', CHR ''b'', CHR ''B''}"
  using assms by (auto simp: is_digit_def is_ws_def Let_def)

lemma js_Number_nat:
  assumes "n < 2 ^ 53"
  shows "js_Number (nat_to_string n) = num_int (int n)"
proof -
  let ?s = "nat_to_string n"
  have d: "is_digit c" if "c \<in> set ?s" for c using that nat_to_string_digits by blast
  have ne: "?s \<noteq> []" by (rule nat_to_string_not_Nil)
  then have hd: "is_digit (hd ?s)" and l: "is_digit (last ?s)" by (auto intro: d)
  have trim: "trim ?s = ?s" by (rule trim_id) (use hd l digit_not_special in blast)
  have pre: "\<not> startsWith ?s [CHR ''0'', x]" if "x \<in> {CHR ''x'', CHR ''X'', CHR ''o'', CHR ''O'', CHR ''b'', CHR ''B''}" for x
  proof
    assume "startsWith ?s [CHR ''0'', x]"
    then have "x \<in> set ?s" by (auto elim!: startsWith.elims)
    then show False using d digit_not_special(4) that by blast
  qed
  have "to_num (of_nat n) = num_int (int n)"
    using to_num_int [of "int n"] assms by simp
  moreover have "?s \<noteq> ''Infinity''"
  proof
    assume "?s = ''Infinity''"
    then have "hd ?s = CHR ''I''" by simp
    then show False using hd by (simp add: is_digit_def)
  qed
  ultimately have "parse_unsigned ?s = num_int (int n)"
    by (simp add: parse_unsigned_def parse_decimal_nat)
  then show ?thesis
    unfolding js_Number_def Let_def trim
    by (simp only: ne pre insert_iff simp_thms if_False digit_not_special(2,3) [OF hd] if_cancel)
qed

end
