(* ===== verification/Browser.thy ===== *)
theory Browser
  imports JsonRoundtrip "HOL-Library.AList"
begin

text \<open>
  The browser as the client's code uses it: \<open>localStorage\<close>, the address (\<open>window.location\<close>
  and the Next.js router), \<open>alert\<close>, and the requests handed to \<open>fetch\<close>. What the network
  answers is an input of the model: a \<open>fetched\<close> value is the settlement of one \<open>fetch\<close>
  promise.
\<close>

section \<open>State\<close>

record request =
  rq_url :: string
  rq_method :: string
  rq_headers :: "(string \<times> string) list"
  rq_body :: "string option"

record browser =
  has_window :: bool  \<comment> \<open>\<open>typeof window !== "undefined"\<close>\<close>
  storage :: "string \<rightharpoonup> string"
  href :: "string option"  \<comment> \<open>last assignment to \<open>window.location.href\<close>\<close>
  pushed :: "string list"  \<comment> \<open>paths given to \<open>router.push\<close>, oldest first\<close>
  alerts :: "string list"
  sent :: "request list"  \<comment> \<open>requests handed to \<open>fetch\<close>, oldest first\<close>

definition getItem :: "string \<Rightarrow> browser \<Rightarrow> string option" where
  "getItem k b = storage b k"

definition setItem :: "string \<Rightarrow> string \<Rightarrow> browser \<Rightarrow> browser" where
  "setItem k v b = b\<lparr>storage := (storage b)(k \<mapsto> v)\<rparr>"

definition removeItem :: "string \<Rightarrow> browser \<Rightarrow> browser" where
  "removeItem k b = b\<lparr>storage := (storage b)(k := None)\<rparr>"

definition set_href :: "string \<Rightarrow> browser \<Rightarrow> browser" where
  "set_href u b = b\<lparr>href := Some u\<rparr>"

definition router_push :: "string \<Rightarrow> browser \<Rightarrow> browser" where
  "router_push u b = b\<lparr>pushed := pushed b @ [u]\<rparr>"

definition show_alert :: "string \<Rightarrow> browser \<Rightarrow> browser" where
  "show_alert m b = b\<lparr>alerts := alerts b @ [m]\<rparr>"

definition send :: "request \<Rightarrow> browser \<Rightarrow> browser" where
  "send r b = b\<lparr>sent := sent b @ [r]\<rparr>"

lemmas browser_defs =
  getItem_def setItem_def removeItem_def set_href_def router_push_def show_alert_def send_def

section \<open>Key-value storage\<close>

text \<open>The contract of \<open>localStorage\<close> that the session code uses.\<close>

locale kv_store =
  fixes get :: "'k \<Rightarrow> 's \<Rightarrow> 'v option"
    and put :: "'k \<Rightarrow> 'v \<Rightarrow> 's \<Rightarrow> 's"
    and del :: "'k \<Rightarrow> 's \<Rightarrow> 's"
  assumes get_put: "get k (put k' v s) = (if k = k' then Some v else get k s)"
    and get_del: "get k (del k' s) = (if k = k' then None else get k s)"
begin

lemma get_put_same [simp]: "get k (put k v s) = Some v"
  by (simp add: get_put)

lemma get_put_other: "k \<noteq> k' \<Longrightarrow> get k (put k' v s) = get k s"
  by (simp add: get_put)

lemma get_del_same [simp]: "get k (del k s) = None"
  by (simp add: get_del)

lemma get_del_other: "k \<noteq> k' \<Longrightarrow> get k (del k' s) = get k s"
  by (simp add: get_del)

lemma last_put_wins: "get k (put k v (put k w s)) = Some v"
  by simp

lemma put_after_del: "get k (put k v (del k s)) = Some v"
  by simp

end

interpretation local_storage: kv_store getItem setItem removeItem
  by unfold_locales (simp_all add: browser_defs)

lemma frame_simps [simp]:
  "getItem k (set_href u b) = getItem k b" "getItem k (router_push u b) = getItem k b"
  "getItem k (show_alert m b) = getItem k b" "getItem k (send r b) = getItem k b"
  "sent (setItem k v b) = sent b" "sent (removeItem k b) = sent b" "sent (set_href u b) = sent b"
  "sent (router_push u b) = sent b" "sent (show_alert m b) = sent b" "sent (send r b) = sent b @ [r]"
  "pushed (setItem k v b) = pushed b" "pushed (removeItem k b) = pushed b"
  "pushed (set_href u b) = pushed b" "pushed (router_push u b) = pushed b @ [u]"
  "pushed (show_alert m b) = pushed b" "pushed (send r b) = pushed b"
  "href (setItem k v b) = href b" "href (removeItem k b) = href b" "href (set_href u b) = Some u"
  "href (router_push u b) = href b" "href (show_alert m b) = href b" "href (send r b) = href b"
  "alerts (setItem k v b) = alerts b" "alerts (removeItem k b) = alerts b"
  "alerts (set_href u b) = alerts b" "alerts (router_push u b) = alerts b"
  "alerts (show_alert m b) = alerts b @ [m]" "alerts (send r b) = alerts b"
  "has_window (setItem k v b) = has_window b" "has_window (removeItem k b) = has_window b"
  "has_window (set_href u b) = has_window b" "has_window (router_push u b) = has_window b"
  "has_window (show_alert m b) = has_window b" "has_window (send r b) = has_window b"
  by (simp_all add: browser_defs)

lemma fold_send [simp]:
  "sent (fold send rqs b) = sent b @ rqs" "pushed (fold send rqs b) = pushed b"
  "has_window (fold send rqs b) = has_window b" "alerts (fold send rqs b) = alerts b"
  "href (fold send rqs b) = href b" "getItem k (fold send rqs b) = getItem k b"
  by (induction rqs arbitrary: b) simp_all

section \<open>Answers from the network\<close>

text \<open>
  A response as the code reads it: the status and the body text. \<open>engine_msg\<close> is the wording
  of the error the JavaScript engine itself raises on this body (a SyntaxError of
  \<open>res.json()\<close> or a TypeError of a property access on null).
\<close>

record response =
  status :: int
  body :: string
  engine_msg :: string

datatype fetched = Responded response | Rejected string

definition res_ok :: "response \<Rightarrow> bool" where
  "res_ok r \<longleftrightarrow> 200 \<le> status r \<and> status r \<le> 299"

definition res_json :: "response \<Rightarrow> json jsresult" where
  "res_json r = (case JSON_parse (body r) of Some j \<Rightarrow> Ok j | None \<Rightarrow> Throw (engine_msg r))"

text \<open>
  What an API call comes to, for a payload of any type: the session is not accepted, the call
  throws a message, or it returns a payload.
\<close>

datatype 'a reply = Unauthorized | Failed string | Success 'a

definition sign_out :: "browser \<Rightarrow> browser" where
  "sign_out b = (if has_window b then set_href ''/login'' (removeItem ''token'' b) else b)"

definition take_reply :: "'a reply \<Rightarrow> browser \<Rightarrow> 'a jsresult \<times> browser" where
  "take_reply rep b =
     (case rep of
        Unauthorized \<Rightarrow> (Throw ''Unauthorized'', sign_out b)
      | Failed m \<Rightarrow> (Throw m, b)
      | Success a \<Rightarrow> (Ok a, b))"

lemma sign_out_idem [simp]: "sign_out (sign_out b) = sign_out b"
  by (simp add: sign_out_def browser_defs)

lemma sign_out_frame [simp]:
  "sent (sign_out b) = sent b" "pushed (sign_out b) = pushed b" "alerts (sign_out b) = alerts b"
  "has_window (sign_out b) = has_window b"
  by (simp_all add: sign_out_def)

lemma sign_out_push: "sign_out (router_push u b) = router_push u (sign_out b)"
  by (simp add: sign_out_def browser_defs)

lemma snd_take_reply: "snd (take_reply rep b) = (if rep = Unauthorized then sign_out b else b)"
  by (cases rep) (simp_all add: take_reply_def)

lemma fst_take_reply: "fst (take_reply rep b) =
    (case rep of Unauthorized \<Rightarrow> Throw ''Unauthorized'' | Failed m \<Rightarrow> Throw m | Success a \<Rightarrow> Ok a)"
  by (cases rep) (simp_all add: take_reply_def)

end
