(* ===== verification/Machine.thy ===== *)
theory Machine
  imports JsPrelude
begin

text \<open>
  A page as a machine: a step function on its state, one event at a time (user input, an effect,
  a promise that settles). \<open>run\<close> plays a list of events. The locale \<open>machine\<close> lifts an
  invariant of the steps to runs; \<open>ok\<close> restricts the events a result is about (\<open>allowed\<close>
  checks it along the run).
\<close>

definition run :: "('e \<Rightarrow> 's \<Rightarrow> 's) \<Rightarrow> 'e list \<Rightarrow> 's \<Rightarrow> 's" where
  "run step es s = fold step es s"

fun allowed :: "('e \<Rightarrow> 's \<Rightarrow> bool) \<Rightarrow> ('e \<Rightarrow> 's \<Rightarrow> 's) \<Rightarrow> 'e list \<Rightarrow> 's \<Rightarrow> bool" where
  "allowed ok step [] s = True"
| "allowed ok step (e # es) s = (ok e s \<and> allowed ok step es (step e s))"

lemma run_simps [simp]:
  "run step [] s = s" "run step (e # es) s = run step es (step e s)"
  by (simp_all add: run_def)

lemma run_append: "run step (xs @ ys) s = run step ys (run step xs s)"
  by (simp add: run_def)

lemma allowed_append:
  "allowed ok step (xs @ ys) s \<longleftrightarrow> allowed ok step xs s \<and> allowed ok step ys (run step xs s)"
  by (induction xs arbitrary: s) auto

lemma allowed_True [simp]: "allowed (\<lambda>e s. True) step es s"
  by (induction es arbitrary: s) auto

lemma allowed_conj:
  "allowed (\<lambda>e s. ok e s \<and> P e) step es s \<longleftrightarrow> allowed ok step es s \<and> (\<forall>e \<in> set es. P e)"
  by (induction es arbitrary: s) auto

lemma allowed_stateless: "allowed (\<lambda>e s. P e) step es s \<longleftrightarrow> (\<forall>e \<in> set es. P e)"
  by (induction es arbitrary: s) auto

text \<open>The states that allowed steps reach, and the runs behind them.\<close>

inductive reach :: "('e \<Rightarrow> 's \<Rightarrow> bool) \<Rightarrow> ('e \<Rightarrow> 's \<Rightarrow> 's) \<Rightarrow> 's \<Rightarrow> 's \<Rightarrow> bool"
  for ok step s0 where
  reach_start: "reach ok step s0 s0"
| reach_next: "reach ok step s0 s \<Longrightarrow> ok e s \<Longrightarrow> reach ok step s0 (step e s)"

lemma reach_run: "reach ok step s0 s \<Longrightarrow> allowed ok step es s \<Longrightarrow> reach ok step s0 (run step es s)"
  by (induction es arbitrary: s) (auto intro: reach_next)

lemma reach_iff_run: "reach ok step s0 s \<longleftrightarrow> (\<exists>es. allowed ok step es s0 \<and> s = run step es s0)"
proof
  assume "reach ok step s0 s"
  then show "\<exists>es. allowed ok step es s0 \<and> s = run step es s0"
  proof (induction rule: reach.induct)
    case reach_start
    show ?case by (rule exI [of _ "[]"]) simp
  next
    case (reach_next s e)
    then obtain es where es: "allowed ok step es s0" "s = run step es s0" by blast
    then show ?case using reach_next.hyps
      by (intro exI [of _ "es @ [e]"]) (simp add: allowed_append run_append)
  qed
qed (auto intro: reach_run reach_start)

locale machine =
  fixes step :: "'e \<Rightarrow> 's \<Rightarrow> 's"
    and ok :: "'e \<Rightarrow> 's \<Rightarrow> bool"
    and inv :: "'s \<Rightarrow> bool"
  assumes step_inv: "inv s \<Longrightarrow> ok e s \<Longrightarrow> inv (step e s)"
begin

lemma run_inv: "inv s \<Longrightarrow> allowed ok step es s \<Longrightarrow> inv (run step es s)"
  by (induction es arbitrary: s) (auto intro: step_inv)

lemma reach_inv: "reach ok step s0 s \<Longrightarrow> inv s0 \<Longrightarrow> inv s"
  by (induction rule: reach.induct) (auto intro: step_inv)

text \<open>The invariant also holds at every point along the run.\<close>

lemma run_inv_prefix:
  "inv s \<Longrightarrow> allowed ok step (xs @ ys) s \<Longrightarrow> inv (run step xs s)"
  by (simp add: allowed_append run_inv)

text \<open>What every state of the invariant satisfies holds after every run.\<close>

lemma run_safe:
  "(\<And>s. inv s \<Longrightarrow> P s) \<Longrightarrow> inv s \<Longrightarrow> allowed ok step es s \<Longrightarrow> P (run step es s)"
  by (simp add: run_inv)

end

text \<open>A measure that no step changes is the same after every run.\<close>

locale frame =
  fixes step :: "'e \<Rightarrow> 's \<Rightarrow> 's" and proj :: "'s \<Rightarrow> 'a"
  assumes step_frame: "proj (step e s) = proj s"
begin

lemma run_frame: "proj (run step es s) = proj s"
  by (induction es arbitrary: s) (simp_all add: step_frame)

end

end
