(* ===== verification/I18n.thy ===== *)
theory I18n
  imports Catalog Browser Machine
begin

text \<open>
  Languages: the locales (\<open>web/src/lib/i18n/locales.ts\<close>) and the provider that holds the
  current one (\<open>web/src/lib/i18n/index.tsx\<close>). The provider's effects are steps on its state
  and the browser: the mount effect reads the stored locale, the second effect writes the
  document language and the stored locale after every change.
\<close>

section \<open>Locales\<close>

datatype Locale = En | ZhCN

definition locale_code :: "Locale \<Rightarrow> string" where
  "locale_code l = (case l of En \<Rightarrow> ''en'' | ZhCN \<Rightarrow> ''zh-CN'')"

definition LOCALE_STORAGE_KEY :: string where
  "LOCALE_STORAGE_KEY = ''unillm-locale''"

definition DEFAULT_LOCALE :: Locale where
  "DEFAULT_LOCALE = En"

definition LOCALE_LABELS :: "Locale \<Rightarrow> string" where
  "LOCALE_LABELS l = (case l of En \<Rightarrow> ''EN'' | ZhCN \<Rightarrow> cp [0x4E2D, 0x6587])"

text \<open>An object of texts; a path that is not defined reads as undefined.\<close>

type_synonym messages = "string \<rightharpoonup> string"

definition messagesMap :: "Locale \<Rightarrow> messages" where
  "messagesMap l = (case l of En \<Rightarrow> map_of en_catalog | ZhCN \<Rightarrow> map_of zh_catalog)"

text \<open>A text in rendered output; React renders undefined as nothing.\<close>

definition tr :: "messages \<Rightarrow> string \<Rightarrow> string" where
  "tr t k = (case t k of Some s \<Rightarrow> s | None \<Rightarrow> [])"

section \<open>The provider\<close>

definition readStoredLocale :: "browser \<Rightarrow> Locale" where
  "readStoredLocale b =
     (if \<not> has_window b then DEFAULT_LOCALE
      else (case getItem LOCALE_STORAGE_KEY b of
              Some stored \<Rightarrow>
                if stored = ''en'' then En else if stored = ''zh-CN'' then ZhCN else DEFAULT_LOCALE
            | None \<Rightarrow> DEFAULT_LOCALE))"

record i18n =
  i18n_locale :: Locale
  i18n_mounted :: bool
  html_lang :: string  \<comment> \<open>\<open>document.documentElement.lang\<close>\<close>

definition i18n_init :: i18n where
  "i18n_init = \<lparr>i18n_locale = DEFAULT_LOCALE, i18n_mounted = False, html_lang = ''en''\<rparr>"

definition persist_effect :: "i18n \<times> browser \<Rightarrow> i18n \<times> browser" where
  "persist_effect sb =
     (let (s, b) = sb in
      if \<not> i18n_mounted s then (s, b)
      else (s\<lparr>html_lang := (if i18n_locale s = ZhCN then ''zh-CN'' else ''en'')\<rparr>,
            setItem LOCALE_STORAGE_KEY (locale_code (i18n_locale s)) b))"

datatype i18n_event = I18nMount | SetLocale Locale

text \<open>
  One step: the state update, then, on the render that commits it, the effects whose
  dependencies \<open>[locale, mounted]\<close> changed.
\<close>

definition commit :: "i18n \<Rightarrow> i18n \<Rightarrow> browser \<Rightarrow> i18n \<times> browser" where
  "commit s s' b =
     (if i18n_locale s = i18n_locale s' \<and> i18n_mounted s = i18n_mounted s' then (s', b)
      else persist_effect (s', b))"

fun i18n_step :: "i18n_event \<Rightarrow> i18n \<times> browser \<Rightarrow> i18n \<times> browser" where
  "i18n_step I18nMount (s, b) =
     commit s (s\<lparr>i18n_locale := readStoredLocale b, i18n_mounted := True\<rparr>) b"
| "i18n_step (SetLocale next) (s, b) = commit s (s\<lparr>i18n_locale := next\<rparr>) b"

abbreviation i18n_run :: "i18n_event list \<Rightarrow> i18n \<times> browser \<Rightarrow> i18n \<times> browser" where
  "i18n_run \<equiv> run i18n_step"

text \<open>The context value, and the hook that reads it.\<close>

definition i18n_value :: "i18n \<Rightarrow> Locale \<times> messages" where
  "i18n_value s = (i18n_locale s, messagesMap (i18n_locale s))"

definition useI18n :: "(Locale \<times> messages) option \<Rightarrow> (Locale \<times> messages) jsresult" where
  "useI18n ctx =
     (case ctx of None \<Rightarrow> Throw ''useI18n must be used within I18nProvider'' | Some v \<Rightarrow> Ok v)"

section \<open>Lemmas\<close>

lemma locale_code_inject [simp]: "locale_code l = locale_code l' \<longleftrightarrow> l = l'"
  by (cases l; cases l') (auto simp: locale_code_def)

lemma read_written_locale:
  "has_window b \<Longrightarrow> readStoredLocale (setItem LOCALE_STORAGE_KEY (locale_code l) b) = l"
  by (cases l) (simp_all add: readStoredLocale_def locale_code_def)

text \<open>What a mounted provider keeps true: the page language and the storage agree with it.\<close>

definition i18n_inv :: "i18n \<times> browser \<Rightarrow> bool" where
  "i18n_inv sb =
     (let (s, b) = sb in
      i18n_mounted s \<longrightarrow>
        getItem LOCALE_STORAGE_KEY b = Some (locale_code (i18n_locale s)) \<and>
        html_lang s = locale_code (i18n_locale s))"

lemma i18n_inv_persist: "i18n_inv (persist_effect sb)"
  by (cases sb) (auto simp: i18n_inv_def persist_effect_def locale_code_def Let_def split: Locale.splits)

lemma i18n_inv_step: "i18n_inv sb \<Longrightarrow> i18n_inv (i18n_step e sb)"
proof (cases sb)
  case (Pair s b)
  assume inv: "i18n_inv sb"
  have c: "i18n_inv (commit s s' b)" if "i18n_mounted s' \<Longrightarrow> html_lang s' = html_lang s" for s'
    using inv that i18n_inv_persist [of "(s', b)"] Pair
    by (auto simp: commit_def i18n_inv_def Let_def)
  show ?thesis using Pair by (cases e) (auto intro!: c)
qed

interpretation i18n_machine: machine i18n_step "\<lambda>e sb. True" i18n_inv
  by unfold_locales (simp add: i18n_inv_step)

lemma i18n_inv_init: "i18n_inv (i18n_init, b)"
  by (simp add: i18n_inv_def i18n_init_def)

lemma persist_effect_frame [simp]:
  "i18n_locale (fst (persist_effect (s, b))) = i18n_locale s"
  "i18n_mounted (fst (persist_effect (s, b))) = i18n_mounted s"
  "has_window (snd (persist_effect (s, b))) = has_window b"
  by (simp_all add: persist_effect_def Let_def)

lemma i18n_step_frame:
  "has_window (snd (i18n_step e sb)) = has_window (snd sb)"
  "i18n_mounted (fst (i18n_step e sb)) = (e = I18nMount \<or> i18n_mounted (fst sb))"
  by (cases sb; cases e; simp add: commit_def)+

interpretation i18n_window: frame i18n_step "\<lambda>sb. has_window (snd sb)"
  by unfold_locales (rule i18n_step_frame)

lemma i18n_run_mounted:
  "i18n_mounted (fst (i18n_run es sb)) = (I18nMount \<in> set es \<or> i18n_mounted (fst sb))"
  by (induction es arbitrary: sb) (auto simp: i18n_step_frame)

section \<open>Properties\<close>

text \<open>
  C33: The chosen language survives a reload. After any use of the provider that includes its
  mount, a page opened on the same storage comes up, once mounted, in the language the old page
  showed, with the document language set to match.
\<close>

theorem locale_survives_reload:
  assumes "has_window b0" "I18nMount \<in> set es" "i18n_run es (i18n_init, b0) = (s, b)"
  shows "\<exists>s' b'. i18n_run [I18nMount] (i18n_init, b) = (s', b') \<and>
    i18n_value s' = i18n_value s \<and> html_lang s' = html_lang s \<and>
    getItem LOCALE_STORAGE_KEY b' = getItem LOCALE_STORAGE_KEY b"
proof -
  have "i18n_inv (s, b)" using i18n_machine.run_inv [OF i18n_inv_init, of es b0] assms(3) by simp
  moreover have "i18n_mounted s" using i18n_run_mounted [of es "(i18n_init, b0)"] assms(2,3) by simp
  moreover have w: "has_window b" using i18n_window.run_frame [of es "(i18n_init, b0)"] assms(1,3) by simp
  ultimately have st: "getItem LOCALE_STORAGE_KEY b = Some (locale_code (i18n_locale s))"
      "html_lang s = locale_code (i18n_locale s)"
    by (simp_all add: i18n_inv_def)
  have "readStoredLocale b = i18n_locale s"
    using st(1) w by (cases "i18n_locale s") (simp_all add: readStoredLocale_def locale_code_def)
  then show ?thesis using st
    by (simp add: commit_def i18n_init_def persist_effect_def i18n_value_def locale_code_def Let_def
        split: Locale.splits)
qed

lemma locale_survives_reload_witness:
  "\<exists>s b. i18n_run [I18nMount, SetLocale ZhCN] (i18n_init,
       \<lparr>has_window = True, storage = Map.empty, href = None, pushed = [], alerts = [], sent = []\<rparr>) = (s, b) \<and>
     i18n_value (fst (i18n_run [I18nMount] (i18n_init, b))) = (ZhCN, messagesMap ZhCN)"
proof -
  let ?b = "\<lparr>has_window = True, storage = Map.empty, href = None, pushed = [], alerts = [], sent = []\<rparr>"
  obtain s b where run: "i18n_run [I18nMount, SetLocale ZhCN] (i18n_init, ?b) = (s, b)" by (rule prod.exhaust)
  then have "i18n_locale s = ZhCN"
    by (auto simp: commit_def i18n_init_def persist_effect_def Let_def split: if_splits)
  moreover have "\<exists>s' b'. i18n_run [I18nMount] (i18n_init, b) = (s', b') \<and> i18n_value s' = i18n_value s"
    using locale_survives_reload [OF _ _ run] by auto
  ultimately have "i18n_value (fst (i18n_run [I18nMount] (i18n_init, b))) = (ZhCN, messagesMap ZhCN)"
    by (auto simp: i18n_value_def)
  then show ?thesis using run by blast
qed

text \<open>
  C38: Switching the language never loses a text. The two catalogs define the same paths, none of
  them twice, and every path has a text that is not empty in both languages.
\<close>

theorem catalogs_agree:
  "map fst en_catalog = map fst zh_catalog \<and> distinct (map fst en_catalog) \<and>
   (\<forall>k \<in> set (map fst en_catalog). tr (messagesMap En) k \<noteq> [] \<and> tr (messagesMap ZhCN) k \<noteq> [])"
proof (intro conjI ballI)
  fix k assume k: "k \<in> set (map fst en_catalog)"
  then have k': "k \<in> set (map fst zh_catalog)" by (simp only: same_keys)
  show "tr (messagesMap En) k \<noteq> []" "tr (messagesMap ZhCN) k \<noteq> []"
    using present_text [OF catalog_texts(1) k] present_text [OF catalog_texts(2) k']
    by (auto simp: tr_def messagesMap_def)
qed (rule same_keys, rule en_catalog_distinct)

lemma catalogs_agree_witness:
  "tr (messagesMap En) ''nav.docs'' \<noteq> [] \<and> tr (messagesMap ZhCN) ''nav.docs'' \<noteq> []"
proof -
  have "''nav.docs'' \<in> set (map fst en_catalog)" by (simp add: en_catalog_def en_nav_def)
  then show ?thesis using catalogs_agree by blast
qed

end
