(* ===== verification/Api.thy ===== *)
theory Api
  imports Browser
begin

text \<open>
  The API client of the user pages (\<open>web/src/lib/api.ts\<close>). A call is modelled in two halves,
  because the browser runs other code between them: the request it sends, built from the token
  stored at that time, and what it does when the \<open>fetch\<close> promise settles. \<open>api_reply\<close> is
  the abstract outcome of a settlement, and \<open>fetchAPI_settle\<close> refines it.
\<close>

section \<open>Requests\<close>

record request_init =
  init_method :: "string option"
  init_headers :: "(string \<times> string) list"
  init_body :: "string option"

definition no_init :: request_init where
  "no_init = \<lparr>init_method = None, init_headers = [], init_body = None\<rparr>"

definition json_init :: "string \<Rightarrow> json \<Rightarrow> request_init" where
  "json_init m v = \<lparr>init_method = Some m, init_headers = [], init_body = Some (JSON_stringify v)\<rparr>"

definition API_BASE :: string where
  "API_BASE = ''/api''"

definition stored_token :: "browser \<Rightarrow> string option" where
  "stored_token b = (if has_window b then getItem ''token'' b else None)"

text \<open>
  The header object: the content type, the caller's headers over it, and the token, when there
  is one that is not empty, over both.
\<close>

definition auth_headers :: "string option \<Rightarrow> (string \<times> string) list \<Rightarrow> (string \<times> string) list" where
  "auth_headers tok hs =
     (let headers = fold (\<lambda>(k, v). AList.update k v) hs [(''Content-Type'', ''application/json'')] in
      case tok of
        Some t \<Rightarrow> if t \<noteq> [] then AList.update ''Authorization'' (''Bearer '' @ t) headers else headers
      | None \<Rightarrow> headers)"

definition base_request :: "string \<Rightarrow> string \<Rightarrow> request_init \<Rightarrow> browser \<Rightarrow> request" where
  "base_request base path init b =
     \<lparr>rq_url = base @ path,
      rq_method = (case init_method init of Some m \<Rightarrow> m | None \<Rightarrow> ''GET''),
      rq_headers = auth_headers (stored_token b) (init_headers init),
      rq_body = init_body init\<rparr>"

definition fetchAPI_request :: "string \<Rightarrow> request_init \<Rightarrow> browser \<Rightarrow> request" where
  "fetchAPI_request path init b = base_request API_BASE path init b"

section \<open>Settlement\<close>

text \<open>The message of the error thrown for a response that is not ok.\<close>

definition error_message :: "response \<Rightarrow> string" where
  "error_message r =
     (case JSON_parse (body r) of
        Some JNull \<Rightarrow> engine_msg r
      | Some data \<Rightarrow>
          (case get_prop data ''error'' of
             Some e \<Rightarrow> if truthy (Some e) then js_String e
                       else ''Request failed: '' @ int_to_string (status r)
           | None \<Rightarrow> ''Request failed: '' @ int_to_string (status r))
      | None \<Rightarrow> ''Request failed: '' @ int_to_string (status r))"

definition fetchAPI_settle :: "fetched \<Rightarrow> browser \<Rightarrow> json jsresult \<times> browser" where
  "fetchAPI_settle f b =
     (case f of
        Rejected m \<Rightarrow> (Throw m, b)
      | Responded res \<Rightarrow>
          if status res = 401 then
            (let b' = (if has_window b then set_href ''/login'' (removeItem ''token'' b) else b)
             in (Throw ''Unauthorized'', b'))
          else if \<not> res_ok res then (Throw (error_message res), b)
          else (res_json res, b))"

text \<open>One call with nothing else running between its halves.\<close>

definition fetchAPI :: "string \<Rightarrow> request_init \<Rightarrow> fetched \<Rightarrow> browser \<Rightarrow> json jsresult \<times> browser" where
  "fetchAPI path init f b = fetchAPI_settle f (send (fetchAPI_request path init b) b)"

definition api_reply :: "fetched \<Rightarrow> json reply" where
  "api_reply f =
     (case f of
        Rejected m \<Rightarrow> Failed m
      | Responded res \<Rightarrow>
          if status res = 401 then Unauthorized
          else if \<not> res_ok res then Failed (error_message res)
          else (case res_json res of Inr j \<Rightarrow> Success j | Inl m \<Rightarrow> Failed m))"

section \<open>Calls\<close>

text \<open>\<open>localStorage.setItem("token", data.token)\<close>: the stored value is a string always.\<close>

definition store_token :: "json jsresult \<times> browser \<Rightarrow> string \<Rightarrow> json jsresult \<times> browser" where
  "store_token res msg =
     (case res of
        (Inl m, b) \<Rightarrow> (Throw m, b)
      | (Inr JNull, b) \<Rightarrow> (Throw msg, b)
      | (Inr data, b) \<Rightarrow>
          (Ok data,
           setItem ''token'' (case get_prop data ''token'' of Some v \<Rightarrow> js_String v | None \<Rightarrow> ''undefined'') b))"

definition fetched_msg :: "fetched \<Rightarrow> string" where
  "fetched_msg f = (case f of Rejected m \<Rightarrow> m | Responded r \<Rightarrow> engine_msg r)"

definition login_init :: "string \<Rightarrow> string \<Rightarrow> request_init" where
  "login_init email password =
     json_init ''POST'' (JObj [(''email'', JStr email), (''password'', JStr password)])"

definition login :: "string \<Rightarrow> string \<Rightarrow> fetched \<Rightarrow> browser \<Rightarrow> json jsresult \<times> browser" where
  "login email password f b =
     store_token (fetchAPI ''/auth/login'' (login_init email password) f b) (fetched_msg f)"

definition register_init :: "string \<Rightarrow> string \<Rightarrow> string \<Rightarrow> request_init" where
  "register_init email password name =
     json_init ''POST''
       (JObj [(''email'', JStr email), (''password'', JStr password), (''name'', JStr name)])"

definition register :: "string \<Rightarrow> string \<Rightarrow> string \<Rightarrow> fetched \<Rightarrow> browser \<Rightarrow> json jsresult \<times> browser" where
  "register email password name f b =
     store_token (fetchAPI ''/auth/register'' (register_init email password name) f b) (fetched_msg f)"

definition getMe_request :: "browser \<Rightarrow> request" where
  "getMe_request = fetchAPI_request ''/me'' no_init"

definition getUsageSummary_request :: "browser \<Rightarrow> request" where
  "getUsageSummary_request = fetchAPI_request ''/usage/summary'' no_init"

definition getUsageByModel_request :: "browser \<Rightarrow> request" where
  "getUsageByModel_request = fetchAPI_request ''/usage/by-model'' no_init"

definition getUsageDaily_request :: "browser \<Rightarrow> request" where
  "getUsageDaily_request = fetchAPI_request ''/usage/daily'' no_init"

definition getUsageRecent_request :: "browser \<Rightarrow> request" where
  "getUsageRecent_request = fetchAPI_request ''/usage/recent'' no_init"

definition getAPIKeys_request :: "browser \<Rightarrow> request" where
  "getAPIKeys_request = fetchAPI_request ''/keys'' no_init"

definition createAPIKey_request :: "string \<Rightarrow> string \<Rightarrow> browser \<Rightarrow> request" where
  "createAPIKey_request name scope =
     fetchAPI_request ''/keys''
       (json_init ''POST'' (JObj [(''name'', JStr name), (''scope'', JStr scope)]))"

definition deleteAPIKey_request :: "int \<Rightarrow> browser \<Rightarrow> request" where
  "deleteAPIKey_request i =
     fetchAPI_request ''/keys'' (json_init ''DELETE'' (JObj [(''id'', JNum (num_int i))]))"

definition logout :: "browser \<Rightarrow> browser" where
  "logout b = set_href ''/login'' (removeItem ''token'' b)"

definition isLoggedIn :: "browser \<Rightarrow> bool" where
  "isLoggedIn b \<longleftrightarrow>
     has_window b \<and> (case getItem ''token'' b of Some t \<Rightarrow> t \<noteq> [] | None \<Rightarrow> False)"

definition changePassword_request :: "string \<Rightarrow> string \<Rightarrow> browser \<Rightarrow> request" where
  "changePassword_request oldPassword newPassword =
     fetchAPI_request ''/password''
       (json_init ''PUT''
         (JObj [(''old_password'', JStr oldPassword), (''new_password'', JStr newPassword)]))"

definition getModelCatalog_request :: request where
  "getModelCatalog_request =
     \<lparr>rq_url = API_BASE @ ''/models/catalog'', rq_method = ''GET'', rq_headers = [], rq_body = None\<rparr>"

definition getModelCatalog_settle :: "fetched \<Rightarrow> json jsresult" where
  "getModelCatalog_settle f =
     (case f of
        Rejected m \<Rightarrow> Throw m
      | Responded res \<Rightarrow>
          if \<not> res_ok res then Throw ''Failed to load model catalog'' else res_json res)"

section \<open>The contract of an authenticated client\<close>

text \<open>
  Both API clients settle a call through an abstract reply: a 401 ends the session, a response
  in the 200s that parses is a success, everything else leaves the browser alone and throws.
\<close>

locale authed_client =
  fixes settle :: "fetched \<Rightarrow> browser \<Rightarrow> json jsresult \<times> browser"
    and classify :: "fetched \<Rightarrow> json reply"
  assumes settle_reply: "settle f b = take_reply (classify f) b"
    and classify_401: "classify f = Unauthorized \<longleftrightarrow> (\<exists>r. f = Responded r \<and> status r = 401)"
    and classify_ok: "classify f = Success j \<longleftrightarrow>
          (\<exists>r. f = Responded r \<and> res_ok r \<and> JSON_parse (body r) = Some j)"
begin

lemma settle_keeps_browser:
  "\<not> (\<exists>r. f = Responded r \<and> status r = 401) \<Longrightarrow> snd (settle f b) = b"
  by (auto simp: settle_reply snd_take_reply classify_401)

lemma settle_401: "status r = 401 \<Longrightarrow> settle (Responded r) b = (Throw ''Unauthorized'', sign_out b)"
  using classify_401 [of "Responded r"] by (simp add: settle_reply take_reply_def)

lemma settle_ok_iff:
  "fst (settle f b) = Ok j \<longleftrightarrow>
     (\<exists>r. f = Responded r \<and> res_ok r \<and> JSON_parse (body r) = Some j)"
  by (cases "classify f") (auto simp: settle_reply fst_take_reply classify_ok [symmetric])

lemma settle_ok_keeps: "fst (settle f b) = Ok j \<Longrightarrow> snd (settle f b) = b"
  by (auto simp: settle_ok_iff res_ok_def intro!: settle_keeps_browser)

lemma settle_sent [simp]: "sent (snd (settle f b)) = sent b"
  by (simp add: settle_reply snd_take_reply)

lemma token_after_settle:
  "getItem ''token'' (snd (settle f b)) =
     (if has_window b \<and> (\<exists>r. f = Responded r \<and> status r = 401) then None else getItem ''token'' b)"
  by (auto simp: settle_reply snd_take_reply classify_401 sign_out_def)

end

interpretation api: authed_client fetchAPI_settle api_reply
proof unfold_locales
  show "fetchAPI_settle f b = take_reply (api_reply f) b" for f b
    by (auto simp: fetchAPI_settle_def api_reply_def take_reply_def sign_out_def res_json_def
        split: fetched.splits option.splits)
  show "api_reply f = Unauthorized \<longleftrightarrow> (\<exists>r. f = Responded r \<and> status r = 401)" for f
    by (auto simp: api_reply_def split: fetched.splits sum.splits)
  show "api_reply f = Success j \<longleftrightarrow>
      (\<exists>r. f = Responded r \<and> res_ok r \<and> JSON_parse (body r) = Some j)" for f j
    by (auto simp: api_reply_def res_json_def res_ok_def split: fetched.splits sum.splits option.splits)
qed

section \<open>Lemmas on the calls\<close>

lemma map_of_auth_headers:
  "map_of (auth_headers (Some t) hs) ''Authorization'' =
     (if t \<noteq> [] then Some (''Bearer '' @ t) else map_of (auth_headers None hs) ''Authorization'')"
  by (simp add: auth_headers_def Let_def update_conv')

lemma fetchAPI_sent:
  "sent (snd (fetchAPI path init f b)) = sent b @ [fetchAPI_request path init b]"
  by (simp add: fetchAPI_def)

lemma fetchAPI_ok_iff:
  "fst (fetchAPI path init f b) = Ok j \<longleftrightarrow>
     (\<exists>r. f = Responded r \<and> res_ok r \<and> JSON_parse (body r) = Some j)"
  by (simp add: fetchAPI_def api.settle_ok_iff)

lemma isLoggedIn_setItem [simp]:
  "isLoggedIn (setItem ''token'' t b) \<longleftrightarrow> has_window b \<and> t \<noteq> []"
  by (simp add: isLoggedIn_def)

lemma isLoggedIn_send [simp]: "isLoggedIn (send r b) = isLoggedIn b"
  by (simp add: isLoggedIn_def)

lemma not_logged_in_sign_out [simp]: "\<not> isLoggedIn (sign_out b)"
  by (simp add: isLoggedIn_def sign_out_def)

lemma isLoggedIn_frame [simp]:
  "isLoggedIn (router_push u b) = isLoggedIn b" "isLoggedIn (show_alert m b) = isLoggedIn b"
  "isLoggedIn (fold send rqs b) = isLoggedIn b" "\<not> isLoggedIn (logout b)"
  by (simp_all add: isLoggedIn_def logout_def)

lemma json_init_body: "init_body (json_init m v) = Some (JSON_stringify v)"
  by (simp add: json_init_def)

lemma request_body_parses:
  "json_wf v \<Longrightarrow> map_option JSON_parse (rq_body (base_request base path (json_init m v) b)) = Some (Some v)"
  by (simp add: base_request_def json_init_def JSON_parse_stringify)

end
