(* ===== verification/Components.thy ===== *)
theory Components
  imports Vdom I18n Api
begin

text \<open>
  The shared components (\<open>web/src/components\<close>): the header with its navigation, the language
  and theme switches, the log table and the usage chart. \<open>intl\<close> stands for the formatting of
  dates and grouped numbers, and the order of names, that the browser's locale data decides.
\<close>

record intl =
  dateTimeString :: "string \<Rightarrow> string"  \<comment> \<open>\<open>new Date(s).toLocaleString()\<close>\<close>
  dateString :: "string \<Rightarrow> string"  \<comment> \<open>\<open>new Date(s).toLocaleDateString()\<close>\<close>
  timeString :: "string \<Rightarrow> string"  \<comment> \<open>\<open>new Date(s).toLocaleTimeString()\<close>\<close>
  groupedNumber :: "jsnum \<Rightarrow> string"  \<comment> \<open>\<open>n.toLocaleString()\<close>\<close>
  localeCompare :: "string \<Rightarrow> string \<Rightarrow> int"  \<comment> \<open>\<open>a.localeCompare(b)\<close>\<close>

text \<open>One way a browser may format: times as the server writes them, numbers without groups.\<close>

definition raw_intl :: intl where
  "raw_intl =
     \<lparr>dateTimeString = (\<lambda>s. s), dateString = (\<lambda>s. s), timeString = (\<lambda>s. s), groupedNumber = num_to_string,
      localeCompare = (\<lambda>a b. 0)\<rparr>"

section \<open>Header events\<close>

datatype header_event = ClickLogout | ClickLocale Locale | ClickTheme string

section \<open>ThemeToggle\<close>

text \<open>
  \<open>resolvedTheme\<close> is what next-themes reports (undefined before it is known); the click asks
  it for the other theme.
\<close>

definition theme_is_dark :: "string option \<Rightarrow> bool" where
  "theme_is_dark resolvedTheme = (resolvedTheme \<noteq> Some ''light'')"

definition next_theme :: "string option \<Rightarrow> string" where
  "next_theme resolvedTheme = (if theme_is_dark resolvedTheme then ''light'' else ''dark'')"

definition ThemeToggle :: "bool \<Rightarrow> string option \<Rightarrow> messages \<Rightarrow> header_event node" where
  "ThemeToggle mounted resolvedTheme t =
     (if \<not> mounted then Elem ''button'' [(''type'', AStr ''button''), (''aria-hidden'', ABool True)] []
      else
        (let isDark = theme_is_dark resolvedTheme;
             label = (if isDark then tr t ''theme.switchToLight'' else tr t ''theme.switchToDark'')
         in Elem ''button''
              [(''type'', AStr ''button''),
               (''onClick'', On (ClickTheme (next_theme resolvedTheme))),
               (''aria-label'', AStr label), (''title'', AStr label)]
              [Text (if isDark then cp [0x2600] else cp [0x263E])]))"

section \<open>LocaleSwitcher and PreferencesBar\<close>

definition LOCALES :: "Locale list" where
  "LOCALES = [En, ZhCN]"

definition LocaleSwitcher :: "Locale \<Rightarrow> messages \<Rightarrow> header_event node" where
  "LocaleSwitcher locale t =
     Elem ''div'' [(''role'', AStr ''group''), (''aria-label'', AStr (tr t ''locale.label''))]
       (map (\<lambda>loc.
          (let active = (locale = loc) in
           Elem ''button''
             [(''key'', AStr (locale_code loc)), (''type'', AStr ''button''),
              (''onClick'', On (ClickLocale loc)),
              (''style.background'', AStr (if active then ''var(--primary)'' else ''var(--card)'')),
              (''style.color'', AStr (if active then ''#fff'' else ''var(--muted)''))]
             [Text (LOCALE_LABELS loc)]))
        LOCALES)"

definition PreferencesBar ::
    "bool \<Rightarrow> string option \<Rightarrow> Locale \<Rightarrow> messages \<Rightarrow> header_event node" where
  "PreferencesBar mounted theme locale t =
     el ''div'' [ThemeToggle mounted theme t, LocaleSwitcher locale t]"

section \<open>SiteHeader\<close>

datatype NavKey = NavModels | NavPlayground | NavDocs | NavCalculator

text \<open>What the header shows apart from its props: the theme, the language and the session.\<close>

record shell =
  sh_mounted :: bool
  sh_theme :: "string option"
  sh_locale :: Locale
  sh_logged_in :: bool

record 'e header_props =
  activeNav :: "NavKey option"
  balance :: "jsnum option"
  adminBadge :: bool
  trailing :: "'e node list"

definition no_props :: "'e header_props" where
  "no_props = \<lparr>activeNav = None, balance = None, adminBadge = False, trailing = []\<rparr>"

text \<open>The effect of the header: the session flag after mounting.\<close>

definition header_mount :: "browser \<Rightarrow> shell \<Rightarrow> shell" where
  "header_mount b s = s\<lparr>sh_logged_in := isLoggedIn b\<rparr>"

text \<open>
  A click in the header, on the browser: the logout button calls \<open>logout\<close>; the switches change the
  language and the theme, which belong to their providers.
\<close>

definition header_clicked :: "header_event \<Rightarrow> browser \<Rightarrow> browser" where
  "header_clicked h b = (case h of ClickLogout \<Rightarrow> logout b | _ \<Rightarrow> b)"

definition navLinkClass :: string where
  "navLinkClass = ''text-sm text-[var(--muted)] hover:text-[var(--foreground)] transition-colors''"

definition linkClass :: "NavKey option \<Rightarrow> NavKey \<Rightarrow> string" where
  "linkClass active k =
     (if active = Some k then ''text-sm text-[var(--foreground)] font-medium'' else navLinkClass)"

definition nav_link :: "NavKey option \<Rightarrow> NavKey \<Rightarrow> string \<Rightarrow> string \<Rightarrow> header_event node" where
  "nav_link active k url label =
     Elem ''a'' [(''href'', AStr url), (''className'', AStr (linkClass active k))] [Text label]"

definition SiteHeader :: "shell \<Rightarrow> messages \<Rightarrow> header_event header_props \<Rightarrow> header_event node" where
  "SiteHeader s t p =
     el ''header''
       [el ''div''
          ([Elem ''a'' [(''href'', AStr ''/'')] [Text ''UniLLM'']]
           @ cond_nodes (adminBadge p) [el ''span'' [Text (tr t ''admin.badge'')]]
           @ [nav_link (activeNav p) NavModels ''/models'' (tr t ''nav.models''),
              nav_link (activeNav p) NavPlayground ''/playground'' (tr t ''nav.playground''),
              nav_link (activeNav p) NavDocs ''/docs'' (tr t ''nav.docs''),
              nav_link (activeNav p) NavCalculator ''/calculator'' (tr t ''nav.calculator'')]),
        el ''div''
          (trailing p
           @ [PreferencesBar (sh_mounted s) (sh_theme s) (sh_locale s) t]
           @ (case balance p of
                None \<Rightarrow> []
              | Some bal \<Rightarrow>
                  [el ''span'' [Text (tr t ''dashboard.balance'' @ '': $'' @ toFixed 2 bal)]])
           @ (if sh_logged_in s then
                [Elem ''a'' [(''href'', AStr ''/dashboard'')] [Text (tr t ''nav.dashboard'')],
                 Elem ''button'' [(''type'', AStr ''button''), (''onClick'', On ClickLogout)]
                   [Text (tr t ''nav.logout'')]]
              else
                [Elem ''a'' [(''href'', AStr ''/login'')] [Text (tr t ''nav.signIn'')]]))]"

section \<open>RecentLogs\<close>

record LogEntry =
  log_id :: int
  log_model_name :: string
  log_provider :: string
  log_prompt_tokens :: int
  log_completion_tokens :: int
  log_total_tokens :: int
  log_cost :: jsnum
  log_latency_ms :: jsnum
  log_status :: string
  log_created_at :: string

definition log_row :: "intl \<Rightarrow> LogEntry \<Rightarrow> 'e node" where
  "log_row fmt l =
     Elem ''tr'' [(''key'', ANum (num_int (log_id l)))]
       [el ''td'' [Text (dateTimeString fmt (log_created_at l))],
        el ''td'' [Text (log_model_name l)],
        el ''td'' [Text (int_to_string (log_total_tokens l))],
        el ''td'' [Text (''$'' @ toFixed 6 (log_cost l))],
        el ''td'' [Text (num_to_string (log_latency_ms l) @ ''ms'')],
        el ''td''
          [Elem ''span''
             [(''style.color'',
               AStr (if log_status l = ''ok'' then ''var(--success)'' else ''var(--danger)''))]
             [Text (log_status l)]]]"

definition RecentLogs :: "intl \<Rightarrow> messages \<Rightarrow> LogEntry list \<Rightarrow> 'e node" where
  "RecentLogs fmt t logs =
     (if logs = [] then el ''p'' [Text (tr t ''logs.noRequests'')]
      else
        el ''div''
          [el ''table''
             [el ''thead''
                [el ''tr''
                   [el ''th'' [Text (tr t ''logs.colTime'')], el ''th'' [Text (tr t ''logs.colModel'')],
                    el ''th'' [Text (tr t ''logs.colTokens'')], el ''th'' [Text (tr t ''logs.colCost'')],
                    el ''th'' [Text (tr t ''logs.colLatency'')],
                    el ''th'' [Text (tr t ''logs.colStatus'')]]],
              el ''tbody'' (map (log_row fmt) logs)]])"

section \<open>UsageChart\<close>

record DailyData =
  day_date :: string
  day_requests :: jsnum
  day_tokens :: jsnum
  day_cost :: jsnum

text \<open>The height of a bar in percent: the share of the maximum, at least 2.\<close>

definition bar_height :: "jsnum \<Rightarrow> jsnum \<Rightarrow> jsnum" where
  "bar_height v maxv = math_max ((v / maxv) * Fin 100) (Fin 2)"

definition max_requests :: "DailyData list \<Rightarrow> jsnum" where
  "max_requests data = math_max_list (map day_requests data) (Fin 1)"

definition max_cost :: "DailyData list \<Rightarrow> jsnum" where
  "max_cost data = math_max_list (map day_cost data) (to_num (1 / 1000))"

definition chart_bar :: "string \<Rightarrow> jsnum \<Rightarrow> string \<Rightarrow> string \<Rightarrow> 'e node" where
  "chart_bar key h colour tip =
     Elem ''div''
       [(''key'', AStr key), (''style.height.percent'', ANum h), (''style.background'', AStr colour)]
       [el ''div'' [el ''div'' [Text tip]]]"

definition UsageChart :: "messages \<Rightarrow> DailyData list \<Rightarrow> 'e node" where
  "UsageChart t data =
     (if data = [] then el ''p'' [Text (tr t ''dashboard.noUsage'')]
      else
        el ''div''
          [el ''div''
             [el ''div'' [Text (tr t ''dashboard.chartDailyRequests'')],
              el ''div''
                (map (\<lambda>d. chart_bar (day_date d) (bar_height (day_requests d) (max_requests data))
                             ''var(--primary)''
                             (day_date d @ '': '' @ num_to_string (day_requests d) @ '' reqs''))
                   data)],
           el ''div''
             [el ''div'' [Text (tr t ''dashboard.chartDailyCost'')],
              el ''div''
                (map (\<lambda>d. chart_bar (day_date d) (bar_height (day_cost d) (max_cost data))
                             ''var(--success)''
                             (day_date d @ '': $'' @ toFixed 4 (day_cost d)))
                   data)]])"

section \<open>Lemmas\<close>

lemma theme_toggle_involution: "next_theme (Some (next_theme (Some (next_theme th)))) = next_theme th"
  by (auto simp: next_theme_def theme_is_dark_def)

text \<open>A bar of a value between 0 and a positive maximum is between 2 and 100 percent.\<close>

lemma bar_height_fin:
  assumes "0 \<le> x" "x \<le> m" "0 < m" "m < 2 ^ 1024"
  shows "\<exists>h. bar_height (Fin x) (Fin m) = Fin h \<and> 2 \<le> h \<and> h \<le> 100"
proof -
  note P = binary64.rnd_percent [OF assms(1-3)]
  have q: "0 \<le> fl (x / m)" "fl (x / m) \<le> 1"
    using assms binary64.rnd_le_int [of "x / m" 1] by (auto intro: binary64.rnd_nonneg)
  have big: "(100::rat) < 2 ^ 1024" by simp
  have "to_num (x / m) = Fin (fl (x / m))"
    using q by (simp add: to_num_def Let_def)
  moreover have "to_num (fl (x / m) * 100) = Fin (fl (fl (x / m) * 100))"
    using P big by (simp add: to_num_def Let_def)
  ultimately show ?thesis
    using P assms(3) by (auto simp: bar_height_def num_ops math_max_def)
qed

section \<open>Properties\<close>

text \<open>The heights of the bars in a rendered chart, in document order.\<close>

fun bar_heights :: "'e node \<Rightarrow> jsnum list" where
  "bar_heights (Text s) = []"
| "bar_heights (Elem tag as cs) =
     (case map_of as ''style.height.percent'' of Some (ANum h) \<Rightarrow> [h] | _ \<Rightarrow> []) @
     concat (map bar_heights cs)"

lemma bar_heights_chart_bar: "bar_heights (chart_bar key h colour tip) = [h]"
  by (simp add: chart_bar_def)

lemma bar_heights_UsageChart:
  "bar_heights (UsageChart t data) =
     map (\<lambda>d. bar_height (day_requests d) (max_requests data)) data @
     map (\<lambda>d. bar_height (day_cost d) (max_cost data)) data"
  by (cases "data = []") (simp_all add: UsageChart_def bar_heights_chart_bar concat_map_single o_def)

definition plain_amount :: "jsnum \<Rightarrow> bool" where
  "plain_amount a \<longleftrightarrow> is_number a \<and> (\<exists>x. a = Fin x \<and> 0 \<le> x)"

lemma bar_of_series:
  assumes "\<forall>a \<in> set xs. plain_amount a" "is_number base" "base = Fin b" "0 < b" "a \<in> set xs"
  shows "\<exists>h. bar_height a (math_max_list xs base) = Fin h \<and> 2 \<le> h \<and> h \<le> 100"
proof -
  have nan: "NaN \<notin> set xs" "base \<noteq> NaN" using assms by (auto simp: plain_amount_def)
  let ?m = "math_max_list xs base"
  have "?m \<in> insert base (set xs)" using math_max_list_mem nan by blast
  then obtain m where m: "?m = Fin m" "m < 2 ^ 1024"
    using assms(1-3) by (auto simp: plain_amount_def is_number_def)
  have ge: "num_le a ?m" "num_le base ?m" using math_max_list_ge [OF nan] assms(5) by auto
  obtain x where "a = Fin x" "0 \<le> x" using assms(1,5) by (auto simp: plain_amount_def)
  then show ?thesis using ge m assms(3,4) bar_height_fin [of x m] by auto
qed

lemma cost_floor: "\<exists>b. to_num (1 / 1000) = Fin b \<and> 0 < b"
proof -
  have "fl (of_int 1 * 2 powi (- 10)) = of_int 1 * 2 powi (- 10)" by (rule fl_exact) simp_all
  then have "1 / 1024 \<le> fl (1 / 1000)"
    using fl_mono [of "1 / 1024" "1 / 1000"] by (simp add: power_int_def power_one_over)
  moreover have "fl (1 / 1000) \<le> 1" using binary64.rnd_le_int [of "1 / 1000" 1] by simp
  ultimately show ?thesis by (auto simp: to_num_def Let_def)
qed

text \<open>
  C39: Every bar of the usage chart fits its frame. For usage figures that are finite and not
  negative, the chart draws one bar per day and series, and the height of each bar, computed with
  the rounding of the browser's numbers, is a number of percent between 2 and 100, also when all
  figures are zero.
\<close>

theorem usage_bars_fit:
  assumes "\<forall>d \<in> set data. plain_amount (day_requests d) \<and> plain_amount (day_cost d)"
  shows "length (bar_heights (UsageChart t data)) = 2 * length data \<and>
    (\<forall>h \<in> set (bar_heights (UsageChart t data)). \<exists>p. h = Fin p \<and> 2 \<le> p \<and> p \<le> 100)"
proof -
  obtain b where b: "to_num (1 / 1000) = Fin b" "0 < b" using cost_floor by blast
  have req: "\<exists>p. bar_height (day_requests d) (max_requests data) = Fin p \<and> 2 \<le> p \<and> p \<le> 100"
    if "d \<in> set data" for d
    unfolding max_requests_def
    by (rule bar_of_series [of _ _ 1]) (use assms that is_number_int [of 1] in auto)
  have cost: "\<exists>p. bar_height (day_cost d) (max_cost data) = Fin p \<and> 2 \<le> p \<and> p \<le> 100"
    if "d \<in> set data" for d
    unfolding max_cost_def by (rule bar_of_series [OF _ _ b]) (use assms that in auto)
  have "\<exists>p. h = Fin p \<and> 2 \<le> p \<and> p \<le> 100" if "h \<in> set (bar_heights (UsageChart t data))" for h
    using that req cost by (auto simp: bar_heights_UsageChart)
  then show ?thesis by (simp add: bar_heights_UsageChart)
qed

definition sample_usage :: "DailyData list" where
  "sample_usage =
     [\<lparr>day_date = ''2025-06-01'', day_requests = Fin 0, day_tokens = Fin 0, day_cost = Fin 0\<rparr>,
      \<lparr>day_date = ''2025-06-02'', day_requests = Fin 12, day_tokens = Fin 340, day_cost = Fin 1\<rparr>]"

lemma usage_bars_fit_witness:
  "\<exists>p. hd (bar_heights (UsageChart (messagesMap En) sample_usage)) = Fin p \<and> 2 \<le> p \<and> p \<le> 100"
proof -
  have "\<forall>d \<in> set sample_usage. plain_amount (day_requests d) \<and> plain_amount (day_cost d)"
    using is_number_int [of 0] is_number_int [of 1] is_number_int [of 12]
    by (simp add: sample_usage_def plain_amount_def)
  note fit = usage_bars_fit [OF this, of "messagesMap En"]
  have "length sample_usage = 2" by (simp add: sample_usage_def)
  then have "bar_heights (UsageChart (messagesMap En) sample_usage) \<noteq> []"
    using conjunct1 [OF fit] by (metis list.size(3) mult_eq_0_iff zero_neq_numeral)
  then show ?thesis using fit hd_in_set by blast
qed

text \<open>
  The header offers what the session allows. Beside what a page adds to it, the events a user
  can raise in the header are: the other theme once the theme is known, either language, and the
  logout exactly when logged in; the link to the dashboard is there exactly when logged in, and
  the link to the login page exactly when not.
\<close>

theorem header_offers:
  assumes "trailing p = []"
  shows "events_of (SiteHeader s t p) =
      (if sh_mounted s then [ClickTheme (next_theme (sh_theme s))] else []) @
      [ClickLocale En, ClickLocale ZhCN] @ (if sh_logged_in s then [ClickLogout] else []) \<and>
    map (attr_of ''href'') (by_tag ''a'' (SiteHeader s t p)) =
      map (\<lambda>u. Some (AStr u))
        ([''/'', ''/models'', ''/playground'', ''/docs'', ''/calculator''] @
         [if sh_logged_in s then ''/dashboard'' else ''/login''])"
  using assms
  by (cases "sh_logged_in s"; cases "sh_mounted s"; cases "adminBadge p"; cases "balance p")
     (simp_all add: SiteHeader_def nav_link_def PreferencesBar_def ThemeToggle_def LocaleSwitcher_def
        LOCALES_def Let_def)

lemma header_offers_witness:
  "ClickLogout \<in> set (events_of (SiteHeader \<lparr>sh_mounted = False, sh_theme = None, sh_locale = En, sh_logged_in = True\<rparr>
     (messagesMap En) no_props))"
  using header_offers [of no_props] by (simp add: no_props_def)

end
