(* ===== verification/JsSort.thy ===== *)
theory JsSort
  imports JsArith "HOL-Library.Multiset"
begin

text \<open>
  \<open>Array.prototype.sort\<close> with a comparator. ECMA-262 fixes its result only for a consistent
  comparator: the stable sorted permutation of the array. \<open>sort_by\<close> computes that permutation
  from the relation "the comparator does not put \<open>x\<close> after \<open>y\<close>"; the locale
  \<open>comparator\<close> states consistency on the values that occur and derives what callers use.
\<close>

fun insert_by :: "('a \<Rightarrow> 'a \<Rightarrow> bool) \<Rightarrow> 'a \<Rightarrow> 'a list \<Rightarrow> 'a list" where
  "insert_by le x [] = [x]"
| "insert_by le x (y # ys) = (if le x y then x # y # ys else y # insert_by le x ys)"

definition sort_by :: "('a \<Rightarrow> 'a \<Rightarrow> bool) \<Rightarrow> 'a list \<Rightarrow> 'a list" where
  "sort_by le xs = foldr (insert_by le) xs []"

text \<open>A numeric comparator \<open>(a, b) => d\<close> puts \<open>a\<close> after \<open>b\<close> when \<open>d > 0\<close>; NaN counts as 0.\<close>

definition not_after :: "jsnum \<Rightarrow> bool" where
  "not_after d \<longleftrightarrow> \<not> num_less (Fin 0) d"

lemma sort_by_simps [simp]:
  "sort_by le [] = []" "sort_by le (x # xs) = insert_by le x (sort_by le xs)"
  by (simp_all add: sort_by_def)

lemma mset_insert_by [simp]: "mset (insert_by le x xs) = add_mset x (mset xs)"
  by (induction xs) auto

lemma mset_sort_by [simp]: "mset (sort_by le xs) = mset xs"
  by (induction xs) auto

lemma set_insert_by [simp]: "set (insert_by le x xs) = insert x (set xs)"
  by (induction xs) auto

lemma set_sort_by [simp]: "set (sort_by le xs) = set xs"
  by (induction xs) auto

lemma length_sort_by [simp]: "length (sort_by le xs) = length xs"
  by (metis mset_sort_by size_mset)

text \<open>
  A contract for a comparator on the values that satisfy \<open>ok\<close>: a total preorder.
\<close>

locale comparator =
  fixes le :: "'a \<Rightarrow> 'a \<Rightarrow> bool"
    and ok :: "'a \<Rightarrow> bool"
  assumes le_total: "ok x \<Longrightarrow> ok y \<Longrightarrow> le x y \<or> le y x"
    and le_trans: "ok x \<Longrightarrow> ok y \<Longrightarrow> ok z \<Longrightarrow> le x y \<Longrightarrow> le y z \<Longrightarrow> le x z"
begin

lemma le_refl: "ok x \<Longrightarrow> le x x"
  using le_total by blast

lemma sorted_insert_by:
  assumes "\<forall>y \<in> set (x # ys). ok y" "sorted_wrt le ys"
  shows "sorted_wrt le (insert_by le x ys)"
  using assms
proof (induction ys)
  case (Cons y ys)
  show ?case
  proof (cases "le x y")
    case True
    then show ?thesis using Cons.prems le_trans [of x y] by auto
  next
    case False
    then have "le y x" using le_total [of x y] Cons.prems by auto
    then show ?thesis using False Cons by auto
  qed
qed simp

lemma sorted_sort_by:
  assumes "\<forall>x \<in> set xs. ok x"
  shows "sorted_wrt le (sort_by le xs)"
  using assms by (induction xs) (simp_all add: sorted_insert_by)

text \<open>Stability: elements that compare equal keep their order.\<close>

lemma filter_insert_by:
  assumes "\<forall>y \<in> set ys. ok y" "ok x" "ok z" "sorted_wrt le ys"
  shows "filter (\<lambda>y. le z y \<and> le y z) (insert_by le x ys) =
         filter (\<lambda>y. le z y \<and> le y z) (x # ys)"
  using assms
proof (induction ys)
  case (Cons y ys)
  show ?case
  proof (cases "le x y")
    case False
    then have yx: "le y x" using le_total [of x y] Cons.prems by auto
    have "\<not> (le z x \<and> le x z) \<or> \<not> (le z y \<and> le y z)"
    proof (rule ccontr)
      assume "\<not> ?thesis"
      then have "le x y" using le_trans [of x z y] Cons.prems by auto
      then show False using False by simp
    qed
    then show ?thesis using False Cons by auto
  qed simp
qed simp

lemma stable_sort_by:
  assumes "\<forall>x \<in> set xs. ok x" "ok z"
  shows "filter (\<lambda>y. le z y \<and> le y z) (sort_by le xs) = filter (\<lambda>y. le z y \<and> le y z) xs"
  using assms
proof (induction xs)
  case (Cons x xs)
  have "filter (\<lambda>y. le z y \<and> le y z) (insert_by le x (sort_by le xs)) =
      filter (\<lambda>y. le z y \<and> le y z) (x # sort_by le xs)"
    using Cons.prems by (intro filter_insert_by) (auto intro: sorted_sort_by)
  then show ?case using Cons by simp
qed simp

lemma hd_sort_by_least:
  assumes "\<forall>x \<in> set xs. ok x" "x \<in> set xs"
  shows "le (hd (sort_by le xs)) x"
proof -
  obtain h t where ht: "sort_by le xs = h # t"
    using assms(2) by (cases "sort_by le xs") (auto simp flip: set_sort_by [of le xs])
  have "x \<in> set (h # t)" using assms(2) set_sort_by [of le xs] ht by simp
  moreover have "h \<in> set xs" using set_sort_by [of le xs] ht by auto
  ultimately show ?thesis
    using sorted_sort_by [OF assms(1)] ht le_refl assms(1) by auto
qed

end

section \<open>The comparators of the client\<close>

text \<open>\<open>(a, b) => key(a) - key(b)\<close> on numbers that are not NaN.\<close>

lemma not_after_minus:
  assumes "is_number a" "is_number b" "a \<noteq> NaN" "b \<noteq> NaN"
  shows "not_after (num_add a (num_neg b)) \<longleftrightarrow> num_le a b"
proof (cases "\<exists>x y. a = Fin x \<and> b = Fin y")
  case True
  then obtain x y where xy: "a = Fin x" "b = Fin y" by blast
  have gap: "fl (x - y) \<le> 0 \<longleftrightarrow> x \<le> y"
  proof
    assume "x \<le> y"
    then show "fl (x - y) \<le> 0" by (simp add: binary64.rnd_nonpos)
  next
    assume le: "fl (x - y) \<le> 0"
    show "x \<le> y"
    proof (rule ccontr)
      assume "\<not> x \<le> y"
      then show False using fl_sub_pos [of x y] xy assms le by simp
    qed
  qed
  then show ?thesis using xy
    by (auto simp: not_after_def to_num_def Let_def)
next
  case False
  then show ?thesis using assms
    by (cases a; cases b) (auto simp: not_after_def)
qed

end
