(* ===== verification/ModelsPage.thy ===== *)
theory ModelsPage
  imports Components JsSort
begin

text \<open>
  The model marketplace (\<open>web/src/app/models/page.tsx\<close>): the catalog rows and the vendor
  colours, which the home page and the calculator declare alike, the page's state and events,
  the filters and the view.
\<close>

section \<open>Catalog rows\<close>

record ModelInfo =
  mi_id :: string
  mi_vendor :: string
  mi_input_price :: jsnum
  mi_output_price :: jsnum
  mi_max_tokens :: jsnum
  mi_stream :: bool
  mi_tools :: bool
  mi_vision :: bool

definition VENDOR_COLORS :: "string \<rightharpoonup> string" where
  "VENDOR_COLORS = map_of
     [(''Anthropic'', ''#d97706''), (''Google'', ''#2563eb''), (''OpenAI'', ''#10b981''),
      (''DeepSeek'', ''#8b5cf6''), (''Alibaba'', ''#ff6a00''), (''Meta'', ''#1877f2''),
      (''Mistral'', ''#f43f5e'')]"

definition getVendor :: "ModelInfo \<Rightarrow> string" where
  "getVendor m = str_or (mi_vendor m) ''Other''"

definition getVendorColor :: "string \<Rightarrow> string" where
  "getVendorColor vendor =
     (case VENDOR_COLORS vendor of Some c \<Rightarrow> str_or c ''#737373'' | None \<Rightarrow> ''#737373'')"

section \<open>State and events\<close>

record models_page =
  mp_models :: "ModelInfo list"
  mp_loading :: bool
  mp_search :: string
  mp_vendorFilter :: string
  mp_capFilter :: string

definition models_init :: models_page where
  "models_init = \<lparr>mp_models = [], mp_loading = True, mp_search = [],
     mp_vendorFilter = ''all'', mp_capFilter = ''all''\<rparr>"

text \<open>\<open>CatalogSettled r\<close>: \<open>getModelCatalog\<close> settles; its payload is \<open>data.models\<close>, if present.\<close>

datatype models_event =
    CatalogSettled "ModelInfo list option jsresult"
  | SetSearch string
  | SetVendorFilter string
  | SetCapFilter string
  | ModelsHeader header_event

definition models_or_empty :: "'a list option \<Rightarrow> 'a list" where
  "models_or_empty v = (case v of Some ms \<Rightarrow> ms | None \<Rightarrow> [])"

definition models_loadModels :: "ModelInfo list option jsresult \<Rightarrow> models_page \<Rightarrow> models_page" where
  "models_loadModels r s =
     (case r of
        Inr data \<Rightarrow> s\<lparr>mp_models := models_or_empty data, mp_loading := False\<rparr>
      | Inl _ \<Rightarrow> s\<lparr>mp_loading := False\<rparr>)"

fun models_step :: "models_event \<Rightarrow> models_page \<Rightarrow> models_page" where
  "models_step (CatalogSettled r) s = models_loadModels r s"
| "models_step (SetSearch v) s = s\<lparr>mp_search := v\<rparr>"
| "models_step (SetVendorFilter v) s = s\<lparr>mp_vendorFilter := v\<rparr>"
| "models_step (SetCapFilter v) s = s\<lparr>mp_capFilter := v\<rparr>"
| "models_step (ModelsHeader h) s = s"

section \<open>Derived values\<close>

definition vendors :: "models_page \<Rightarrow> string list" where
  "vendors s = sort (remdups (map getVendor (mp_models s)))"

definition model_matches :: "string \<Rightarrow> string \<Rightarrow> string \<Rightarrow> ModelInfo \<Rightarrow> bool" where
  "model_matches search vendorFilter capFilter m =
     (if search \<noteq> [] \<and> \<not> str_includes (toLowerCase (mi_id m)) (toLowerCase search) then False
      else if vendorFilter \<noteq> ''all'' \<and> getVendor m \<noteq> vendorFilter then False
      else if capFilter = ''vision'' \<and> \<not> mi_vision m then False
      else if capFilter = ''tools'' \<and> \<not> mi_tools m then False
      else if capFilter = ''stream'' \<and> \<not> mi_stream m then False
      else True)"

definition filtered :: "models_page \<Rightarrow> ModelInfo list" where
  "filtered s =
     filter (model_matches (mp_search s) (mp_vendorFilter s) (mp_capFilter s)) (mp_models s)"

definition models_subtitle :: "messages \<Rightarrow> models_page \<Rightarrow> string" where
  "models_subtitle t s =
     replace_first
       (replace_first (tr t ''models.subtitle'') ''{count}''
          (int_to_string (int (length (mp_models s)))))
       ''{vendors}'' (int_to_string (int (length (vendors s))))"

section \<open>View\<close>

definition filters_bar :: "messages \<Rightarrow> models_page \<Rightarrow> models_event node" where
  "filters_bar t s =
     el ''div''
       [Elem ''input''
          [(''type'', AStr ''text''), (''placeholder'', AStr (tr t ''models.searchPlaceholder'')),
           (''value'', AStr (mp_search s)), (''onChange'', OnValue SetSearch)] [],
        Elem ''select''
          [(''value'', AStr (mp_vendorFilter s)), (''onChange'', OnValue SetVendorFilter)]
          (Elem ''option'' [(''value'', AStr ''all'')] [Text (tr t ''models.allVendors'')]
           # map (\<lambda>v. Elem ''option'' [(''key'', AStr v), (''value'', AStr v)] [Text v]) (vendors s)),
        Elem ''select''
          [(''value'', AStr (mp_capFilter s)), (''onChange'', OnValue SetCapFilter)]
          [Elem ''option'' [(''value'', AStr ''all'')] [Text (tr t ''models.allCapabilities'')],
           Elem ''option'' [(''value'', AStr ''vision'')] [Text (tr t ''models.vision'')],
           Elem ''option'' [(''value'', AStr ''tools'')] [Text (tr t ''models.tools'')],
           Elem ''option'' [(''value'', AStr ''stream'')] [Text (tr t ''models.streaming'')]]]"

definition max_tokens_label :: "jsnum \<Rightarrow> string" where
  "max_tokens_label n =
     (if num_le (Fin 1000) n then toFixed 0 (n / Fin 1000) @ ''K'' else num_to_string n)"

definition vendor_badge :: "string \<Rightarrow> 'e node" where
  "vendor_badge vendor =
     (let color = getVendorColor vendor in
      Elem ''span''
        [(''style.background'', AStr (color @ ''20'')), (''style.color'', AStr color),
         (''style.border'', AStr (''1px solid '' @ color @ ''40''))]
        [Text vendor])"

definition price_cell :: "string \<Rightarrow> jsnum \<Rightarrow> 'e node" where
  "price_cell label p =
     el ''div''
       [el ''div'' [Text label], el ''div'' [Text (''$'' @ toFixed 2 p), el ''span'' [Text '' /1M'']]]"

definition model_card :: "messages \<Rightarrow> ModelInfo \<Rightarrow> 'e node" where
  "model_card t m =
     Elem ''div'' [(''key'', AStr (mi_id m))]
       [el ''div'' [el ''h3'' [Text (mi_id m)], vendor_badge (getVendor m)],
        el ''div''
          [price_cell (tr t ''models.input'') (mi_input_price m),
           price_cell (tr t ''models.output'') (mi_output_price m),
           el ''div''
             [el ''div'' [Text (tr t ''models.maxTokens'')],
              el ''div'' [Text (max_tokens_label (mi_max_tokens m))]]],
        el ''div''
          (cond_nodes (mi_stream m) [el ''span'' [Text (tr t ''models.streaming'')]]
           @ cond_nodes (mi_tools m) [el ''span'' [Text (tr t ''models.tools'')]]
           @ cond_nodes (mi_vision m) [el ''span'' [Text (tr t ''models.vision'')]])]"

definition example_model :: "models_page \<Rightarrow> string" where
  "example_model s =
     str_or (case filtered s of m # _ \<Rightarrow> mi_id m | [] \<Rightarrow> []) ''claude-sonnet-4-6''"

definition quick_start :: "models_page \<Rightarrow> string" where
  "quick_start s =
     ''curl https://your-domain.com/v1/chat/completions '' @ [backslash] @ ''\<newline>''
     @ ''  -H '' @ [dquote] @ ''Authorization: Bearer YOUR_API_KEY'' @ [dquote] @ '' '' @ [backslash] @ ''\<newline>''
     @ ''  -H '' @ [dquote] @ ''Content-Type: application/json'' @ [dquote] @ '' '' @ [backslash] @ ''\<newline>''
     @ ''  -d '' @ [CHR 0x27] @ ''{\<newline>    '' @ [dquote] @ ''model'' @ [dquote] @ '': ''
     @ [dquote] @ example_model s @ [dquote] @ '',\<newline>    '' @ [dquote] @ ''messages'' @ [dquote]
     @ '': [{'' @ [dquote] @ ''role'' @ [dquote] @ '': '' @ [dquote] @ ''user'' @ [dquote] @ '', ''
     @ [dquote] @ ''content'' @ [dquote] @ '': '' @ [dquote] @ ''Hello!'' @ [dquote] @ ''}]\<newline>  }''
     @ [CHR 0x27]"

definition models_grid :: "messages \<Rightarrow> models_page \<Rightarrow> 'e node" where
  "models_grid t s =
     (if mp_loading s then el ''div'' [Text (tr t ''models.loading'')]
      else if filtered s = [] then el ''div'' [Text (tr t ''models.noResults'')]
      else el ''div'' (map (model_card t) (filtered s)))"

definition ModelsPage_view :: "shell \<Rightarrow> messages \<Rightarrow> models_page \<Rightarrow> models_event node" where
  "ModelsPage_view sh t s =
     el ''div''
       [map_node ModelsHeader (SiteHeader sh t (no_props\<lparr>activeNav := Some NavModels\<rparr>)),
        el ''div''
          [el ''div'' [el ''h2'' [Text (tr t ''models.title'')], el ''p'' [Text (models_subtitle t s)]],
           filters_bar t s,
           models_grid t s,
           el ''div'' [el ''h3'' [Text (tr t ''models.quickStart'')], el ''pre'' [Text (quick_start s)]]]]"

section \<open>Lemmas\<close>

lemma vendors_props:
  "distinct (vendors s)" "sorted (vendors s)" "set (vendors s) = getVendor ` set (mp_models s)"
  by (simp_all add: vendors_def)

lemma model_matches_iff: "model_matches search vf cf = (\<lambda>m.
    sublist (toLowerCase search) (toLowerCase (mi_id m)) \<and> (vf = ''all'' \<or> getVendor m = vf) \<and>
    (cf = ''vision'' \<longrightarrow> mi_vision m) \<and> (cf = ''tools'' \<longrightarrow> mi_tools m) \<and>
    (cf = ''stream'' \<longrightarrow> mi_stream m))"
  by (rule ext) (auto simp: model_matches_def includes_iff_sublist toLowerCase_def)

text \<open>The classes of a list under a key, one per key, hold its elements as often as the list.\<close>

lemma mset_concat_classes:
  "distinct ks \<Longrightarrow> key ` set xs \<subseteq> set ks \<Longrightarrow>
     mset (concat (map (\<lambda>k. filter (\<lambda>x. key x = k) xs) ks)) = mset xs"
proof (induction xs)
  case Nil
  have "concat (map (\<lambda>k. filter (\<lambda>x. key x = k) []) ks) = []" by (rule concat_map_Nil) simp
  then show ?case by simp
next
  case (Cons x xs)
  have "mset (concat (map (\<lambda>k. filter (\<lambda>y. key y = k) (x # xs)) ks)) =
      mset (concat (map (\<lambda>k. filter (\<lambda>y. key y = k) xs) ks)) +
      mset (concat (map (\<lambda>k. if key x = k then [x] else []) ks))" for ks
    by (induction ks) auto
  moreover have "mset (concat (map (\<lambda>k. if key x = k then [x] else []) ks)) =
      (if key x \<in> set ks then {#x#} else {#})"
    using Cons.prems(1) by (induction ks) auto
  ultimately show ?case using Cons by simp
qed

definition choose_vendor :: "string \<Rightarrow> models_page \<Rightarrow> models_page" where
  "choose_vendor v s = run models_step [SetSearch [], SetCapFilter ''all'', SetVendorFilter v] s"

lemma filtered_choose_vendor:
  "v \<noteq> ''all'' \<Longrightarrow> filtered (choose_vendor v s) = filter (\<lambda>m. getVendor m = v) (mp_models s)"
  by (simp add: filtered_def choose_vendor_def model_matches_iff toLowerCase_def)

lemma option_values:
  "map (attr_of ''value'') (by_tag ''option'' (filters_bar t s)) =
     map (\<lambda>v. Some (AStr v)) (''all'' # vendors s @ [''all'', ''vision'', ''tools'', ''stream''])"
  by (simp add: filters_bar_def concat_map_single attr_of_def o_def)

section \<open>Properties\<close>

text \<open>
  C32: The vendor menu partitions the catalog. The menu lists "all" and then every vendor that
  has a model (none of them called "all"), once each and in order; with the other filters cleared, choosing one of them shows
  at least one card, and the cards of all the choices together are the catalog, every model
  counted as often as the catalog has it.
\<close>

theorem vendor_menu_partitions:
  assumes "\<forall>m \<in> set (mp_models s). getVendor m \<noteq> ''all''"
  shows "take (Suc (length (vendors s))) (map (attr_of ''value'') (by_tag ''option'' (filters_bar t s))) =
      map (\<lambda>v. Some (AStr v)) (''all'' # vendors s) \<and>
    sorted_wrt (<) (vendors s) \<and>
    (\<forall>v \<in> set (vendors s). filtered (choose_vendor v s) \<noteq> []) \<and>
    mset (concat (map (\<lambda>v. filtered (choose_vendor v s)) (vendors s))) = mset (mp_models s)"
proof -
  have not_all: "v \<noteq> ''all''" if "v \<in> set (vendors s)" for v
    using that assms by (auto simp: vendors_props)
  have eq: "map (\<lambda>v. filtered (choose_vendor v s)) (vendors s) =
      map (\<lambda>v. filter (\<lambda>m. getVendor m = v) (mp_models s)) (vendors s)"
    by (rule map_cong) (simp_all add: filtered_choose_vendor not_all)
  have "mset (concat (map (\<lambda>v. filtered (choose_vendor v s)) (vendors s))) = mset (mp_models s)"
    unfolding eq by (rule mset_concat_classes) (simp_all add: vendors_props)
  moreover have "filtered (choose_vendor v s) \<noteq> []" if "v \<in> set (vendors s)" for v
    using that by (auto simp: filtered_choose_vendor not_all filter_empty_conv vendors_props)
  moreover have "sorted_wrt (<) (vendors s)"
    using vendors_props [of s] by (simp add: strict_sorted_iff)
  ultimately show ?thesis by (simp add: option_values)
qed

definition catalog_example :: "ModelInfo list" where
  "catalog_example =
     [\<lparr>mi_id = ''claude-sonnet-4-6'', mi_vendor = ''Anthropic'', mi_input_price = Fin 3,
       mi_output_price = Fin 15, mi_max_tokens = Fin 200000, mi_stream = True, mi_tools = True,
       mi_vision = True\<rparr>,
      \<lparr>mi_id = ''local'', mi_vendor = [], mi_input_price = Fin 0, mi_output_price = Fin 0,
       mi_max_tokens = Fin 512, mi_stream = True, mi_tools = False, mi_vision = False\<rparr>]"

lemma vendor_menu_partitions_witness:
  "mset (concat (map (\<lambda>v. filtered (choose_vendor v (models_init\<lparr>mp_models := catalog_example\<rparr>)))
      (vendors (models_init\<lparr>mp_models := catalog_example\<rparr>)))) = mset catalog_example"
proof -
  have "\<forall>m \<in> set (mp_models (models_init\<lparr>mp_models := catalog_example\<rparr>)). getVendor m \<noteq> ''all''"
    by (simp add: catalog_example_def getVendor_def str_or_def)
  from vendor_menu_partitions [OF this] show ?thesis by simp
qed

text \<open>
  The subtitle of the marketplace is complete in both languages: it shows the number of
  models and then the number of different vendors, and no placeholder of the message is left.
\<close>

theorem subtitle_complete:
  "\<exists>a b c. models_subtitle (messagesMap l) s =
       a @ nat_to_string (length (mp_models s)) @ b
         @ nat_to_string (card (getVendor ` set (mp_models s))) @ c \<and>
     CHR ''{'' \<notin> set (models_subtitle (messagesMap l) s)"
proof -
  obtain a b c where msg: "tr (messagesMap l) ''models.subtitle'' = a @ ''{count}'' @ b @ ''{vendors}'' @ c"
      "CHR ''{'' \<notin> set a" "CHR ''{'' \<notin> set b" "CHR ''{'' \<notin> set c"
  proof (cases l)
    case En
    have "tr (messagesMap En) ''models.subtitle'' =
        [] @ ''{count}'' @ '' models available across '' @ ''{vendors}''
          @ '' vendors. All accessible via a single OpenAI-compatible API.''"
      by (simp add: tr_def messagesMap_def catalog_models section_of_def en_models_def)
    then show ?thesis
      using that [of "[]" "'' models available across ''"
          "'' vendors. All accessible via a single OpenAI-compatible API.''"] En
      by simp
  next
    case ZhCN
    have zh: "tr (messagesMap ZhCN) ''models.subtitle'' =
        (cp [0x5171] @ '' '') @ ''{count}'' @ ('' '' @ cp [0x4E2A, 0x6A21, 0x578B, 0x3001]) @ ''{vendors}''
          @ ('' '' @ cp [0x5BB6, 0x5382, 0x5546, 0xFF0C, 0x5747, 0x53EF, 0x901A, 0x8FC7, 0x7EDF, 0x4E00,
               0x7684] @ '' OpenAI '' @ cp [0x517C, 0x5BB9] @ '' API '' @ cp [0x8BBF, 0x95EE, 0x3002])"
      by (simp add: tr_def messagesMap_def catalog_models section_of_def zh_models_def)
    have z: "CHR ''{'' \<notin> set (cp [0x5171] @ '' '')"
      "CHR ''{'' \<notin> set ('' '' @ cp [0x4E2A, 0x6A21, 0x578B, 0x3001])"
      "CHR ''{'' \<notin> set ('' '' @ cp [0x5BB6, 0x5382, 0x5546, 0xFF0C, 0x5747, 0x53EF, 0x901A, 0x8FC7,
         0x7EDF, 0x4E00, 0x7684] @ '' OpenAI '' @ cp [0x517C, 0x5BB9] @ '' API '' @ cp [0x8BBF, 0x95EE, 0x3002])"
      by (simp_all add: cp_beyond_ascii)
    show ?thesis by (rule that [OF zh [folded ZhCN] z])
  qed
  have no: "CHR ''{'' \<notin> set (nat_to_string n)" for n
    using nat_to_string_digits [of "CHR ''{''" n] by (auto simp: is_digit_def)
  have its: "int_to_string (int n) = nat_to_string n" for n by (simp add: int_to_string_def)
  have len: "length (vendors s) = card (getVendor ` set (mp_models s))"
    by (metis distinct_card vendors_props(1,3))
  let ?n = "nat_to_string (length (mp_models s))"
  let ?k = "nat_to_string (card (getVendor ` set (mp_models s)))"
  have 1: "replace_first (tr (messagesMap l) ''models.subtitle'') ''{count}'' ?n = a @ ?n @ b @ ''{vendors}'' @ c"
    unfolding msg(1) using msg(2) by (rule replace_first_at)
  have "replace_first ((a @ ?n @ b) @ ''{vendors}'' @ c) ''{vendors}'' ?k = (a @ ?n @ b) @ ?k @ c"
    using msg no by (intro replace_first_at) auto
  then have "models_subtitle (messagesMap l) s = a @ ?n @ b @ ?k @ c"
    by (simp add: models_subtitle_def its len 1)
  then show ?thesis using msg no by auto
qed

text \<open>
  However the page's events interleave, the grid stops loading as soon as the catalog call
  settles, also when it fails, and from then on it shows the cards of the models that match the
  three filters, in catalog order, or the notice that nothing matches.
\<close>

theorem grid_after_settlement:
  fixes es :: "models_event list"
  defines "s \<equiv> run models_step es models_init"
  assumes "CatalogSettled r \<in> set es"
  shows "models_grid t s =
     (let ms = filter (\<lambda>m. sublist (toLowerCase (mp_search s)) (toLowerCase (mi_id m)) \<and>
             (mp_vendorFilter s = ''all'' \<or> getVendor m = mp_vendorFilter s) \<and>
             (mp_capFilter s = ''vision'' \<longrightarrow> mi_vision m) \<and>
             (mp_capFilter s = ''tools'' \<longrightarrow> mi_tools m) \<and>
             (mp_capFilter s = ''stream'' \<longrightarrow> mi_stream m)) (mp_models s)
      in if ms = [] then el ''div'' [Text (tr t ''models.noResults'')]
         else el ''div'' (map (model_card t) ms))"
proof -
  have "\<not> mp_loading (run models_step es s0)" if "CatalogSettled r \<in> set es \<or> \<not> mp_loading s0" for s0
    using that
  proof (induction es arbitrary: s0)
    case (Cons e es)
    then show ?case by (cases e) (auto simp: models_loadModels_def split: sum.splits)
  qed simp
  then have "\<not> mp_loading s" using assms by simp
  then show ?thesis by (simp add: models_grid_def filtered_def model_matches_iff Let_def)
qed

lemma grid_after_settlement_witness:
  "models_grid (messagesMap En) (run models_step [SetSearch ''LOC'', CatalogSettled (Ok (Some catalog_example))] models_init) =
     el ''div'' [model_card (messagesMap En) (catalog_example ! 1)]"
proof -
  have "\<not> sublist ''loc'' ''claude-sonnet-4-6''" "sublist ''loc'' ''local''"
    by (simp_all flip: includes_iff_sublist)
  moreover have "toLowerCase ''LOC'' = ''loc''" "toLowerCase ''local'' = ''local''"
    "toLowerCase ''claude-sonnet-4-6'' = ''claude-sonnet-4-6''"
    by code_simp+
  ultimately show ?thesis
    using grid_after_settlement [of "Ok (Some catalog_example)"
        "[SetSearch ''LOC'', CatalogSettled (Ok (Some catalog_example))]" "messagesMap En"]
    by (simp add: models_init_def models_loadModels_def models_or_empty_def catalog_example_def Let_def)
qed

end
