(* ===== verification/FormatAccuracy.thy ===== *)
theory FormatAccuracy
  imports JsonRoundtrip
begin

text \<open>
  How accurate \<open>toFixed\<close> and \<open>toExponential\<close> are: the text they print is read back by the
  decimal parser, and the value it denotes is compared with the number printed.
\<close>

section \<open>Reading back placed digits\<close>

lemma place_point_parts:
  obtains ip fp where
    "place_point f m = ip @ (if f = 0 then [] else CHR ''.'' # fp)"
    "list_all is_digit ip" "list_all is_digit fp" "ip \<noteq> []" "length fp = f"
    "digits_to_nat (ip @ fp) = m"
proof (cases "f = 0")
  case True
  show ?thesis
    by (rule that [of "nat_to_string m" "[]"]) (simp_all add: True place_point_def all_digits_nat)
next
  case False
  define s where "s = pad_left (Suc f) (nat_to_string m)"
  have digits: "list_all is_digit s" and len: "f < length s" and val: "digits_to_nat s = m"
    using all_digits_nat [of m] is_digit_char [of 0]
    by (auto simp: s_def pad_left_def list_all_iff digit_char_0)
  have parts: "list_all is_digit (take k s)" "list_all is_digit (drop k s)" for k
    using digits by (auto simp: list_all_iff dest: in_set_takeD in_set_dropD)
  show ?thesis
    by (rule that [of "take (length s - f) s" "drop (length s - f) s"])
       (use False len val parts in \<open>auto simp: place_point_def s_def [symmetric] Let_def\<close>)
qed

definition stops_digits :: "string \<Rightarrow> bool" where
  "stops_digits s \<longleftrightarrow> s = [] \<or> (\<not> is_digit (hd s) \<and> hd s \<noteq> CHR ''.'')"

lemma span_digits_append:
  assumes "list_all is_digit ds" "r = [] \<or> \<not> is_digit (hd r)"
  shows "span_digits (ds @ r) = (ds, r)"
  using assms
  by (cases r) (auto simp: span_digits_def list_all_iff takeWhile_append dropWhile_append)

lemma dot_not_digit [simp]: "\<not> is_digit (CHR ''.'')"
  by (simp add: is_digit_def)

lemma parse_place_point:
  assumes "stops_digits s"
  shows "parse_decimal (place_point f m @ s) =
      map_option (\<lambda>e. of_nat m * 10 powi (e - int f)) (parse_exponent s)"
proof -
  obtain ip fp where parts: "place_point f m = ip @ (if f = 0 then [] else CHR ''.'' # fp)"
      "list_all is_digit ip" "list_all is_digit fp" "ip \<noteq> []" "length fp = f"
      "digits_to_nat (ip @ fp) = m"
    by (rule place_point_parts)
  have s: "s = [] \<or> \<not> is_digit (hd s)" using assms by (auto simp: stops_digits_def)
  show ?thesis
  proof (cases "f = 0")
    case True
    then show ?thesis using parts s assms span_digits_append [of ip s]
      by (auto simp: parse_decimal_def stops_digits_def)
  next
    case False
    then show ?thesis
      using parts span_digits_append [of ip "CHR ''.'' # fp @ s"] span_digits_append [OF parts(3) s]
      by (simp add: parse_decimal_def)
  qed
qed

lemma parse_exp_suffix: "parse_exponent (exp_suffix e) = Some e"
  using all_digits_nat [of "nat \<bar>e\<bar>"] by (simp add: parse_exponent_def exp_suffix_def)

lemma stops_exp_suffix [simp]: "stops_digits (exp_suffix e)"
  by (simp add: stops_digits_def exp_suffix_def is_digit_def)

section \<open>toFixed\<close>

lemma toFixed_reads:
  assumes "0 \<le> x" "x < 10 ^ 21"
  shows "parse_decimal (toFixed f (Fin x)) = Some (of_int (fixed_units f x) / 10 ^ f)"
proof -
  have u: "0 \<le> fixed_units f x" using assms by (simp add: fixed_units_def)
  have "parse_decimal (place_point f (nat (fixed_units f x)) @ []) =
      Some (of_nat (nat (fixed_units f x)) * 10 powi (0 - int f))"
    by (subst parse_place_point) (simp_all add: stops_digits_def parse_exponent_def)
  then show ?thesis using assms u by (simp add: toFixed_def power_int_minus field_simps)
qed

lemma fixed_units_error: "\<bar>of_int (fixed_units f x) / 10 ^ f - x\<bar> \<le> 1 / 2 / 10 ^ f"
proof -
  have "\<bar>of_int (fixed_units f x) - x * 10 ^ f\<bar> \<le> 1 / 2"
    unfolding fixed_units_def by linarith
  then have "\<bar>of_int (fixed_units f x) - x * 10 ^ f\<bar> / 10 ^ f \<le> 1 / 2 / 10 ^ f"
    by (rule divide_right_mono) simp
  moreover have "of_int (fixed_units f x) / 10 ^ f - x = (of_int (fixed_units f x) - x * 10 ^ f) / 10 ^ f"
    by (simp add: field_simps)
  ultimately show ?thesis by simp
qed

section \<open>toExponential\<close>

lemma sci_parts_value:
  assumes "0 < x" "sci_parts f x = (e, n)"
  shows "0 \<le> n" "\<bar>of_int n * 10 powi (e - int f) - x\<bar> \<le> 1 / 2 * 10 powi (ilog 10 x - int f)"
proof -
  define i where "i = ilog 10 x"
  define N where "N = \<lfloor>x * 10 powi (int f - i) + 1/2\<rfloor>"
  have p: "(0::rat) < 10 powi (i - int f)" by simp
  have inv: "(10::rat) powi (int f - i) * 10 powi (i - int f) = 1"
    by (simp flip: power_int_add)
  have val: "of_int n * (10::rat) powi (e - int f) = of_int N * 10 powi (i - int f)"
  proof (cases "N = 10 ^ Suc f")
    case True
    then have en: "e = i + 1" "n = 10 ^ f" using assms(2) by (simp_all add: sci_parts_def Let_def N_def i_def)
    have "(10::rat) powi (i + 1 - int f) = 10 powi (i - int f) * 10"
      using powi_Suc [of 10 "i - int f"] by (simp add: algebra_simps)
    then show ?thesis using True en by simp
  next
    case False
    then show ?thesis using assms(2) by (auto simp: sci_parts_def Let_def N_def i_def)
  qed
  have "0 \<le> N" using assms(1) by (simp add: N_def)
  then show "0 \<le> n" using assms(2) by (auto simp: sci_parts_def Let_def N_def i_def split: if_splits)
  have "\<bar>of_int N - x * 10 powi (int f - i)\<bar> \<le> 1 / 2" unfolding N_def by linarith
  then have "\<bar>of_int N - x * 10 powi (int f - i)\<bar> * 10 powi (i - int f) \<le> 1 / 2 * 10 powi (i - int f)"
    using p by (intro mult_right_mono) auto
  moreover have "\<bar>of_int N * 10 powi (i - int f) - x\<bar> =
      \<bar>of_int N - x * 10 powi (int f - i)\<bar> * 10 powi (i - int f)"
  proof -
    have "of_int N * 10 powi (i - int f) - x =
        (of_int N - x * 10 powi (int f - i)) * 10 powi (i - int f)"
      using inv by (simp add: left_diff_distrib mult.assoc)
    then show ?thesis using p by (simp add: abs_mult)
  qed
  ultimately show "\<bar>of_int n * 10 powi (e - int f) - x\<bar> \<le> 1 / 2 * 10 powi (ilog 10 x - int f)"
    using val by (simp add: i_def)
qed

lemma toExponential_reads:
  assumes "0 < x"
  obtains v where "parse_decimal (toExponential f (Fin x)) = Some v"
    "\<bar>v - x\<bar> \<le> 1 / 2 * x / 10 ^ f"
proof -
  obtain e n where en: "sci_parts f x = (e, n)" by fastforce
  note V = sci_parts_value [OF assms en]
  have pr: "parse_decimal (toExponential f (Fin x)) = Some (of_int n * 10 powi (e - int f))"
    using assms V(1) by (simp add: toExponential_def sci_string_def en parse_place_point parse_exp_suffix)
  have "(10::rat) powi ilog 10 x \<le> x" using ilog_bounds [of 10 x] assms by simp
  then have "1 / 2 * (10::rat) powi (ilog 10 x - int f) \<le> 1 / 2 * x / 10 ^ f"
    by (simp add: power_int_diff divide_right_mono)
  then show ?thesis using that [OF pr] V(2) by linarith
qed

end
