(* ===== verification/CalculatorPage.thy ===== *)
theory CalculatorPage
  imports ModelsPage FormatAccuracy
begin

text \<open>
  The cost calculator (\<open>web/src/app/calculator/page.tsx\<close>): cost arithmetic on binary64
  numbers, the display of a cost, the page's state and events, the comparison table and the view.
\<close>

section \<open>Cost arithmetic\<close>

definition calculator_VENDOR_COLORS :: "string \<rightharpoonup> string" where
  "calculator_VENDOR_COLORS = map_of
     [(''Anthropic'', ''#d97706''), (''Google'', ''#2563eb''), (''OpenAI'', ''#10b981''),
      (''DeepSeek'', ''#8b5cf6''), (''Alibaba'', ''#ff6a00''), (''Meta'', ''#1877f2''),
      (''Mistral'', ''#f43f5e'')]"

definition calculator_getVendorColor :: "string \<Rightarrow> string" where
  "calculator_getVendorColor vendor =
     (case calculator_VENDOR_COLORS vendor of
        Some c \<Rightarrow> str_or c ''#737373'' | None \<Rightarrow> ''#737373'')"

definition calcCostPerRequest :: "ModelInfo \<Rightarrow> jsnum \<Rightarrow> jsnum \<Rightarrow> jsnum" where
  "calcCostPerRequest m inTokens outTokens =
     (inTokens / Fin 1000000) * mi_input_price m + (outTokens / Fin 1000000) * mi_output_price m"

definition formatCost :: "jsnum \<Rightarrow> string" where
  "formatCost cost =
     (if cost < to_num (1 / 10000) then ''$'' @ toExponential 2 cost
      else if cost < to_num (1 / 100) then ''$'' @ toFixed 6 cost
      else if cost < Fin 1 then ''$'' @ toFixed 4 cost
      else ''$'' @ toFixed 2 cost)"

section \<open>State and events\<close>

record calculator =
  calc_models :: "ModelInfo list"
  calc_loading :: bool
  selectedModelId :: string
  inputTokens :: jsnum
  outputTokens :: jsnum
  requestsPerDay :: jsnum

definition calculator_init :: calculator where
  "calculator_init = \<lparr>calc_models = [], calc_loading = True, selectedModelId = [],
     inputTokens = Fin 500, outputTokens = Fin 200, requestsPerDay = Fin 100\<rparr>"

datatype calculator_event =
    CalcCatalogSettled "ModelInfo list option jsresult"
  | SelectModel string
  | SetInputTokens string
  | SetOutputTokens string
  | SetRequestsPerDay string
  | CalculatorHeader header_event

definition calculator_loadModels :: "ModelInfo list option jsresult \<Rightarrow> calculator \<Rightarrow> calculator" where
  "calculator_loadModels r s =
     (case r of
        Inr data \<Rightarrow>
          (let models = models_or_empty data;
               s' = s\<lparr>calc_models := models\<rparr>;
               s'' = (case models of m # _ \<Rightarrow> s'\<lparr>selectedModelId := mi_id m\<rparr> | [] \<Rightarrow> s')
           in s''\<lparr>calc_loading := False\<rparr>)
      | Inl _ \<Rightarrow> s\<lparr>calc_loading := False\<rparr>)"

definition count_input :: "string \<Rightarrow> jsnum" where
  "count_input v = math_max (Fin 0) (js_Number v)"

fun calculator_step :: "calculator_event \<Rightarrow> calculator \<Rightarrow> calculator" where
  "calculator_step (CalcCatalogSettled r) s = calculator_loadModels r s"
| "calculator_step (SelectModel v) s = s\<lparr>selectedModelId := v\<rparr>"
| "calculator_step (SetInputTokens v) s = s\<lparr>inputTokens := count_input v\<rparr>"
| "calculator_step (SetOutputTokens v) s = s\<lparr>outputTokens := count_input v\<rparr>"
| "calculator_step (SetRequestsPerDay v) s = s\<lparr>requestsPerDay := count_input v\<rparr>"
| "calculator_step (CalculatorHeader h) s = s"

section \<open>Derived values\<close>

definition selectedModel :: "calculator \<Rightarrow> ModelInfo option" where
  "selectedModel s = List.find (\<lambda>m. mi_id m = selectedModelId s) (calc_models s)"

definition costPerRequest :: "calculator \<Rightarrow> jsnum" where
  "costPerRequest s =
     (case selectedModel s of
        Some m \<Rightarrow> calcCostPerRequest m (inputTokens s) (outputTokens s)
      | None \<Rightarrow> Fin 0)"

definition dailyCost :: "calculator \<Rightarrow> jsnum" where
  "dailyCost s = costPerRequest s * requestsPerDay s"

definition monthlyCost :: "calculator \<Rightarrow> jsnum" where
  "monthlyCost s = dailyCost s * Fin 30"

definition yearlyCost :: "calculator \<Rightarrow> jsnum" where
  "yearlyCost s = dailyCost s * Fin 365"

text \<open>The rows of the comparison: a model with its \<open>costPerReq\<close>.\<close>

definition cheaper :: "ModelInfo \<times> jsnum \<Rightarrow> ModelInfo \<times> jsnum \<Rightarrow> bool" where
  "cheaper a b = not_after (snd a - snd b)"

definition sortedModels :: "calculator \<Rightarrow> (ModelInfo \<times> jsnum) list" where
  "sortedModels s =
     sort_by cheaper
       (map (\<lambda>m. (m, calcCostPerRequest m (inputTokens s) (outputTokens s))) (calc_models s))"

section \<open>View\<close>

definition number_field :: "string \<Rightarrow> jsnum \<Rightarrow> (string \<Rightarrow> calculator_event) \<Rightarrow> calculator_event node" where
  "number_field label v onChange =
     el ''div''
       [el ''label'' [Text label],
        Elem ''input''
          [(''type'', AStr ''number''), (''min'', ANum (Fin 0)), (''value'', ANum v),
           (''onChange'', OnValue onChange)] []]"

definition model_selector :: "messages \<Rightarrow> calculator \<Rightarrow> calculator_event node" where
  "model_selector t s =
     el ''div''
       [el ''label'' [Text (tr t ''calculator.selectModel'')],
        Elem ''select'' [(''value'', AStr (selectedModelId s)), (''onChange'', OnValue SelectModel)]
          (map (\<lambda>m. Elem ''option'' [(''key'', AStr (mi_id m)), (''value'', AStr (mi_id m))]
                      [Text (mi_id m), Text '' ('', Text (mi_vendor m), Text '')''])
               (calc_models s))]"

definition cost_card :: "string \<Rightarrow> jsnum \<Rightarrow> 'e node" where
  "cost_card label c = el ''div'' [el ''div'' [Text label], el ''div'' [Text (formatCost c)]]"

definition results :: "messages \<Rightarrow> calculator \<Rightarrow> 'e node" where
  "results t s =
     el ''div''
       [cost_card (tr t ''calculator.costPerRequest'') (costPerRequest s),
        cost_card (tr t ''calculator.dailyCost'') (dailyCost s),
        cost_card (tr t ''calculator.monthlyCost'') (monthlyCost s),
        cost_card (tr t ''calculator.yearlyCost'') (yearlyCost s)]"

definition comparison_row :: "calculator \<Rightarrow> ModelInfo \<times> jsnum \<Rightarrow> calculator_event node" where
  "comparison_row s row =
     (let (m, costPerReq) = row;
          isSelected = (mi_id m = selectedModelId s);
          daily = costPerReq * requestsPerDay s;
          monthly = daily * Fin 30;
          vendorColor = calculator_getVendorColor (str_or (mi_vendor m) ''Other'')
      in Elem ''tr''
           ([(''key'', AStr (mi_id m))]
            @ (if isSelected then [(''style.background'', AStr ''var(--primary)10'')] else [])
            @ [(''style.borderLeft'',
                AStr (if isSelected then ''3px solid var(--primary)'' else ''3px solid transparent'')),
               (''onClick'', On (SelectModel (mi_id m)))])
           [el ''td'' [Text (mi_id m)],
            el ''td''
              [Elem ''span''
                 [(''style.background'', AStr (vendorColor @ ''20'')),
                  (''style.color'', AStr vendorColor),
                  (''style.border'', AStr (''1px solid '' @ vendorColor @ ''40''))]
                 [Text (str_or (mi_vendor m) ''Other'')]],
            el ''td'' [Text (''$'' @ toFixed 2 (mi_input_price m))],
            el ''td'' [Text (''$'' @ toFixed 2 (mi_output_price m))],
            el ''td'' [Text (formatCost costPerReq)],
            el ''td'' [Text (formatCost daily)],
            el ''td'' [Text (formatCost monthly)]])"

definition comparison_table :: "messages \<Rightarrow> calculator \<Rightarrow> calculator_event node" where
  "comparison_table t s =
     el ''div''
       [el ''div'' [el ''h3'' [Text (tr t ''calculator.compareTitle'')]],
        el ''div''
          [el ''table''
             [el ''thead''
                [el ''tr''
                   [el ''th'' [Text (tr t ''calculator.colModel'')],
                    el ''th'' [Text (tr t ''calculator.colVendor'')],
                    el ''th'' [Text (tr t ''calculator.colInput'')],
                    el ''th'' [Text (tr t ''calculator.colOutput'')],
                    el ''th'' [Text (tr t ''calculator.colPerRequest'')],
                    el ''th'' [Text (tr t ''calculator.colDaily'')],
                    el ''th'' [Text (tr t ''calculator.colMonthly'')]]],
              el ''tbody'' (map (comparison_row s) (sortedModels s))]]]"

definition CalculatorPage_view :: "shell \<Rightarrow> messages \<Rightarrow> calculator \<Rightarrow> calculator_event node" where
  "CalculatorPage_view sh t s =
     el ''div''
       [map_node CalculatorHeader (SiteHeader sh t (no_props\<lparr>activeNav := Some NavCalculator\<rparr>)),
        el ''div''
          ([el ''div''
              [el ''h2'' [Text (tr t ''calculator.title'')],
               el ''p'' [Text (tr t ''calculator.subtitle'')]]]
           @ (if calc_loading s then [el ''div'' [Text (tr t ''calculator.loading'')]]
              else
                [el ''div''
                   [el ''div''
                      [model_selector t s,
                       number_field (tr t ''calculator.inputTokensPerRequest'') (inputTokens s)
                         SetInputTokens,
                       number_field (tr t ''calculator.outputTokensPerRequest'') (outputTokens s)
                         SetOutputTokens,
                       number_field (tr t ''calculator.requestsPerDay'') (requestsPerDay s)
                         SetRequestsPerDay],
                    results t s],
                 comparison_table t s]))]"

section \<open>Lemmas\<close>

text \<open>Prices and token counts as the page gets them: finite doubles that are not negative.\<close>

definition fine_count :: "jsnum \<Rightarrow> bool" where
  "fine_count a \<longleftrightarrow> is_number a \<and> (\<exists>x. a = Fin x \<and> 0 \<le> x)"

definition fine_prices :: "ModelInfo \<Rightarrow> bool" where
  "fine_prices m \<longleftrightarrow> fine_count (mi_input_price m) \<and> fine_count (mi_output_price m)"

lemma share_of_million:
  assumes "0 \<le> i" "is_number (Fin i)"
  shows "to_num (i / 1000000) = Fin (fl (i / 1000000))" "0 \<le> fl (i / 1000000)"
proof -
  have "to_num i = Fin i" using assms(2) by (rule to_num_exact)
  moreover have le: "i / 1000000 \<le> i" using assms(1) by simp
  ultimately have "num_le (to_num (i / 1000000)) (Fin i)"
    using to_num_mono [OF le] by simp
  then show "to_num (i / 1000000) = Fin (fl (i / 1000000))" "0 \<le> fl (i / 1000000)"
    using assms(1) binary64.rnd_nonneg [of "i / 1000000"]
    by (auto simp: to_num_def Let_def split: if_splits)
qed

lemma cost_value:
  assumes "0 \<le> i" "is_number (Fin i)" "0 \<le> j" "is_number (Fin j)"
    "mi_input_price m = Fin p" "mi_output_price m = Fin q"
  shows "calcCostPerRequest m (Fin i) (Fin j) =
    num_add (to_num (fl (i / 1000000) * p)) (to_num (fl (j / 1000000) * q))"
  using assms by (simp add: calcCostPerRequest_def num_ops share_of_million)

text \<open>A cost is a number, never NaN and never negative.\<close>

lemma cost_number:
  assumes "fine_prices m" "fine_count a" "fine_count b"
  shows "is_number (calcCostPerRequest m a b)" "num_le (Fin 0) (calcCostPerRequest m a b)"
proof -
  obtain i j p q where v: "a = Fin i" "b = Fin j" "mi_input_price m = Fin p" "mi_output_price m = Fin q"
      "0 \<le> i" "0 \<le> j" "0 \<le> p" "0 \<le> q" "is_number a" "is_number b"
    using assms by (auto simp: fine_prices_def fine_count_def)
  show "is_number (calcCostPerRequest m a b)"
    using v by (auto simp: cost_value is_number_add [unfolded num_ops])
  show "num_le (Fin 0) (calcCostPerRequest m a b)"
    using v by (simp add: cost_value share_of_million num_add_nonneg to_num_nonneg)
qed

lemma cost_not_NaN: "fine_prices m \<Longrightarrow> fine_count a \<Longrightarrow> fine_count b \<Longrightarrow> calcCostPerRequest m a b \<noteq> NaN"
  using cost_number(2) by (metis num_le_NaN(2))

text \<open>The comparator of the table is the order of the costs.\<close>

definition priced_row :: "ModelInfo \<times> jsnum \<Rightarrow> bool" where
  "priced_row r \<longleftrightarrow> is_number (snd r) \<and> snd r \<noteq> NaN"

lemma cheaper_iff: "priced_row a \<Longrightarrow> priced_row b \<Longrightarrow> cheaper a b \<longleftrightarrow> num_le (snd a) (snd b)"
  by (simp add: cheaper_def minus_jsnum_def priced_row_def not_after_minus)

lemma num_le_total: "a \<noteq> NaN \<Longrightarrow> b \<noteq> NaN \<Longrightarrow> num_le a b \<or> num_le b a"
  by (cases a; cases b) auto

interpretation cost_order: comparator cheaper priced_row
proof unfold_locales
  show "cheaper x y \<or> cheaper y x" if "priced_row x" "priced_row y" for x y
    using that num_le_total by (auto simp: cheaper_iff priced_row_def)
  show "cheaper x z" if "priced_row x" "priced_row y" "priced_row z" "cheaper x y" "cheaper y z" for x y z
    using that num_le_trans by (auto simp: cheaper_iff)
qed

definition priced :: "calculator \<Rightarrow> (ModelInfo \<times> jsnum) list" where
  "priced s = map (\<lambda>m. (m, calcCostPerRequest m (inputTokens s) (outputTokens s))) (calc_models s)"

lemma sortedModels_priced: "sortedModels s = sort_by cheaper (priced s)"
  by (simp add: sortedModels_def priced_def)

lemma priced_rows:
  assumes "\<forall>m \<in> set (calc_models s). fine_prices m" "fine_count (inputTokens s)" "fine_count (outputTokens s)"
  shows "\<forall>r \<in> set (priced s). priced_row r"
  using assms cost_number cost_not_NaN by (auto simp: priced_def priced_row_def)

section \<open>Properties\<close>

text \<open>
  C7: The comparison table ranks the catalog by cost. For prices and token counts that are not
  negative, its rows are the models of the catalog, each with its cost per request, in
  nondecreasing order of the costs; models that cost the same keep their catalog order.
\<close>

theorem comparison_ranks_by_cost:
  assumes "\<forall>m \<in> set (calc_models s). fine_prices m"
    and "fine_count (inputTokens s)" "fine_count (outputTokens s)"
  shows "sorted_wrt num_le (map snd (sortedModels s)) \<and>
    mset (map fst (sortedModels s)) = mset (calc_models s) \<and>
    (\<forall>(m, c) \<in> set (sortedModels s). c = calcCostPerRequest m (inputTokens s) (outputTokens s)) \<and>
    (\<forall>m \<in> set (calc_models s).
       let c = calcCostPerRequest m (inputTokens s) (outputTokens s) in
       map fst (filter (\<lambda>r. snd r = c) (sortedModels s)) =
       filter (\<lambda>m'. calcCostPerRequest m' (inputTokens s) (outputTokens s) = c) (calc_models s))"
proof (intro conjI ballI)
  note rows = priced_rows [OF assms]
  have rows': "\<forall>r \<in> set (sortedModels s). priced_row r" using rows by (simp add: sortedModels_priced)
  have "sorted_wrt cheaper (sortedModels s)"
    unfolding sortedModels_priced using rows by (rule cost_order.sorted_sort_by)
  then have "sorted_wrt (\<lambda>a b. num_le (snd a) (snd b)) (sortedModels s)"
    by (rule sorted_wrt_mono_rel [rotated]) (use rows' cheaper_iff in auto)
  then show "sorted_wrt num_le (map snd (sortedModels s))" by (simp add: sorted_wrt_map)
  have "mset (map fst (sortedModels s)) = mset (map fst (priced s))"
    by (simp only: sortedModels_priced mset_map mset_sort_by)
  then show "mset (map fst (sortedModels s)) = mset (calc_models s)" by (simp add: priced_def o_def)
  show "case r of (m, c) \<Rightarrow> c = calcCostPerRequest m (inputTokens s) (outputTokens s)"
    if "r \<in> set (sortedModels s)" for r
    using that by (auto simp: sortedModels_priced priced_def)
  fix m assume m: "m \<in> set (calc_models s)"
  let ?c = "calcCostPerRequest m (inputTokens s) (outputTokens s)"
  have r: "priced_row (m, ?c)" using m rows by (simp add: priced_def)
  have tie: "(cheaper (m, ?c) y \<and> cheaper y (m, ?c)) = (snd y = ?c)" if "priced_row y" for y
    using that r num_le_refl by (cases "snd y"; cases ?c) (auto simp: cheaper_iff priced_row_def)
  have "filter (\<lambda>y. cheaper (m, ?c) y \<and> cheaper y (m, ?c)) (sortedModels s) =
      filter (\<lambda>y. cheaper (m, ?c) y \<and> cheaper y (m, ?c)) (priced s)"
    unfolding sortedModels_priced using rows r by (rule cost_order.stable_sort_by)
  then have "filter (\<lambda>y. snd y = ?c) (sortedModels s) = filter (\<lambda>y. snd y = ?c) (priced s)"
    using rows rows' by (simp add: tie cong: filter_cong)
  then show "let c = ?c in map fst (filter (\<lambda>r. snd r = c) (sortedModels s)) =
      filter (\<lambda>m'. calcCostPerRequest m' (inputTokens s) (outputTokens s) = c) (calc_models s)"
    by (simp add: priced_def filter_map o_def Let_def)
qed

text \<open>The constants of the display, as the doubles they are.\<close>

lemma rhe_unique:
  assumes "\<bar>x - of_int n\<bar> < 1 / 2"
  shows "rhe x = n"
proof -
  have "\<bar>of_int (rhe x) - (of_int n :: rat)\<bar> < 1" using rhe_near [of x] assms by linarith
  then have "\<bar>rhe x - n\<bar> < 1" by (metis of_int_abs of_int_diff of_int_less_1_iff)
  then show ?thesis by simp
qed

lemma cost_thresholds:
  "to_num (1 / 10000) = Fin (7378697629483821 / 73786976294838206464)"
  "to_num (1 / 100) = Fin (5764607523034235 / 576460752303423488)"
proof -
  have "ilog 2 (1 / 10000) = - 14" by (rule ilog_unique) (simp_all add: power_int_def power_one_over)
  moreover have "rhe (73786976294838206464 / 10000) = 7378697629483821" by (rule rhe_unique) simp
  ultimately show "to_num (1 / 10000) = Fin (7378697629483821 / 73786976294838206464)"
    by (simp add: to_num_def fl_def ulp_exp_def power_int_def power_one_over Let_def)
  have "ilog 2 (1 / 100) = - 7" by (rule ilog_unique) (simp_all add: power_int_def power_one_over)
  moreover have "rhe (576460752303423488 / 100) = 5764607523034235" by (rule rhe_unique) simp
  ultimately show "to_num (1 / 100) = Fin (5764607523034235 / 576460752303423488)"
    by (simp add: to_num_def fl_def ulp_exp_def power_int_def power_one_over Let_def)
qed

text \<open>
  C14: A cost is displayed to within half a percent. For a positive cost below 10^21 the text is
  a dollar sign and a decimal number, and the number differs from the cost by at most 1/200 of
  the cost; so a positive cost is never shown as zero.
\<close>

theorem formatCost_accurate:
  assumes "0 < x" "x < 10 ^ 21"
  shows "\<exists>v. formatCost (Fin x) = ''$'' @ tl (formatCost (Fin x)) \<and>
    parse_decimal (tl (formatCost (Fin x))) = Some v \<and> \<bar>v - x\<bar> \<le> x / 200 \<and> 0 < v"
proof -
  have fixed: "\<exists>v. parse_decimal (toFixed f (Fin x)) = Some v \<and> \<bar>v - x\<bar> \<le> x / 200"
    if "100 / 10 ^ f \<le> x" for f
    using toFixed_reads [of x f] fixed_units_error [of f x] that assms by fastforce
  obtain v where v: "parse_decimal (toExponential 2 (Fin x)) = Some v" "\<bar>v - x\<bar> \<le> x / 200"
    using toExponential_reads [OF assms(1), of 2] by (auto simp: field_simps)
  have "\<exists>v. parse_decimal (tl (formatCost (Fin x))) = Some v \<and> \<bar>v - x\<bar> \<le> x / 200"
    using v fixed [of 6] fixed [of 4] fixed [of 2] by (auto simp: formatCost_def num_ops cost_thresholds)
  moreover have "formatCost (Fin x) = ''$'' @ tl (formatCost (Fin x))"
    by (simp add: formatCost_def)
  moreover have "0 < v" if "\<bar>v - x\<bar> \<le> x / 200" for v
    using abs_le_D2 [OF that] assms(1) by linarith
  ultimately show ?thesis by blast
qed

lemma formatCost_accurate_witness:
  "\<exists>v. parse_decimal (tl (formatCost (Fin (3 / 40000)))) = Some v \<and> 0 < v"
  using formatCost_accurate [of "3 / 40000"] by auto

text \<open>
  C26: Asking for more never costs less. With prices that are not negative, the cost of a request
  is not negative, and it does not decrease when the token counts grow, although each operation
  rounds its result.
\<close>

theorem cost_monotone:
  assumes "fine_prices m" "fine_count a" "fine_count a'" "fine_count b" "fine_count b'"
    and "num_le a a'" "num_le b b'"
  shows "num_le (Fin 0) (calcCostPerRequest m a b) \<and>
    num_le (calcCostPerRequest m a b) (calcCostPerRequest m a' b')"
proof -
  obtain i i' j j' p q where v: "a = Fin i" "a' = Fin i'" "b = Fin j" "b' = Fin j'"
      "mi_input_price m = Fin p" "mi_output_price m = Fin q" "0 \<le> i" "0 \<le> j" "0 \<le> p" "0 \<le> q"
      "0 \<le> i'" "0 \<le> j'"
    using assms by (auto simp: fine_prices_def fine_count_def)
  have num: "is_number (Fin i)" "is_number (Fin i')" "is_number (Fin j)" "is_number (Fin j')"
    using assms v by (auto simp: fine_count_def)
  have share: "fl (k / 1000000) * r \<le> fl (k' / 1000000) * r" if "k \<le> k'" "0 \<le> r" for k k' r :: rat
    using that by (intro mult_right_mono fl_mono divide_right_mono) auto
  have nn: "0 \<le> fl (k / 1000000) * r" if "0 \<le> k" "0 \<le> r" for k r :: rat
    using that binary64.rnd_nonneg [of "k / 1000000"] by simp
  have "num_le (num_add (to_num (fl (i / 1000000) * p)) (to_num (fl (j / 1000000) * q)))
      (num_add (to_num (fl (i' / 1000000) * p)) (to_num (fl (j' / 1000000) * q)))"
    using assms v share nn by (intro num_add_mono to_num_mono to_num_nonneg) auto
  moreover have "num_le (Fin 0) (calcCostPerRequest m a b)"
    using assms by (intro cost_number(2))
  ultimately show ?thesis using v num by (simp add: cost_value)
qed

section \<open>Reachable states\<close>

text \<open>What the page keeps true: counts are NaN or not negative, and the selection is a model.\<close>

definition count_ok :: "jsnum \<Rightarrow> bool" where
  "count_ok n \<longleftrightarrow> is_number n \<and> (n = NaN \<or> num_le (Fin 0) n)"

definition calculator_inv :: "calculator \<Rightarrow> bool" where
  "calculator_inv s \<longleftrightarrow>
     count_ok (inputTokens s) \<and> count_ok (outputTokens s) \<and> count_ok (requestsPerDay s) \<and>
     (calc_models s \<noteq> [] \<longrightarrow> selectedModel s \<noteq> None)"

text \<open>The selections the page offers: the options of its select element and its table rows.\<close>

definition calculator_offers :: "calculator_event \<Rightarrow> calculator \<Rightarrow> bool" where
  "calculator_offers e s =
     (case e of SelectModel v \<Rightarrow> v \<in> set (map mi_id (calc_models s)) | _ \<Rightarrow> True)"

lemma is_number_Number: "is_number (js_Number v)"
proof -
  have "is_number (num_neg a) = is_number a" for a
    by (cases a) (auto simp: is_number_def fl_minus)
  moreover have "is_number (parse_unsigned s)" for s
    by (auto simp: parse_unsigned_def split: option.splits)
  moreover have "is_number (parse_prefixed b s)" for b s
    by (auto simp: parse_prefixed_def split: option.splits)
  ultimately show ?thesis by (auto simp: js_Number_def Let_def)
qed

lemma count_input_ok: "count_ok (count_input v)"
  using is_number_Number [of v]
  by (auto simp: count_ok_def count_input_def is_number_max math_max_def num_not_less num_less_imp_le)

lemma find_selected: "x \<in> f ` set xs \<Longrightarrow> \<exists>m. List.find (\<lambda>m. f m = x) xs = Some m"
  by (induction xs) auto

lemma calculator_inv_step:
  assumes "calculator_inv s" "calculator_offers e s"
  shows "calculator_inv (calculator_step e s)"
proof (cases e)
  case (CalcCatalogSettled r)
  then show ?thesis using assms
    by (auto simp: calculator_inv_def selectedModel_def calculator_loadModels_def Let_def
        split: sum.splits list.splits)
next
  case (SelectModel v)
  then show ?thesis using assms find_selected [of v mi_id "calc_models s"]
    by (auto simp: calculator_inv_def selectedModel_def calculator_offers_def)
qed (use assms count_input_ok in \<open>auto simp: calculator_inv_def selectedModel_def\<close>)

interpretation calculator_machine: machine calculator_step calculator_offers calculator_inv
  by unfold_locales (rule calculator_inv_step)

lemma calculator_inv_init: "calculator_inv calculator_init"
  using is_number_int [of 500] is_number_int [of 200] is_number_int [of 100]
  by (simp add: calculator_inv_def calculator_init_def count_ok_def)

text \<open>The texts of the cells of a row of the table, and of the figures of the result cards.\<close>

definition cell_texts :: "'e node \<Rightarrow> string list" where
  "cell_texts row = map text_of (children row)"

definition card_figures :: "'e node \<Rightarrow> string list" where
  "card_figures n = map (\<lambda>c. text_of (last (children c))) (children n)"

text \<open>
  C21: Whatever the user does, once a catalog that is not empty has been loaded, a model is
  selected, its row of the comparison table is highlighted, and the cost per request, per day
  and per month of that row are the figures of the result cards. The three counts are never
  negative.
\<close>

theorem highlighted_row_agrees:
  assumes "allowed calculator_offers calculator_step es calculator_init"
    and "s = run calculator_step es calculator_init" and "calc_models s \<noteq> []"
  shows "\<exists>row \<in> set (map (comparison_row s) (sortedModels s)).
      attr_of ''style.background'' row = Some (AStr ''var(--primary)10'') \<and>
      drop 4 (cell_texts row) = take 3 (card_figures (results t s)) \<and>
      hd (cell_texts row) = selectedModelId s \<and>
      \<not> inputTokens s < Fin 0 \<and> \<not> outputTokens s < Fin 0 \<and> \<not> requestsPerDay s < Fin 0"
proof -
  have inv: "calculator_inv s"
    using calculator_machine.run_inv [OF calculator_inv_init assms(1)] assms(2) by simp
  then obtain m where m: "selectedModel s = Some m" using assms(3) by (auto simp: calculator_inv_def)
  then have id: "mi_id m = selectedModelId s" and mem: "m \<in> set (calc_models s)"
    by (auto simp: selectedModel_def find_Some_iff)
  have cost: "costPerRequest s = calcCostPerRequest m (inputTokens s) (outputTokens s)"
    by (simp add: costPerRequest_def m)
  have row: "(m, costPerRequest s) \<in> set (sortedModels s)"
    using mem by (auto simp: sortedModels_priced priced_def cost)
  have "\<not> n < Fin 0" if "count_ok n" for n
    using that by (cases n) (auto simp: count_ok_def num_ops)
  then show ?thesis
  proof (intro bexI conjI)
    show "comparison_row s (m, costPerRequest s) \<in> set (map (comparison_row s) (sortedModels s))"
      using row by simp
  qed (use id inv in \<open>auto simp: comparison_row_def cell_texts_def card_figures_def results_def
        cost_card_def dailyCost_def monthlyCost_def calculator_inv_def Let_def\<close>)
qed

definition calculator_example_events :: "calculator_event list" where
  "calculator_example_events =
     [CalcCatalogSettled (Ok (Some catalog_example)), SelectModel ''local'', SetInputTokens ''1e3'']"

lemma highlighted_row_agrees_witness:
  "\<exists>row \<in> set (map (comparison_row (run calculator_step calculator_example_events calculator_init))
       (sortedModels (run calculator_step calculator_example_events calculator_init))).
     hd (cell_texts row) = ''local''"
proof -
  have "allowed calculator_offers calculator_step calculator_example_events calculator_init"
    and "calc_models (run calculator_step calculator_example_events calculator_init) \<noteq> []"
    and "selectedModelId (run calculator_step calculator_example_events calculator_init) = ''local''"
    by (simp_all add: calculator_example_events_def calculator_offers_def calculator_loadModels_def
        models_or_empty_def catalog_example_def Let_def)
  then show ?thesis using highlighted_row_agrees [OF _ refl, of calculator_example_events] by fastforce
qed

lemma comparison_ranks_by_cost_witness:
  "sorted_wrt num_le (map snd (sortedModels (calculator_init\<lparr>calc_models := catalog_example\<rparr>)))"
proof -
  have "\<forall>m \<in> set (calc_models (calculator_init\<lparr>calc_models := catalog_example\<rparr>)). fine_prices m"
    using is_number_int [of 0] is_number_int [of 3] is_number_int [of 15]
    by (simp add: catalog_example_def fine_prices_def fine_count_def)
  moreover have "fine_count (Fin 500)" "fine_count (Fin 200)"
    using is_number_int [of 500] is_number_int [of 200] by (simp_all add: fine_count_def)
  ultimately show ?thesis
    using comparison_ranks_by_cost [of "calculator_init\<lparr>calc_models := catalog_example\<rparr>"]
    by (simp add: calculator_init_def)
qed

lemma cost_monotone_witness:
  "num_le (calcCostPerRequest (hd catalog_example) (Fin 500) (Fin 200))
     (calcCostPerRequest (hd catalog_example) (Fin 501) (Fin 200))"
proof -
  have "fine_prices (hd catalog_example)" "fine_count (Fin 500)" "fine_count (Fin 501)" "fine_count (Fin 200)"
    using is_number_int [of 3] is_number_int [of 15] is_number_int [of 500] is_number_int [of 501]
      is_number_int [of 200]
    by (simp_all add: catalog_example_def fine_prices_def fine_count_def)
  then show ?thesis using cost_monotone [of "hd catalog_example" "Fin 500" "Fin 501" "Fin 200" "Fin 200"] by simp
qed

end
