(* ===== verification/Markdown.thy ===== *)
theory Markdown
  imports JsPrelude "HOL-Library.While_Combinator"
begin

text \<open>
  The Markdown renderer of the documentation page (\<open>MarkdownContent\<close> and \<open>renderInline\<close> of
  \<open>web/src/app/docs/page.tsx\<close>). The loops are kept as the code has them, over line numbers and
  character positions; a recursive parser over the lines, \<open>parse_blocks\<close>, is their
  specification.
\<close>

section \<open>Inline marks\<close>

datatype inline = Plain string | Code string | Strong string

text \<open>The two alternatives of the regular expression, at the start of a text, with what they span.\<close>

definition code_at :: "string \<Rightarrow> (inline \<times> nat) option" where
  "code_at s =
     (let body = takeWhile (\<lambda>c. c \<noteq> CHR ''`'') (tl s) in
      if s \<noteq> [] \<and> hd s = CHR ''`'' \<and> body \<noteq> [] \<and> length body < length (tl s)
      then Some (Code body, length body + 2) else None)"

definition strong_at :: "string \<Rightarrow> (inline \<times> nat) option" where
  "strong_at s =
     (let body = takeWhile (\<lambda>c. c \<noteq> CHR ''*'') (drop 2 s) in
      if startsWith s ''**'' \<and> body \<noteq> [] \<and> startsWith (drop (length body) (drop 2 s)) ''**''
      then Some (Strong body, length body + 4) else None)"

definition match_at :: "string \<Rightarrow> (inline \<times> nat) option" where
  "match_at s = (case code_at s of Some m \<Rightarrow> Some m | None \<Rightarrow> strong_at s)"

text \<open>\<open>regex.exec(text)\<close> from a position: the first place where an alternative matches.\<close>

function exec :: "string \<Rightarrow> nat \<Rightarrow> (nat \<times> inline \<times> nat) option" where
  "exec s i =
     (if length s \<le> i then None
      else (case match_at (drop i s) of
              Some (m, n) \<Rightarrow> Some (i, m, n)
            | None \<Rightarrow> exec s (Suc i)))"
  by pat_completeness auto
termination by (relation "measure (\<lambda>(s, i). length s - i)") auto

declare exec.simps [simp del]

definition slice :: "string \<Rightarrow> nat \<Rightarrow> nat \<Rightarrow> string" where
  "slice s i j = take (j - i) (drop i s)"

definition plain_part :: "string \<Rightarrow> inline list" where
  "plain_part s = (if s = [] then [] else [Plain s])"

lemma match_at_span: "match_at s = Some (m, n) \<Longrightarrow> 2 \<le> n \<and> n \<le> length s"
  by (auto simp: match_at_def code_at_def strong_at_def Let_def startsWith_prefix
      dest!: prefix_length_le split: option.splits if_splits)

lemma exec_span: "exec s i = Some (k, m, n) \<Longrightarrow> i \<le> k \<and> 2 \<le> n \<and> k + n \<le> length s"
proof (induction s i rule: exec.induct)
  case (1 s i)
  show ?case
  proof (cases "length s \<le> i")
    case True
    then show ?thesis using 1 by (simp add: exec.simps [of s i])
  next
    case False
    show ?thesis
    proof (cases "match_at (drop i s)")
      case None
      then show ?thesis using 1 False by (simp add: exec.simps [of s i])
    next
      case (Some mn)
      then show ?thesis using 1 False match_at_span [of "drop i s"]
        by (cases mn) (auto simp: exec.simps [of s i])
    qed
  qed
qed

text \<open>The loop of \<open>renderInline\<close>: \<open>pos\<close> is \<open>lastIndex\<close>, of the code and of the regex.\<close>

function inline_loop :: "string \<Rightarrow> nat \<Rightarrow> inline list \<Rightarrow> inline list" where
  "inline_loop s pos parts =
     (case exec s pos of
        Some (k, m, n) \<Rightarrow> inline_loop s (k + n) (parts @ plain_part (slice s pos k) @ [m])
      | None \<Rightarrow> parts @ plain_part (drop pos s))"
  by pat_completeness auto
termination
proof (relation "measure (\<lambda>(s, pos, parts). length s - pos)")
  fix s pos parts x k y m n
  assume "exec s pos = Some x" "(k, y) = x" "(m, n) = y"
  then have "pos \<le> k \<and> 2 \<le> n \<and> k + n \<le> length s" using exec_span by metis
  then show "((s, k + n, parts @ plain_part (slice s pos k) @ [m]), s, pos, parts)
      \<in> measure (\<lambda>(s, pos, parts). length s - pos)" by auto
qed simp

declare inline_loop.simps [simp del]

definition renderInline :: "string \<Rightarrow> inline list" where
  "renderInline text' = inline_loop text' 0 []"

section \<open>Blocks\<close>

datatype block =
    CodeBlock string string  \<comment> \<open>the language, if any, and the code\<close>
  | H2 string
  | H3 string
  | Table "string list" "string list list"
  | Paragraph string  \<comment> \<open>its text, rendered by \<open>renderInline\<close>\<close>

definition fence :: string where
  "fence = ''```''"

definition newline_char :: char where
  "newline_char = CHR 0x0A"

text \<open>\<open>line.split("|").filter(Boolean).map((c) => c.trim())\<close>.\<close>

definition cells :: "string \<Rightarrow> string list" where
  "cells line = map trim (filter (\<lambda>c. c \<noteq> []) (split_on (CHR ''|'') line))"

definition has_bar :: "string \<Rightarrow> bool" where
  "has_bar line = str_includes line ''|''"

definition table_starts :: "string list \<Rightarrow> nat \<Rightarrow> bool" where
  "table_starts lines i \<longleftrightarrow> has_bar (lines ! i) \<and> Suc i < length lines \<and> str_includes (lines ! Suc i) ''---''"

text \<open>The two inner loops: the lines up to the closing fence, and the rows of a table.\<close>

function code_lines :: "string list \<Rightarrow> nat \<Rightarrow> string list \<Rightarrow> nat \<times> string list" where
  "code_lines lines i acc =
     (if i < length lines \<and> \<not> startsWith (lines ! i) fence
      then code_lines lines (Suc i) (acc @ [lines ! i]) else (i, acc))"
  by pat_completeness auto
termination by (relation "measure (\<lambda>(lines, i, acc). length lines - i)") auto

function table_rows :: "string list \<Rightarrow> nat \<Rightarrow> string list list \<Rightarrow> nat \<times> string list list" where
  "table_rows lines i rows =
     (if i < length lines \<and> has_bar (lines ! i)
      then table_rows lines (Suc i) (rows @ [cells (lines ! i)]) else (i, rows))"
  by pat_completeness auto
termination by (relation "measure (\<lambda>(lines, i, rows). length lines - i)") auto

declare code_lines.simps [simp del] table_rows.simps [simp del]

text \<open>One pass of the loop of \<open>MarkdownContent\<close>, at line \<open>i\<close>.\<close>

definition md_pass :: "string list \<Rightarrow> nat \<times> block list \<Rightarrow> nat \<times> block list" where
  "md_pass lines st =
     (let (i, elements) = st; line = lines ! i in
      if startsWith line fence then
        (let (j, code) = code_lines lines (Suc i) []
         in (Suc j, elements @ [CodeBlock (trim (drop 3 line)) (join [newline_char] code)]))
      else if startsWith line ''## '' then (Suc i, elements @ [H2 (drop 3 line)])
      else if startsWith line ''### '' then (Suc i, elements @ [H3 (drop 4 line)])
      else if table_starts lines i then
        (let (j, rows) = table_rows lines (i + 2) [] in (j, elements @ [Table (cells line) rows]))
      else if trim line \<noteq> [] then (Suc i, elements @ [Paragraph line])
      else (Suc i, elements))"

definition md_loop :: "string list \<Rightarrow> (nat \<times> block list) option" where
  "md_loop lines = while_option (\<lambda>(i, elements). i < length lines) (md_pass lines) (0, [])"

definition MarkdownContent :: "string \<Rightarrow> block list" where
  "MarkdownContent content =
     (case md_loop (split_on newline_char content) of Some (i, elements) \<Rightarrow> elements | None \<Rightarrow> [])"

section \<open>A recursive parser\<close>

lemma shorter_rest:
  "length (tl (dropWhile P xs)) < Suc (length xs)" "length (dropWhile P (tl xs)) < Suc (length xs)"
proof -
  have "length (tl (dropWhile P xs)) \<le> length (dropWhile P xs)" by simp
  also have "\<dots> \<le> length xs" by (rule length_dropWhile_le)
  finally show "length (tl (dropWhile P xs)) < Suc (length xs)" by simp
  have "length (dropWhile P (tl xs)) \<le> length (tl xs)" by (rule length_dropWhile_le)
  then show "length (dropWhile P (tl xs)) < Suc (length xs)" by simp
qed

text \<open>The specification of the loop, on the lines that are left.\<close>

function parse_blocks :: "string list \<Rightarrow> block list" where
  "parse_blocks [] = []"
| "parse_blocks (line # rest) =
     (if startsWith line fence then
        CodeBlock (trim (drop 3 line)) (join [newline_char] (takeWhile (\<lambda>l. \<not> startsWith l fence) rest))
        # parse_blocks (tl (dropWhile (\<lambda>l. \<not> startsWith l fence) rest))
      else if startsWith line ''## '' then H2 (drop 3 line) # parse_blocks rest
      else if startsWith line ''### '' then H3 (drop 4 line) # parse_blocks rest
      else if has_bar line \<and> rest \<noteq> [] \<and> str_includes (hd rest) ''---'' then
        Table (cells line) (map cells (takeWhile has_bar (tl rest))) # parse_blocks (dropWhile has_bar (tl rest))
      else if trim line \<noteq> [] then Paragraph line # parse_blocks rest
      else parse_blocks rest)"
  by pat_completeness auto
termination
  by (relation "measure length") (simp_all add: shorter_rest del: length_tl)

declare parse_blocks.simps(2) [simp del]

section \<open>The loop implements the parser\<close>

lemma code_lines_spec:
  "code_lines ls i acc =
     (i + length (takeWhile (\<lambda>l. \<not> startsWith l fence) (drop i ls)),
      acc @ takeWhile (\<lambda>l. \<not> startsWith l fence) (drop i ls))"
proof (induction ls i acc rule: code_lines.induct)
  case (1 ls i acc)
  then show ?case
    by (cases "i < length ls") (auto simp: code_lines.simps [of ls i] Cons_nth_drop_Suc [symmetric])
qed

lemma table_rows_spec:
  "table_rows ls i rows =
     (i + length (takeWhile has_bar (drop i ls)), rows @ map cells (takeWhile has_bar (drop i ls)))"
proof (induction ls i rows rule: table_rows.induct)
  case (1 ls i rows)
  then show ?case
    by (cases "i < length ls") (auto simp: table_rows.simps [of ls i] Cons_nth_drop_Suc [symmetric])
qed

lemma drop_takeWhile: "drop (length (takeWhile P xs)) xs = dropWhile P xs"
  by (induction xs) auto

text \<open>
  One pass of the loop moves on, and what it adds is what the parser finds in the lines it passes.
\<close>

lemma md_pass_spec:
  assumes "i < length ls"
  shows "\<exists>j new. md_pass ls (i, es) = (j, es @ new) \<and> i < j \<and>
    parse_blocks (drop i ls) = new @ parse_blocks (drop j ls)"
proof -
  have d: "drop i ls = ls ! i # drop (Suc i) ls" using assms by (simp add: Cons_nth_drop_Suc)
  have starts: "table_starts ls i \<longleftrightarrow> has_bar (ls ! i) \<and> drop (Suc i) ls \<noteq> [] \<and> str_includes (hd (drop (Suc i) ls)) ''---''"
    by (auto simp: table_starts_def hd_drop_conv_nth)
  let ?code = "takeWhile (\<lambda>l. \<not> startsWith l fence) (drop (Suc i) ls)"
  let ?rows = "takeWhile has_bar (drop (i + 2) ls)"
  have after_code: "tl (dropWhile (\<lambda>l. \<not> startsWith l fence) (drop (Suc i) ls)) = drop (Suc (Suc i + length ?code)) ls"
    by (simp add: drop_takeWhile [symmetric] drop_Suc [symmetric] tl_drop add.commute)
  have tl2: "tl (drop (Suc i) ls) = drop (Suc (Suc i)) ls" by (simp add: tl_drop drop_Suc)
  have after_rows: "dropWhile has_bar (drop (Suc (Suc i)) ls) = drop (Suc (Suc (i + length ?rows))) ls"
    by (simp add: drop_takeWhile [symmetric] add.commute)
  show ?thesis
    unfolding d parse_blocks.simps(2)
    by (simp add: tl2 md_pass_def Let_def starts code_lines_spec table_rows_spec after_code after_rows)
qed

section \<open>Properties\<close>

text \<open>
  C12: The renderer terminates on every document, and what it builds is what the recursive parser
  defines: the loop over line numbers, with its two inner loops, always comes past the last line
  and leaves exactly the parser's blocks.
\<close>

theorem markdown_loop_implements_parser:
  "\<exists>k. md_loop ls = Some (k, parse_blocks ls) \<and> length ls \<le> k"
proof -
  let ?b = "\<lambda>(i, elements :: block list). i < length ls"
  let ?inv = "\<lambda>(i, es). parse_blocks ls = es @ parse_blocks (drop i ls)"
  have pass: "?inv (md_pass ls st) \<and> length ls - fst (md_pass ls st) < length ls - fst st"
    if "?inv st" "?b st" for st
    using that md_pass_spec [of "fst st" ls "snd st"] by (cases st) auto
  have "\<exists>st. while_option ?b (md_pass ls) (0, []) = Some st"
    by (rule measure_while_option_Some [where P = ?inv and f = "\<lambda>st. length ls - fst st"]) (use pass in auto)
  then obtain k es where loop: "md_loop ls = Some (k, es)" by (auto simp: md_loop_def)
  then have "\<not> ?b (k, es)" unfolding md_loop_def by (rule while_option_stop)
  moreover have "?inv (k, es)"
    by (rule while_option_rule [OF _ loop [unfolded md_loop_def]]) (use pass in auto)
  ultimately show ?thesis using loop by simp
qed

corollary MarkdownContent_parse: "MarkdownContent content = parse_blocks (split_on newline_char content)"
  using markdown_loop_implements_parser [of "split_on newline_char content"]
  by (auto simp: MarkdownContent_def)

text \<open>The text a piece of a line was rendered from.\<close>

fun inline_source :: "inline \<Rightarrow> string" where
  "inline_source (Plain s) = s"
| "inline_source (Code s) = ''`'' @ s @ ''`''"
| "inline_source (Strong s) = ''**'' @ s @ ''**''"

fun inline_ok :: "inline \<Rightarrow> bool" where
  "inline_ok (Plain s) \<longleftrightarrow> s \<noteq> []"
| "inline_ok (Code s) \<longleftrightarrow> s \<noteq> [] \<and> CHR ''`'' \<notin> set s"
| "inline_ok (Strong s) \<longleftrightarrow> s \<noteq> [] \<and> CHR ''*'' \<notin> set s"

lemma takeWhile_then: "length (takeWhile P xs) < length xs \<Longrightarrow> \<not> P (xs ! length (takeWhile P xs))"
  by (rule nth_length_takeWhile)

lemma code_at_source: "code_at s = Some (m, n) \<Longrightarrow> take n s = inline_source m \<and> inline_ok m"
proof -
  assume c: "code_at s = Some (m, n)"
  let ?P = "\<lambda>c. c \<noteq> CHR ''`''"
  obtain r where s: "s = CHR ''`'' # r" and m: "m = Code (takeWhile ?P r)" "n = length (takeWhile ?P r) + 2"
    and l: "takeWhile ?P r \<noteq> []" "length (takeWhile ?P r) < length r"
    using c by (cases s) (auto simp: code_at_def Let_def split: if_splits)
  have "take (Suc (length (takeWhile ?P r))) r = takeWhile ?P r @ ''`''"
    using takeWhile_then [OF l(2)] by (simp add: take_Suc_conv_app_nth [OF l(2)] takeWhile_eq_take [symmetric])
  then show ?thesis using l(1) set_takeWhileD [of _ ?P r] by (auto simp: s m)
qed

lemma strong_at_source: "strong_at s = Some (m, n) \<Longrightarrow> take n s = inline_source m \<and> inline_ok m"
proof -
  assume c: "strong_at s = Some (m, n)"
  let ?P = "\<lambda>c. c \<noteq> CHR ''*''"
  let ?body = "takeWhile ?P (drop 2 s)"
  have st: "startsWith s ''**''" "?body \<noteq> []" "startsWith (drop (length ?body) (drop 2 s)) ''**''"
    and m: "m = Strong ?body" "n = length ?body + 4"
    using c by (auto simp: strong_at_def Let_def split: if_splits)
  have s: "s = ''**'' @ drop 2 s" using startsWith_split [OF st(1)] by (simp add: numeral_2_eq_2)
  have d: "drop (length ?body) (drop 2 s) = ''**'' @ drop 2 (drop (length ?body) (drop 2 s))"
    using startsWith_split [OF st(3)] by simp
  have "drop 2 s = ?body @ drop (length ?body) (drop 2 s)" by (metis append_take_drop_id takeWhile_eq_take)
  then have "s = ''**'' @ ?body @ ''**'' @ drop 2 (drop (length ?body) (drop 2 s))"
    using s d by metis
  then have "take n s = take n (''**'' @ ?body @ ''**'' @ drop 2 (drop (length ?body) (drop 2 s)))" by simp
  also have "\<dots> = inline_source m" by (simp add: m numeral_eq_Suc)
  finally show ?thesis using st(2) set_takeWhileD [of _ ?P "drop 2 s"] by (auto simp: m)
qed

lemma match_at_source: "match_at s = Some (m, n) \<Longrightarrow> take n s = inline_source m \<and> inline_ok m"
  using code_at_source strong_at_source by (auto simp: match_at_def split: option.splits)

lemma exec_match: "exec s i = Some (k, m, n) \<Longrightarrow> match_at (drop k s) = Some (m, n)"
proof (induction s i rule: exec.induct)
  case (1 s i)
  then show ?case
    by (cases "length s \<le> i"; cases "match_at (drop i s)") (auto simp: exec.simps [of s i])
qed

definition source_of :: "inline list \<Rightarrow> string" where
  "source_of ps = concat (map inline_source ps)"

lemma inline_loop_source:
  "source_of parts = take pos s \<Longrightarrow> list_all inline_ok parts \<Longrightarrow>
   source_of (inline_loop s pos parts) = s \<and> list_all inline_ok (inline_loop s pos parts)"
proof (induction s pos parts rule: inline_loop.induct)
  case (1 s pos parts)
  have plain: "source_of (plain_part t) = t \<and> list_all inline_ok (plain_part t)" for t
    by (simp add: source_of_def plain_part_def)
  have app: "source_of (ps @ qs) = source_of ps @ source_of qs" for ps qs by (simp add: source_of_def)
  show ?case
  proof (cases "exec s pos")
    case None
    then show ?thesis using 1 plain by (simp add: inline_loop.simps [of s pos] app)
  next
    case (Some r)
    then obtain k m n where e: "exec s pos = Some (k, m, n)" by (cases r) auto
    let ?parts = "parts @ plain_part (slice s pos k) @ [m]"
    have m: "take n (drop k s) = inline_source m" "inline_ok m" using match_at_source exec_match [OF e] by blast+
    have "take pos s @ slice s pos k @ take n (drop k s) = take (k + n) s"
      using exec_span [OF e] by (simp add: slice_def take_add [symmetric] flip: append_assoc)
    then have "source_of ?parts = take (k + n) s"
      using 1 plain m by (simp add: app) (simp add: source_of_def)
    then show ?thesis
      using 1 e m(2) plain by (simp add: inline_loop.simps [of s pos])
  qed
qed

text \<open>
  C27: Rendering a line loses nothing. The pieces of a rendered line, written with their marks
  again, give back the line; a code piece is never empty and holds no backtick, and a strong
  piece is never empty and holds no asterisk.
\<close>

theorem inline_pieces_are_the_line:
  "source_of (renderInline line) = line \<and> list_all inline_ok (renderInline line)"
  unfolding renderInline_def by (rule inline_loop_source) (simp_all add: source_of_def)

section \<open>Printing and parsing\<close>

text \<open>Blocks that a document can express, and how it writes them.\<close>

definition one_line :: "string \<Rightarrow> bool" where
  "one_line s \<longleftrightarrow> newline_char \<notin> set s"

definition cell_ok :: "string \<Rightarrow> bool" where
  "cell_ok c \<longleftrightarrow> CHR ''|'' \<notin> set c \<and> one_line c"

fun block_ok :: "block \<Rightarrow> bool" where
  "block_ok (CodeBlock lang code) \<longleftrightarrow> one_line lang \<and>
     list_all (\<lambda>l. \<not> startsWith l fence) (split_on newline_char code)"
| "block_ok (H2 s) \<longleftrightarrow> one_line s"
| "block_ok (H3 s) \<longleftrightarrow> one_line s"
| "block_ok (Table hs rows) \<longleftrightarrow> list_all cell_ok hs \<and> list_all (list_all cell_ok) rows"
| "block_ok (Paragraph s) \<longleftrightarrow> one_line s \<and> trim s \<noteq> [] \<and>
     \<not> startsWith s fence \<and> \<not> startsWith s ''## '' \<and> \<not> startsWith s ''### ''"

definition row_line :: "string list \<Rightarrow> string" where
  "row_line cs = CHR ''|'' # concat (map (\<lambda>c. c @ ''|'') cs)"

fun print_block :: "block \<Rightarrow> string list" where
  "print_block (CodeBlock lang code) = [fence @ lang] @ split_on newline_char code @ [fence]"
| "print_block (H2 s) = [''## '' @ s]"
| "print_block (H3 s) = [''### '' @ s]"
| "print_block (Table hs rows) = [row_line hs, ''|---|''] @ map row_line rows @ [[]]"
| "print_block (Paragraph s) = [s, []]"

definition print_doc :: "block list \<Rightarrow> string" where
  "print_doc bs = join [newline_char] (concat (map print_block bs))"

text \<open>
  What the renderer makes of a printed block: the language and the cells lose the white space
  around them, and a cell with nothing between its bars is dropped.
\<close>

definition shown_cells :: "string list \<Rightarrow> string list" where
  "shown_cells cs = map trim (filter (\<lambda>c. c \<noteq> []) cs)"

fun shown_block :: "block \<Rightarrow> block" where
  "shown_block (CodeBlock lang code) = CodeBlock (trim lang) code"
| "shown_block (Table hs rows) = Table (shown_cells hs) (map shown_cells rows)"
| "shown_block b = b"

lemma split_on_Cons_sep: "split_on sep (sep # s) = [] # split_on sep s"
  by simp

lemma split_row:
  "list_all cell_ok cs \<Longrightarrow> split_on (CHR ''|'') (concat (map (\<lambda>c. c @ ''|'') cs)) = cs @ [[]]"
  by (induction cs) (auto simp: cell_ok_def split_on_append_sep split_on_single)

lemma cells_row: "list_all cell_ok cs \<Longrightarrow> cells (row_line cs) = shown_cells cs"
  by (simp add: split_row cells_def row_line_def shown_cells_def)

lemma bar_row [simp]: "has_bar (row_line cs)"
  by (simp add: has_bar_def row_line_def)

lemma bar_Nil [simp]: "\<not> has_bar []"
  by (simp add: has_bar_def)

lemma row_start [simp]:
  "\<not> startsWith (row_line cs) fence" "\<not> startsWith (row_line cs) ''## ''" "\<not> startsWith (row_line cs) ''### ''"
  by (simp_all add: row_line_def fence_def)

lemma takeWhile_rows:
  "takeWhile has_bar (map row_line rows @ [] # ls) = map row_line rows"
  "dropWhile has_bar (map row_line rows @ [] # ls) = [] # ls"
  by (induction rows) auto

lemma takeWhile_code:
  assumes "list_all (\<lambda>l. \<not> startsWith l fence) cs"
  shows "takeWhile (\<lambda>l. \<not> startsWith l fence) (cs @ fence # ls) = cs"
    "dropWhile (\<lambda>l. \<not> startsWith l fence) (cs @ fence # ls) = fence # ls"
  using assms by (induction cs) (auto simp: fence_def)

lemma parse_blank [simp]: "parse_blocks ([] # ls) = parse_blocks ls"
  by (simp add: parse_blocks.simps(2) fence_def has_bar_def)

lemma parse_print_block:
  assumes "block_ok b"
  shows "parse_blocks (print_block b @ ls) = shown_block b # parse_blocks ls"
proof (cases b)
  case (CodeBlock lang code)
  then show ?thesis
    using assms takeWhile_code by (simp add: parse_blocks.simps(2)) (simp add: fence_def join_split_on)
next
  case (Table hs rows)
  have "map cells (map row_line rows) = map shown_cells rows"
    using assms Table by (induction rows arbitrary: b) (auto simp: cells_row)
  then show ?thesis
    using assms Table
    by (simp add: parse_blocks.simps(2) [of "row_line hs"] cells_row takeWhile_rows)
next
  case (Paragraph s)
  then show ?thesis using assms by (simp add: parse_blocks.simps(2) [of s])
qed (simp_all add: parse_blocks.simps(2) fence_def)

lemma parse_print_doc: "list_all block_ok bs \<Longrightarrow> parse_blocks (concat (map print_block bs)) = map shown_block bs"
  by (induction bs) (simp_all add: parse_print_block)

lemma split_join:
  "ls \<noteq> [] \<Longrightarrow> list_all (\<lambda>l. sep \<notin> set l) ls \<Longrightarrow> split_on sep (join [sep] ls) = ls"
proof (induction ls)
  case (Cons l ls)
  then show ?case by (cases ls) (auto simp: split_on_single split_on_append_sep)
qed simp

lemma printed_lines: "block_ok b \<Longrightarrow> print_block b \<noteq> [] \<and> list_all one_line (print_block b)"
proof (cases b)
  case (Table hs rows)
  have row: "one_line (row_line cs)" if "list_all cell_ok cs" for cs
    using that by (induction cs) (auto simp: row_line_def one_line_def cell_ok_def newline_char_def)
  assume "block_ok b"
  then show ?thesis using Table row
    by (auto simp: list_all_iff) (auto simp: one_line_def newline_char_def)
qed (auto simp: one_line_def newline_char_def fence_def list_all_iff dest: split_on_no_sep)

text \<open>
  C13: What a document can write, the renderer reads. Every sequence of code blocks, headings,
  tables and paragraphs, with no fence at the start of a line of code and no bar inside a cell, is
  rendered from its printed form to the same blocks in the same order: the code line by line,
  headings and paragraphs as they are, every row with its cells, trimmed. A cell with nothing
  between its bars is not kept: the later cells of its row move one column to the left.
\<close>

theorem markdown_roundtrip:
  assumes "list_all block_ok bs"
  shows "MarkdownContent (print_doc bs) = map shown_block bs"
proof (cases "bs = []")
  case True
  then show ?thesis by (simp add: MarkdownContent_parse print_doc_def)
next
  case False
  let ?ls = "concat (map print_block bs)"
  have "list_all one_line ?ls" "?ls \<noteq> []"
    using assms False printed_lines by (auto simp: list_all_iff neq_Nil_conv)
  then have "split_on newline_char (print_doc bs) = ?ls"
    unfolding print_doc_def by (intro split_join) (simp_all add: one_line_def [abs_def])
  then show ?thesis using parse_print_doc [OF assms] by (simp add: MarkdownContent_parse)
qed

lemma markdown_roundtrip_witness:
  "MarkdownContent (print_doc [H2 ''Pricing'', Table [''Model'', ''Note'', ''Input''] [[''a'', [], ''1''], [''b'', ''new'', ''2'']],
     CodeBlock ''bash'' ''curl -N url'', Paragraph ''Done.'']) =
   [H2 ''Pricing'', Table [''Model'', ''Note'', ''Input''] [[''a'', ''1''], [''b'', ''new'', ''2'']],
     CodeBlock ''bash'' ''curl -N url'', Paragraph ''Done.'']"
proof -
  let ?bs = "[H2 ''Pricing'', Table [''Model'', ''Note'', ''Input''] [[''a'', [], ''1''], [''b'', ''new'', ''2'']],
     CodeBlock ''bash'' ''curl -N url'', Paragraph ''Done.'']"
  have trim: "trim s = s" if "s \<noteq> []" "\<not> is_ws (hd s)" "\<not> is_ws (last s)" for s
    using that by (intro trim_id) blast
  have "list_all block_ok ?bs"
    by (simp add: trim is_ws_def cell_ok_def one_line_def newline_char_def fence_def)
  from markdown_roundtrip [OF this] show ?thesis
    by (simp add: shown_cells_def trim is_ws_def)
qed

lemma md_progress:
  assumes "\<forall>m < n. fst ((md_pass ls ^^ m) (0, [])) < length ls"
  shows "n \<le> fst ((md_pass ls ^^ n) (0, []))"
  using assms
proof (induction n)
  case (Suc n)
  let ?st = "(md_pass ls ^^ n) (0, [])"
  have "fst ?st < fst (md_pass ls ?st)"
    using Suc.prems md_pass_spec [of "fst ?st" ls "snd ?st"] by auto
  moreover have "n \<le> fst ?st" using Suc by simp
  ultimately show ?case by simp
qed simp

text \<open>
  C28: The renderer takes at most one pass per line: its loop ends on every document, after no more
  passes than the document has lines.
\<close>

theorem markdown_passes_bounded:
  "\<exists>n. n \<le> length ls \<and> md_loop ls = Some ((md_pass ls ^^ n) (0, []))"
proof -
  let ?b = "\<lambda>(i, elements :: block list). i < length ls"
  let ?P = "\<lambda>n. \<not> ?b ((md_pass ls ^^ n) (0, []))"
  have "\<exists>n. n \<le> length ls \<and> ?P n"
  proof (rule ccontr)
    assume "\<nexists>n. n \<le> length ls \<and> ?P n"
    then have below: "fst ((md_pass ls ^^ m) (0, [])) < length ls" if "m \<le> length ls" for m
      using that by (simp only: case_prod_beta not_less) (meson not_le)
    then have "length ls \<le> fst ((md_pass ls ^^ length ls) (0, []))"
      by (intro md_progress allI impI) simp
    then show False using below [of "length ls"] by simp
  qed
  then obtain n where n: "n \<le> length ls" "?P n" by (elim exE conjE)
  have "(LEAST n. ?P n) \<le> length ls" by (rule order_trans [OF Least_le [of ?P, OF n(2)] n(1)])
  moreover have "md_loop ls = Some ((md_pass ls ^^ (LEAST n. ?P n)) (0, []))"
    unfolding md_loop_def while_option_def by (rule if_P) (rule exI, rule n(2))
  ultimately show ?thesis by (intro exI conjI)
qed

end
