(* ===== verification/DocsPage.thy ===== *)
theory DocsPage
  imports Components DocsText
begin

text \<open>
  The documentation page (\<open>web/src/app/docs/page.tsx\<close>): a menu of sections, one of them shown,
  rendered by theory \<open>Markdown\<close>, and the SDK examples with their language tabs.
\<close>

section \<open>State and events\<close>

definition SDK_LANGUAGES :: "SdkLanguage list" where
  "SDK_LANGUAGES = [Python, JavaScript, Go, Java, Ruby, PHP, Curl]"

definition sdk_name :: "SdkLanguage \<Rightarrow> string" where
  "sdk_name lang =
     (case lang of
        Python \<Rightarrow> ''Python'' | JavaScript \<Rightarrow> ''JavaScript'' | Go \<Rightarrow> ''Go'' | Java \<Rightarrow> ''Java''
      | Ruby \<Rightarrow> ''Ruby'' | PHP \<Rightarrow> ''PHP'' | Curl \<Rightarrow> ''curl'')"

definition SDK_EXAMPLES :: "SdkLanguage \<Rightarrow> sdk_example" where
  "SDK_EXAMPLES lang =
     (case lang of
        Python \<Rightarrow> sdk_python | JavaScript \<Rightarrow> sdk_javascript | Go \<Rightarrow> sdk_go | Java \<Rightarrow> sdk_java
      | Ruby \<Rightarrow> sdk_ruby | PHP \<Rightarrow> sdk_php | Curl \<Rightarrow> sdk_curl)"

record docs_page =
  dp_active :: string
  dp_sdkLang :: SdkLanguage

definition docs_init :: docs_page where
  "docs_init = \<lparr>dp_active = ''quickstart'', dp_sdkLang = Python\<rparr>"

datatype docs_event = OpenSection string | SelectLang SdkLanguage | DocsHeader header_event

fun docs_step :: "docs_event \<Rightarrow> docs_page \<Rightarrow> docs_page" where
  "docs_step (OpenSection i) s = s\<lparr>dp_active := i\<rparr>"
| "docs_step (SelectLang lang) s = s\<lparr>dp_sdkLang := lang\<rparr>"
| "docs_step (DocsHeader h) s = s"

section \<open>Rendered Markdown\<close>

text \<open>The keys are the positions in the list, the lengths of \<open>parts\<close> and \<open>elements\<close> at each push.\<close>

definition inline_node :: "nat \<times> inline \<Rightarrow> 'e node" where
  "inline_node ip =
     (let (i, p) = ip in
      case p of
        Plain s \<Rightarrow> Text s
      | Code s \<Rightarrow> Elem ''code'' [(''key'', ANum (num_int (int i)))] [Text s]
      | Strong s \<Rightarrow> Elem ''strong'' [(''key'', ANum (num_int (int i)))] [Text s])"

definition inline_nodes :: "string \<Rightarrow> 'e node list" where
  "inline_nodes line = map inline_node (enumerate 0 (renderInline line))"

definition cell_nodes :: "string \<Rightarrow> string list \<Rightarrow> 'e node list" where
  "cell_nodes tag cs =
     map (\<lambda>(i, c). Elem tag [(''key'', ANum (num_int (int i)))] [Text c]) (enumerate 0 cs)"

definition table_row :: "nat \<times> string list \<Rightarrow> 'e node" where
  "table_row ir =
     (let (i, row) = ir in Elem ''tr'' [(''key'', ANum (num_int (int i)))] (cell_nodes ''td'' row))"

definition block_node :: "nat \<times> block \<Rightarrow> 'e node" where
  "block_node ib =
     (let (i, b) = ib; key = [(''key'', ANum (num_int (int i)))] in
      case b of
        CodeBlock lang code \<Rightarrow>
          Elem ''pre'' key (cond_nodes (lang \<noteq> []) [el ''div'' [Text lang]] @ [el ''code'' [Text code]])
      | H2 s \<Rightarrow> Elem ''h2'' key [Text s]
      | H3 s \<Rightarrow> Elem ''h3'' key [Text s]
      | Table headers rows \<Rightarrow>
          Elem ''div'' key
            [el ''table''
               [el ''thead'' [el ''tr'' (cell_nodes ''th'' headers)],
                el ''tbody'' (map table_row (enumerate 0 rows))]]
      | Paragraph s \<Rightarrow> Elem ''p'' key (inline_nodes s))"

definition MarkdownContent_view :: "string \<Rightarrow> 'e node list" where
  "MarkdownContent_view content = map block_node (enumerate 0 (MarkdownContent content))"

section \<open>Page\<close>

definition sdk_tab :: "SdkLanguage \<Rightarrow> SdkLanguage \<Rightarrow> docs_event node" where
  "sdk_tab selectedLang lang =
     Elem ''button''
       [(''key'', AStr (sdk_name lang)), (''onClick'', On (SelectLang lang)),
        (''style.background'', AStr (if selectedLang = lang then ''var(--primary)'' else ''transparent'')),
        (''style.color'', AStr (if selectedLang = lang then ''white'' else ''var(--muted)''))]
       [Text (sdk_name lang)]"

definition SdkSection :: "messages \<Rightarrow> SdkLanguage \<Rightarrow> docs_event node" where
  "SdkSection t selectedLang =
     (let example = SDK_EXAMPLES selectedLang in
      el ''div''
        [el ''h2'' [Text (tr t ''docs.sdkExamples'')],
         el ''p'' [Text (''UniLLM is compatible with any OpenAI SDK or HTTP client. Select your ''
                         @ ''preferred language below.'')],
         el ''div'' (map (sdk_tab selectedLang) SDK_LANGUAGES),
         el ''pre'' [el ''div'' [Text (sdk_lang example)], el ''code'' [Text (sdk_code example)]]])"

text \<open>\<open>t.docs.sections[id] ?? id\<close>.\<close>

definition sectionLabel :: "messages \<Rightarrow> string \<Rightarrow> string" where
  "sectionLabel t i = (case t (''docs.sections.'' @ i) of Some s \<Rightarrow> s | None \<Rightarrow> i)"

definition active_section :: "docs_page \<Rightarrow> doc_section option" where
  "active_section s = List.find (\<lambda>sec. sec_id sec = dp_active s) SECTIONS"

definition section_button :: "messages \<Rightarrow> string \<Rightarrow> doc_section \<Rightarrow> docs_event node" where
  "section_button t active sec =
     Elem ''button''
       [(''key'', AStr (sec_id sec)), (''onClick'', On (OpenSection (sec_id sec))),
        (''style.background'', AStr (if active = sec_id sec then ''var(--primary)'' else ''transparent'')),
        (''style.color'', AStr (if active = sec_id sec then ''white'' else ''var(--muted)''))]
       [Text (sectionLabel t (sec_id sec))]"

definition docs_main :: "messages \<Rightarrow> docs_page \<Rightarrow> docs_event node list" where
  "docs_main t s =
     (case active_section s of
        None \<Rightarrow> []
      | Some sec \<Rightarrow>
          if sec_id sec = ''sdks'' then [SdkSection t (dp_sdkLang s)]
          else MarkdownContent_view (sec_content sec))"

definition docs_menu :: "messages \<Rightarrow> docs_page \<Rightarrow> docs_event node list" where
  "docs_menu t s = map (section_button t (dp_active s)) SECTIONS"

definition DocsPage_view :: "shell \<Rightarrow> messages \<Rightarrow> docs_page \<Rightarrow> docs_event node" where
  "DocsPage_view sh t s =
     el ''div''
       [map_node DocsHeader
          (SiteHeader sh t
             (no_props\<lparr>activeNav := Some NavDocs, trailing := [el ''span'' [Text (tr t ''docs.title'')]]\<rparr>)),
        el ''div'' [el ''nav'' (docs_menu t s), el ''main'' (docs_main t s)]]"

section \<open>The sections\<close>

lemma sec_ids [simp]:
  "sec_id section_quickstart = ''quickstart''" "sec_id section_auth = ''auth''" "sec_id section_chat = ''chat''"
  "sec_id section_models = ''models''" "sec_id section_streaming = ''streaming''" "sec_id section_sdks = ''sdks''"
  "sec_id section_functions = ''functions''" "sec_id section_errors = ''errors''"
  "sec_id section_ratelimits = ''ratelimits''" "sec_id section_pricing = ''pricing''"
  by (simp_all only: section_quickstart_def section_auth_def section_chat_def section_models_def section_streaming_def
      section_sdks_def section_functions_def section_errors_def section_ratelimits_def section_pricing_def
      doc_section.select_convs)

lemma section_ids:
  "map sec_id SECTIONS =
     [''quickstart'', ''auth'', ''chat'', ''models'', ''streaming'', ''sdks'', ''functions'', ''errors'',
      ''ratelimits'', ''pricing'']"
  by (simp add: SECTIONS_def)

lemma section_ids_distinct: "distinct (map sec_id SECTIONS)"
  by (simp add: section_ids)

lemma lines_of_doc: "ls \<noteq> [] \<Longrightarrow> list_all one_line ls \<Longrightarrow> split_on newline_char (doc_lines ls) = ls"
  unfolding doc_lines_def by (rule split_join) (simp_all add: one_line_def [abs_def])

lemma pricing_rendered:
  "MarkdownContent (sec_content section_pricing) =
     [H2 ''Pricing'',
      Paragraph ''Pricing is based on token usage per model. Check the dashboard for current rates.'',
      Table [''Model'', ''Input (per 1M tokens)'', ''Output (per 1M tokens)'']
        [[''deepseek-v3'', ''varies'', ''varies''], [''claude-haiku'', ''varies'', ''varies''],
         [''gemini-flash'', ''varies'', ''varies'']],
      Paragraph ''New accounts receive **$1.00 free credit**.'',
      Paragraph ''Balance can be topped up by contacting an administrator.'']"
  apply (simp only: MarkdownContent_parse section_pricing_def doc_section.select_convs)
  apply (subst lines_of_doc)
    apply simp
   apply (simp add: one_line_def newline_char_def)
  apply (simp add: parse_blocks.simps(2) fence_def has_bar_def cells_def trim_def is_ws_def)
  done

section \<open>The menu\<close>

text \<open>The events the page offers.\<close>

definition docs_offers :: "shell \<Rightarrow> messages \<Rightarrow> docs_event \<Rightarrow> docs_page \<Rightarrow> bool" where
  "docs_offers sh t e s \<longleftrightarrow> e \<in> set (events_of (DocsPage_view sh t s))"

lemma cells_no_events: "concat (map events_of (cell_nodes tag cs)) = []"
  by (rule concat_map_Nil) (auto simp: cell_nodes_def)

lemma line_no_events: "concat (map events_of (inline_nodes line)) = []"
  by (rule concat_map_Nil) (auto simp: inline_nodes_def inline_node_def split: inline.splits)

lemma rows_no_events: "concat (map (events_of \<circ> table_row) xs) = []"
  by (rule concat_map_Nil) (simp add: table_row_def cells_no_events [simplified] split: prod.splits)

lemma block_no_events: "events_of (block_node ib) = []"
  by (cases ib)
     (simp add: block_node_def cond_nodes_def Let_def cells_no_events [simplified] line_no_events [simplified]
       rows_no_events [simplified] split: block.splits)

lemma header_events_only:
  "OpenSection i \<notin> set (events_of (map_node DocsHeader n))"
  by (auto simp: events_of_map_node)

lemma main_events: "OpenSection i \<notin> set (concat (map events_of (docs_main t s)))"
  by (auto simp: docs_main_def SdkSection_def sdk_tab_def MarkdownContent_view_def block_no_events Let_def
      split: option.splits)

lemma offered_section:
  assumes "docs_offers sh t (OpenSection i) s"
  shows "i \<in> set (map sec_id SECTIONS)"
proof -
  have "OpenSection i \<in> set (concat (map events_of (docs_menu t s)))"
    using assms header_events_only main_events [of i t s] by (auto simp: docs_offers_def DocsPage_view_def)
  then show ?thesis by (auto simp: docs_menu_def section_button_def)
qed

interpretation docs_machine: machine docs_step "docs_offers sh t" "\<lambda>s. dp_active s \<in> set (map sec_id SECTIONS)" for sh t
proof unfold_locales
  fix s e assume "dp_active s \<in> set (map sec_id SECTIONS)" "docs_offers sh t e s"
  then show "dp_active (docs_step e s) \<in> set (map sec_id SECTIONS)"
    using offered_section by (cases e) auto
qed

definition highlighted :: "'e node \<Rightarrow> bool" where
  "highlighted n = (case attr_of ''style.background'' n of Some (AStr v) \<Rightarrow> v = ''var(--primary)'' | _ \<Rightarrow> False)"

text \<open>
  C29: The documentation page always shows the section its menu highlights. Whatever buttons of
  the page are pressed, the active section is one of the list, exactly one button of the menu is
  highlighted, the one with its label, and the content is that section's: the SDK examples, or
  the blocks that the Markdown parser finds in its text.
\<close>

theorem docs_show_the_highlighted_section:
  assumes "reach (docs_offers sh t) docs_step docs_init s"
  shows "\<exists>sec. active_section s = Some sec \<and>
    filter highlighted (docs_menu t s) = [section_button t (sec_id sec) sec] \<and>
    docs_main t s =
      (if sec_id sec = ''sdks'' then [SdkSection t (dp_sdkLang s)]
       else map block_node (enumerate 0 (parse_blocks (split_on newline_char (sec_content sec)))))"
proof -
  have "dp_active s \<in> set (map sec_id SECTIONS)"
    using docs_machine.reach_inv [OF assms] by (simp add: docs_init_def section_ids)
  then obtain sec where sec: "sec \<in> set SECTIONS" "sec_id sec = dp_active s" by auto
  have "active_section s = Some sec"
    using find_by_key [OF sec(1) section_ids_distinct] sec(2) by (simp add: active_section_def)
  moreover have "highlighted (section_button t a q) \<longleftrightarrow> a = sec_id q" for a q
    by (simp add: highlighted_def section_button_def)
  then have "filter highlighted (docs_menu t s) = [section_button t (sec_id sec) sec]"
    using filter_by_key [OF sec(1) section_ids_distinct] sec(2) by (simp add: docs_menu_def filter_map o_def)
  ultimately show ?thesis
    using sec(2) by (auto simp: docs_main_def MarkdownContent_view_def MarkdownContent_parse)
qed

definition docs_shell :: shell where
  "docs_shell = \<lparr>sh_mounted = True, sh_theme = None, sh_locale = En, sh_logged_in = False\<rparr>"

lemma docs_show_the_highlighted_section_witness:
  "\<exists>sec. active_section (docs_step (OpenSection ''sdks'') docs_init) = Some sec \<and>
     filter highlighted (docs_menu (messagesMap En) (docs_step (OpenSection ''sdks'') docs_init)) =
       [section_button (messagesMap En) (sec_id sec) sec]"
proof -
  have "section_sdks \<in> set SECTIONS" by (simp add: SECTIONS_def)
  then have "OpenSection (sec_id section_sdks) \<in>
      set (concat (map events_of (docs_menu (messagesMap En) docs_init)))"
    by (auto simp: docs_menu_def section_button_def intro!: bexI [of _ section_sdks] simp del: sec_ids)
  then have "docs_offers docs_shell (messagesMap En) (OpenSection ''sdks'') docs_init"
    by (auto simp: docs_offers_def DocsPage_view_def)
  then have "reach (docs_offers docs_shell (messagesMap En)) docs_step docs_init
      (docs_step (OpenSection ''sdks'') docs_init)"
    by (intro reach_next reach_start)
  from docs_show_the_highlighted_section [OF this] show ?thesis by blast
qed

text \<open>
  Every section of the documentation has a label in both languages: the lookup of the menu
  never falls back to the identifier of the section.
\<close>

theorem section_labels_translated:
  "list_all (\<lambda>sec. \<exists>l. messagesMap loc (''docs.sections.'' @ sec_id sec) = Some l \<and> l \<noteq> [] \<and>
     sectionLabel (messagesMap loc) (sec_id sec) = l) SECTIONS"
proof -
  have keys: "map (\<lambda>sec. ''docs.sections.'' @ sec_id sec) SECTIONS =
      filter (\<lambda>k. startsWith k ''docs.sections.'') (map fst en_docs)"
    by (simp add: SECTIONS_def en_docs_def)
  have "\<exists>l. messagesMap loc k = Some l \<and> l \<noteq> []"
    if k: "k \<in> set (map (\<lambda>sec. ''docs.sections.'' @ sec_id sec) SECTIONS)" for k
  proof -
    have "k \<in> set (map fst en_docs)" using k unfolding keys by simp
    then have "k \<in> set (map fst en_catalog)" by (simp add: en_catalog_def)
    moreover from this have "k \<in> set (map fst zh_catalog)" by (simp only: same_keys)
    ultimately show ?thesis
      using present_text [OF catalog_texts(1)] present_text [OF catalog_texts(2)]
      by (cases loc) (simp_all add: messagesMap_def)
  qed
  then show ?thesis by (force simp: list_all_iff sectionLabel_def)
qed

text \<open>The introduction to the examples is the English text in both languages.\<close>

lemma sdk_intro_untranslated:
  "children (SdkSection t lang) ! 1 =
     el ''p'' [Text (''UniLLM is compatible with any OpenAI SDK or HTTP client. Select your ''
                     @ ''preferred language below.'')]"
  by (simp add: SdkSection_def Let_def)

end
