(* ===== verification/HomePage.thy ===== *)
theory HomePage
  imports ModelsPage DocsText
begin

text \<open>
  The landing page (\<open>web/src/app/page.tsx\<close>): fixed texts, the first models of the catalog as
  cards and as a price table. The hover handlers, which only swap a colour, are left out.
\<close>

section \<open>State and events\<close>

definition home_VENDOR_COLORS :: "string \<rightharpoonup> string" where
  "home_VENDOR_COLORS = map_of
     [(''Anthropic'', ''#d97706''), (''Google'', ''#2563eb''), (''OpenAI'', ''#10b981''),
      (''DeepSeek'', ''#8b5cf6''), (''Alibaba'', ''#ff6a00''), (''Meta'', ''#1877f2''),
      (''Mistral'', ''#f43f5e'')]"

definition home_getVendorColor :: "string \<Rightarrow> string" where
  "home_getVendorColor vendor =
     (case home_VENDOR_COLORS vendor of Some c \<Rightarrow> str_or c ''#737373'' | None \<Rightarrow> ''#737373'')"

record home_page =
  hm_models :: "ModelInfo list"
  hm_modelsLoaded :: bool

definition home_init :: home_page where
  "home_init = \<lparr>hm_models = [], hm_modelsLoaded = False\<rparr>"

text \<open>\<open>HomeCatalog r\<close>: \<open>getModelCatalog\<close> settles; its payload is \<open>data.models\<close>, if present.\<close>

datatype home_event = HomeCatalog "ModelInfo list option jsresult" | HomeHeader header_event

definition home_loadModels :: "ModelInfo list option jsresult \<Rightarrow> home_page \<Rightarrow> home_page" where
  "home_loadModels r s =
     (case r of
        Inr data \<Rightarrow> s\<lparr>hm_models := models_or_empty data, hm_modelsLoaded := True\<rparr>
      | Inl _ \<Rightarrow> s\<lparr>hm_modelsLoaded := True\<rparr>)"

fun home_step :: "home_event \<Rightarrow> home_page \<Rightarrow> home_page" where
  "home_step (HomeCatalog r) s = home_loadModels r s"
| "home_step (HomeHeader h) s = s"

definition previewModels :: "home_page \<Rightarrow> ModelInfo list" where
  "previewModels s = take 6 (hm_models s)"

section \<open>Fixed parts\<close>

definition home_features :: "(string \<times> string) list" where
  "home_features =
     [(''openai'', ''{}''), (''pricing'', ''$''), (''multiVendor'', cp [0x2194]), (''failover'', cp [0x21BB]),
      (''dashboard'', cp [0x25CE]), (''devFirst'', ''>_'')]"

definition home_stats :: "messages \<Rightarrow> (string \<times> string) list" where
  "home_stats t =
     [(tr t ''home.statsModels'', ''7+''), (tr t ''home.statsVendors'', ''3''),
      (tr t ''home.statsUptime'', ''99.9%''), (tr t ''home.statsLatency'', ''<1s'')]"

definition home_link :: "string \<Rightarrow> string list \<Rightarrow> 'e node" where
  "home_link url texts = Elem ''a'' [(''href'', AStr url)] (map Text texts)"

definition coloured :: "string \<Rightarrow> string \<Rightarrow> 'e node" where
  "coloured color s = Elem ''span'' [(''style.color'', AStr color)] [Text s]"

definition line_feed :: string where
  "line_feed = [newline_char]"

definition curl_body :: string where
  \<open>curl_body =
     ''{'' @ line_feed @ ''    "model": "claude-sonnet-4-20250514",'' @ line_feed
     @ ''    "messages": [{"role": "user", "content": "Hello!"}]'' @ line_feed @ ''  }''\<close>

definition home_terminal :: "messages \<Rightarrow> 'e node" where
  \<open>home_terminal t =
     el ''div''
       [el ''div''
          [Elem ''span'' [(''style.background'', AStr ''#ef4444'')] [],
           Elem ''span'' [(''style.background'', AStr ''#f59e0b'')] [],
           Elem ''span'' [(''style.background'', AStr ''#22c55e'')] [],
           el ''span'' [Text (tr t ''home.terminal'')]],
        el ''pre''
          [coloured ''var(--success)'' ''curl'',
           Text ('' https://api.unillm.dev/v1/chat/completions '' @ backslash_text @ line_feed),
           Text ''  -H '',
           coloured ''#d97706'' ''"Authorization: Bearer YOUR_API_KEY"'',
           Text ('' '' @ backslash_text @ line_feed),
           Text ''  -H '',
           coloured ''#d97706'' ''"Content-Type: application/json"'',
           Text ('' '' @ backslash_text @ line_feed),
           Text ''  -d '',
           coloured ''#d97706'' quote,
           coloured ''var(--foreground)'' curl_body,
           coloured ''#d97706'' quote]]\<close>

definition home_hero :: "messages \<Rightarrow> 'e node" where
  "home_hero t =
     el ''section''
       [el ''h1'' [Text (tr t ''home.heroTitle''), Text '' '',
                   coloured ''var(--primary)'' (tr t ''home.heroTitleHighlight'')],
        el ''p'' [Text (tr t ''home.heroSubtitle'')],
        el ''div'' [home_link ''/login'' [tr t ''home.getStarted''], home_link ''/models'' [tr t ''home.viewModels'']],
        el ''div'' [home_terminal t]]"

definition home_stats_section :: "messages \<Rightarrow> 'e node" where
  "home_stats_section t =
     el ''section''
       [el ''div''
          (map (\<lambda>(label, val). Elem ''div'' [(''key'', AStr label)] [el ''div'' [Text val], el ''div'' [Text label]])
             (home_stats t))]"

definition feature_card :: "messages \<Rightarrow> string \<times> string \<Rightarrow> 'e node" where
  "feature_card t f =
     (let (key, icon) = f in
      Elem ''div'' [(''key'', AStr key)]
        [el ''div'' [Text icon],
         el ''h3'' [Text (tr t (''home.features.'' @ key @ ''.title''))],
         el ''p'' [Text (tr t (''home.features.'' @ key @ ''.description''))]])"

definition features_section :: "messages \<Rightarrow> 'e node" where
  "features_section t =
     el ''section''
       [el ''h2'' [Text (tr t ''home.featuresTitle'')], el ''p'' [Text (tr t ''home.featuresSubtitle'')],
        el ''div'' (map (feature_card t) home_features)]"

section \<open>Models\<close>

definition home_price :: "messages \<Rightarrow> string \<Rightarrow> jsnum \<Rightarrow> 'e node" where
  "home_price t label p =
     el ''div''
       [el ''div'' [Text label],
        el ''div''
          [Text ''$'', Text (toFixed 2 p), el ''span'' [Text '' '', Text (tr t ''home.perMillion'')]]]"

definition home_card :: "messages \<Rightarrow> ModelInfo \<Rightarrow> 'e node" where
  "home_card t m =
     (let vendor = str_or (mi_vendor m) ''Other''; color = home_getVendorColor vendor in
      Elem ''div'' [(''key'', AStr (mi_id m))]
        [el ''div''
           [el ''h3'' [Text (mi_id m)],
            Elem ''span''
              [(''style.background'', AStr (color @ ''20'')), (''style.color'', AStr color),
               (''style.border'', AStr (''1px solid '' @ color @ ''40''))]
              [Text vendor]],
         el ''div''
           [home_price t (tr t ''home.input'') (mi_input_price m),
            home_price t (tr t ''home.output'') (mi_output_price m)]])"

definition home_cards :: "messages \<Rightarrow> home_page \<Rightarrow> 'e node list" where
  "home_cards t s =
     (if \<not> hm_modelsLoaded s then [el ''div'' [Text (tr t ''home.loadingModels'')]]
      else if previewModels s = [] then [el ''div'' [Text (tr t ''home.noModels'')]]
      else
        [el ''div'' (map (home_card t) (previewModels s)),
         el ''div'' [home_link ''/models'' [tr t ''home.viewAllModels'', '' '' @ cp [0x2192]]]])"

definition home_models_section :: "messages \<Rightarrow> home_page \<Rightarrow> 'e node" where
  "home_models_section t s =
     el ''section''
       [el ''div''
          ([el ''h2'' [Text (tr t ''home.modelsTitle'')], el ''p'' [Text (tr t ''home.modelsSubtitle'')]]
           @ home_cards t s)]"

definition price_row :: "nat \<times> ModelInfo \<Rightarrow> 'e node" where
  "price_row im =
     (let (i, m) = im; vendor = str_or (mi_vendor m) ''Other'' in
      Elem ''tr''
        ([(''key'', AStr (mi_id m))] @ (if 0 < i then [(''style.borderTop'', AStr ''1px solid var(--border)'')] else []))
        [el ''td'' [el ''span'' [Text (mi_id m)], coloured (home_getVendorColor vendor) vendor],
         el ''td'' [Text ''$'', Text (toFixed 2 (mi_input_price m))],
         el ''td'' [Text ''$'', Text (toFixed 2 (mi_output_price m))]])"

definition price_rows :: "messages \<Rightarrow> home_page \<Rightarrow> 'e node list" where
  "price_rows t s =
     map price_row (enumerate 0 (if hm_models s \<noteq> [] then take 6 (hm_models s) else []))
     @ cond_nodes (hm_models s = [])
         [el ''tr'' [Elem ''td'' [(''colSpan'', ANum (Fin 3))] [Text (tr t ''home.pricingLoading'')]]]"

definition pricing_section :: "messages \<Rightarrow> home_page \<Rightarrow> 'e node" where
  "pricing_section t s =
     el ''section''
       [el ''h2'' [Text (tr t ''home.pricingTitle'')], el ''p'' [Text (tr t ''home.pricingSubtitle'')],
        el ''div''
          [el ''table''
             [el ''thead''
                [el ''tr''
                   [el ''th'' [Text (tr t ''home.pricingModel'')], el ''th'' [Text (tr t ''home.pricingInput'')],
                    el ''th'' [Text (tr t ''home.pricingOutput'')]]],
              el ''tbody'' (price_rows t s)]],
        el ''div'' [home_link ''/login'' [tr t ''home.startFreeCredit'']]]"

definition Home_view :: "shell \<Rightarrow> messages \<Rightarrow> home_page \<Rightarrow> home_event node" where
  "Home_view sh t s =
     el ''div''
       [map_node HomeHeader (SiteHeader sh t no_props),
        home_hero t, home_stats_section t, features_section t, home_models_section t s, pricing_section t s,
        el ''footer'' [el ''p'' [Text (cp [0xA9] @ '' 2026 UniLLM. ''), Text (tr t ''home.footer'')]]]"

section \<open>Properties\<close>

text \<open>The command of the terminal panel is a request the API accepts: its body is JSON.\<close>

lemma curl_body_parses:
  "JSON_parse curl_body =
     Some (JObj [(''model'', JStr ''claude-sonnet-4-20250514''),
       (''messages'', JArr [JObj [(''role'', JStr ''user''), (''content'', JStr ''Hello!'')]])])"
  unfolding curl_body_def line_feed_def newline_char_def by code_simp

text \<open>The texts of a card's two prices, and of a row's.\<close>

definition card_prices :: "'e node \<Rightarrow> string list" where
  "card_prices n = map (\<lambda>p. concat (map text_of (take 2 (children (children p ! 1))))) (children (children n ! 1))"

definition row_prices :: "'e node \<Rightarrow> string list" where
  "row_prices n = map text_of (tl (children n))"

lemma map_enumerate_const: "(\<And>i x. f (i, x) = g x) \<Longrightarrow> map f (enumerate k xs) = map g xs"
  by (induction xs arbitrary: k) simp_all

lemma price_rows_keys:
  "map (attr_of ''key'') (map price_row (enumerate 0 ms)) = map (\<lambda>m. Some (AStr (mi_id m))) ms"
  unfolding map_map by (rule map_enumerate_const) (simp add: price_row_def Let_def)

lemma price_rows_prices:
  "map row_prices (map price_row (enumerate 0 ms)) = map card_prices (map (home_card t) ms)"
  unfolding map_map
  by (rule map_enumerate_const)
     (simp add: price_row_def row_prices_def card_prices_def home_card_def home_price_def Let_def)

lemma cards_keys: "map (attr_of ''key'') (map (home_card t) ms) = map (\<lambda>m. Some (AStr (mi_id m))) ms"
  by (simp add: home_card_def Let_def)

text \<open>The models an answer brings: none when it fails or leaves the member out.\<close>

definition catalog_of :: "ModelInfo list option jsresult \<Rightarrow> ModelInfo list" where
  "catalog_of r = (case r of Inr data \<Rightarrow> models_or_empty data | Inl e \<Rightarrow> [])"

lemma home_settled:
  assumes "catalog_of r \<noteq> []"
  shows "price_rows t (home_step (HomeCatalog r) home_init) = map price_row (enumerate 0 (take 6 (catalog_of r)))"
    "home_cards t (home_step (HomeCatalog r) home_init) = [el ''div'' (map (home_card t) (take 6 (catalog_of r))),
        el ''div'' [home_link ''/models'' [tr t ''home.viewAllModels'', '' '' @ cp [0x2192]]]]"
  using assms
  by (auto simp: price_rows_def home_cards_def previewModels_def home_loadModels_def home_init_def catalog_of_def
      split: sum.splits)

lemma home_empty:
  assumes "catalog_of r = []"
  shows "map text_of (price_rows t (home_step (HomeCatalog r) home_init)) = [tr t ''home.pricingLoading'']"
    "home_cards t (home_step (HomeCatalog r) home_init) = [el ''div'' [Text (tr t ''home.noModels'')]]"
  using assms
  by (auto simp: price_rows_def home_cards_def previewModels_def home_loadModels_def home_init_def catalog_of_def
      split: sum.splits)

text \<open>
  C36: The cards and the price table of the landing page agree. Once a catalog that is not empty
  has arrived, both show its first six models, in its order, under the same keys and with the
  same two prices. If the catalog is empty or its call fails, the cards' place says that there
  are no models, while the table goes on saying that its prices are loading.
\<close>

theorem home_cards_and_prices_agree:
  "let s = home_step (HomeCatalog r) home_init in
   if catalog_of r = [] then
     home_cards t s = [el ''div'' [Text (tr t ''home.noModels'')]] \<and>
     map text_of (price_rows t s) = [tr t ''home.pricingLoading'']
   else
     (\<exists>cards link. home_cards t s = [el ''div'' cards, link] \<and>
        map (attr_of ''key'') cards = map (\<lambda>m. Some (AStr (mi_id m))) (take 6 (catalog_of r)) \<and>
        map (attr_of ''key'') (price_rows t s) = map (attr_of ''key'') cards \<and>
        map row_prices (price_rows t s) = map card_prices cards)"
  by (cases "catalog_of r = []")
     (simp_all add: home_settled home_empty price_rows_keys price_rows_prices cards_keys Let_def
       del: map_map home_step.simps)

end
