(* ===== verification/Promises.thy ===== *)
theory Promises
  imports Browser "HOL-Library.Multiset"
begin

text \<open>
  Waiting for several calls at once, the way \<open>await Promise.all([...])\<close> does. A page keeps, for
  each such wait, a record with one slot per call; the answers fill the slots in any order. The
  first answer that rejects makes the wait throw, and the last one to fulfil it resumes the
  handler. The locale states what a page's slots and handlers have to satisfy, and shows what a
  whole series of answers comes to.
\<close>

section \<open>Slots\<close>

datatype 'a slot = Waiting | Got 'a | Lost

definition settle_slot :: "'a reply \<Rightarrow> 'a slot" where
  "settle_slot rep = (case rep of Success a \<Rightarrow> Got a | _ \<Rightarrow> Lost)"

text \<open>\<open>call().catch(() => fallback)\<close>: fulfilled either way.\<close>

definition settle_or :: "'a \<Rightarrow> 'a reply \<Rightarrow> 'a slot" where
  "settle_or fallback rep = (case rep of Success a \<Rightarrow> Got a | _ \<Rightarrow> Got fallback)"

text \<open>A promise settles once.\<close>

definition fill :: "'a slot \<Rightarrow> 'a slot \<Rightarrow> 'a slot" where
  "fill old new = (if old = Waiting then new else old)"

text \<open>\<open>answer.member || []\<close>, for a member that holds a list where it is present.\<close>

definition list_or_empty :: "'a list option \<Rightarrow> 'a list" where
  "list_or_empty v = (case v of Some xs \<Rightarrow> xs | None \<Rightarrow> [])"

lemma settle_slot_simps [simp]:
  "settle_slot rep \<noteq> Waiting" "settle_or d rep \<noteq> Waiting" "settle_or d rep \<noteq> Lost"
  "settle_slot rep = Lost \<longleftrightarrow> (\<forall>a. rep \<noteq> Success a)"
  by (cases rep; simp add: settle_slot_def settle_or_def)+

lemma fill_simps [simp]: "fill Waiting new = new" "old \<noteq> Waiting \<Longrightarrow> fill old new = old"
  by (simp_all add: fill_def)

section \<open>One answer\<close>

text \<open>
  \<open>client\<close> is what the API client does on the answer, \<open>catch\<close> the handler's \<open>catch\<close> block and
  \<open>commit\<close> its continuation, which runs when every slot is fulfilled.
\<close>

definition settle_promise ::
  "('r \<Rightarrow> 'l \<Rightarrow> 'l) \<Rightarrow> ('l \<Rightarrow> bool) \<Rightarrow> ('st \<Rightarrow> 'l) \<Rightarrow> ('l \<Rightarrow> 'st \<Rightarrow> 'st) \<Rightarrow> ('r \<Rightarrow> 'st \<Rightarrow> 'st) \<Rightarrow>
   ('r \<Rightarrow> 'st \<Rightarrow> 'st) \<Rightarrow> ('l \<Rightarrow> 'st \<Rightarrow> 'st option) \<Rightarrow> 'r \<Rightarrow> 'st \<Rightarrow> 'st" where
  "settle_promise settle lost get put client catch commit r st =
     (let l = get st; l' = settle r l; st' = put l' (client r st) in
      if l' = l then st
      else if lost l' then (if lost l then st' else catch r st')
      else (case commit l' st' of Some st'' \<Rightarrow> st'' | None \<Rightarrow> st'))"

locale promise_all =
  fixes settle :: "'r \<Rightarrow> 'l \<Rightarrow> 'l"
    and kind :: "'r \<Rightarrow> 'k"
    and waiting :: "'k \<Rightarrow> 'l \<Rightarrow> bool"
    and lost :: "'l \<Rightarrow> bool"
    and rejects :: "'r \<Rightarrow> bool"
    and get :: "'st \<Rightarrow> 'l"
    and put :: "'l \<Rightarrow> 'st \<Rightarrow> 'st"
    and client :: "'r \<Rightarrow> 'st \<Rightarrow> 'st"
    and catch :: "'r \<Rightarrow> 'st \<Rightarrow> 'st"
    and commit :: "'l \<Rightarrow> 'st \<Rightarrow> 'st option"
  assumes waiting_settle: "waiting k (settle r l) \<longleftrightarrow> waiting k l \<and> kind r \<noteq> k"
    and lost_settle: "waiting (kind r) l \<Longrightarrow> lost (settle r l) \<longleftrightarrow> lost l \<or> rejects r"
    and settle_commute: "kind r \<noteq> kind q \<Longrightarrow> settle r (settle q l) = settle q (settle r l)"
    and commit_waiting: "waiting k l \<Longrightarrow> commit l st = None"
    and get_put: "get (put l st) = l"
    and get_catch: "get (catch r st) = get st"
    and put_put: "put l' (put l st) = put l' st"
    and client_put: "client r (put l st) = put l (client r st)"
    and catch_put: "catch r (put l st) = put l (catch r st)"
    and client_catch: "client r (catch q st) = catch q (client r st)"
begin

abbreviation answer :: "'r \<Rightarrow> 'st \<Rightarrow> 'st" where
  "answer \<equiv> settle_promise settle lost get put client catch commit"

lemma settle_changes: "waiting (kind r) l \<Longrightarrow> settle r l \<noteq> l"
  using waiting_settle [of "kind r" r l] by auto

lemma waiting_fold: "waiting k (fold settle rs l) \<longleftrightarrow> waiting k l \<and> k \<notin> kind ` set rs"
  by (induction rs arbitrary: l) (auto simp: waiting_settle)

lemma lost_fold:
  assumes "distinct (map kind rs)" "\<forall>r \<in> set rs. waiting (kind r) l"
  shows "lost (fold settle rs l) \<longleftrightarrow> lost l \<or> (\<exists>r \<in> set rs. rejects r)"
  using assms
proof (induction rs arbitrary: l)
  case (Cons r rs)
  then have "\<forall>q \<in> set rs. waiting (kind q) (settle r l)" by (auto simp: waiting_settle)
  with Cons show ?case by (simp add: lost_settle)
qed simp

text \<open>The order of the answers does not matter for the slots.\<close>

lemma any_order:
  assumes "mset rs = mset qs" "distinct (map kind qs)"
  shows "distinct (map kind rs)" "fold settle rs = fold settle qs"
proof -
  show dist: "distinct (map kind rs)"
    using assms by (metis mset_eq_imp_distinct_iff mset_map)
  show "fold settle rs = fold settle qs"
  proof (rule fold_multiset_equiv [OF _ assms(1)])
    fix x y assume "x \<in> set rs" "y \<in> set rs"
    then have "x = y \<or> kind x \<noteq> kind y"
      using dist by (auto simp: distinct_map dest: inj_onD)
    then show "settle x \<circ> settle y = settle y \<circ> settle x"
      by (auto simp: fun_eq_iff settle_commute)
  qed
qed

text \<open>
  The whole series: the first answer that rejects decides, unless the wait had already thrown;
  when none does, the continuation runs on the filled slots.
\<close>

definition decided :: "'r list \<Rightarrow> 'l \<Rightarrow> 'st \<Rightarrow> 'st" where
  "decided rs l st =
     (let l' = fold settle rs l; c = put l' (fold client rs st) in
      if lost l then c
      else (case List.find rejects rs of
              Some q \<Rightarrow> catch q c
            | None \<Rightarrow> (case commit l' c of Some c' \<Rightarrow> c' | None \<Rightarrow> c)))"

lemma fold_client_put: "fold client rs (put l st) = put l (fold client rs st)"
  by (induction rs arbitrary: st) (simp_all add: client_put)

lemma fold_client_catch: "fold client rs (catch q st) = catch q (fold client rs st)"
  by (induction rs arbitrary: st) (simp_all add: client_catch)

lemma answers:
  assumes "rs \<noteq> []" "distinct (map kind rs)" "\<forall>r \<in> set rs. waiting (kind r) (get st)"
  shows "fold answer rs st = decided rs (get st) st"
  using assms
proof (induction rs arbitrary: st)
  case (Cons r rs)
  let ?l = "get st" and ?l' = "settle r (get st)" and ?c = "put (settle r (get st)) (client r st)"
  have open_r: "waiting (kind r) ?l" using Cons.prems by simp
  note lost' = lost_settle [OF open_r] and changed = settle_changes [OF open_r]
  have step: "answer r st =
      (if lost ?l then ?c else if rejects r then catch r ?c
       else (case commit ?l' ?c of Some c' \<Rightarrow> c' | None \<Rightarrow> ?c))"
    using changed by (simp add: settle_promise_def lost' Let_def)
  show ?case
  proof (cases "rs = []")
    case True
    then show ?thesis using step by (simp add: decided_def Let_def)
  next
    case False
    have opens: "waiting (kind q) ?l'" if "q \<in> set rs" for q
      using that Cons.prems by (auto simp: waiting_settle)
    then have none: "commit ?l' ?c = None"
      using False commit_waiting [of "kind (hd rs)" ?l'] by simp
    have next_st: "answer r st = (if rejects r \<and> \<not> lost ?l then catch r ?c else ?c)"
      by (simp add: step none)
    have "fold answer rs (answer r st) = decided rs ?l' (answer r st)"
      using Cons.IH [of "answer r st"] False Cons.prems opens by (simp add: next_st get_put get_catch)
    also have "\<dots> = decided (r # rs) ?l st"
      by (cases "rejects r"; cases "lost ?l")
         (simp_all add: decided_def next_st lost' fold_client_put fold_client_catch put_put
          catch_put [symmetric] Let_def)
    finally show ?thesis by simp
  qed
qed simp

end

end
