(* ===== verification/AdminApi.thy ===== *)
theory AdminApi
  imports Api
begin

text \<open>
  The API client of the admin page (\<open>web/src/lib/admin-api.ts\<close>). It differs from the user
  client in its base path and in the branch for a 403.
\<close>

definition ADMIN_API_BASE :: string where
  "ADMIN_API_BASE = ''/api/admin''"

definition adminFetch_request :: "string \<Rightarrow> request_init \<Rightarrow> browser \<Rightarrow> request" where
  "adminFetch_request path init b = base_request ADMIN_API_BASE path init b"

definition adminFetch_settle :: "fetched \<Rightarrow> browser \<Rightarrow> json jsresult \<times> browser" where
  "adminFetch_settle f b =
     (case f of
        Rejected m \<Rightarrow> (Throw m, b)
      | Responded res \<Rightarrow>
          if status res = 401 then
            (let b' = (if has_window b then set_href ''/login'' (removeItem ''token'' b) else b)
             in (Throw ''Unauthorized'', b'))
          else if status res = 403 then (Throw ''Admin access required'', b)
          else if \<not> res_ok res then (Throw (error_message res), b)
          else (res_json res, b))"

definition admin_reply :: "fetched \<Rightarrow> json reply" where
  "admin_reply f =
     (case f of
        Rejected m \<Rightarrow> Failed m
      | Responded res \<Rightarrow>
          if status res = 401 then Unauthorized
          else if status res = 403 then Failed ''Admin access required''
          else if \<not> res_ok res then Failed (error_message res)
          else (case res_json res of Inr j \<Rightarrow> Success j | Inl m \<Rightarrow> Failed m))"

interpretation admin_api: authed_client adminFetch_settle admin_reply
proof unfold_locales
  show "adminFetch_settle f b = take_reply (admin_reply f) b" for f b
    by (auto simp: adminFetch_settle_def admin_reply_def take_reply_def sign_out_def res_json_def
        split: fetched.splits option.splits)
  show "admin_reply f = Unauthorized \<longleftrightarrow> (\<exists>r. f = Responded r \<and> status r = 401)" for f
    by (auto simp: admin_reply_def split: fetched.splits sum.splits)
  show "admin_reply f = Success j \<longleftrightarrow>
      (\<exists>r. f = Responded r \<and> res_ok r \<and> JSON_parse (body r) = Some j)" for f j
    by (auto simp: admin_reply_def res_json_def res_ok_def split: fetched.splits sum.splits option.splits)
qed

section \<open>Calls\<close>

definition getGlobalStats_request :: "browser \<Rightarrow> request" where
  "getGlobalStats_request = adminFetch_request ''/stats'' no_init"

definition getUsers_request :: "browser \<Rightarrow> request" where
  "getUsers_request = adminFetch_request ''/users'' no_init"

definition updateBalance_request :: "jsnum \<Rightarrow> jsnum \<Rightarrow> string \<Rightarrow> browser \<Rightarrow> request" where
  "updateBalance_request userId delta reason =
     adminFetch_request ''/users/balance''
       (json_init ''POST''
         (JObj [(''user_id'', JNum userId), (''delta'', JNum delta), (''reason'', JStr reason)]))"

definition getProviders_request :: "browser \<Rightarrow> request" where
  "getProviders_request = adminFetch_request ''/providers'' no_init"

definition createProvider_request :: "string \<Rightarrow> string \<Rightarrow> browser \<Rightarrow> request" where
  "createProvider_request name baseUrl =
     adminFetch_request ''/providers''
       (json_init ''POST'' (JObj [(''name'', JStr name), (''base_url'', JStr baseUrl)]))"

definition toggleProvider_request :: "int \<Rightarrow> bool \<Rightarrow> browser \<Rightarrow> request" where
  "toggleProvider_request i isActive =
     adminFetch_request ''/providers/toggle''
       (json_init ''PUT'' (JObj [(''id'', JNum (num_int i)), (''is_active'', JBool isActive)]))"

definition getModels_request :: "browser \<Rightarrow> request" where
  "getModels_request = adminFetch_request ''/models'' no_init"

record new_model =
  nm_public_name :: string
  nm_provider_id :: int
  nm_upstream_model :: string
  nm_input_price_per_1m :: jsnum
  nm_output_price_per_1m :: jsnum
  nm_max_tokens :: int

definition createModel_request :: "new_model \<Rightarrow> browser \<Rightarrow> request" where
  "createModel_request m =
     adminFetch_request ''/models''
       (json_init ''POST''
         (JObj [(''public_name'', JStr (nm_public_name m)),
                (''provider_id'', JNum (num_int (nm_provider_id m))),
                (''upstream_model'', JStr (nm_upstream_model m)),
                (''input_price_per_1m'', JNum (nm_input_price_per_1m m)),
                (''output_price_per_1m'', JNum (nm_output_price_per_1m m)),
                (''max_tokens'', JNum (num_int (nm_max_tokens m)))]))"

text \<open>The optional members of \<open>updates\<close> are left out of the body when undefined.\<close>

record model_updates =
  up_id :: int
  up_input_price_per_1m :: "jsnum option"
  up_output_price_per_1m :: "jsnum option"
  up_is_active :: "bool option"
  up_max_tokens :: "int option"

definition opt_member :: "string \<Rightarrow> json option \<Rightarrow> (string \<times> json) list" where
  "opt_member k v = (case v of None \<Rightarrow> [] | Some j \<Rightarrow> [(k, j)])"

definition updates_json :: "model_updates \<Rightarrow> json" where
  "updates_json u =
     JObj ([(''id'', JNum (num_int (up_id u)))]
       @ opt_member ''input_price_per_1m'' (map_option JNum (up_input_price_per_1m u))
       @ opt_member ''output_price_per_1m'' (map_option JNum (up_output_price_per_1m u))
       @ opt_member ''is_active'' (map_option JBool (up_is_active u))
       @ opt_member ''max_tokens'' (map_option (\<lambda>n. JNum (num_int n)) (up_max_tokens u)))"

definition updateModel_request :: "model_updates \<Rightarrow> browser \<Rightarrow> request" where
  "updateModel_request u = adminFetch_request ''/models'' (json_init ''PUT'' (updates_json u))"

definition getProviderKeys_request :: "browser \<Rightarrow> request" where
  "getProviderKeys_request = adminFetch_request ''/provider-keys'' no_init"

definition addProviderKey_request :: "jsnum \<Rightarrow> string \<Rightarrow> jsnum \<Rightarrow> browser \<Rightarrow> request" where
  "addProviderKey_request providerId keyValue rpm =
     adminFetch_request ''/provider-keys''
       (json_init ''POST''
         (JObj [(''provider_id'', JNum providerId), (''key_value'', JStr keyValue), (''rpm'', JNum rpm)]))"

section \<open>Properties of the API clients\<close>

text \<open>
  C1: A successful login starts a session: the password is sent once, in a body that parses back
  to the two inputs; the token of the answer is stored; the page counts as logged in; and every
  later API request carries the token as its bearer token, whatever headers its caller passes.
\<close>

theorem login_starts_session:
  assumes "has_window b" "res_ok r" "JSON_parse (body r) = Some data"
    and "get_prop data ''token'' = Some (JStr tok)" "tok \<noteq> []"
  shows "let (res, b') = login email password (Responded r) b in
    res = Ok data \<and> isLoggedIn b' \<and>
    (\<exists>rq. sent b' = sent b @ [rq] \<and> rq_url rq = ''/api/auth/login'' \<and>
       map_option JSON_parse (rq_body rq) =
         Some (Some (JObj [(''email'', JStr email), (''password'', JStr password)]))) \<and>
    (\<forall>path init. map_of (rq_headers (fetchAPI_request path init b')) ''Authorization'' =
       Some (''Bearer '' @ tok))"
proof -
  have ok: "fetchAPI_settle (Responded r) b1 = (Ok data, b1)" for b1
    using assms(2,3) by (auto simp: fetchAPI_settle_def res_ok_def res_json_def)
  have data: "data \<noteq> JNull" using assms(4) by auto
  have run: "login email password (Responded r) b = (Ok data, setItem ''token'' tok
      (send (fetchAPI_request ''/auth/login'' (login_init email password) b) b))"
    using data assms(4) by (cases data) (simp_all add: login_def fetchAPI_def ok store_token_def)
  have wf: "json_wf (JObj [(''email'', JStr email), (''password'', JStr password)])" by simp
  then show ?thesis using assms(1,5)
    by (simp add: run login_init_def fetchAPI_request_def base_request_def API_BASE_def
        map_of_auth_headers stored_token_def json_init_def JSON_parse_stringify del: JSON_stringify.simps)
qed

definition ok_response :: "string \<Rightarrow> response" where
  "ok_response txt = \<lparr>status = 200, body = txt, engine_msg = []\<rparr>"

definition fresh_browser :: browser where
  "fresh_browser = \<lparr>has_window = True, storage = Map.empty, href = None, pushed = [], alerts = [], sent = []\<rparr>"

lemma login_starts_session_witness:
  "isLoggedIn (snd (login ''a@b.c'' ''pw'' (Responded (ok_response (JSON_stringify (JObj [(''token'', JStr ''t1'')]))))
     fresh_browser))"
proof -
  let ?d = "JObj [(''token'', JStr ''t1'')]"
  have "has_window fresh_browser" "res_ok (ok_response (JSON_stringify ?d))"
    "JSON_parse (body (ok_response (JSON_stringify ?d))) = Some ?d" "get_prop ?d ''token'' = Some (JStr ''t1'')"
    by (simp_all add: fresh_browser_def ok_response_def res_ok_def JSON_parse_stringify del: JSON_stringify.simps)
  from login_starts_session [OF this, of "''a@b.c''" "''pw''"] show ?thesis
    by (simp add: case_prod_beta del: JSON_stringify.simps)
qed

text \<open>
  C2: The session ends exactly with a 401. For both API clients: whatever a call settles to, a
  401 removes the token, sends the browser to the login page and leaves later requests without a
  bearer token; every other settlement leaves the browser as it was.
\<close>

theorem session_ends_with_401:
  assumes "has_window b" "settle = fetchAPI_settle \<or> settle = adminFetch_settle"
  shows "if \<exists>r. f = Responded r \<and> status r = 401
    then fst (settle f b) = Throw ''Unauthorized'' \<and> \<not> isLoggedIn (snd (settle f b)) \<and>
      href (snd (settle f b)) = Some ''/login'' \<and>
      map_of (rq_headers (fetchAPI_request path no_init (snd (settle f b)))) ''Authorization'' = None
    else snd (settle f b) = b"
proof (cases "\<exists>r. f = Responded r \<and> status r = 401")
  case True
  then obtain r where r: "f = Responded r" "status r = 401" by blast
  have s: "settle f b = (Throw ''Unauthorized'', sign_out b)"
    using assms(2) r api.settle_401 [of r b] admin_api.settle_401 [of r b] by auto
  have "map_of (auth_headers None []) ''Authorization'' = None" by (simp add: auth_headers_def)
  then show ?thesis using True s assms(1) not_logged_in_sign_out [of b]
    by (simp add: sign_out_def fetchAPI_request_def base_request_def stored_token_def no_init_def)
next
  case False
  then show ?thesis
    using assms(2) api.settle_keeps_browser admin_api.settle_keeps_browser by (simp only: if_False) blast
qed

lemma session_ends_with_401_witness:
  "href (snd (adminFetch_settle (Responded (ok_response [] \<lparr>status := 401\<rparr>)) fresh_browser)) = Some ''/login''"
  using session_ends_with_401 [of fresh_browser adminFetch_settle "Responded (ok_response [] \<lparr>status := 401\<rparr>)" "''/me''"]
  by (simp add: fresh_browser_def)

text \<open>
  The admin client is the user client with one more refusal: it settles every answer as the
  user client does, except that a 403 becomes "Admin access required" and keeps the session.
\<close>

theorem admin_client_adds_403:
  "adminFetch_settle f b =
     (if \<exists>r. f = Responded r \<and> status r = 403 then (Throw ''Admin access required'', b)
      else fetchAPI_settle f b)"
  by (auto simp: adminFetch_settle_def fetchAPI_settle_def split: fetched.splits)

text \<open>
  An admin update leaves alone what it does not name. The body of a model update parses to an
  object with the model's id, and a member is in it exactly when the caller gave it, with the
  caller's value.
\<close>

theorem model_update_names_only_changes:
  assumes "\<bar>up_id u\<bar> < 2 ^ 53" "\<forall>n. up_max_tokens u = Some n \<longrightarrow> \<bar>n\<bar> < 2 ^ 53"
    and "\<forall>p \<in> set_option (up_input_price_per_1m u) \<union> set_option (up_output_price_per_1m u). num_prints p"
  shows "\<exists>v. map_option JSON_parse (rq_body (updateModel_request u b)) = Some (Some v) \<and>
    get_prop v ''id'' = Some (JNum (num_int (up_id u))) \<and>
    get_prop v ''input_price_per_1m'' = map_option JNum (up_input_price_per_1m u) \<and>
    get_prop v ''output_price_per_1m'' = map_option JNum (up_output_price_per_1m u) \<and>
    get_prop v ''is_active'' = map_option JBool (up_is_active u) \<and>
    get_prop v ''max_tokens'' = map_option (\<lambda>n. JNum (num_int n)) (up_max_tokens u)"
proof (intro exI conjI)
  have "json_wf (updates_json u)"
    using assms num_prints_int
    by (auto simp: updates_json_def opt_member_def split: option.splits)
  then show "map_option JSON_parse (rq_body (updateModel_request u b)) = Some (Some (updates_json u))"
    by (simp add: updateModel_request_def adminFetch_request_def request_body_parses)
qed (auto simp: updates_json_def opt_member_def split: option.splits)

lemma model_update_names_only_changes_witness:
  "\<exists>v. map_option JSON_parse (rq_body (updateModel_request
       \<lparr>up_id = 7, up_input_price_per_1m = None, up_output_price_per_1m = None, up_is_active = Some False,
        up_max_tokens = Some 4096\<rparr> fresh_browser)) = Some (Some v) \<and>
     get_prop v ''input_price_per_1m'' = None \<and> get_prop v ''is_active'' = Some (JBool False)"
  using model_update_names_only_changes [of "\<lparr>up_id = 7, up_input_price_per_1m = None,
      up_output_price_per_1m = None, up_is_active = Some False, up_max_tokens = Some 4096\<rparr>" fresh_browser]
  by auto

end
