(* ===== verification/AdminPage.thy ===== *)
theory AdminPage
  imports Components Promises AdminApi
begin

text \<open>
  The admin page (\<open>web/src/app/admin/page.tsx\<close>): the figures, users, providers, models and
  upstream keys, and the operations on them. The page first asks who the user is, and loads the
  admin data only for an admin. \<open>loadAll\<close> waits for five admin calls at once, as a wait of
  theory \<open>Promises\<close>; the other suspended handlers are kept in a list.
\<close>

section \<open>Data\<close>

record AdminStats =
  as_total_users :: jsnum
  as_total_requests :: jsnum
  as_total_cost :: jsnum
  as_total_tokens :: jsnum
  as_active_keys :: jsnum

record AdminUser =
  us_id :: int
  us_email :: string
  us_name :: string
  us_role :: string
  us_balance :: jsnum
  us_created_at :: string

record ProviderInfo =
  pr_id :: int
  pr_name :: string
  pr_base_url :: string
  pr_is_active :: bool

record AdminModel =
  am_id :: int
  am_public_name :: string
  am_provider_id :: int
  am_upstream_model :: string
  am_input_price_per_1m :: jsnum
  am_output_price_per_1m :: jsnum
  am_is_active :: bool
  am_max_tokens :: jsnum

record ProviderKeyInfo =
  pk_id :: int
  pk_provider_id :: int
  pk_key_prefix :: string
  pk_rpm :: jsnum
  pk_is_active :: bool

section \<open>Loading\<close>

record admin_load =
  al_stats :: "AdminStats slot"
  al_users :: "AdminUser list option slot"
  al_providers :: "ProviderInfo list option slot"
  al_models :: "AdminModel list option slot"
  al_keys :: "ProviderKeyInfo list option slot"

definition fresh_admin_load :: admin_load where
  "fresh_admin_load = \<lparr>al_stats = Waiting, al_users = Waiting, al_providers = Waiting,
     al_models = Waiting, al_keys = Waiting\<rparr>"

text \<open>The answers of the five calls; the lists are the members the code reads, if present.\<close>

datatype admin_answer =
    StatsAnswer "AdminStats reply"
  | UsersAnswer "AdminUser list option reply"
  | ProvidersAnswer "ProviderInfo list option reply"
  | ModelsAnswer "AdminModel list option reply"
  | KeysAnswer "ProviderKeyInfo list option reply"

fun settle_admin :: "admin_answer \<Rightarrow> admin_load \<Rightarrow> admin_load" where
  "settle_admin (StatsAnswer rep) l = l\<lparr>al_stats := fill (al_stats l) (settle_slot rep)\<rparr>"
| "settle_admin (UsersAnswer rep) l = l\<lparr>al_users := fill (al_users l) (settle_slot rep)\<rparr>"
| "settle_admin (ProvidersAnswer rep) l = l\<lparr>al_providers := fill (al_providers l) (settle_slot rep)\<rparr>"
| "settle_admin (ModelsAnswer rep) l = l\<lparr>al_models := fill (al_models l) (settle_slot rep)\<rparr>"
| "settle_admin (KeysAnswer rep) l = l\<lparr>al_keys := fill (al_keys l) (settle_slot rep)\<rparr>"

definition admin_load_lost :: "admin_load \<Rightarrow> bool" where
  "admin_load_lost l \<longleftrightarrow> al_stats l = Lost \<or> al_users l = Lost \<or> al_providers l = Lost \<or>
     al_models l = Lost \<or> al_keys l = Lost"

text \<open>The message an answer throws, if any.\<close>

definition thrown_by :: "'a reply \<Rightarrow> string option" where
  "thrown_by rep =
     (case rep of Unauthorized \<Rightarrow> Some ''Unauthorized'' | Failed m \<Rightarrow> Some m | Success a \<Rightarrow> None)"

fun answer_error :: "admin_answer \<Rightarrow> string option" where
  "answer_error (StatsAnswer rep) = thrown_by rep"
| "answer_error (UsersAnswer rep) = thrown_by rep"
| "answer_error (ProvidersAnswer rep) = thrown_by rep"
| "answer_error (ModelsAnswer rep) = thrown_by rep"
| "answer_error (KeysAnswer rep) = thrown_by rep"

fun answer_401 :: "admin_answer \<Rightarrow> bool" where
  "answer_401 (StatsAnswer rep) = (rep = Unauthorized)"
| "answer_401 (UsersAnswer rep) = (rep = Unauthorized)"
| "answer_401 (ProvidersAnswer rep) = (rep = Unauthorized)"
| "answer_401 (ModelsAnswer rep) = (rep = Unauthorized)"
| "answer_401 (KeysAnswer rep) = (rep = Unauthorized)"

section \<open>State and events\<close>

datatype admin_tab = AdOverview | AdUsers | AdProviders | AdModels | AdKeys

text \<open>Suspended handlers: \<open>handleUpdateBalance\<close>, the two toggles and \<open>handleAddKey\<close>.\<close>

datatype admin_call = BalanceCall | ToggleCall | AddKeyCall

record admin_page =
  ad_tab :: admin_tab
  ad_stats :: "AdminStats option"
  ad_users :: "AdminUser list"
  ad_providers :: "ProviderInfo list"
  ad_models :: "AdminModel list"
  ad_providerKeys :: "ProviderKeyInfo list"
  ad_error :: string
  ad_balUserId :: string
  ad_balDelta :: string
  ad_balReason :: string
  ad_newKeyProviderId :: string
  ad_newKeyValue :: string
  ad_newKeyRpm :: string
  ad_asking :: nat  \<comment> \<open>calls of \<open>getMe\<close> that have not settled\<close>
  ad_loads :: "nat \<Rightarrow> admin_load"  \<comment> \<open>the waits of \<open>loadAll\<close>, in the order they started\<close>
  ad_started :: nat
  ad_calls :: "admin_call list"

definition admin_init :: admin_page where
  "admin_init =
     \<lparr>ad_tab = AdOverview, ad_stats = None, ad_users = [], ad_providers = [], ad_models = [],
      ad_providerKeys = [], ad_error = [], ad_balUserId = [], ad_balDelta = [], ad_balReason = [],
      ad_newKeyProviderId = [], ad_newKeyValue = [], ad_newKeyRpm = ''60'', ad_asking = 0,
      ad_loads = (\<lambda>_. fresh_admin_load), ad_started = 0, ad_calls = []\<rparr>"

text \<open>
  \<open>MeSettled\<close> carries the role of the answer, where it has one; \<open>AdCallSettled\<close> needs nothing
  of the answer's body.
\<close>

datatype admin_event =
    AdMount
  | MeSettled "string option reply"
  | AdAnswer nat admin_answer
  | AdSetTab admin_tab
  | SetBalUserId string
  | SetBalDelta string
  | SetBalReason string
  | AddBalance
  | ToggleProvider int bool
  | ToggleModel int bool
  | SetNewKeyProviderId string
  | SetNewKeyValue string
  | SetNewKeyRpm string
  | AddKey
  | AdCallSettled nat "unit reply"
  | AdHeader header_event

section \<open>Handlers\<close>

definition admin_load_requests :: "browser \<Rightarrow> request list" where
  "admin_load_requests b =
     [getGlobalStats_request b, getUsers_request b, getProviders_request b, getModels_request b,
      getProviderKeys_request b]"

definition loadAll :: "admin_page \<times> browser \<Rightarrow> admin_page \<times> browser" where
  "loadAll sb =
     (let (s, b) = sb in
      (s\<lparr>ad_loads := (ad_loads s)(ad_started s := fresh_admin_load), ad_started := Suc (ad_started s)\<rparr>,
       fold send (admin_load_requests b) b))"

text \<open>The continuation of \<open>loadAll\<close>, its \<open>catch\<close> block, and the effect of the API client.\<close>

definition admin_commit :: "admin_load \<Rightarrow> admin_page \<times> browser \<Rightarrow> (admin_page \<times> browser) option" where
  "admin_commit l sb =
     (let (s, b) = sb in
      case (al_stats l, al_users l, al_providers l, al_models l, al_keys l) of
        (Got st, Got u, Got p, Got m, Got k) \<Rightarrow>
          Some (s\<lparr>ad_stats := Some st, ad_users := list_or_empty u, ad_providers := list_or_empty p,
                  ad_models := list_or_empty m, ad_providerKeys := list_or_empty k\<rparr>, b)
      | _ \<Rightarrow> None)"

definition admin_catch :: "admin_answer \<Rightarrow> admin_page \<times> browser \<Rightarrow> admin_page \<times> browser" where
  "admin_catch r sb =
     (let (s, b) = sb in
      case answer_error r of Some m \<Rightarrow> (s\<lparr>ad_error := m\<rparr>, b) | None \<Rightarrow> (s, b))"

definition admin_client :: "admin_answer \<Rightarrow> admin_page \<times> browser \<Rightarrow> admin_page \<times> browser" where
  "admin_client r sb = (let (s, b) = sb in (s, if answer_401 r then sign_out b else b))"

definition put_admin_load :: "nat \<Rightarrow> admin_load \<Rightarrow> admin_page \<times> browser \<Rightarrow> admin_page \<times> browser" where
  "put_admin_load i l sb = (let (s, b) = sb in (s\<lparr>ad_loads := (ad_loads s)(i := l)\<rparr>, b))"

definition admin_load_answer :: "nat \<Rightarrow> admin_answer \<Rightarrow> admin_page \<times> browser \<Rightarrow> admin_page \<times> browser" where
  "admin_load_answer i =
     settle_promise settle_admin admin_load_lost (\<lambda>(s, b). ad_loads s i) (put_admin_load i) admin_client
       admin_catch admin_commit"

definition admin_mount :: "admin_page \<times> browser \<Rightarrow> admin_page \<times> browser" where
  "admin_mount sb =
     (let (s, b) = sb in
      if \<not> isLoggedIn b then (s, router_push ''/login'' b)
      else (s\<lparr>ad_asking := Suc (ad_asking s)\<rparr>, send (getMe_request b) b))"

text \<open>The answer of \<open>getMe\<close>: only an admin stays, and only then the admin data are asked for.\<close>

definition me_settled :: "string option reply \<Rightarrow> admin_page \<times> browser \<Rightarrow> admin_page \<times> browser" where
  "me_settled rep sb =
     (let (s, b) = sb in
      if ad_asking s = 0 then (s, b)
      else
        (let s' = s\<lparr>ad_asking := ad_asking s - 1\<rparr> in
         case take_reply rep b of
           (Inr role, b') \<Rightarrow>
             if role \<noteq> Some ''admin'' then (s', router_push ''/dashboard'' b') else loadAll (s', b')
         | (Inl m, b') \<Rightarrow> (s', router_push ''/login'' b')))"

definition handleUpdateBalance :: "admin_page \<times> browser \<Rightarrow> admin_page \<times> browser" where
  "handleUpdateBalance sb =
     (let (s, b) = sb in
      if ad_balUserId s = [] \<or> ad_balDelta s = [] then (s, b)
      else (s\<lparr>ad_calls := ad_calls s @ [BalanceCall]\<rparr>,
            send (updateBalance_request (js_Number (ad_balUserId s)) (js_Number (ad_balDelta s))
                    (ad_balReason s) b) b))"

definition handleToggleProvider :: "int \<Rightarrow> bool \<Rightarrow> admin_page \<times> browser \<Rightarrow> admin_page \<times> browser" where
  "handleToggleProvider i current sb =
     (let (s, b) = sb in
      (s\<lparr>ad_calls := ad_calls s @ [ToggleCall]\<rparr>, send (toggleProvider_request i (\<not> current) b) b))"

definition only_active :: "int \<Rightarrow> bool \<Rightarrow> model_updates" where
  "only_active i active =
     \<lparr>up_id = i, up_input_price_per_1m = None, up_output_price_per_1m = None, up_is_active = Some active,
      up_max_tokens = None\<rparr>"

definition handleToggleModel :: "int \<Rightarrow> bool \<Rightarrow> admin_page \<times> browser \<Rightarrow> admin_page \<times> browser" where
  "handleToggleModel i current sb =
     (let (s, b) = sb in
      (s\<lparr>ad_calls := ad_calls s @ [ToggleCall]\<rparr>, send (updateModel_request (only_active i (\<not> current)) b) b))"

definition handleAddKey :: "admin_page \<times> browser \<Rightarrow> admin_page \<times> browser" where
  "handleAddKey sb =
     (let (s, b) = sb in
      if ad_newKeyProviderId s = [] \<or> ad_newKeyValue s = [] then (s, b)
      else (s\<lparr>ad_calls := ad_calls s @ [AddKeyCall]\<rparr>,
            send (addProviderKey_request (js_Number (ad_newKeyProviderId s)) (ad_newKeyValue s)
                    (js_Number (ad_newKeyRpm s)) b) b))"

text \<open>A suspended handler resumes. The toggles have no \<open>catch\<close>: a failure ends them silently.\<close>

fun resume_admin :: "admin_call \<Rightarrow> unit reply \<Rightarrow> admin_page \<times> browser \<Rightarrow> admin_page \<times> browser" where
  "resume_admin BalanceCall rep (s, b) =
     (case take_reply rep b of
        (Inr ok, b') \<Rightarrow> loadAll (s\<lparr>ad_balUserId := [], ad_balDelta := [], ad_balReason := []\<rparr>, b')
      | (Inl m, b') \<Rightarrow> (s, show_alert m b'))"
| "resume_admin ToggleCall rep (s, b) =
     (case take_reply rep b of
        (Inr ok, b') \<Rightarrow> loadAll (s, b')
      | (Inl m, b') \<Rightarrow> (s, b'))"
| "resume_admin AddKeyCall rep (s, b) =
     (case take_reply rep b of
        (Inr ok, b') \<Rightarrow> loadAll (s\<lparr>ad_newKeyValue := []\<rparr>, b')
      | (Inl m, b') \<Rightarrow> (s, show_alert m b'))"

definition admin_call_settled :: "nat \<Rightarrow> unit reply \<Rightarrow> admin_page \<times> browser \<Rightarrow> admin_page \<times> browser" where
  "admin_call_settled i rep sb =
     (let (s, b) = sb in
      if i < length (ad_calls s)
      then resume_admin (ad_calls s ! i) rep
             (s\<lparr>ad_calls := take i (ad_calls s) @ drop (Suc i) (ad_calls s)\<rparr>, b)
      else (s, b))"

fun admin_step :: "admin_event \<Rightarrow> admin_page \<times> browser \<Rightarrow> admin_page \<times> browser" where
  "admin_step AdMount sb = admin_mount sb"
| "admin_step (MeSettled rep) sb = me_settled rep sb"
| "admin_step (AdAnswer i r) (s, b) = (if i < ad_started s then admin_load_answer i r (s, b) else (s, b))"
| "admin_step (AdSetTab k) (s, b) = (s\<lparr>ad_tab := k\<rparr>, b)"
| "admin_step (SetBalUserId v) (s, b) = (s\<lparr>ad_balUserId := v\<rparr>, b)"
| "admin_step (SetBalDelta v) (s, b) = (s\<lparr>ad_balDelta := v\<rparr>, b)"
| "admin_step (SetBalReason v) (s, b) = (s\<lparr>ad_balReason := v\<rparr>, b)"
| "admin_step AddBalance sb = handleUpdateBalance sb"
| "admin_step (ToggleProvider i c) sb = handleToggleProvider i c sb"
| "admin_step (ToggleModel i c) sb = handleToggleModel i c sb"
| "admin_step (SetNewKeyProviderId v) (s, b) = (s\<lparr>ad_newKeyProviderId := v\<rparr>, b)"
| "admin_step (SetNewKeyValue v) (s, b) = (s\<lparr>ad_newKeyValue := v\<rparr>, b)"
| "admin_step (SetNewKeyRpm v) (s, b) = (s\<lparr>ad_newKeyRpm := v\<rparr>, b)"
| "admin_step AddKey sb = handleAddKey sb"
| "admin_step (AdCallSettled i rep) sb = admin_call_settled i rep sb"
| "admin_step (AdHeader h) (s, b) = (s, header_clicked h b)"

section \<open>View\<close>

definition Card :: "string \<Rightarrow> string \<Rightarrow> 'e node" where
  "Card label val = el ''div'' [el ''div'' [Text label], el ''div'' [Text val]]"

definition Panel :: "string \<Rightarrow> 'e node list \<Rightarrow> 'e node" where
  "Panel title cs = el ''div'' (el ''h3'' [Text title] # cs)"

definition StatusBadge :: "bool \<Rightarrow> messages \<Rightarrow> 'e node" where
  "StatusBadge active t =
     Elem ''span''
       [(''style.background'', AStr (if active then ''rgba(34,197,94,0.15)'' else ''rgba(239,68,68,0.15)'')),
        (''style.color'', AStr (if active then ''var(--success)'' else ''var(--danger)''))]
       [Text (if active then tr t ''common.active'' else tr t ''common.disabled'')]"

definition Input :: "string \<Rightarrow> string \<Rightarrow> (string \<Rightarrow> 'e) \<Rightarrow> string \<Rightarrow> 'e node" where
  "Input label val onChange placeholder =
     el ''div''
       [el ''label'' [Text label],
        Elem ''input''
          [(''value'', AStr val), (''onChange'', OnValue onChange), (''placeholder'', AStr placeholder)] []]"

definition admin_tabItems :: "messages \<Rightarrow> (admin_tab \<times> string) list" where
  "admin_tabItems t =
     [(AdOverview, tr t ''admin.tabs.overview''), (AdUsers, tr t ''admin.tabs.users''),
      (AdProviders, tr t ''admin.tabs.providers''), (AdModels, tr t ''admin.tabs.models''),
      (AdKeys, tr t ''admin.tabs.keys'')]"

definition admin_tab_button :: "admin_tab \<Rightarrow> admin_tab \<times> string \<Rightarrow> admin_event node" where
  "admin_tab_button current item =
     (let (k, label) = item in
      Elem ''button''
        [(''onClick'', On (AdSetTab k)),
         (''style.background'', AStr (if current = k then ''var(--primary)'' else ''var(--card)'')),
         (''style.border'',
          AStr (''1px solid '' @ (if current = k then ''var(--primary)'' else ''var(--border)'')))]
        [Text label])"

definition admin_overview :: "intl \<Rightarrow> messages \<Rightarrow> AdminStats \<Rightarrow> 'e node" where
  "admin_overview fmt t st =
     el ''div''
       [Card (tr t ''admin.stats.totalUsers'') (num_to_string (as_total_users st)),
        Card (tr t ''admin.stats.totalRequests'') (groupedNumber fmt (as_total_requests st)),
        Card (tr t ''admin.stats.totalCost'') (''$'' @ toFixed 4 (as_total_cost st)),
        Card (tr t ''admin.stats.totalTokens'') (groupedNumber fmt (as_total_tokens st)),
        Card (tr t ''admin.stats.activeKeys'') (num_to_string (as_active_keys st))]"

definition balance_form :: "messages \<Rightarrow> admin_page \<Rightarrow> admin_event node" where
  "balance_form t s =
     el ''div''
       [Input (tr t ''admin.userId'') (ad_balUserId s) SetBalUserId ''ID'',
        Input (tr t ''admin.amount'') (ad_balDelta s) SetBalDelta ''10'',
        Input (tr t ''admin.reason'') (ad_balReason s) SetBalReason ''top-up'',
        Elem ''button'' [(''onClick'', On AddBalance)] [Text (tr t ''admin.addBalance'')]]"

definition user_row :: "intl \<Rightarrow> AdminUser \<Rightarrow> 'e node" where
  "user_row fmt u =
     Elem ''tr'' [(''key'', ANum (num_int (us_id u)))]
       [el ''td'' [Text (int_to_string (us_id u))],
        el ''td'' [Text (us_email u)],
        el ''td'' [Text (us_name u)],
        el ''td''
          [Elem ''span''
             [(''style.background'',
               AStr (if us_role u = ''admin'' then ''rgba(239,68,68,0.15)'' else ''rgba(59,130,246,0.15)'')),
              (''style.color'', AStr (if us_role u = ''admin'' then ''var(--danger)'' else ''var(--primary)''))]
             [Text (us_role u)]],
        el ''td'' [Text ''$'', Text (toFixed 2 (us_balance u))],
        el ''td'' [Text (dateString fmt (us_created_at u))]]"

definition header_cells :: "string list \<Rightarrow> 'e node" where
  "header_cells labels = el ''thead'' [el ''tr'' (map (\<lambda>l. el ''th'' [Text l]) labels)]"

definition users_tab :: "intl \<Rightarrow> messages \<Rightarrow> admin_page \<Rightarrow> admin_event node" where
  "users_tab fmt t s =
     Panel (tr t ''admin.userManagement'')
       [balance_form t s,
        el ''table''
          [header_cells
             [tr t ''admin.colId'', tr t ''admin.colEmail'', tr t ''admin.colName'', tr t ''admin.colRole'',
              tr t ''admin.colBalance'', tr t ''admin.colJoined''],
           el ''tbody'' (map (user_row fmt) (ad_users s))]]"

definition toggle_button :: "messages \<Rightarrow> bool \<Rightarrow> 'e \<Rightarrow> 'e node" where
  "toggle_button t active e =
     Elem ''button''
       [(''onClick'', On e), (''style.color'', AStr (if active then ''var(--danger)'' else ''var(--success)''))]
       [Text (if active then tr t ''common.disable'' else tr t ''common.enable'')]"

definition provider_row :: "messages \<Rightarrow> ProviderInfo \<Rightarrow> admin_event node" where
  "provider_row t p =
     Elem ''tr'' [(''key'', ANum (num_int (pr_id p)))]
       [el ''td'' [Text (int_to_string (pr_id p))],
        el ''td'' [Text (pr_name p)],
        el ''td'' [Text (pr_base_url p)],
        el ''td'' [StatusBadge (pr_is_active p) t],
        el ''td'' [toggle_button t (pr_is_active p) (ToggleProvider (pr_id p) (pr_is_active p))]]"

definition providers_tab :: "messages \<Rightarrow> admin_page \<Rightarrow> admin_event node" where
  "providers_tab t s =
     Panel (tr t ''admin.providersTitle'')
       [el ''table''
          [header_cells
             [tr t ''admin.colId'', tr t ''admin.colName'', tr t ''admin.colBaseUrl'', tr t ''common.status'',
              tr t ''common.action''],
           el ''tbody'' (map (provider_row t) (ad_providers s))]]"

definition admin_model_row :: "intl \<Rightarrow> messages \<Rightarrow> AdminModel \<Rightarrow> admin_event node" where
  "admin_model_row fmt t m =
     Elem ''tr'' [(''key'', ANum (num_int (am_id m)))]
       [el ''td'' [Text (am_public_name m)],
        el ''td'' [Text (am_upstream_model m)],
        el ''td'' [Text ''$'', Text (toFixed 2 (am_input_price_per_1m m))],
        el ''td'' [Text ''$'', Text (toFixed 2 (am_output_price_per_1m m))],
        el ''td'' [Text (groupedNumber fmt (am_max_tokens m))],
        el ''td'' [StatusBadge (am_is_active m) t],
        el ''td'' [toggle_button t (am_is_active m) (ToggleModel (am_id m) (am_is_active m))]]"

definition models_tab :: "intl \<Rightarrow> messages \<Rightarrow> admin_page \<Rightarrow> admin_event node" where
  "models_tab fmt t s =
     Panel (tr t ''admin.modelsTitle'')
       [el ''table''
          [header_cells
             [tr t ''admin.colPublicName'', tr t ''admin.colUpstream'', ''Input $/1M'', ''Output $/1M'',
              tr t ''admin.colMaxTokens'', tr t ''common.status'', tr t ''common.action''],
           el ''tbody'' (map (admin_model_row fmt t) (ad_models s))]]"

definition provider_option :: "ProviderInfo \<Rightarrow> 'e node" where
  "provider_option p =
     Elem ''option'' [(''key'', ANum (num_int (pr_id p))), (''value'', AStr (int_to_string (pr_id p)))]
       [Text (pr_name p), Text '' ('', Text (int_to_string (pr_id p)), Text '')'']"

definition add_key_form :: "messages \<Rightarrow> admin_page \<Rightarrow> admin_event node" where
  "add_key_form t s =
     el ''div''
       [el ''div''
          [el ''label'' [Text (tr t ''admin.providerId'')],
           Elem ''select''
             [(''value'', AStr (ad_newKeyProviderId s)), (''onChange'', OnValue SetNewKeyProviderId)]
             (Elem ''option'' [(''value'', AStr [])] [Text (tr t ''admin.selectProvider'')]
              # map provider_option (ad_providers s))],
        Input (tr t ''admin.apiKey'') (ad_newKeyValue s) SetNewKeyValue ''sk-...'',
        Input (tr t ''admin.rpm'') (ad_newKeyRpm s) SetNewKeyRpm ''60'',
        Elem ''button'' [(''onClick'', On AddKey)] [Text (tr t ''admin.addKey'')]]"

text \<open>The name of a key's provider; the number, when it is not listed or has no name.\<close>

definition key_provider :: "ProviderInfo list \<Rightarrow> ProviderKeyInfo \<Rightarrow> string" where
  "key_provider ps k =
     (case List.find (\<lambda>p. pr_id p = pk_provider_id k) ps of
        Some p \<Rightarrow> str_or (pr_name p) (int_to_string (pk_provider_id k))
      | None \<Rightarrow> int_to_string (pk_provider_id k))"

definition provider_key_row :: "messages \<Rightarrow> ProviderInfo list \<Rightarrow> ProviderKeyInfo \<Rightarrow> 'e node" where
  "provider_key_row t ps k =
     Elem ''tr'' [(''key'', ANum (num_int (pk_id k)))]
       [el ''td'' [Text (int_to_string (pk_id k))],
        el ''td'' [Text (key_provider ps k)],
        el ''td'' [Text (pk_key_prefix k)],
        el ''td'' [Text (num_to_string (pk_rpm k))],
        el ''td'' [StatusBadge (pk_is_active k) t]]"

definition provider_keys_tab :: "messages \<Rightarrow> admin_page \<Rightarrow> admin_event node" where
  "provider_keys_tab t s =
     Panel (tr t ''admin.keysTitle'')
       [add_key_form t s,
        el ''table''
          [header_cells
             [tr t ''admin.colId'', tr t ''admin.colProvider'', tr t ''admin.colKeyPrefix'', tr t ''admin.rpm'',
              tr t ''common.status''],
           el ''tbody''
             (map (provider_key_row t (ad_providers s)) (ad_providerKeys s)
              @ cond_nodes (ad_providerKeys s = [])
                  [el ''tr'' [Elem ''td'' [(''colSpan'', ANum (Fin 5))] [Text (tr t ''admin.noProviderKeys'')]]])]]"

definition AdminPage_view :: "intl \<Rightarrow> shell \<Rightarrow> messages \<Rightarrow> admin_page \<Rightarrow> admin_event node" where
  "AdminPage_view fmt sh t s =
     (case ad_stats s of
        None \<Rightarrow> el ''div'' [el ''div'' [Text (str_or (ad_error s) (tr t ''admin.loading''))]]
      | Some st \<Rightarrow>
          el ''div''
            [map_node AdHeader (SiteHeader sh t (no_props\<lparr>adminBadge := True\<rparr>)),
             el ''div''
               [el ''div'' (map (admin_tab_button (ad_tab s)) (admin_tabItems t)),
                (case ad_tab s of
                   AdOverview \<Rightarrow> admin_overview fmt t st
                 | AdUsers \<Rightarrow> users_tab fmt t s
                 | AdProviders \<Rightarrow> providers_tab t s
                 | AdModels \<Rightarrow> models_tab fmt t s
                 | AdKeys \<Rightarrow> provider_keys_tab t s)]])"

section \<open>Lemmas on loading\<close>

datatype admin_kind = AkStats | AkUsers | AkProviders | AkModels | AkKeys

fun answer_kind :: "admin_answer \<Rightarrow> admin_kind" where
  "answer_kind (StatsAnswer rep) = AkStats"
| "answer_kind (UsersAnswer rep) = AkUsers"
| "answer_kind (ProvidersAnswer rep) = AkProviders"
| "answer_kind (ModelsAnswer rep) = AkModels"
| "answer_kind (KeysAnswer rep) = AkKeys"

definition admin_open :: "admin_kind \<Rightarrow> admin_load \<Rightarrow> bool" where
  "admin_open k l =
     (case k of
        AkStats \<Rightarrow> al_stats l = Waiting
      | AkUsers \<Rightarrow> al_users l = Waiting
      | AkProviders \<Rightarrow> al_providers l = Waiting
      | AkModels \<Rightarrow> al_models l = Waiting
      | AkKeys \<Rightarrow> al_keys l = Waiting)"

lemma thrown_by_None: "thrown_by rep = None \<longleftrightarrow> (\<exists>a. rep = Success a)"
  by (cases rep) (simp_all add: thrown_by_def)

interpretation ad_load: promise_all settle_admin answer_kind admin_open admin_load_lost
  "\<lambda>r. answer_error r \<noteq> None" "\<lambda>(s, b). ad_loads s i" "put_admin_load i" admin_client admin_catch admin_commit for i
proof unfold_locales
  show "admin_open k (settle_admin r l) = (admin_open k l \<and> answer_kind r \<noteq> k)" for k r l
    by (cases r; cases k) (auto simp: admin_open_def fill_def)
  show "admin_load_lost (settle_admin r l) = (admin_load_lost l \<or> answer_error r \<noteq> None)"
    if "admin_open (answer_kind r) l" for r l
    using that by (cases r) (auto simp: admin_load_lost_def admin_open_def thrown_by_None)
  show "settle_admin r (settle_admin q l) = settle_admin q (settle_admin r l)"
    if "answer_kind r \<noteq> answer_kind q" for r q l
    using that by (cases r; cases q) auto
  show "admin_commit l st = None" if "admin_open k l" for k l st
    using that by (cases k) (auto simp: admin_commit_def admin_open_def split: slot.splits prod.splits)
qed (auto simp: put_admin_load_def admin_client_def admin_catch_def split: prod.splits option.splits)

lemma fold_admin_client:
  "fold admin_client rs (s, b) = (s, if \<exists>r \<in> set rs. answer_401 r then sign_out b else b)"
  by (induction rs arbitrary: b) (auto simp: admin_client_def)

definition five_answers ::
  "AdminStats reply \<Rightarrow> AdminUser list option reply \<Rightarrow> ProviderInfo list option reply \<Rightarrow>
   AdminModel list option reply \<Rightarrow> ProviderKeyInfo list option reply \<Rightarrow> admin_answer list" where
  "five_answers st u p m k =
     [StatsAnswer st, UsersAnswer u, ProvidersAnswer p, ModelsAnswer m, KeysAnswer k]"

lemma five_answer_kinds: "distinct (map answer_kind (five_answers st u p m k))"
  by (simp add: five_answers_def)

lemma fresh_admin_load_lost [simp]: "admin_load_lost fresh_admin_load = False"
  by (simp add: admin_load_lost_def fresh_admin_load_def)

lemma five_answers_settled:
  "fold settle_admin (five_answers st u p m k) fresh_admin_load =
     \<lparr>al_stats = settle_slot st, al_users = settle_slot u, al_providers = settle_slot p,
      al_models = settle_slot m, al_keys = settle_slot k\<rparr>"
  by (simp add: five_answers_def fresh_admin_load_def)

lemma admin_load_urls:
  "map (\<lambda>rq. (rq_method rq, rq_url rq)) (admin_load_requests b) =
     [(''GET'', ''/api/admin/stats''), (''GET'', ''/api/admin/users''), (''GET'', ''/api/admin/providers''),
      (''GET'', ''/api/admin/models''), (''GET'', ''/api/admin/provider-keys'')]"
  by (simp add: admin_load_requests_def getGlobalStats_request_def getUsers_request_def getProviders_request_def
      getModels_request_def getProviderKeys_request_def adminFetch_request_def base_request_def ADMIN_API_BASE_def
      no_init_def)

text \<open>What the page shows of the last committed load, and the load's five answers.\<close>

definition admin_data where
  "admin_data s = (ad_stats s, ad_users s, ad_providers s, ad_models s, ad_providerKeys s)"

section \<open>Properties\<close>

text \<open>
  C11: A reload of the admin data is all or nothing, in whatever order its five answers arrive.
  If all succeed, the page shows exactly their contents and keeps its error text; if some fail,
  the data stay as they were, whatever the other answers brought, and the error text is the
  message of the failure that arrived first. Either way exactly five requests are sent, for the
  statistics, the users, the providers, the models and the provider keys, and the
  token is dropped only if some answer was a 401.
\<close>

theorem admin_reload_all_or_nothing:
  assumes "mset rs = mset (five_answers st u p m k)"
    and "loadAll (s, b) = (s1, b1)"
    and "fold (admin_load_answer (ad_started s)) rs (s1, b1) = (s2, b2)"
  shows "sent b2 = sent b @ admin_load_requests b \<and> pushed b2 = pushed b \<and>
    map (\<lambda>rq. (rq_method rq, rq_url rq)) (admin_load_requests b) =
      [(''GET'', ''/api/admin/stats''), (''GET'', ''/api/admin/users''), (''GET'', ''/api/admin/providers''),
       (''GET'', ''/api/admin/models''), (''GET'', ''/api/admin/provider-keys'')] \<and>
    (case List.find (\<lambda>r. answer_error r \<noteq> None) rs of
       Some q \<Rightarrow> admin_data s2 = admin_data s \<and> Some (ad_error s2) = answer_error q
     | None \<Rightarrow> ad_error s2 = ad_error s \<and>
        (\<exists>st' u' p' m' k'. st = Success st' \<and> u = Success u' \<and> p = Success p' \<and> m = Success m' \<and> k = Success k' \<and>
          admin_data s2 = (Some st', list_or_empty u', list_or_empty p', list_or_empty m', list_or_empty k'))) \<and>
    getItem ''token'' b2 =
      (if has_window b \<and> (\<exists>r \<in> set rs. answer_401 r) then None else getItem ''token'' b)"
proof -
  let ?i = "ad_started s" and ?l = "fold settle_admin rs fresh_admin_load"
  let ?b = "if \<exists>r \<in> set rs. answer_401 r then sign_out b1 else b1"
  have s1: "s1 = s\<lparr>ad_loads := (ad_loads s)(?i := fresh_admin_load), ad_started := Suc ?i\<rparr>"
    and b1: "b1 = fold send (admin_load_requests b) b"
    using assms(2) by (simp_all add: loadAll_def)
  note any = ad_load.any_order [OF assms(1) five_answer_kinds]
  have "rs \<noteq> []" "\<forall>q \<in> set rs. admin_open (answer_kind q) fresh_admin_load"
    using assms(1) by (auto simp: five_answers_def admin_open_def fresh_admin_load_def split: admin_kind.splits)
  then have run: "(s2, b2) = ad_load.decided ?i rs fresh_admin_load (s1, b1)"
    using ad_load.answers [OF _ any(1), of ?i "(s1, b1)"] assms(3) by (simp add: admin_load_answer_def s1)
  have set: "set rs = set (five_answers st u p m k)" using assms(1) by (metis set_mset_mset)
  have b: "sent ?b = sent b @ admin_load_requests b" "pushed ?b = pushed b"
    "getItem ''token'' ?b = (if has_window b \<and> (\<exists>r \<in> set rs. answer_401 r) then None else getItem ''token'' b)"
    by (auto simp: b1 sign_out_def)
  show ?thesis
  proof (cases "List.find (\<lambda>r. answer_error r \<noteq> None) rs")
    case None
    then have "\<forall>q \<in> set (five_answers st u p m k). answer_error q = None"
      using set by (auto simp: find_None_iff)
    then obtain st' u' p' m' k' where
      ok: "st = Success st'" "u = Success u'" "p = Success p'" "m = Success m'" "k = Success k'"
      by (auto simp: five_answers_def thrown_by_None)
    have "(s2, b2) = (case admin_commit ?l (put_admin_load ?i ?l (s1, ?b)) of
        Some c \<Rightarrow> c | None \<Rightarrow> put_admin_load ?i ?l (s1, ?b))"
      using run None
      by (simp only: ad_load.decided_def fresh_admin_load_lost if_False option.case fold_admin_client Let_def)
    then have "b2 = ?b" "ad_error s2 = ad_error s"
      "admin_data s2 = (Some st', list_or_empty u', list_or_empty p', list_or_empty m', list_or_empty k')"
      by (simp_all add: admin_commit_def put_admin_load_def any(2) five_answers_settled ok settle_slot_def
          admin_data_def s1)
    then show ?thesis using b None ok admin_load_urls by simp
  next
    case (Some q)
    then obtain e where e: "answer_error q = Some e" by (auto simp: find_Some_iff)
    have "(s2, b2) = admin_catch q (put_admin_load ?i ?l (s1, ?b))"
      using run Some
      by (simp only: ad_load.decided_def fresh_admin_load_lost if_False option.case fold_admin_client Let_def)
    then have "b2 = ?b" "ad_error s2 = e" "admin_data s2 = admin_data s"
      by (simp_all add: put_admin_load_def admin_catch_def admin_data_def s1 e)
    then show ?thesis using b Some e admin_load_urls by simp
  qed
qed

definition admin_browser :: browser where
  "admin_browser = \<lparr>has_window = True, storage = [''token'' \<mapsto> ''t1''], href = None, pushed = [], alerts = [], sent = []\<rparr>"

lemma admin_reload_all_or_nothing_witness:
  "ad_error (fst (fold (admin_load_answer 0)
     [UsersAnswer (Success None), KeysAnswer (Failed ''key store down''), ProvidersAnswer (Failed ''timeout''),
      ModelsAnswer (Success None), StatsAnswer Unauthorized]
     (loadAll (admin_init, admin_browser)))) = ''key store down''"
proof -
  let ?rs = "[UsersAnswer (Success None), KeysAnswer (Failed ''key store down''), ProvidersAnswer (Failed ''timeout''),
      ModelsAnswer (Success None), StatsAnswer Unauthorized]"
  let ?sb = "loadAll (admin_init, admin_browser)"
  have m: "mset ?rs = mset (five_answers Unauthorized (Success None) (Failed ''timeout'') (Success None)
      (Failed ''key store down''))"
    by (simp add: five_answers_def)
  have z: "ad_started admin_init = 0" by (simp add: admin_init_def)
  from admin_reload_all_or_nothing [OF m, of admin_init admin_browser "fst ?sb" "snd ?sb"
      "fst (fold (admin_load_answer 0) ?rs ?sb)" "snd (fold (admin_load_answer 0) ?rs ?sb)"]
  show ?thesis by (simp only: z prod.collapse) (simp add: thrown_by_def)
qed

text \<open>
  The events that can happen: effects and answers at any time, and the user's only when the page
  shows its controls.
\<close>

definition admin_offers :: "admin_event \<Rightarrow> admin_page \<times> browser \<Rightarrow> bool" where
  "admin_offers e sb =
     (case e of
        AdMount \<Rightarrow> True | MeSettled rep \<Rightarrow> True | AdAnswer i r \<Rightarrow> True | AdCallSettled i rep \<Rightarrow> True
      | _ \<Rightarrow> ad_stats (fst sb) \<noteq> None)"

text \<open>Before the server has said that the user is an admin.\<close>

definition unproven :: "browser \<Rightarrow> admin_page \<times> browser \<Rightarrow> bool" where
  "unproven b0 sb \<longleftrightarrow> ad_stats (fst sb) = None \<and> ad_error (fst sb) = [] \<and> ad_started (fst sb) = 0 \<and> ad_calls (fst sb) = [] \<and>
     (\<exists>rqs. sent (snd sb) = sent b0 @ rqs \<and> list_all (\<lambda>rq. rq_url rq = ''/api/me'') rqs)"

lemma getMe_url: "rq_url (getMe_request b) = ''/api/me''"
  by (simp add: getMe_request_def fetchAPI_request_def base_request_def API_BASE_def)

lemma unproven_keep:
  assumes "unproven b0 (s, b)" "ad_stats s' = ad_stats s" "ad_error s' = ad_error s" "ad_started s' = ad_started s" "ad_calls s' = ad_calls s"
    and "sent b' = sent b \<or> (\<exists>c. sent b' = sent b @ [getMe_request c])"
  shows "unproven b0 (s', b')"
  using assms by (auto simp: unproven_def getMe_url)

lemma unproven_me:
  assumes "unproven b0 (s, b)" "rep \<noteq> Success (Some ''admin'')"
  shows "unproven b0 (me_settled rep (s, b))"
proof -
  obtain s' b' where m: "me_settled rep (s, b) = (s', b')" by (rule prod.exhaust)
  then have "ad_stats s' = ad_stats s \<and> ad_error s' = ad_error s \<and> ad_started s' = ad_started s \<and> ad_calls s' = ad_calls s \<and> sent b' = sent b"
    using assms(2) by (cases rep) (auto simp: me_settled_def take_reply_def Let_def split: if_splits)
  then show ?thesis using unproven_keep [OF assms(1)] m by simp
qed

lemma unproven_step:
  assumes "unproven b0 (s, b)" "admin_offers e (s, b)" "e \<noteq> MeSettled (Success (Some ''admin''))"
  shows "unproven b0 (admin_step e (s, b))"
proof (cases e)
  case AdMount
  show ?thesis
    unfolding AdMount admin_step.simps admin_mount_def Let_def
    by (auto intro!: unproven_keep [OF assms(1)])
next
  case (MeSettled rep)
  then show ?thesis using unproven_me [OF assms(1)] assms(3) by auto
qed (use assms in \<open>auto simp: unproven_def admin_offers_def admin_call_settled_def\<close>)

interpretation unproven_admin: machine admin_step
  "\<lambda>e sb. admin_offers e sb \<and> e \<noteq> MeSettled (Success (Some ''admin''))" "unproven b0" for b0
  by unfold_locales (auto simp: unproven_step)

text \<open>
  C3: Admin data are for admins only. However the page is opened, answered and clicked, as long
  as no answer of the server has named the user an admin the page sends nothing but the question
  who the user is, and it shows nothing but its loading text.
\<close>

theorem admin_data_for_admins_only:
  assumes "allowed admin_offers admin_step es (admin_init, b0)"
    and "MeSettled (Success (Some ''admin'')) \<notin> set es"
    and "run admin_step es (admin_init, b0) = (s, b)"
  shows "(\<exists>rqs. sent b = sent b0 @ rqs \<and> list_all (\<lambda>rq. rq_url rq = ''/api/me'') rqs) \<and>
    AdminPage_view fmt sh t s = el ''div'' [el ''div'' [Text (tr t ''admin.loading'')]]"
proof -
  have "allowed (\<lambda>e sb. admin_offers e sb \<and> e \<noteq> MeSettled (Success (Some ''admin''))) admin_step es (admin_init, b0)"
    using assms(1,2) by (auto simp: allowed_conj)
  moreover have "unproven b0 (admin_init, b0)" by (simp add: unproven_def admin_init_def)
  ultimately have "unproven b0 (run admin_step es (admin_init, b0))" by (intro unproven_admin.run_inv)
  then have "unproven b0 (s, b)" by (simp only: assms(3))
  then show ?thesis by (simp add: unproven_def AdminPage_view_def str_or_def)
qed

lemma admin_data_for_admins_only_witness:
  "\<exists>rqs. sent (snd (run admin_step [AdMount, MeSettled (Success (Some ''user''))] (admin_init, admin_browser))) = rqs \<and>
     list_all (\<lambda>rq. rq_url rq = ''/api/me'') rqs"
proof -
  let ?es = "[AdMount, MeSettled (Success (Some ''user''))]"
  let ?r = "run admin_step ?es (admin_init, admin_browser)"
  have "allowed admin_offers admin_step ?es (admin_init, admin_browser)" by (simp add: admin_offers_def)
  from admin_data_for_admins_only [OF this, of "fst ?r" "snd ?r"]
  show ?thesis by (simp add: admin_browser_def)
qed

section \<open>Toggles and forms\<close>

lemmas admin_request_defs =
  adminFetch_request_def base_request_def ADMIN_API_BASE_def json_init_def

lemma toggle_button_events [simp]: "events_of (toggle_button t a e) = [e]"
  by (simp add: toggle_button_def)

lemma StatusBadge_events [simp]: "events_of (StatusBadge a t) = []"
  by (simp add: StatusBadge_def)

lemma header_cells_events [simp]: "events_of (header_cells ls) = []"
  by (simp add: header_cells_def concat_map_Nil)

text \<open>
  C16: A toggle asks for the opposite of what its row shows. The events of the providers table and
  of the models table are one toggle per row, in order; each sends one PUT whose body parses to
  the row's id and the negation of its flag, and nothing else, so prices and limits cannot change
  with it. An accepted answer reloads the data; a refused one, other than a 401,
  changes nothing and says nothing.
\<close>

theorem toggles_flip_what_is_shown:
  "events_of (providers_tab t s) = map (\<lambda>p. ToggleProvider (pr_id p) (pr_is_active p)) (ad_providers s) \<and>
   events_of (models_tab fmt t s) = map (\<lambda>m. ToggleModel (am_id m) (am_is_active m)) (ad_models s) \<and>
   (\<bar>i\<bar> < 2 ^ 53 \<longrightarrow>
     (\<exists>rq. admin_step (ToggleProvider i c) (s, b) = (s\<lparr>ad_calls := ad_calls s @ [ToggleCall]\<rparr>, send rq b) \<and>
        rq_url rq = ''/api/admin/providers/toggle'' \<and> rq_method rq = ''PUT'' \<and>
        map_option JSON_parse (rq_body rq) =
          Some (Some (JObj [(''id'', JNum (num_int i)), (''is_active'', JBool (\<not> c))]))) \<and>
     (\<exists>rq. admin_step (ToggleModel i c) (s, b) = (s\<lparr>ad_calls := ad_calls s @ [ToggleCall]\<rparr>, send rq b) \<and>
        rq_url rq = ''/api/admin/models'' \<and> rq_method rq = ''PUT'' \<and>
        map_option JSON_parse (rq_body rq) =
          Some (Some (JObj [(''id'', JNum (num_int i)), (''is_active'', JBool (\<not> c))])))) \<and>
   resume_admin ToggleCall (Success ()) (s, b) = loadAll (s, b) \<and>
   resume_admin ToggleCall (Failed m) (s, b) = (s, b)"
proof -
  have rows: "events_of (provider_row t p) = [ToggleProvider (pr_id p) (pr_is_active p)]"
    "events_of (admin_model_row fmt t q) = [ToggleModel (am_id q) (am_is_active q)]" for p q
    by (simp_all add: provider_row_def admin_model_row_def)
  have evs: "events_of (providers_tab t s) = map (\<lambda>p. ToggleProvider (pr_id p) (pr_is_active p)) (ad_providers s)"
    "events_of (models_tab fmt t s) = map (\<lambda>m. ToggleModel (am_id m) (am_is_active m)) (ad_models s)"
    by (simp_all add: providers_tab_def models_tab_def Panel_def rows concat_map_single)
  have "json_wf (JObj [(''id'', JNum (num_int i)), (''is_active'', JBool (\<not> c))])" if "\<bar>i\<bar> < 2 ^ 53"
    using num_prints_int [OF that] by simp
  note body = JSON_parse_stringify [OF this]
  show ?thesis
    by (intro conjI impI exI [of _ "toggleProvider_request i (\<not> c) b"]
          exI [of _ "updateModel_request (only_active i (\<not> c)) b"] evs)
       (simp_all add: handleToggleProvider_def handleToggleModel_def toggleProvider_request_def
        updateModel_request_def admin_request_defs only_active_def updates_json_def opt_member_def body
        take_reply_def del: JSON_stringify.simps)
qed

lemma toggles_flip_what_is_shown_witness:
  "map_option JSON_parse (rq_body (last (sent (snd (admin_step (ToggleModel 7 True) (admin_init, admin_browser)))))) =
     Some (Some (JObj [(''id'', JNum (num_int 7)), (''is_active'', JBool False)]))"
proof -
  have small: "\<bar>7 :: int\<bar> < 2 ^ 53" by simp
  note flip = toggles_flip_what_is_shown [of "messagesMap En" admin_init raw_intl 7 True admin_browser "''timeout''",
      THEN conjunct2, THEN conjunct2, THEN conjunct1, THEN mp, OF small, THEN conjunct2]
  obtain rq where "admin_step (ToggleModel 7 True) (admin_init, admin_browser) =
      (admin_init\<lparr>ad_calls := ad_calls admin_init @ [ToggleCall]\<rparr>, send rq admin_browser)"
    "map_option JSON_parse (rq_body rq) = Some (Some (JObj [(''id'', JNum (num_int 7)), (''is_active'', JBool (\<not> True))]))"
    by (rule exE [OF flip]) (elim conjE)
  then show ?thesis by simp
qed

text \<open>
  C19: The balance form sends the numbers that were typed. With either number left out, nothing
  happens. Two numbers below 2 to the 53, in digits without leading zeros, go out as one POST whose
  body parses to those numbers and the reason; an accepted answer empties the form and reloads, and a refused one shows its message and keeps
  the form. What does not read as a number is not caught: the amount goes out as null.
\<close>

theorem balance_form_sends_numbers:
  "(ad_balUserId s = [] \<or> ad_balDelta s = [] \<longrightarrow> admin_step AddBalance (s, b) = (s, b)) \<and>
   (n < 2 ^ 53 \<and> d < 2 ^ 53 \<and> ad_balUserId s = nat_to_string n \<and> ad_balDelta s = nat_to_string d \<longrightarrow>
     (\<exists>rq. admin_step AddBalance (s, b) = (s\<lparr>ad_calls := ad_calls s @ [BalanceCall]\<rparr>, send rq b) \<and>
        rq_url rq = ''/api/admin/users/balance'' \<and> rq_method rq = ''POST'' \<and>
        map_option JSON_parse (rq_body rq) =
          Some (Some (JObj [(''user_id'', JNum (num_int (int n))), (''delta'', JNum (num_int (int d))),
            (''reason'', JStr (ad_balReason s))])))) \<and>
   (n < 2 ^ 53 \<and> ad_balUserId s = nat_to_string n \<and> ad_balDelta s \<noteq> [] \<and> js_Number (ad_balDelta s) = NaN \<longrightarrow>
     (\<exists>rq. admin_step AddBalance (s, b) = (s\<lparr>ad_calls := ad_calls s @ [BalanceCall]\<rparr>, send rq b) \<and>
        map_option JSON_parse (rq_body rq) =
          Some (Some (JObj [(''user_id'', JNum (num_int (int n))), (''delta'', JNull),
            (''reason'', JStr (ad_balReason s))])))) \<and>
   resume_admin BalanceCall (Success ()) (s, b) =
     loadAll (s\<lparr>ad_balUserId := [], ad_balDelta := [], ad_balReason := []\<rparr>, b) \<and>
   resume_admin BalanceCall (Failed m) (s, b) = (s, show_alert m b)"
proof -
  have num: "num_prints (num_int (int k))" if "k < 2 ^ 53" for k
    using that by (intro num_prints_int) simp
  let ?body = "\<lambda>v. JObj [(''user_id'', JNum (num_int (int n))), (''delta'', v), (''reason'', JStr (ad_balReason s))]"
  have body: "JSON_parse (JSON_stringify (?body (JNum (num_int (int d))))) = Some (?body (JNum (num_int (int d))))"
    if "n < 2 ^ 53" "d < 2 ^ 53"
    by (rule JSON_parse_stringify) (use that num in simp)
  have null: "JSON_parse (JSON_stringify (?body (JNum NaN))) = Some (?body JNull)" if "n < 2 ^ 53"
  proof -
    have "JSON_stringify (?body (JNum NaN)) = JSON_stringify (?body JNull)" by simp
    then show ?thesis using JSON_parse_stringify [of "?body JNull"] num [OF that] by (simp del: JSON_stringify.simps)
  qed
  let ?rq = "updateBalance_request (js_Number (ad_balUserId s)) (js_Number (ad_balDelta s)) (ad_balReason s) b"
  show ?thesis
    by (intro conjI impI exI [of _ ?rq])
       (auto simp: handleUpdateBalance_def updateBalance_request_def admin_request_defs take_reply_def
        body [unfolded of_int_of_nat_eq] null [unfolded of_int_of_nat_eq] js_Number_nat nat_to_string_not_Nil simp del: JSON_stringify.simps)
qed

lemma balance_form_sends_numbers_witness:
  "\<exists>rq. sent (snd (admin_step AddBalance
       (admin_init\<lparr>ad_balUserId := nat_to_string 12, ad_balDelta := nat_to_string 50\<rparr>, admin_browser))) = [rq] \<and>
     map_option JSON_parse (rq_body rq) =
       Some (Some (JObj [(''user_id'', JNum (num_int 12)), (''delta'', JNum (num_int 50)), (''reason'', JStr [])]))"
proof -
  let ?s = "admin_init\<lparr>ad_balUserId := nat_to_string 12, ad_balDelta := nat_to_string 50\<rparr>"
  have "12 < (2 :: nat) ^ 53 \<and> 50 < (2 :: nat) ^ 53 \<and> ad_balUserId ?s = nat_to_string 12 \<and> ad_balDelta ?s = nat_to_string 50"
    by simp
  with balance_form_sends_numbers [of ?s admin_browser 12 50 "''x''", THEN conjunct2, THEN conjunct1, THEN mp]
  obtain rq where rq: "admin_step AddBalance (?s, admin_browser) =
      (?s\<lparr>ad_calls := ad_calls ?s @ [BalanceCall]\<rparr>, send rq admin_browser)"
    "map_option JSON_parse (rq_body rq) = Some (Some (JObj [(''user_id'', JNum (num_int (int 12))),
      (''delta'', JNum (num_int (int 50))), (''reason'', JStr (ad_balReason ?s))]))"
    by blast
  have "sent (snd (admin_step AddBalance (?s, admin_browser))) = [rq]"
    unfolding rq(1) by (simp add: admin_browser_def)
  then show ?thesis using rq(2) by (intro exI [of _ rq]) (simp add: admin_init_def)
qed

lemma option_tags: "by_tag ''option'' (provider_option p) = [provider_option p]" "by_tag ''select'' (provider_option p) = []"
  by (simp_all add: provider_option_def)

lemma select_menu:
  "map (attr_of ''onChange'') (by_tag ''select'' (add_key_form t s)) = [Some (OnValue SetNewKeyProviderId)]"
  "by_tag ''option'' (add_key_form t s) =
     Elem ''option'' [(''value'', AStr [])] [Text (tr t ''admin.selectProvider'')] # map provider_option (ad_providers s)"
  by (simp_all add: add_key_form_def Input_def option_tags o_def concat_map_single concat_map_Nil)

lemma empty_choice:
  "run admin_step [SetNewKeyProviderId [], SetNewKeyValue key, AddKey] (s, b) =
     (s\<lparr>ad_newKeyProviderId := [], ad_newKeyValue := key\<rparr>, b)"
  by (simp add: handleAddKey_def)

text \<open>
  C20: A key is added to the provider that was chosen. The menu of the form shows an empty entry
  and then one entry for each provider, with its name and number. With the empty entry the button
  does nothing. Picking a provider's entry, typing a key that is not empty and pressing the button
  sends one POST whose body parses to that provider's id and the key as typed; in the table of
  keys, a key of that provider is then shown under the provider's name when it has one. The
  providers have different ids, not negative and below 2 to the 53, and the limit typed into the
  form is such a number, without leading zeros.
\<close>

theorem key_goes_to_chosen_provider:
  assumes "p \<in> set (ad_providers s)" "pr_id p = int n" "n < 2 ^ 53" "distinct (map pr_id (ad_providers s))"
    and "key \<noteq> []" "ad_newKeyRpm s = nat_to_string rpm" "rpm < 2 ^ 53"
  shows "map (attr_of ''onChange'') (by_tag ''select'' (add_key_form t s)) = [Some (OnValue SetNewKeyProviderId)] \<and>
    by_tag ''option'' (add_key_form t s) =
      Elem ''option'' [(''value'', AStr [])] [Text (tr t ''admin.selectProvider'')] #
      map provider_option (ad_providers s) \<and>
    run admin_step [SetNewKeyProviderId [], SetNewKeyValue key, AddKey] (s, b) =
      (s\<lparr>ad_newKeyProviderId := [], ad_newKeyValue := key\<rparr>, b) \<and>
    (\<exists>v rq s'. attr_of ''value'' (provider_option p) = Some (AStr v) \<and>
      run admin_step [SetNewKeyProviderId v, SetNewKeyValue key, AddKey] (s, b) = (s', send rq b) \<and>
      rq_url rq = ''/api/admin/provider-keys'' \<and> rq_method rq = ''POST'' \<and>
      map_option JSON_parse (rq_body rq) =
        Some (Some (JObj [(''provider_id'', JNum (num_int (pr_id p))), (''key_value'', JStr key),
          (''rpm'', JNum (num_int (int rpm)))])) \<and>
      (\<forall>k. pk_provider_id k = pr_id p \<and> pr_name p \<noteq> [] \<longrightarrow> key_provider (ad_providers s) k = pr_name p))"
proof -
  have v: "attr_of ''value'' (provider_option p) = Some (AStr (nat_to_string n))"
    using assms(2) by (simp add: provider_option_def int_to_string_def)
  have num: "num_prints (num_int (int k))" if "k < 2 ^ 53" for k
    using that by (intro num_prints_int) simp
  have body: "JSON_parse (JSON_stringify (JObj [(''provider_id'', JNum (num_int (int n))), (''key_value'', JStr key),
      (''rpm'', JNum (num_int (int rpm)))])) =
    Some (JObj [(''provider_id'', JNum (num_int (int n))), (''key_value'', JStr key), (''rpm'', JNum (num_int (int rpm)))])"
    by (rule JSON_parse_stringify) (use assms(3,7) num in simp)
  have found: "List.find (\<lambda>q. pr_id q = pr_id p) (ad_providers s) = Some p"
    using assms(1,4) by (rule find_by_key)
  let ?rq = "addProviderKey_request (num_int (int n)) key (num_int (int rpm)) b"
  have "run admin_step [SetNewKeyProviderId (nat_to_string n), SetNewKeyValue key, AddKey] (s, b) =
      (s\<lparr>ad_newKeyProviderId := nat_to_string n, ad_newKeyValue := key, ad_calls := ad_calls s @ [AddKeyCall]\<rparr>, send ?rq b)"
    using assms(3,5,6,7) by (simp add: handleAddKey_def js_Number_nat nat_to_string_not_Nil)
  moreover have "rq_url ?rq = ''/api/admin/provider-keys''" "rq_method ?rq = ''POST''"
    "map_option JSON_parse (rq_body ?rq) =
        Some (Some (JObj [(''provider_id'', JNum (num_int (pr_id p))), (''key_value'', JStr key),
          (''rpm'', JNum (num_int (int rpm)))]))"
    using body assms(2) by (simp_all add: addProviderKey_request_def admin_request_defs del: JSON_stringify.simps)
  moreover have "\<forall>k. pk_provider_id k = pr_id p \<and> pr_name p \<noteq> [] \<longrightarrow> key_provider (ad_providers s) k = pr_name p"
    by (auto simp: key_provider_def found str_or_def)
  ultimately have "\<exists>v rq s'. attr_of ''value'' (provider_option p) = Some (AStr v) \<and>
      run admin_step [SetNewKeyProviderId v, SetNewKeyValue key, AddKey] (s, b) = (s', send rq b) \<and>
      rq_url rq = ''/api/admin/provider-keys'' \<and> rq_method rq = ''POST'' \<and>
      map_option JSON_parse (rq_body rq) =
        Some (Some (JObj [(''provider_id'', JNum (num_int (pr_id p))), (''key_value'', JStr key),
          (''rpm'', JNum (num_int (int rpm)))])) \<and>
      (\<forall>k. pk_provider_id k = pr_id p \<and> pr_name p \<noteq> [] \<longrightarrow> key_provider (ad_providers s) k = pr_name p)"
    using v by blast
  from conjI [OF select_menu(1) conjI [OF select_menu(2) conjI [OF empty_choice this]]] show ?thesis .
qed

definition provider_example :: ProviderInfo where
  "provider_example = \<lparr>pr_id = 3, pr_name = ''openai'', pr_base_url = ''https://api.openai.com'', pr_is_active = True\<rparr>"

lemma key_goes_to_chosen_provider_witness:
  "\<exists>v rq s'. attr_of ''value'' (provider_option provider_example) = Some (AStr v) \<and>
     run admin_step [SetNewKeyProviderId v, SetNewKeyValue ''sk-1'', AddKey]
       (admin_init\<lparr>ad_providers := [provider_example], ad_newKeyRpm := nat_to_string 60\<rparr>, admin_browser) =
     (s', send rq admin_browser)"
  using key_goes_to_chosen_provider [of provider_example
      "admin_init\<lparr>ad_providers := [provider_example], ad_newKeyRpm := nat_to_string 60\<rparr>" 3 "''sk-1''" 60 "messagesMap En" admin_browser,
      THEN conjunct2, THEN conjunct2, THEN conjunct2]
  by (simp add: provider_example_def) blast

end
