(* ===== verification/DashboardPage.thy ===== *)
theory DashboardPage
  imports Components Promises
begin

text \<open>
  The user's dashboard (\<open>web/src/app/dashboard/page.tsx\<close>): usage, logs, API keys and the
  password. \<open>loadData\<close> waits for five requests at once; the model keeps each such wait as a
  \<open>load\<close> with one slot per request, and an event settles one slot. The other suspended handlers
  are kept in a list with what their closures captured.
\<close>

section \<open>Data\<close>

record Summary =
  su_total_requests :: jsnum
  su_total_tokens :: jsnum
  su_total_cost :: jsnum
  su_avg_latency :: jsnum
  su_success_rate :: jsnum
  su_today_cost :: jsnum
  su_balance :: jsnum

record ModelStat =
  ms_model_name :: string
  ms_requests :: jsnum
  ms_total_tokens :: jsnum
  ms_total_cost :: jsnum
  ms_avg_latency :: jsnum

record APIKey =
  ak_id :: int
  ak_name :: string
  ak_key_prefix :: string
  ak_scope :: string
  ak_is_active :: bool
  ak_last_used :: string
  ak_created_at :: string

section \<open>Loading\<close>

record load =
  ld_summary :: "Summary slot"
  ld_models :: "ModelStat list option slot"
  ld_keys :: "APIKey list option slot"
  ld_daily :: "DailyData list option slot"
  ld_recent :: "LogEntry list option slot"

definition fresh_load :: load where
  "fresh_load = \<lparr>ld_summary = Waiting, ld_models = Waiting, ld_keys = Waiting, ld_daily = Waiting,
     ld_recent = Waiting\<rparr>"

text \<open>The answers of the five calls; the lists are the members the code reads, if present.\<close>

datatype load_reply =
    SummaryReply "Summary reply"
  | ModelsReply "ModelStat list option reply"
  | KeysReply "APIKey list option reply"
  | DailyReply "DailyData list option reply"
  | RecentReply "LogEntry list option reply"

fun settle_load :: "load_reply \<Rightarrow> load \<Rightarrow> load" where
  "settle_load (SummaryReply rep) l = l\<lparr>ld_summary := fill (ld_summary l) (settle_slot rep)\<rparr>"
| "settle_load (ModelsReply rep) l = l\<lparr>ld_models := fill (ld_models l) (settle_slot rep)\<rparr>"
| "settle_load (KeysReply rep) l = l\<lparr>ld_keys := fill (ld_keys l) (settle_slot rep)\<rparr>"
| "settle_load (DailyReply rep) l = l\<lparr>ld_daily := fill (ld_daily l) (settle_or (Some []) rep)\<rparr>"
| "settle_load (RecentReply rep) l = l\<lparr>ld_recent := fill (ld_recent l) (settle_or (Some []) rep)\<rparr>"

text \<open>The effect on the browser of the API client when the answer arrives: a 401 signs out.\<close>

definition unauthorized :: "load_reply \<Rightarrow> bool" where
  "unauthorized r =
     (case r of
        SummaryReply rep \<Rightarrow> rep = Unauthorized
      | ModelsReply rep \<Rightarrow> rep = Unauthorized
      | KeysReply rep \<Rightarrow> rep = Unauthorized
      | DailyReply rep \<Rightarrow> rep = Unauthorized
      | RecentReply rep \<Rightarrow> rep = Unauthorized)"

definition load_lost :: "load \<Rightarrow> bool" where
  "load_lost l \<longleftrightarrow> ld_summary l = Lost \<or> ld_models l = Lost \<or> ld_keys l = Lost"

section \<open>State and events\<close>

datatype dash_tab = Overview | LogsTab | KeysTab | SettingsTab

text \<open>Suspended handlers: \<open>handleCreateKey\<close>, \<open>handleDeleteKey\<close> and the password button.\<close>

datatype dash_call = CreateCall messages | DeleteCall | PasswordCall messages

record dashboard =
  db_summary :: "Summary option"
  db_models :: "ModelStat list"
  db_keys :: "APIKey list"
  db_newKeyName :: string
  db_newKeyResult :: string
  db_daily :: "DailyData list"
  db_recentLogs :: "LogEntry list"
  db_tab :: dash_tab
  db_oldPwd :: string
  db_newPwd :: string
  db_pwdMsg :: string
  db_loads :: "nat \<Rightarrow> load"  \<comment> \<open>the waits of \<open>loadData\<close>, in the order they started\<close>
  db_started :: nat
  db_calls :: "dash_call list"

definition dashboard_init :: dashboard where
  "dashboard_init =
     \<lparr>db_summary = None, db_models = [], db_keys = [], db_newKeyName = [], db_newKeyResult = [],
      db_daily = [], db_recentLogs = [], db_tab = Overview, db_oldPwd = [], db_newPwd = [],
      db_pwdMsg = [], db_loads = (\<lambda>_. fresh_load), db_started = 0, db_calls = []\<rparr>"

datatype dash_event =
    DbMount
  | LoadReply nat load_reply
  | SetTab dash_tab
  | SetKeyName string
  | CreateKey
  | DeleteKey int bool  \<comment> \<open>the key and the answer to the confirmation\<close>
  | SetOldPwd string
  | SetNewPwd string
  | UpdatePassword
  | CallSettled nat "string reply"
  | DbHeader header_event

section \<open>Handlers\<close>

definition load_requests :: "browser \<Rightarrow> request list" where
  "load_requests b =
     [getUsageSummary_request b, getUsageByModel_request b, getAPIKeys_request b,
      getUsageDaily_request b, getUsageRecent_request b]"

definition loadData :: "dashboard \<times> browser \<Rightarrow> dashboard \<times> browser" where
  "loadData sb =
     (let (s, b) = sb in
      (s\<lparr>db_loads := (db_loads s)(db_started s := fresh_load), db_started := Suc (db_started s)\<rparr>,
       fold send (load_requests b) b))"

text \<open>The continuation of \<open>loadData\<close> once all five promises are fulfilled.\<close>

definition commit_load :: "load \<Rightarrow> dashboard \<Rightarrow> dashboard option" where
  "commit_load l s =
     (case (ld_summary l, ld_models l, ld_keys l, ld_daily l, ld_recent l) of
        (Got su, Got m, Got k, Got d, Got r) \<Rightarrow>
          Some (s\<lparr>db_summary := Some su, db_models := list_or_empty m, db_keys := list_or_empty k,
                  db_daily := list_or_empty d, db_recentLogs := list_or_empty r\<rparr>)
      | _ \<Rightarrow> None)"

text \<open>
  One answer of a load: the API client's effect, then the continuation if this answer decides the
  \<open>Promise.all\<close>: the first of the three calls to be rejected sends the page to the login page.
\<close>

definition load_client :: "load_reply \<Rightarrow> dashboard \<times> browser \<Rightarrow> dashboard \<times> browser" where
  "load_client r sb = (let (s, b) = sb in (s, if unauthorized r then sign_out b else b))"

definition load_catch :: "load_reply \<Rightarrow> dashboard \<times> browser \<Rightarrow> dashboard \<times> browser" where
  "load_catch r sb = (let (s, b) = sb in (s, router_push ''/login'' b))"

definition put_load :: "nat \<Rightarrow> load \<Rightarrow> dashboard \<times> browser \<Rightarrow> dashboard \<times> browser" where
  "put_load i l sb = (let (s, b) = sb in (s\<lparr>db_loads := (db_loads s)(i := l)\<rparr>, b))"

definition load_commit :: "load \<Rightarrow> dashboard \<times> browser \<Rightarrow> (dashboard \<times> browser) option" where
  "load_commit l sb = (let (s, b) = sb in map_option (\<lambda>s'. (s', b)) (commit_load l s))"

definition load_settled :: "nat \<Rightarrow> load_reply \<Rightarrow> dashboard \<times> browser \<Rightarrow> dashboard \<times> browser" where
  "load_settled i =
     settle_promise settle_load load_lost (\<lambda>(s, b). db_loads s i) (put_load i) load_client load_catch
       load_commit"

definition dashboard_mount :: "dashboard \<times> browser \<Rightarrow> dashboard \<times> browser" where
  "dashboard_mount sb =
     (let (s, b) = sb in if \<not> isLoggedIn b then (s, router_push ''/login'' b) else loadData (s, b))"

definition handleCreateKey :: "messages \<Rightarrow> dashboard \<times> browser \<Rightarrow> dashboard \<times> browser" where
  "handleCreateKey t sb =
     (let (s, b) = sb in
      if trim (db_newKeyName s) = [] then (s, b)
      else (s\<lparr>db_calls := db_calls s @ [CreateCall t]\<rparr>,
            send (createAPIKey_request (db_newKeyName s) ''full'' b) b))"

definition handleDeleteKey :: "int \<Rightarrow> bool \<Rightarrow> dashboard \<times> browser \<Rightarrow> dashboard \<times> browser" where
  "handleDeleteKey i confirmed sb =
     (let (s, b) = sb in
      if \<not> confirmed then (s, b)
      else (s\<lparr>db_calls := db_calls s @ [DeleteCall]\<rparr>, send (deleteAPIKey_request i b) b))"

definition update_password :: "messages \<Rightarrow> dashboard \<times> browser \<Rightarrow> dashboard \<times> browser" where
  "update_password t sb =
     (let (s, b) = sb in
      (s\<lparr>db_pwdMsg := [], db_calls := db_calls s @ [PasswordCall t]\<rparr>,
       send (changePassword_request (db_oldPwd s) (db_newPwd s) b) b))"

definition password_settled :: "messages \<Rightarrow> string reply \<Rightarrow> dashboard \<times> browser \<Rightarrow> dashboard \<times> browser" where
  "password_settled t rep sb =
     (let (s, b) = sb in
      case take_reply rep b of
        (Inr ok, b') \<Rightarrow>
          (s\<lparr>db_pwdMsg := tr t ''dashboard.passwordChanged'', db_oldPwd := [], db_newPwd := []\<rparr>, b')
      | (Inl m, b') \<Rightarrow> (s\<lparr>db_pwdMsg := m\<rparr>, b'))"

text \<open>A suspended handler resumes; the payload is the new key, where the handler reads one.\<close>

fun resume_call :: "dash_call \<Rightarrow> string reply \<Rightarrow> dashboard \<times> browser \<Rightarrow> dashboard \<times> browser" where
  "resume_call (CreateCall t) rep (s, b) =
     (case take_reply rep b of
        (Inr key, b') \<Rightarrow> loadData (s\<lparr>db_newKeyResult := key, db_newKeyName := []\<rparr>, b')
      | (Inl m, b') \<Rightarrow> (s, show_alert m b'))"
| "resume_call DeleteCall rep (s, b) =
     (case take_reply rep b of
        (Inr ok, b') \<Rightarrow> loadData (s, b')
      | (Inl m, b') \<Rightarrow> (s, b'))"
| "resume_call (PasswordCall t) rep sb = password_settled t rep sb"

definition call_settled :: "nat \<Rightarrow> string reply \<Rightarrow> dashboard \<times> browser \<Rightarrow> dashboard \<times> browser" where
  "call_settled i rep sb =
     (let (s, b) = sb in
      if i < length (db_calls s)
      then resume_call (db_calls s ! i) rep
             (s\<lparr>db_calls := take i (db_calls s) @ drop (Suc i) (db_calls s)\<rparr>, b)
      else (s, b))"

fun dashboard_step :: "messages \<Rightarrow> dash_event \<Rightarrow> dashboard \<times> browser \<Rightarrow> dashboard \<times> browser" where
  "dashboard_step t DbMount sb = dashboard_mount sb"
| "dashboard_step t (LoadReply i r) (s, b) = (if i < db_started s then load_settled i r (s, b) else (s, b))"
| "dashboard_step t (SetTab k) (s, b) = (s\<lparr>db_tab := k\<rparr>, b)"
| "dashboard_step t (SetKeyName v) (s, b) = (s\<lparr>db_newKeyName := v\<rparr>, b)"
| "dashboard_step t CreateKey sb = handleCreateKey t sb"
| "dashboard_step t (DeleteKey i c) sb = handleDeleteKey i c sb"
| "dashboard_step t (SetOldPwd v) (s, b) = (s\<lparr>db_oldPwd := v\<rparr>, b)"
| "dashboard_step t (SetNewPwd v) (s, b) = (s\<lparr>db_newPwd := v\<rparr>, b)"
| "dashboard_step t UpdatePassword sb = update_password t sb"
| "dashboard_step t (CallSettled i rep) sb = call_settled i rep sb"
| "dashboard_step t (DbHeader h) (s, b) = (s, header_clicked h b)"

section \<open>View\<close>

definition StatCard :: "string \<Rightarrow> string \<Rightarrow> string option \<Rightarrow> 'e node" where
  "StatCard label val color =
     el ''div''
       [el ''div'' [Text label],
        Elem ''div'' (case color of Some c \<Rightarrow> [(''style.color'', AStr c)] | None \<Rightarrow> []) [Text val]]"

definition dash_tabs :: "dash_tab list" where
  "dash_tabs = [Overview, LogsTab, KeysTab, SettingsTab]"

definition tab_label :: "messages \<Rightarrow> dash_tab \<Rightarrow> string" where
  "tab_label t k =
     (case k of
        Overview \<Rightarrow> tr t ''dashboard.tabs.overview''
      | LogsTab \<Rightarrow> tr t ''dashboard.tabs.logs''
      | KeysTab \<Rightarrow> tr t ''dashboard.tabs.keys''
      | SettingsTab \<Rightarrow> tr t ''dashboard.tabs.settings'')"

definition tab_button :: "messages \<Rightarrow> dash_tab \<Rightarrow> dash_tab \<Rightarrow> dash_event node" where
  "tab_button t current k =
     Elem ''button''
       [(''onClick'', On (SetTab k)),
        (''style.background'', AStr (if current = k then ''var(--primary)'' else ''var(--card)'')),
        (''style.border'',
         AStr (''1px solid '' @ (if current = k then ''var(--primary)'' else ''var(--border)'')))]
       [Text (tab_label t k)]"

definition model_stat_row :: "intl \<Rightarrow> ModelStat \<Rightarrow> 'e node" where
  "model_stat_row fmt m =
     Elem ''tr'' [(''key'', AStr (ms_model_name m))]
       [el ''td'' [Text (ms_model_name m)],
        el ''td'' [Text (num_to_string (ms_requests m))],
        el ''td'' [Text (groupedNumber fmt (ms_total_tokens m))],
        el ''td'' [Text (''$'' @ toFixed 6 (ms_total_cost m))],
        el ''td'' [Text (toFixed 1 (ms_avg_latency m) @ ''s'')]]"

definition stat_cards :: "intl \<Rightarrow> messages \<Rightarrow> Summary \<Rightarrow> 'e node" where
  "stat_cards fmt t su =
     el ''div''
       [StatCard (tr t ''dashboard.stats.totalRequests'') (groupedNumber fmt (su_total_requests su)) None,
        StatCard (tr t ''dashboard.stats.totalTokens'') (groupedNumber fmt (su_total_tokens su)) None,
        StatCard (tr t ''dashboard.stats.totalCost'') (''$'' @ toFixed 4 (su_total_cost su)) None,
        StatCard (tr t ''dashboard.stats.todayCost'') (''$'' @ toFixed 4 (su_today_cost su)) None,
        StatCard (tr t ''dashboard.stats.avgLatency'') (toFixed 1 (su_avg_latency su) @ ''s'') None,
        StatCard (tr t ''dashboard.stats.successRate'') (toFixed 1 (su_success_rate su) @ ''%'')
          (Some (if Fin 99 \<le> su_success_rate su then ''var(--success)'' else ''var(--warning)''))]"

definition model_stats :: "intl \<Rightarrow> messages \<Rightarrow> ModelStat list \<Rightarrow> 'e node" where
  "model_stats fmt t ms =
     (if ms = [] then el ''p'' [Text (tr t ''dashboard.noUsage'')]
      else
        el ''table''
          [el ''thead''
             [el ''tr''
                [el ''th'' [Text (tr t ''logs.colModel'')],
                 el ''th'' [Text (tr t ''dashboard.stats.totalRequests'')],
                 el ''th'' [Text (tr t ''logs.colTokens'')],
                 el ''th'' [Text (tr t ''logs.colCost'')],
                 el ''th'' [Text (tr t ''logs.colLatency'')]]],
           el ''tbody'' (map (model_stat_row fmt) ms)])"

definition overview_tab :: "intl \<Rightarrow> messages \<Rightarrow> Summary \<Rightarrow> dashboard \<Rightarrow> 'e node list" where
  "overview_tab fmt t su s =
     [stat_cards fmt t su,
      el ''div'' [el ''h3'' [Text (tr t ''dashboard.usageTrend'')], UsageChart t (db_daily s)],
      el ''div'' [el ''h3'' [Text (tr t ''dashboard.usageByModel'')], model_stats fmt t (db_models s)]]"

definition logs_tab :: "intl \<Rightarrow> messages \<Rightarrow> dashboard \<Rightarrow> 'e node list" where
  "logs_tab fmt t s =
     [el ''div'' [el ''h3'' [Text (tr t ''dashboard.recentRequests'')], RecentLogs fmt t (db_recentLogs s)]]"

text \<open>The delete button asks for confirmation; its handler gets the answer.\<close>

definition key_row :: "intl \<Rightarrow> messages \<Rightarrow> APIKey \<Rightarrow> dash_event node" where
  "key_row fmt t k =
     Elem ''tr'' [(''key'', ANum (num_int (ak_id k)))]
       [el ''td'' [Text (ak_name k)],
        el ''td'' [Text (ak_key_prefix k), Text ''...''],
        el ''td'' [Text (ak_scope k)],
        el ''td'' [Text (dateString fmt (ak_created_at k))],
        el ''td''
          [Elem ''button''
             [(''onClick.confirmed'', On (DeleteKey (ak_id k) True)),
              (''onClick.cancelled'', On (DeleteKey (ak_id k) False)),
              (''confirm'', AStr (tr t ''common.confirmDeleteKey''))]
             [Text (tr t ''common.delete'')]]]"

definition create_key_form :: "messages \<Rightarrow> dashboard \<Rightarrow> dash_event node" where
  "create_key_form t s =
     el ''div''
       [Elem ''input''
          [(''value'', AStr (db_newKeyName s)), (''onChange'', OnValue SetKeyName),
           (''placeholder'', AStr (tr t ''dashboard.keyNamePlaceholder'')),
           (''onKeyDown.Enter'', On CreateKey)] [],
        Elem ''button'' [(''onClick'', On CreateKey)] [Text (tr t ''common.create'')]]"

definition key_list :: "intl \<Rightarrow> messages \<Rightarrow> APIKey list \<Rightarrow> dash_event node" where
  "key_list fmt t ks =
     (if ks = [] then el ''p'' [Text (tr t ''dashboard.noApiKeys'')]
      else
        el ''table''
          [el ''thead''
             [el ''tr''
                [el ''th'' [Text (tr t ''dashboard.colName'')],
                 el ''th'' [Text (tr t ''dashboard.colKey'')],
                 el ''th'' [Text (tr t ''dashboard.colScope'')],
                 el ''th'' [Text (tr t ''dashboard.colCreated'')],
                 el ''th'' [Text (tr t ''common.action'')]]],
           el ''tbody'' (map (key_row fmt t) ks)])"

definition keys_tab :: "intl \<Rightarrow> messages \<Rightarrow> dashboard \<Rightarrow> dash_event node list" where
  "keys_tab fmt t s =
     [el ''div''
        ([el ''h3'' [Text (tr t ''dashboard.apiKeys'')], create_key_form t s]
         @ cond_nodes (db_newKeyResult s \<noteq> [])
             [el ''div''
                [el ''p'' [Text (tr t ''dashboard.keyCreatedHint'')], el ''code'' [Text (db_newKeyResult s)]]]
         @ [key_list fmt t (db_keys s)])]"

definition pwd_field :: "string \<Rightarrow> (string \<Rightarrow> dash_event) \<Rightarrow> string \<Rightarrow> dash_event node" where
  "pwd_field val onChange placeholder =
     Elem ''input''
       [(''type'', AStr ''password''), (''value'', AStr val), (''onChange'', OnValue onChange),
        (''placeholder'', AStr placeholder)] []"

definition settings_tab :: "messages \<Rightarrow> dashboard \<Rightarrow> dash_event node list" where
  "settings_tab t s =
     [el ''div''
        [el ''h3'' [Text (tr t ''dashboard.changePassword'')],
         el ''div''
           ([pwd_field (db_oldPwd s) SetOldPwd (tr t ''dashboard.currentPassword''),
             pwd_field (db_newPwd s) SetNewPwd (tr t ''dashboard.newPassword''),
             Elem ''button'' [(''onClick'', On UpdatePassword)] [Text (tr t ''dashboard.updatePassword'')]]
            @ cond_nodes (db_pwdMsg s \<noteq> [])
                [Elem ''p''
                   [(''style.color'',
                     AStr (if db_pwdMsg s = tr t ''dashboard.passwordChanged'' then ''var(--success)''
                           else ''var(--danger)''))]
                   [Text (db_pwdMsg s)]])]]"

definition DashboardPage_view :: "intl \<Rightarrow> shell \<Rightarrow> messages \<Rightarrow> dashboard \<Rightarrow> dash_event node" where
  "DashboardPage_view fmt sh t s =
     (case db_summary s of
        None \<Rightarrow> el ''div'' [el ''div'' [Text (tr t ''common.loading'')]]
      | Some su \<Rightarrow>
          el ''div''
            [map_node DbHeader (SiteHeader sh t (no_props\<lparr>balance := Some (su_balance su)\<rparr>)),
             el ''div''
               ([el ''div'' (map (tab_button t (db_tab s)) dash_tabs)]
                @ (case db_tab s of
                     Overview \<Rightarrow> overview_tab fmt t su s
                   | LogsTab \<Rightarrow> logs_tab fmt t s
                   | KeysTab \<Rightarrow> keys_tab fmt t s
                   | SettingsTab \<Rightarrow> settings_tab t s))])"

section \<open>Lemmas on loading\<close>

text \<open>The five requests, and which one a reply answers.\<close>

datatype load_kind = KSummary | KModels | KKeys | KDaily | KRecent

fun reply_kind :: "load_reply \<Rightarrow> load_kind" where
  "reply_kind (SummaryReply rep) = KSummary"
| "reply_kind (ModelsReply rep) = KModels"
| "reply_kind (KeysReply rep) = KKeys"
| "reply_kind (DailyReply rep) = KDaily"
| "reply_kind (RecentReply rep) = KRecent"

text \<open>The answers that reject the \<open>Promise.all\<close>.\<close>

fun rejects :: "load_reply \<Rightarrow> bool" where
  "rejects (SummaryReply rep) = (\<forall>a. rep \<noteq> Success a)"
| "rejects (ModelsReply rep) = (\<forall>a. rep \<noteq> Success a)"
| "rejects (KeysReply rep) = (\<forall>a. rep \<noteq> Success a)"
| "rejects _ = False"

definition slot_open :: "load_kind \<Rightarrow> load \<Rightarrow> bool" where
  "slot_open k l =
     (case k of
        KSummary \<Rightarrow> ld_summary l = Waiting
      | KModels \<Rightarrow> ld_models l = Waiting
      | KKeys \<Rightarrow> ld_keys l = Waiting
      | KDaily \<Rightarrow> ld_daily l = Waiting
      | KRecent \<Rightarrow> ld_recent l = Waiting)"

lemma slot_open_settle:
  "slot_open k (settle_load r l) \<longleftrightarrow> slot_open k l \<and> reply_kind r \<noteq> k"
  by (cases r; cases k) (auto simp: slot_open_def fill_def)

lemma load_lost_settle:
  "slot_open (reply_kind r) l \<Longrightarrow> load_lost (settle_load r l) \<longleftrightarrow> load_lost l \<or> rejects r"
  by (cases r) (auto simp: load_lost_def slot_open_def)

lemma commit_load_open: "slot_open k l \<Longrightarrow> commit_load l s = None"
  by (cases k) (auto simp: commit_load_def slot_open_def split: slot.splits)

lemma settle_load_commute:
  "reply_kind r \<noteq> reply_kind q \<Longrightarrow> settle_load r (settle_load q l) = settle_load q (settle_load r l)"
  by (cases r; cases q) auto

lemma commit_load_put: "commit_load l (s\<lparr>db_loads := f\<rparr>) = map_option (\<lambda>s'. s'\<lparr>db_loads := f\<rparr>) (commit_load l s)"
  by (simp add: commit_load_def split: slot.splits)

interpretation db_load: promise_all settle_load reply_kind slot_open load_lost rejects
  "\<lambda>(s, b). db_loads s i" "put_load i" load_client load_catch load_commit for i
proof unfold_locales
  show "slot_open k l \<Longrightarrow> load_commit l st = None" for k l st
    by (simp add: load_commit_def commit_load_open split: prod.splits)
qed (auto simp: slot_open_settle load_lost_settle settle_load_commute put_load_def load_client_def load_catch_def
    sign_out_push split: prod.splits)

lemma fresh_load_lost [simp]: "load_lost fresh_load = False"
  by (simp add: load_lost_def fresh_load_def)

lemma settle_or_Got: "settle_or f rep = Got (case rep of Success a \<Rightarrow> a | _ \<Rightarrow> f)"
  by (cases rep) (simp_all add: settle_or_def)

lemma fold_load_client:
  "fold load_client rs (s, b) = (s, if \<exists>r \<in> set rs. unauthorized r then sign_out b else b)"
  by (induction rs arbitrary: b) (auto simp: load_client_def)

text \<open>The five answers of one load.\<close>

definition five_replies ::
  "Summary reply \<Rightarrow> ModelStat list option reply \<Rightarrow> APIKey list option reply \<Rightarrow>
   DailyData list option reply \<Rightarrow> LogEntry list option reply \<Rightarrow> load_reply list" where
  "five_replies su m k d r =
     [SummaryReply su, ModelsReply m, KeysReply k, DailyReply d, RecentReply r]"

lemma five_kinds: "distinct (map reply_kind (five_replies su m k d r))"
  by (simp add: five_replies_def)

lemma five_settled:
  "fold settle_load (five_replies su m k d r) fresh_load =
     \<lparr>ld_summary = settle_slot su, ld_models = settle_slot m, ld_keys = settle_slot k,
      ld_daily = settle_or (Some []) d, ld_recent = settle_or (Some []) r\<rparr>"
  by (simp add: five_replies_def fresh_load_def)

lemma load_urls:
  "map (\<lambda>rq. (rq_method rq, rq_url rq)) (load_requests b) =
     [(''GET'', ''/api/usage/summary''), (''GET'', ''/api/usage/by-model''), (''GET'', ''/api/keys''),
      (''GET'', ''/api/usage/daily''), (''GET'', ''/api/usage/recent'')]"
  by (simp add: load_requests_def getUsageSummary_request_def getUsageByModel_request_def getAPIKeys_request_def
      getUsageDaily_request_def getUsageRecent_request_def fetchAPI_request_def base_request_def API_BASE_def
      no_init_def)

text \<open>What the page shows of the last committed load.\<close>

definition dash_data where
  "dash_data s = (db_summary s, db_models s, db_keys s, db_daily s, db_recentLogs s)"

section \<open>Properties\<close>


definition dash_browser :: browser where
  "dash_browser = \<lparr>has_window = True, storage = [''token'' \<mapsto> ''t1''], href = None, pushed = [], alerts = [], sent = []\<rparr>"

definition summary_example :: Summary where
  "summary_example = \<lparr>su_total_requests = Fin 2, su_total_tokens = Fin 30, su_total_cost = Fin 0,
     su_avg_latency = Fin 1, su_success_rate = Fin 100, su_today_cost = Fin 0, su_balance = Fin 5\<rparr>"


text \<open>
  A step of the page together with the texts of the moment, and the events that bring no further
  key: everything but the success of another \<open>handleCreateKey\<close>.
\<close>

definition dash_play :: "messages \<times> dash_event \<Rightarrow> dashboard \<times> browser \<Rightarrow> dashboard \<times> browser" where
  "dash_play te sb = dashboard_step (fst te) (snd te) sb"

definition no_other_key :: "messages \<times> dash_event \<Rightarrow> dashboard \<times> browser \<Rightarrow> bool" where
  "no_other_key te sb =
     (case snd te of
        CallSettled i (Success k) \<Rightarrow> \<not> (i < length (db_calls (fst sb)) \<and> (\<exists>t. db_calls (fst sb) ! i = CreateCall t))
      | _ \<Rightarrow> True)"

lemma load_keeps_result: "db_newKeyResult (fst (load_settled i r sb)) = db_newKeyResult (fst sb)"
  by (cases sb)
     (auto simp: load_settled_def settle_promise_def load_client_def load_catch_def put_load_def load_commit_def
        commit_load_def Let_def split: option.splits slot.splits)

lemma resume_keeps_result:
  assumes "\<And>t k. c = CreateCall t \<Longrightarrow> rep \<noteq> Success k"
  shows "db_newKeyResult (fst (resume_call c rep (s, b))) = db_newKeyResult s"
  using assms
  by (cases c; cases rep) (auto simp: take_reply_def loadData_def password_settled_def split: prod.splits)

lemma step_keeps_result:
  assumes "no_other_key (t, e) (s, b)"
  shows "db_newKeyResult (fst (dashboard_step t e (s, b))) = db_newKeyResult s"
proof (cases e)
  case (CallSettled i rep)
  have "rep \<noteq> Success k" if "i < length (db_calls s)" "db_calls s ! i = CreateCall u" for u k
    using assms that by (auto simp: no_other_key_def CallSettled)
  then show ?thesis by (auto simp: CallSettled call_settled_def resume_keeps_result)
qed (auto simp: load_keeps_result dashboard_mount_def loadData_def handleCreateKey_def handleDeleteKey_def
    update_password_def split: prod.splits)

interpretation key_shown: machine dash_play no_other_key "\<lambda>sb. db_newKeyResult (fst sb) = key" for key
proof unfold_locales
  fix sb :: "dashboard \<times> browser" and te
  assume "db_newKeyResult (fst sb) = key" "no_other_key te sb"
  then show "db_newKeyResult (fst (dash_play te sb)) = key"
    using step_keeps_result [of "fst te" "snd te" "fst sb" "snd sb"] by (simp add: dash_play_def)
qed

text \<open>The dashboard never starts a session, and a load waits for an answer until it comes.\<close>

lemma load_no_login: "\<not> isLoggedIn b \<Longrightarrow> \<not> isLoggedIn (snd (load_settled i r (s, b)))"
  by (auto simp: load_settled_def settle_promise_def load_client_def load_catch_def put_load_def load_commit_def
      Let_def split: option.splits)

lemma resume_no_login: "\<not> isLoggedIn b \<Longrightarrow> \<not> isLoggedIn (snd (resume_call c rep (s, b)))"
  by (cases c; cases rep) (auto simp: take_reply_def loadData_def password_settled_def)

lemma step_no_login: "\<not> isLoggedIn b \<Longrightarrow> \<not> isLoggedIn (snd (dashboard_step t e (s, b)))"
  by (cases e)
     (auto simp: load_no_login call_settled_def resume_no_login dashboard_mount_def handleCreateKey_def
        handleDeleteKey_def update_password_def header_clicked_def split: header_event.splits)

interpretation signed_out: machine dash_play "\<lambda>te sb. True" "\<lambda>sb. \<not> isLoggedIn (snd sb)"
proof unfold_locales
  fix sb :: "dashboard \<times> browser" and te
  assume "\<not> isLoggedIn (snd sb)"
  then show "\<not> isLoggedIn (snd (dash_play te sb))"
    using step_no_login [of "snd sb" "fst te" "snd te" "fst sb"] by (simp add: dash_play_def)
qed

definition first_load_waits :: "load_kind \<Rightarrow> dashboard \<times> browser \<Rightarrow> bool" where
  "first_load_waits k sb \<longleftrightarrow> 0 < db_started (fst sb) \<and> slot_open k (db_loads (fst sb) 0)"

definition other_answer :: "load_kind \<Rightarrow> messages \<times> dash_event \<Rightarrow> bool" where
  "other_answer k te = (case snd te of LoadReply i r \<Rightarrow> i = 0 \<longrightarrow> reply_kind r \<noteq> k | _ \<Rightarrow> True)"

lemma load_settled_waits:
  assumes "first_load_waits k (s, b)" "i = 0 \<longrightarrow> reply_kind r \<noteq> k"
  shows "first_load_waits k (load_settled i r (s, b))"
  using assms
  by (auto simp: first_load_waits_def load_settled_def settle_promise_def load_client_def load_catch_def put_load_def
      load_commit_def commit_load_def slot_open_settle Let_def split: option.splits slot.splits)

lemma resume_waits: "first_load_waits k (s, b) \<Longrightarrow> first_load_waits k (resume_call c rep (s, b))"
  by (cases c; cases rep) (auto simp: first_load_waits_def take_reply_def loadData_def password_settled_def)

lemma step_waits:
  assumes "first_load_waits k (s, b)" "other_answer k (t, e)"
  shows "first_load_waits k (dashboard_step t e (s, b))"
proof (cases e)
  case (LoadReply i r)
  then show ?thesis using assms load_settled_waits by (simp add: other_answer_def)
next
  case (CallSettled i rep)
  have "first_load_waits k (s\<lparr>db_calls := cs\<rparr>, b)" for cs using assms(1) by (simp add: first_load_waits_def)
  then show ?thesis using assms(1) resume_waits by (simp add: CallSettled call_settled_def)
qed (use assms(1) in \<open>auto simp: first_load_waits_def dashboard_mount_def loadData_def handleCreateKey_def
    handleDeleteKey_def update_password_def\<close>)

interpretation waiting_load: machine dash_play "\<lambda>te sb. other_answer k te" "first_load_waits k" for k
proof unfold_locales
  fix sb :: "dashboard \<times> browser" and te
  assume "first_load_waits k sb" "other_answer k te"
  then show "first_load_waits k (dash_play te sb)"
    using step_waits [of k "fst sb" "snd sb" "fst te" "snd te"] by (simp add: dash_play_def)
qed

lemma answer_401_signs_out:
  assumes "first_load_waits (reply_kind r) (s, b)" "unauthorized r"
  shows "\<not> isLoggedIn (snd (dashboard_step t (LoadReply 0 r) (s, b)))"
proof -
  have "settle_load r (db_loads s 0) \<noteq> db_loads s 0"
    using assms(1) db_load.settle_changes by (auto simp: first_load_waits_def)
  then show ?thesis
    using assms
    by (auto simp: first_load_waits_def load_settled_def settle_promise_def load_client_def load_catch_def put_load_def
        load_commit_def Let_def split: option.splits)
qed

text \<open>One answer of the first load is a 401, the only one to its call: afterwards there is no session.\<close>

lemma session_lost:
  assumes "first_load_waits (reply_kind r) sb" "unauthorized r" "(t, LoadReply 0 r) \<in> set es"
    and "\<forall>u q. (u, LoadReply 0 q) \<in> set es \<and> reply_kind q = reply_kind r \<longrightarrow> q = r"
  shows "\<not> isLoggedIn (snd (run dash_play es sb))"
proof -
  let ?hit = "\<lambda>te. snd te = LoadReply 0 r"
  have "\<exists>x \<in> set es. ?hit x" using assms(3) by (rule bexI [rotated]) simp
  from split_list_first_prop [OF this]
  obtain xs te ys where es: "es = xs @ te # ys" "?hit te" "\<forall>x \<in> set xs. \<not> ?hit x" by blast
  have "\<forall>x \<in> set xs. other_answer (reply_kind r) x"
    using es(1,3) assms(4) by (auto simp: other_answer_def split: dash_event.splits) (metis snd_conv)
  then have "first_load_waits (reply_kind r) (run dash_play xs sb)"
    by (intro waiting_load.run_inv assms(1)) (simp add: allowed_stateless)
  then have "\<not> isLoggedIn (snd (dash_play te (run dash_play xs sb)))"
    using answer_401_signs_out [of r "fst (run dash_play xs sb)" "snd (run dash_play xs sb)"] assms(2) es(2)
    by (simp add: dash_play_def)
  then show ?thesis
    using signed_out.run_inv [of "dash_play te (run dash_play xs sb)" ys] by (simp add: es(1) run_append)
qed

lemma header_code [simp]: "by_tag ''code'' (SiteHeader sh t p) = concat (map (by_tag ''code'') (trailing p))"
  by (auto simp: SiteHeader_def nav_link_def PreferencesBar_def ThemeToggle_def LocaleSwitcher_def LOCALES_def Let_def
      concat_map_cond split: option.splits)

lemma keys_tab_code:
  "concat (map (by_tag ''code'') (keys_tab fmt t s)) =
     (if db_newKeyResult s = [] then [] else [el ''code'' [Text (db_newKeyResult s)]])"
proof -
  have "by_tag ''code'' (key_row fmt t k) = []" for k by (simp add: key_row_def)
  then have "concat (map (by_tag ''code'') (map (key_row fmt t) ks)) = []" for ks
    by (intro concat_map_Nil) auto
  then have "by_tag ''code'' (key_list fmt t ks) = []" for ks by (simp add: key_list_def)
  then show ?thesis by (simp add: keys_tab_def create_key_form_def)
qed

lemma keys_view_code:
  assumes "db_summary s \<noteq> None" "db_tab s = KeysTab" "db_newKeyResult s = key" "key \<noteq> []"
  shows "by_tag ''code'' (DashboardPage_view fmt sh t s) = [el ''code'' [Text key]]"
proof -
  have "by_tag ''code'' (tab_button t k d) = []" for k d by (simp add: tab_button_def)
  then have "concat (map (by_tag ''code'') (map (tab_button t k) ds)) = []" for k ds
    by (intro concat_map_Nil) auto
  then show ?thesis
    using assms keys_tab_code [of fmt t s]
    by (auto simp: DashboardPage_view_def by_tag_map_node no_props_def)
qed


definition key_page_example :: dashboard where
  "key_page_example =
     dashboard_init\<lparr>db_summary := Some summary_example, db_tab := KeysTab, db_newKeyName := ''ci'',
       db_calls := [CreateCall (messagesMap En)]\<rparr>"


text \<open>A second click before the answer sends the same request again: nothing disables the button.\<close>

lemma create_twice:
  "trim (db_newKeyName s) \<noteq> [] \<Longrightarrow>
     (\<exists>rq. sent (snd (handleCreateKey t (handleCreateKey t (s, b)))) = sent b @ [rq, rq])"
  by (simp add: handleCreateKey_def createAPIKey_request_def fetchAPI_request_def base_request_def stored_token_def)

text \<open>
  C24: A key is deleted only after a confirmation. Without it nothing is sent; with it one request
  goes out whose body parses to the id of the row. A success loads the data again; a failure
  changes neither the page nor, unless it is a 401, the browser: the user is not told.
\<close>

theorem delete_key_flow:
  assumes "\<bar>i\<bar> < 2 ^ 53"
  shows "handleDeleteKey i False (s, b) = (s, b) \<and>
    (\<exists>rq. handleDeleteKey i True (s, b) = (s\<lparr>db_calls := db_calls s @ [DeleteCall]\<rparr>, send rq b) \<and>
       rq_url rq = ''/api/keys'' \<and> rq_method rq = ''DELETE'' \<and>
       map_option JSON_parse (rq_body rq) = Some (Some (JObj [(''id'', JNum (num_int i))]))) \<and>
    resume_call DeleteCall (Success ok) (s, b) = loadData (s, b) \<and>
    resume_call DeleteCall (Failed m) (s, b) = (s, b)"
proof -
  have "json_wf (JObj [(''id'', JNum (num_int i))])" using num_prints_int [OF assms] by simp
  note body = JSON_parse_stringify [OF this]
  show ?thesis
    by (intro conjI exI [of _ "deleteAPIKey_request i b"])
       (simp_all add: handleDeleteKey_def deleteAPIKey_request_def fetchAPI_request_def base_request_def API_BASE_def
        json_init_def body take_reply_def del: JSON_stringify.simps)
qed

lemma delete_key_flow_witness:
  "resume_call DeleteCall (Failed ''timeout'') (dashboard_init, dash_browser) = (dashboard_init, dash_browser)"
  using delete_key_flow [of 3 dashboard_init dash_browser "''x''" "''timeout''"] by simp

lemma password_changed_text: "tr (messagesMap loc) ''dashboard.passwordChanged'' \<noteq> []"
proof -
  have k: "''dashboard.passwordChanged'' \<in> set (map fst en_catalog)" by (simp add: en_catalog_def en_dashboard_def)
  then have k': "''dashboard.passwordChanged'' \<in> set (map fst zh_catalog)" by (simp only: same_keys)
  show ?thesis
    using present_text [OF catalog_texts(1) k] present_text [OF catalog_texts(2) k']
    by (cases loc) (auto simp: tr_def messagesMap_def)
qed

text \<open>
  C40: The password form reports what happened. Pressing its button clears the old message and sends
  one request whose body parses to the two inputs. When the answer is a success, both inputs are
  empty and the settings tab shows the success text, in the colour of a success while the language
  is that of the click; when the call fails with another text, other than with a 401, the tab shows that
  text in the colour of an error and both inputs stay for another try.
\<close>

theorem password_flow:
  "(\<exists>rq. dashboard_step t UpdatePassword (s, b) =
       (s\<lparr>db_pwdMsg := [], db_calls := db_calls s @ [PasswordCall t]\<rparr>, send rq b) \<and>
     rq_url rq = ''/api/password'' \<and> rq_method rq = ''PUT'' \<and>
     map_option JSON_parse (rq_body rq) =
       Some (Some (JObj [(''old_password'', JStr (db_oldPwd s)), (''new_password'', JStr (db_newPwd s))]))) \<and>
   (i < length (db_calls s) \<and> db_calls s ! i = PasswordCall (messagesMap loc) \<longrightarrow>
     (\<exists>s'. dashboard_step t (CallSettled i (Success ok)) (s, b) = (s', b) \<and> db_oldPwd s' = [] \<and> db_newPwd s' = [] \<and>
        concat (map (by_tag ''p'') (settings_tab (messagesMap loc) s')) =
          [Elem ''p'' [(''style.color'', AStr ''var(--success)'')]
             [Text (tr (messagesMap loc) ''dashboard.passwordChanged'')]]) \<and>
     (m \<noteq> [] \<and> m \<noteq> tr (messagesMap loc) ''dashboard.passwordChanged'' \<longrightarrow>
       (\<exists>s'. dashboard_step t (CallSettled i (Failed m)) (s, b) = (s', b) \<and>
          db_oldPwd s' = db_oldPwd s \<and> db_newPwd s' = db_newPwd s \<and>
          concat (map (by_tag ''p'') (settings_tab (messagesMap loc) s')) =
            [Elem ''p'' [(''style.color'', AStr ''var(--danger)'')] [Text m]])))"
proof -
  have "json_wf (JObj [(''old_password'', JStr u), (''new_password'', JStr v)])" for u v by simp
  note body = this [THEN JSON_parse_stringify]
  show ?thesis
    by (intro conjI impI exI [of _ "changePassword_request (db_oldPwd s) (db_newPwd s) b"])
       (simp_all add: update_password_def call_settled_def password_settled_def settings_tab_def pwd_field_def
        changePassword_request_def fetchAPI_request_def base_request_def API_BASE_def password_changed_text
        json_init_def body take_reply_def del: JSON_stringify.simps)
qed

lemma password_flow_witness:
  "\<exists>s'. dashboard_step (messagesMap ZhCN) (CallSettled 0 (Success ''ok''))
       (dashboard_init\<lparr>db_oldPwd := ''old'', db_newPwd := ''new'', db_calls := [PasswordCall (messagesMap En)]\<rparr>, dash_browser) =
       (s', dash_browser) \<and>
     concat (map (by_tag ''p'') (settings_tab (messagesMap En) s')) =
       [Elem ''p'' [(''style.color'', AStr ''var(--success)'')] [Text (tr (messagesMap En) ''dashboard.passwordChanged'')]]"
proof -
  let ?s = "dashboard_init\<lparr>db_oldPwd := ''old'', db_newPwd := ''new'', db_calls := [PasswordCall (messagesMap En)]\<rparr>"
  have "0 < length (db_calls ?s) \<and> db_calls ?s ! 0 = PasswordCall (messagesMap En)" by simp
  from password_flow [of "messagesMap ZhCN" ?s dash_browser 0 En "''ok''", THEN conjunct2, THEN mp, OF this, THEN conjunct1]
  show ?thesis by blast
qed

text \<open>
  The colour of the message compares it with the text in the current language: after a switch of
  the language a success is shown in the colour of an error.
\<close>

lemma success_in_another_language:
  assumes "tr t ''dashboard.passwordChanged'' \<noteq> tr t' ''dashboard.passwordChanged''"
    and "password_settled t (Success ok) (s, b) = (s', b')" "tr t ''dashboard.passwordChanged'' \<noteq> []"
  shows "map (attr_of ''style.color'') (concat (map (by_tag ''p'') (settings_tab t' s'))) = [Some (AStr ''var(--danger)'')]"
  using assms by (auto simp: password_settled_def take_reply_def settings_tab_def pwd_field_def)

end
