(* ===== verification/LoginPage.thy ===== *)
theory LoginPage
  imports Components
begin

text \<open>
  The login page (\<open>web/src/app/login/page.tsx\<close>): the form for login and registration. A
  \<open>handleSubmit\<close> sends its request and is suspended until the answer settles; the closure keeps
  which of the two calls it made.
\<close>

section \<open>The two calls after their request\<close>

text \<open>\<open>login\<close> and \<open>register\<close> once the request is on its way.\<close>

definition auth_settle :: "fetched \<Rightarrow> browser \<Rightarrow> json jsresult \<times> browser" where
  "auth_settle f b = store_token (fetchAPI_settle f b) (fetched_msg f)"

lemma login_halves: "login email password f b =
    auth_settle f (send (fetchAPI_request ''/auth/login'' (login_init email password) b) b)"
  by (simp add: login_def auth_settle_def fetchAPI_def)

lemma register_halves: "register email password name f b =
    auth_settle f (send (fetchAPI_request ''/auth/register'' (register_init email password name) b) b)"
  by (simp add: register_def auth_settle_def fetchAPI_def)

section \<open>State and events\<close>

record login_page =
  lp_isRegister :: bool
  lp_email :: string
  lp_password :: string
  lp_name :: string
  lp_error :: string
  lp_loading :: bool
  lp_submits :: nat  \<comment> \<open>suspended \<open>handleSubmit\<close>\<close>

definition login_page_init :: login_page where
  "login_page_init = \<lparr>lp_isRegister = False, lp_email = [], lp_password = [], lp_name = [],
     lp_error = [], lp_loading = False, lp_submits = 0\<rparr>"

datatype login_event =
    SetEmail string
  | SetPassword string
  | SetName string
  | ToggleRegister
  | Submit
  | SubmitSettled fetched
  | LoginPreferences header_event

definition handleSubmit :: "login_page \<times> browser \<Rightarrow> login_page \<times> browser" where
  "handleSubmit sb =
     (let (s, b) = sb;
          rq = (if lp_isRegister s
                then fetchAPI_request ''/auth/register'' (register_init (lp_email s) (lp_password s) (lp_name s)) b
                else fetchAPI_request ''/auth/login'' (login_init (lp_email s) (lp_password s)) b)
      in (s\<lparr>lp_error := [], lp_loading := True, lp_submits := lp_submits s + 1\<rparr>, send rq b))"

definition submit_settled :: "fetched \<Rightarrow> login_page \<times> browser \<Rightarrow> login_page \<times> browser" where
  "submit_settled f sb =
     (let (s, b) = sb; s' = s\<lparr>lp_loading := False, lp_submits := lp_submits s - 1\<rparr>
      in case auth_settle f b of
           (Inr data, b') \<Rightarrow> (s', router_push ''/dashboard'' b')
         | (Inl m, b') \<Rightarrow> (s'\<lparr>lp_error := m\<rparr>, b'))"

fun login_step :: "login_event \<Rightarrow> login_page \<times> browser \<Rightarrow> login_page \<times> browser" where
  "login_step (SetEmail v) (s, b) = (s\<lparr>lp_email := v\<rparr>, b)"
| "login_step (SetPassword v) (s, b) = (s\<lparr>lp_password := v\<rparr>, b)"
| "login_step (SetName v) (s, b) = (s\<lparr>lp_name := v\<rparr>, b)"
| "login_step ToggleRegister (s, b) = (s\<lparr>lp_isRegister := \<not> lp_isRegister s, lp_error := []\<rparr>, b)"
| "login_step Submit sb = handleSubmit sb"
| "login_step (SubmitSettled f) (s, b) = (if lp_submits s = 0 then (s, b) else submit_settled f (s, b))"
| "login_step (LoginPreferences h) (s, b) = (s, b)"

section \<open>View\<close>

definition login_field ::
    "string \<Rightarrow> string \<Rightarrow> string \<Rightarrow> (string \<Rightarrow> login_event) \<Rightarrow> (string \<times> login_event attr) list \<Rightarrow> string
      \<Rightarrow> login_event node" where
  "login_field label type val onChange constraints placeholder =
     el ''div''
       [el ''label'' [Text label],
        Elem ''input''
          ([(''type'', AStr type), (''value'', AStr val), (''onChange'', OnValue onChange)]
           @ constraints @ [(''placeholder'', AStr placeholder)]) []]"

definition submit_button :: "messages \<Rightarrow> login_page \<Rightarrow> login_event node" where
  "submit_button t s =
     Elem ''button''
       [(''type'', AStr ''submit''), (''disabled'', ABool (lp_loading s)),
        (''style.background'', AStr (if lp_loading s then ''var(--muted)'' else ''var(--primary)''))]
       [Text (if lp_loading s then tr t ''login.loading''
              else if lp_isRegister s then tr t ''login.createAccount''
              else tr t ''login.signIn'')]"

definition login_form :: "messages \<Rightarrow> login_page \<Rightarrow> login_event node" where
  "login_form t s =
     Elem ''form'' [(''onSubmit'', On Submit)]
       (cond_nodes (lp_isRegister s)
          [login_field (tr t ''login.name'') ''text'' (lp_name s) SetName
             [(''required'', ABool (lp_isRegister s))] (tr t ''login.namePlaceholder'')]
        @ [login_field (tr t ''login.email'') ''email'' (lp_email s) SetEmail
             [(''required'', ABool True)] (tr t ''login.emailPlaceholder''),
           login_field (tr t ''login.password'') ''password'' (lp_password s) SetPassword
             [(''required'', ABool True), (''minLength'', ANum (Fin 8))] (tr t ''login.passwordPlaceholder''),
           submit_button t s])"

definition mode_switch :: "messages \<Rightarrow> login_page \<Rightarrow> login_event node" where
  "mode_switch t s =
     el ''div''
       [Text (if lp_isRegister s then tr t ''login.hasAccount'' else tr t ''login.noAccount''), Text '' '',
        Elem ''button'' [(''type'', AStr ''button''), (''onClick'', On ToggleRegister)]
          [Text (if lp_isRegister s then tr t ''login.signIn'' else tr t ''login.register'')]]"

definition LoginPage_view :: "shell \<Rightarrow> messages \<Rightarrow> login_page \<Rightarrow> login_event node" where
  "LoginPage_view sh t s =
     el ''div''
       [el ''div'' [map_node LoginPreferences (PreferencesBar (sh_mounted sh) (sh_theme sh) (sh_locale sh) t)],
        el ''div''
          [el ''div''
             [el ''div'' [el ''h1'' [Text ''UniLLM''], el ''p'' [Text (tr t ''login.tagline'')]],
              el ''div''
                ([el ''h2'' [Text (if lp_isRegister s then tr t ''login.createAccount'' else tr t ''login.signIn'')]]
                 @ cond_nodes (lp_error s \<noteq> [])
                     [Elem ''div'' [(''style.color'', AStr ''var(--danger)'')] [Text (lp_error s)]]
                 @ [login_form t s, mode_switch t s])]]]"

section \<open>Lemmas\<close>

text \<open>What an accepted answer is: status in the 200s and a body that parses to a value that is
  not null.\<close>

definition accepted :: "fetched \<Rightarrow> json \<Rightarrow> bool" where
  "accepted f data \<longleftrightarrow> api_reply f = Success data \<and> data \<noteq> JNull"

definition answer_token :: "json \<Rightarrow> string" where
  "answer_token data = (case get_prop data ''token'' of Some v \<Rightarrow> js_String v | None \<Rightarrow> ''undefined'')"

lemma auth_settle_accepted:
  "accepted f data \<Longrightarrow> auth_settle f b = (Ok data, setItem ''token'' (answer_token data) b)"
  by (cases data)
     (auto simp: accepted_def auth_settle_def api.settle_reply take_reply_def store_token_def answer_token_def)

lemma auth_settle_refused:
  assumes "\<nexists>data. accepted f data"
  shows "\<exists>m. auth_settle f b = (Throw m, if api_reply f = Unauthorized then sign_out b else b)"
proof (cases "api_reply f")
  case (Success data)
  then have "data = JNull" using assms by (simp add: accepted_def)
  then show ?thesis using Success
    by (simp add: auth_settle_def api.settle_reply take_reply_def store_token_def)
qed (simp_all add: auth_settle_def api.settle_reply take_reply_def store_token_def)

text \<open>The submit button is the form's default button: while it is disabled the browser does not
  submit the form.\<close>

definition form_submits :: "login_event \<Rightarrow> login_page \<times> browser \<Rightarrow> bool" where
  "form_submits e sb = (e = Submit \<longrightarrow> \<not> lp_loading (fst sb))"

definition one_submit :: "login_page \<times> browser \<Rightarrow> bool" where
  "one_submit sb \<longleftrightarrow> lp_submits (fst sb) = (if lp_loading (fst sb) then 1 else 0)"

lemma one_submit_settled:
  "one_submit (s, b) \<Longrightarrow> lp_submits s \<noteq> 0 \<Longrightarrow> one_submit (submit_settled f (s, b))"
  by (auto simp: one_submit_def submit_settled_def Let_def split: prod.splits sum.splits if_splits)

interpretation login_machine: machine login_step form_submits one_submit
proof unfold_locales
  fix sb e assume "one_submit sb" "form_submits e sb"
  then show "one_submit (login_step e sb)"
    using one_submit_settled
    by (cases "(e, sb)" rule: login_step.cases)
       (auto simp: one_submit_def form_submits_def handleSubmit_def Let_def case_prod_beta)
qed

section \<open>Properties\<close>

text \<open>
  C15: The form submits once and always comes back. While a submission is under way its button is
  disabled, so there is never a second one; and whatever the answer is, the page stops loading:
  an accepted answer stores its token and goes to the dashboard, any other shows its error, stays
  on the page's route and stores nothing, and a 401 also ends the old session.
\<close>

theorem login_form_settles:
  assumes "reach form_submits login_step (login_page_init, b0) (s, b)"
  shows "lp_submits s = (if lp_loading s then 1 else 0) \<and>
    attr_of ''disabled'' (submit_button t s) = Some (ABool (lp_loading s)) \<and>
    (lp_loading s \<longrightarrow>
       (\<exists>s' b'. login_step (SubmitSettled f) (s, b) = (s', b') \<and> \<not> lp_loading s' \<and> lp_submits s' = 0 \<and>
          (\<forall>data. accepted f data \<longrightarrow>
             b' = router_push ''/dashboard'' (setItem ''token'' (answer_token data) b) \<and> lp_error s' = lp_error s) \<and>
          ((\<nexists>data. accepted f data) \<longrightarrow>
             auth_settle f b = (Throw (lp_error s'), b') \<and> pushed b' = pushed b \<and>
             b' = (if api_reply f = Unauthorized then sign_out b else b))))"
proof -
  have one: "lp_submits s = (if lp_loading s then 1 else 0)"
    using login_machine.reach_inv [OF assms] by (simp add: one_submit_def login_page_init_def)
  have "\<exists>s' b'. submit_settled f (s, b) = (s', b') \<and> \<not> lp_loading s' \<and> lp_submits s' = lp_submits s - 1 \<and>
      (\<forall>data. accepted f data \<longrightarrow>
         b' = router_push ''/dashboard'' (setItem ''token'' (answer_token data) b) \<and> lp_error s' = lp_error s) \<and>
      ((\<nexists>data. accepted f data) \<longrightarrow>
         auth_settle f b = (Throw (lp_error s'), b') \<and> pushed b' = pushed b \<and>
         b' = (if api_reply f = Unauthorized then sign_out b else b))"
  proof (cases "\<exists>data. accepted f data")
    case True
    then obtain data where d: "accepted f data" by blast
    then have only: "accepted f data' \<longleftrightarrow> data' = data" for data' by (auto simp: accepted_def)
    show ?thesis using auth_settle_accepted [OF d, of b]
      by (simp add: submit_settled_def Let_def only)
  next
    case False
    then obtain m where "auth_settle f b = (Throw m, if api_reply f = Unauthorized then sign_out b else b)"
      using auth_settle_refused by blast
    then show ?thesis using False by (simp add: submit_settled_def Let_def)
  qed
  then show ?thesis using one by (auto simp: submit_button_def)
qed

definition login_example :: "login_page \<times> browser" where
  "login_example = run login_step [SetEmail ''a@b.c'', SetPassword ''secret12'', Submit]
     (login_page_init, \<lparr>has_window = True, storage = Map.empty, href = None, pushed = [], alerts = [], sent = []\<rparr>)"

lemma login_form_settles_witness:
  "\<exists>s' b'. login_step (SubmitSettled (Rejected ''offline'')) login_example = (s', b') \<and>
     \<not> lp_loading s' \<and> pushed b' = []"
proof -
  obtain s b where sb: "login_example = (s, b)" by (rule prod.exhaust)
  have "reach form_submits login_step (login_page_init,
      \<lparr>has_window = True, storage = Map.empty, href = None, pushed = [], alerts = [], sent = []\<rparr>) login_example"
    unfolding login_example_def
    by (rule reach_run [OF reach_start]) (simp add: form_submits_def login_page_init_def)
  note r = this [unfolded sb]
  have "lp_loading (fst login_example)" "pushed (snd login_example) = []"
    by (simp_all add: login_example_def handleSubmit_def login_page_init_def Let_def)
  moreover have "\<nexists>data. accepted (Rejected ''offline'') data"
    by (simp add: accepted_def api_reply_def)
  ultimately show ?thesis
    using login_form_settles [OF r, of "messagesMap En" "Rejected ''offline''"] by (auto simp: sb)
qed

text \<open>
  C35: The form sends what it shows. In login mode the request goes to the login path with the
  email and the password, in registration mode to the register path with the name as well; the
  body parses back to the inputs. Switching between the modes clears the error and keeps what was
  typed, and switching twice is the same form.
\<close>

theorem submitted_form:
  "(\<exists>rq. sent (snd (handleSubmit (s, b))) = sent b @ [rq] \<and> rq_method rq = ''POST'' \<and>
      rq_url rq = (if lp_isRegister s then ''/api/auth/register'' else ''/api/auth/login'') \<and>
      map_option JSON_parse (rq_body rq) = Some (Some (JObj
        ([(''email'', JStr (lp_email s)), (''password'', JStr (lp_password s))] @
         (if lp_isRegister s then [(''name'', JStr (lp_name s))] else []))))) \<and>
    lp_loading (fst (handleSubmit (s, b))) \<and> lp_error (fst (handleSubmit (s, b))) = [] \<and>
    run login_step [ToggleRegister, ToggleRegister] (s, b) = (s\<lparr>lp_error := []\<rparr>, b)"
proof -
  have "json_wf (JObj [(''email'', JStr e), (''password'', JStr p)])"
    "json_wf (JObj [(''email'', JStr e), (''password'', JStr p), (''name'', JStr n)])" for e p n
    by simp_all
  note bodies = this [THEN JSON_parse_stringify]
  show ?thesis
    by (simp add: handleSubmit_def Let_def fetchAPI_request_def base_request_def API_BASE_def login_init_def
        register_init_def json_init_def bodies del: JSON_stringify.simps)
qed

end
