(* ===== verification/Middleware.thy ===== *)
theory Middleware
  imports Url "HOL-Library.AList"
begin

text \<open>
  The request routing of the web server (\<open>web/src/middleware.ts\<close>): API paths and three status
  paths are rewritten to the backend, everything else is served by the web application. The
  backend's address is parsed at each request that is proxied (theory \<open>Url\<close>), and an address that
  is not a URL a path can be put on makes the request fail.
\<close>

section \<open>The middleware\<close>

text \<open>
  A request as the framework hands it over: the path and the query of its parsed URL, so the path
  begins with a slash and holds neither a question mark nor a fragment.
\<close>

record web_request =
  wr_pathname :: string
  wr_search :: string  \<comment> \<open>empty, or with its question mark\<close>
  wr_headers :: "(string \<times> string) list"  \<comment> \<open>names in lower case\<close>

datatype routed =
    Rewrite string "(string \<times> string) list"
  | Next
  | Raised string  \<comment> \<open>the handler throws\<close>

definition BACKEND_URL :: "string option \<Rightarrow> string" where
  "BACKEND_URL env = (case env of Some u \<Rightarrow> str_or u ''http://localhost:8080'' | None \<Rightarrow> ''http://localhost:8080'')"

definition goes_to_backend :: "string \<Rightarrow> bool" where
  "goes_to_backend pathname \<longleftrightarrow>
     startsWith pathname ''/api/'' \<or> startsWith pathname ''/v1/'' \<or> pathname = ''/backend/status'' \<or>
     pathname = ''/backend/health'' \<or> pathname = ''/backend/metrics''"

definition backend_path :: "string \<Rightarrow> string" where
  "backend_path pathname =
     (if startsWith pathname ''/backend/'' then replace_first pathname ''/backend'' [] else pathname)"

text \<open>\<open>new URL(backendPath + search, BACKEND_URL)\<close>, which may throw.\<close>

definition backend_url :: "host_parser \<Rightarrow> string option \<Rightarrow> web_request \<Rightarrow> string option" where
  "backend_url hp env req = resolve_path hp (backend_path (wr_pathname req) @ wr_search req) (BACKEND_URL env)"

definition middleware :: "host_parser \<Rightarrow> string option \<Rightarrow> web_request \<Rightarrow> routed" where
  "middleware hp env req =
     (if goes_to_backend (wr_pathname req) then
        (case backend_url hp env req of
           None \<Rightarrow> Raised ''Invalid URL''
         | Some backendUrl \<Rightarrow>
             (case parse_url hp (BACKEND_URL env) of
                None \<Rightarrow> Raised ''Invalid URL''
              | Some base \<Rightarrow> Rewrite backendUrl (AList.update ''host'' (url_host base) (wr_headers req))))
      else Next)"

text \<open>The paths the server runs the middleware for: \<open>/api\<close>, \<open>/v1\<close> and \<open>/backend\<close> and below.\<close>

definition matcher :: "string \<Rightarrow> bool" where
  "matcher pathname \<longleftrightarrow>
     list_ex (\<lambda>p. pathname = p \<or> startsWith pathname (p @ ''/'')) [''/api'', ''/v1'', ''/backend'']"

section \<open>Properties\<close>

text \<open>The address as a base: it parses, and to a URL that has a place for a path.\<close>

definition backend_base :: "host_parser \<Rightarrow> string option \<Rightarrow> url_base option" where
  "backend_base hp env =
     (case parse_url hp (BACKEND_URL env) of Some u \<Rightarrow> if u_opaque u then None else Some u | None \<Rightarrow> None)"

lemma backend_path_cases:
  assumes "goes_to_backend p"
  shows "matcher p \<and> \<not> two_slashes sch (backend_path p @ q) \<and>
    backend_path p = (if startsWith p ''/backend/'' then drop 8 p else p)"
proof -
  consider (api) s where "p = ''/api/'' @ s" | (v1) s where "p = ''/v1/'' @ s"
    | (status) "p = ''/backend/status'' \<or> p = ''/backend/health'' \<or> p = ''/backend/metrics''"
    using assms by (auto simp: goes_to_backend_def startsWith_prefix prefix_def)
  then show ?thesis by cases (auto simp: backend_path_def matcher_def two_slashes_def is_slash_def)
qed

lemma middleware_cases:
  "middleware hp env req =
     (if \<not> goes_to_backend (wr_pathname req) then Next
      else
        (case backend_base hp env of
           None \<Rightarrow> Raised ''Invalid URL''
         | Some u \<Rightarrow>
             Rewrite (url_prefix u @ backend_path (wr_pathname req) @ wr_search req)
               (AList.update ''host'' (url_host u) (wr_headers req))))"
proof (cases "goes_to_backend (wr_pathname req)")
  case True
  have "\<not> two_slashes sch (backend_path (wr_pathname req) @ wr_search req)" for sch
    using backend_path_cases [OF True] by blast
  then show ?thesis
    using True by (simp add: middleware_def backend_base_def backend_url_def resolve_path_def split: option.splits)
qed (simp add: middleware_def)

text \<open>
  C8: Requests are only ever proxied to the backend. Exactly the API paths and the three status
  paths are proxied, all of them paths the server runs the middleware for. When the configured
  address is a URL with a place for a path, the rewritten URL is that URL's scheme, credentials,
  host and port, followed by the request's path, without \<open>/backend\<close>, and its query: no path makes the
  server fetch from another host. The request's host header becomes the backend's host and port,
  the other headers stay. When the address is not such a URL, every one of these requests throws.
\<close>

theorem proxied_to_backend_only:
  "(middleware hp env req = Next \<longleftrightarrow>
     \<not> (prefix ''/api/'' (wr_pathname req) \<or> prefix ''/v1/'' (wr_pathname req) \<or>
        wr_pathname req \<in> {''/backend/status'', ''/backend/health'', ''/backend/metrics''})) \<and>
   (case middleware hp env req of
     Next \<Rightarrow> True
   | Rewrite url hs \<Rightarrow>
       matcher (wr_pathname req) \<and>
       (\<exists>u. parse_url hp (BACKEND_URL env) = Some u \<and> \<not> u_opaque u \<and>
          url = url_prefix u @
            (if startsWith (wr_pathname req) ''/backend/'' then drop 8 (wr_pathname req) else wr_pathname req) @
            wr_search req \<and>
          map_of hs ''host'' = Some (url_host u)) \<and>
       (\<forall>k. k \<noteq> ''host'' \<longrightarrow> map_of hs k = map_of (wr_headers req) k)
   | Raised m \<Rightarrow>
       matcher (wr_pathname req) \<and>
       (parse_url hp (BACKEND_URL env) = None \<or> (\<exists>u. parse_url hp (BACKEND_URL env) = Some u \<and> u_opaque u)))"
proof (cases "goes_to_backend (wr_pathname req)")
  case True
  note path = backend_path_cases [OF True]
  have listed: "prefix ''/api/'' (wr_pathname req) \<or> prefix ''/v1/'' (wr_pathname req) \<or>
      wr_pathname req \<in> {''/backend/status'', ''/backend/health'', ''/backend/metrics''}"
    using True by (simp add: goes_to_backend_def startsWith_prefix)
  show ?thesis
  proof (cases "backend_base hp env")
    case None
    then show ?thesis
      using True path listed by (simp add: middleware_cases) (auto simp: backend_base_def split: option.splits if_splits)
  next
    case (Some u)
    then have "parse_url hp (BACKEND_URL env) = Some u" "\<not> u_opaque u"
      by (auto simp: backend_base_def split: option.splits if_splits)
    then show ?thesis using True Some path listed by (simp add: middleware_cases update_conv')
  qed
next
  case False
  then show ?thesis by (auto simp: middleware_cases goes_to_backend_def startsWith_prefix)
qed

lemma default_base:
  "parse_url name_parser (BACKEND_URL None) =
     Some \<lparr>u_scheme = ''http'', u_username = [], u_password = [], u_hostname = Some ''localhost'', u_port = Some 8080,
           u_opaque = False\<rparr>"
  by (simp add: BACKEND_URL_def url_eval)

lemma port_8080: "nat_to_string 8080 = ''8080''"
  by (simp add: nat_to_string.simps [of 8080] nat_to_string.simps [of 808] nat_to_string.simps [of 80]
      nat_to_string.simps [of 8] digit_char_def char_of_def bit_0)

lemma proxied_to_backend_only_witness:
  "matcher ''/backend/status'' \<and>
   middleware name_parser None
     \<lparr>wr_pathname = ''/backend/status'', wr_search = ''?full=1'', wr_headers = [(''accept'', ''*/*'')]\<rparr> =
     Rewrite ''http://localhost:8080/status?full=1'' [(''accept'', ''*/*''), (''host'', ''localhost:8080'')]"
proof -
  let ?r = "\<lparr>wr_pathname = ''/backend/status'', wr_search = ''?full=1'', wr_headers = [(''accept'', ''*/*'')]\<rparr>"
  let ?u = "\<lparr>u_scheme = ''http'', u_username = [], u_password = [], u_hostname = Some ''localhost'', u_port = Some 8080,
           u_opaque = False\<rparr>"
  have u: "url_prefix ?u = ''http://localhost:8080''" "url_host ?u = ''localhost:8080''"
    by (simp_all add: url_prefix_def credentials_def url_host_def port_suffix_def port_8080)
  have b: "backend_base name_parser None = Some ?u" by (simp add: backend_base_def default_base)
  have m: "middleware name_parser None ?r =
      Rewrite ''http://localhost:8080/status?full=1'' [(''accept'', ''*/*''), (''host'', ''localhost:8080'')]"
    by (simp only: middleware_cases b option.case u) (simp add: goes_to_backend_def backend_path_def)
  then show ?thesis using proxied_to_backend_only [where hp = name_parser and env = None and req = ?r] by simp
qed

text \<open>
  The deployment script tells the operator to set the address to a host and a port without a
  scheme. The parser takes such a host for the scheme, so every proxied request throws.
\<close>

lemma scheme_less_backend_throws:
  "middleware name_parser (Some ''backend.railway.internal:8080'')
     \<lparr>wr_pathname = ''/api/me'', wr_search = [], wr_headers = []\<rparr> = Raised ''Invalid URL''"
proof -
  have b: "backend_base name_parser (Some ''backend.railway.internal:8080'') = None"
    by (simp add: backend_base_def BACKEND_URL_def str_or_def scheme_less_address)
  show ?thesis by (simp add: middleware_cases b goes_to_backend_def)
qed

end
