(* ===== verification/Sse.thy ===== *)
theory Sse
  imports JsonRoundtrip
begin

text \<open>
  The reader of the playground's answer stream (\<open>web/src/app/playground/page.tsx\<close>, lines 109
  to 127): server-sent events, one \<open>data:\<close> line per event. The state is the pair of the text
  collected so far and the text shown; a chunk is the text the decoder returned for one read.
\<close>

section \<open>Lines\<close>

definition newline :: char where
  "newline = CHR 0x0A"

text \<open>
  What a line adds: nothing unless it is a data line, holds JSON and the first choice has a
  truthy content. Reading \<open>choices\<close> of a parsed null throws, and the handler skips the line.
\<close>

definition sse_content :: "json \<Rightarrow> json option" where
  "sse_content parsed =
     opt_prop (opt_prop (opt_index (get_prop parsed ''choices'') 0) ''delta'') ''content''"

definition sse_delta :: "string \<Rightarrow> string option" where
  "sse_delta line =
     (if \<not> startsWith line ''data: '' then None
      else
        (let data = trim (drop 6 line) in
         if data = ''[DONE]'' then None
         else
           (case JSON_parse data of
              None \<Rightarrow> None
            | Some JNull \<Rightarrow> None
            | Some parsed \<Rightarrow>
                (case sse_content parsed of
                   Some delta \<Rightarrow> if truthy (Some delta) then Some (js_String delta) else None
                 | None \<Rightarrow> None))))"

definition sse_line :: "string \<Rightarrow> string \<times> string \<Rightarrow> string \<times> string" where
  "sse_line line ts =
     (let (fullText, shown) = ts in
      case sse_delta line of
        Some delta \<Rightarrow> (fullText @ delta, fullText @ delta)
      | None \<Rightarrow> (fullText, shown))"

definition sse_chunk :: "string \<Rightarrow> string \<times> string \<Rightarrow> string \<times> string" where
  "sse_chunk chunk ts = fold sse_line (split_on newline chunk) ts"

section \<open>Chunks cut at line ends\<close>

lemma sse_delta_Nil [simp]: "sse_delta [] = None"
  by (simp add: sse_delta_def)

lemma sse_line_Nil [simp]: "sse_line [] = id"
  by (rule ext) (simp add: sse_line_def case_prod_beta)

lemma sse_chunk_Nil [simp]: "sse_chunk [] = id"
  by (rule ext) (simp add: sse_chunk_def)

lemma fold_split_line: "fold sse_line (split_on newline (c @ newline # s)) =
    fold sse_line (split_on newline s) \<circ> fold sse_line (split_on newline c)"
  by (simp add: split_on_append_sep)

lemma sse_chunk_line: "sse_chunk (c @ newline # s) ts = sse_chunk s (sse_chunk c ts)"
  by (simp add: sse_chunk_def fold_split_line)

lemma sse_chunk_ends:
  assumes "c \<noteq> []" "last c = newline"
  shows "sse_chunk (c @ s) ts = sse_chunk s (sse_chunk c ts)"
proof -
  have c: "c = butlast c @ [newline]" using assms by (metis append_butlast_last_id)
  have "sse_chunk (butlast c @ [newline]) = sse_chunk (butlast c)"
    by (rule ext) (simp add: sse_chunk_line)
  then show ?thesis
    using sse_chunk_line [of "butlast c" s ts] c by (metis append.assoc append_Cons append_Nil)
qed

text \<open>Every chunk ends a line: then the chunks add what the whole body would add at once.\<close>

definition ends_line :: "string \<Rightarrow> bool" where
  "ends_line c \<longleftrightarrow> c = [] \<or> last c = newline"

lemma sse_chunks_concat:
  "list_all ends_line cs \<Longrightarrow> fold sse_chunk cs ts = sse_chunk (concat cs) ts"
proof (induction cs arbitrary: ts)
  case (Cons c cs)
  show ?case
  proof (cases "c = []")
    case False
    then have "sse_chunk (c @ concat cs) ts = sse_chunk (concat cs) (sse_chunk c ts)"
      using Cons.prems by (intro sse_chunk_ends) (auto simp: ends_line_def)
    then show ?thesis using Cons by simp
  qed (use Cons in simp)
qed simp

section \<open>Serialised values stay on one line\<close>

lemma of_char_newline [simp]: "(of_char newline :: nat) = 10"
  by (simp add: newline_def)

lemma hex_digit_not_newline: "d < 16 \<Longrightarrow> hex_digit d \<noteq> newline"
proof
  assume d: "d < 16" "hex_digit d = newline"
  then have "(of_char (hex_digit d) :: nat) = 10" by simp
  then show False using d(1) by (auto simp: hex_digit_def split: if_splits)
qed

lemma newline_escape: "newline \<notin> set (escape_char c)"
proof -
  have [simp]: "newline \<noteq> CHR ''b''" "newline \<noteq> CHR ''t''" "newline \<noteq> CHR ''n''" "newline \<noteq> CHR ''f''"
    "newline \<noteq> CHR ''r''" "newline \<noteq> CHR ''u''" "newline \<noteq> CHR ''0''" "newline \<noteq> backslash"
    by (simp_all add: newline_def)
  have "(of_char c :: nat) \<noteq> 10 \<Longrightarrow> newline \<noteq> c" by auto
  moreover have "n div 16 < 16" "n mod 16 < 16" if "n < 32" for n :: nat using that by auto
  ultimately show ?thesis
    using hex_digit_not_newline by (auto simp: escape_char_def Let_def dest: sym)
qed

lemma newline_quote: "newline \<notin> set (quote_string s)"
  using newline_escape by (auto simp: quote_string_def newline_def)

lemma set_join: "set (join sep ps) \<subseteq> set sep \<union> \<Union> (set ` set ps)"
  by (induction sep ps rule: join.induct) auto

lemma newline_join:
  assumes "newline \<notin> set sep" "\<And>p. p \<in> set ps \<Longrightarrow> newline \<notin> set p"
  shows "newline \<notin> set (join sep ps)"
  using assms set_join by fastforce

lemma num_char_not_newline: "list_all is_num_char s \<Longrightarrow> newline \<notin> set s"
  by (auto simp: list_all_iff newline_def is_num_char_def is_digit_def)

lemma newline_stringify: "json_wf v \<Longrightarrow> newline \<notin> set (JSON_stringify v)"
proof (induction v rule: JSON_stringify.induct)
  case (3 x)
  then show ?case using num_char_not_newline by (simp add: num_prints_def)
next
  case (6 xs)
  then have "newline \<notin> set (join '','' (map JSON_stringify xs))"
    by (intro newline_join) (auto simp: newline_def)
  then show ?case by (simp add: newline_def)
next
  case (7 kvs)
  have "newline \<notin> set (quote_string k @ '':'' @ JSON_stringify w)" if "(k, w) \<in> set kvs" for k w
    using that 7 newline_quote [of k] by (auto simp: newline_def)
  then have "newline \<notin> set (join '','' (map (\<lambda>(k, v). quote_string k @ '':'' @ JSON_stringify v) kvs))"
    by (intro newline_join) (auto simp: newline_def)
  then show ?case by (simp add: newline_def)
qed (auto simp: newline_def newline_quote [unfolded newline_def])

section \<open>A stream of events\<close>

text \<open>What an OpenAI-compatible server sends: one event per piece of text, then the end mark.\<close>

definition delta_event :: "string \<Rightarrow> json" where
  "delta_event d =
     JObj [(''choices'', JArr [JObj [(''delta'', JObj [(''content'', JStr d)])]])]"

definition event_line :: "json \<Rightarrow> string" where
  "event_line v = ''data: '' @ JSON_stringify v"

definition event_text :: "json \<Rightarrow> string" where
  "event_text v = event_line v @ [newline, newline]"

definition done_text :: string where
  "done_text = ''data: [DONE]'' @ [newline, newline]"

lemma trim_object: "trim (JSON_stringify (JObj kvs)) = JSON_stringify (JObj kvs)"
  by (rule trim_id) (simp add: is_ws_def)

lemma stringify_not_done: "JSON_stringify (JObj kvs) \<noteq> ''[DONE]''"
  by simp

lemma sse_delta_event:
  assumes "json_wf (JObj kvs)"
  shows "sse_delta (event_line (JObj kvs)) =
    (case sse_content (JObj kvs) of
       Some c \<Rightarrow> if truthy (Some c) then Some (js_String c) else None | None \<Rightarrow> None)"
  using assms trim_object [of kvs] stringify_not_done [of kvs] JSON_parse_stringify [OF assms]
  by (simp add: sse_delta_def event_line_def Let_def del: JSON_stringify.simps)

lemma sse_delta_piece: "sse_delta (event_line (delta_event d)) = (if d = [] then None else Some d)"
proof -
  have "json_wf (delta_event d)" by (simp add: delta_event_def)
  moreover have "sse_content (delta_event d) = Some (JStr d)"
    by (simp add: sse_content_def delta_event_def opt_prop_def opt_index_def)
  ultimately show ?thesis
    by (simp add: sse_delta_event delta_event_def)
qed

lemma split_event:
  assumes "json_wf v"
  shows "split_on newline (event_text v @ s) = event_line v # [] # split_on newline s"
proof -
  have "newline \<notin> set (event_line v)"
    using newline_stringify [OF assms] by (simp add: event_line_def newline_def)
  then show ?thesis
    using split_on_append_sep [of newline "event_line v" "newline # s"]
    by (simp add: event_text_def split_on_single)
qed

lemma sse_chunk_event:
  "sse_chunk (event_text (delta_event d) @ s) ts =
     sse_chunk s (if d = [] then ts else (fst ts @ d, fst ts @ d))"
proof -
  have "json_wf (delta_event d)" by (simp add: delta_event_def)
  then show ?thesis
    by (simp add: sse_chunk_def split_event sse_line_def sse_delta_piece case_prod_beta)
qed

lemma sse_chunk_done: "sse_chunk done_text ts = ts"
proof -
  have "split_on newline done_text = [''data: [DONE]'', [], []]"
    by (simp add: done_text_def newline_def)
  moreover have "sse_delta ''data: [DONE]'' = None"
    by (simp add: sse_delta_def trim_def trim_start_def is_ws_def)
  ultimately show ?thesis by (simp add: sse_chunk_def sse_line_def case_prod_beta)
qed

lemma sse_stream_text:
  "fst (sse_chunk (concat (map (event_text \<circ> delta_event) ds) @ done_text) (full, shown)) =
     full @ concat ds"
proof (induction ds arbitrary: full shown)
  case (Cons d ds)
  then show ?case by (simp add: sse_chunk_event)
qed (simp add: sse_chunk_done)

text \<open>
  A line that arrives in two chunks is lost: here the cut falls into the prefix of a data line.
  The reader splits every chunk on its own and keeps no rest.
\<close>

lemma split_event_lost:
  assumes "0 < k" "k < 6"
  shows "fold sse_chunk [take k (event_text (delta_event d)), drop k (event_text (delta_event d))] ts = ts"
proof -
  let ?J = "JSON_stringify (delta_event d)"
  have J: "newline \<notin> set ?J" by (rule newline_stringify) (simp add: delta_event_def)
  have k: "k \<in> {1, 2, 3, 4, 5}" using assms by auto
  define L where "L = drop k ''data: '' @ ?J"
  have nl: "newline \<notin> set (take k ''data: '')" "newline \<notin> set L"
    using J by (auto simp: L_def newline_def dest: in_set_takeD in_set_dropD)
  have cut: "take k (event_text (delta_event d)) = take k ''data: ''"
    "drop k (event_text (delta_event d)) = L @ newline # newline # []"
    using k by (auto simp: event_text_def event_line_def L_def)
  have none: "sse_delta (take k ''data: '') = None" "sse_delta L = None"
    using k by (auto simp: sse_delta_def L_def)
  have "split_on newline (L @ newline # newline # []) = [L, [], []]"
    using nl(2) by (simp add: split_on_append_sep split_on_single)
  then show ?thesis
    using nl(1) none by (simp add: cut sse_chunk_def split_on_single sse_line_def case_prod_beta)
qed

end
