(* ===== verification/PlaygroundPage.thy ===== *)
theory PlaygroundPage
  imports Components Sse
begin

text \<open>
  The playground (\<open>web/src/app/playground/page.tsx\<close>): a chat page with a streamed answer. A
  call of \<open>handleSend\<close> or \<open>loadModels\<close> suspends at each \<open>await\<close>; the model keeps the
  suspended calls beside the page state, each with the values its closure captured, and an event
  resumes one of them with what its promise settled to.
\<close>

section \<open>State\<close>

datatype role = SystemRole | UserRole | AssistantRole

record message =
  msg_role :: role
  msg_content :: string

definition role_name :: "role \<Rightarrow> string" where
  "role_name r =
     (case r of SystemRole \<Rightarrow> ''system'' | UserRole \<Rightarrow> ''user'' | AssistantRole \<Rightarrow> ''assistant'')"

definition message_of :: "role \<Rightarrow> string \<Rightarrow> message" where
  "message_of r c = \<lparr>msg_role = r, msg_content = c\<rparr>"

text \<open>Where a \<open>handleSend\<close> waits: for the response, for the text of an error, for a chunk.\<close>

datatype send_phase = AwaitResponse | AwaitErrorText | AwaitChunk

record send_call =
  call_phase :: send_phase
  call_fullText :: string
  call_t :: messages

record playground =
  pg_apiKey :: string
  pg_model :: string
  pg_models :: "string list"
  pg_systemPrompt :: string
  pg_input :: string
  pg_messages :: "message list"
  pg_streaming :: bool
  pg_streamText :: string
  pg_loads :: "string list"  \<comment> \<open>suspended \<open>loadModels\<close>: the \<open>model\<close> each captured\<close>
  pg_calls :: "send_call list"  \<comment> \<open>suspended \<open>handleSend\<close>\<close>

definition playground_init :: playground where
  "playground_init =
     \<lparr>pg_apiKey = [], pg_model = ''deepseek-chat'', pg_models = [],
      pg_systemPrompt = ''You are a helpful assistant.'', pg_input = [], pg_messages = [],
      pg_streaming = False, pg_streamText = [], pg_loads = [], pg_calls = []\<rparr>"

text \<open>What a promise of a suspended call settles to. \<open>GotResponse ok body\<close>: the response of the
  completion request, and whether it has a body to read; \<open>GotFailure\<close>: a rejection, with the
  message when it is an \<open>Error\<close>.\<close>

datatype settlement =
    GotResponse bool bool
  | GotErrorText string
  | GotChunk string
  | GotEnd
  | GotFailure "string option"

datatype playground_event =
    PgMount
  | KeyChange string
  | ModelChange string
  | PromptChange string
  | InputChange string
  | ClearChat
  | Send
  | ModelsLoaded nat "string list option jsresult"
  | SendSettled nat settlement
  | PgHeader header_event

section \<open>Requests\<close>

definition models_request :: "string \<Rightarrow> request" where
  "models_request key =
     \<lparr>rq_url = ''/v1/models'', rq_method = ''GET'',
      rq_headers = [(''Authorization'', ''Bearer '' @ key)], rq_body = None\<rparr>"

definition message_json :: "message \<Rightarrow> json" where
  "message_json m =
     JObj [(''role'', JStr (role_name (msg_role m))), (''content'', JStr (msg_content m))]"

definition completion_json :: "string \<Rightarrow> message list \<Rightarrow> json" where
  "completion_json model ms =
     JObj [(''model'', JStr model), (''messages'', JArr (map message_json ms)),
           (''stream'', JBool True)]"

definition completion_request :: "string \<Rightarrow> string \<Rightarrow> message list \<Rightarrow> request" where
  "completion_request key model ms =
     \<lparr>rq_url = ''/v1/chat/completions'', rq_method = ''POST'',
      rq_headers = [(''Content-Type'', ''application/json''), (''Authorization'', ''Bearer '' @ key)],
      rq_body = Some (JSON_stringify (completion_json model ms))\<rparr>"

section \<open>Loading the models\<close>

definition playground_loadModels :: "string \<Rightarrow> playground \<times> browser \<Rightarrow> playground \<times> browser" where
  "playground_loadModels key sb =
     (let (s, b) = sb in (s\<lparr>pg_loads := pg_loads s @ [pg_model s]\<rparr>, send (models_request key) b))"

text \<open>The rest of \<open>loadModels\<close>, with the \<open>model\<close> its closure captured.\<close>

definition models_loaded :: "string \<Rightarrow> string list option jsresult \<Rightarrow> playground \<Rightarrow> playground" where
  "models_loaded captured r s =
     (case r of
        Inl _ \<Rightarrow> s
      | Inr data \<Rightarrow>
          (let ids = (case data of Some ms \<Rightarrow> ms | None \<Rightarrow> []);
               s' = s\<lparr>pg_models := ids\<rparr>
           in if ids \<noteq> [] \<and> captured \<notin> set ids then s'\<lparr>pg_model := hd ids\<rparr> else s'))"

definition drop_nth :: "nat \<Rightarrow> 'a list \<Rightarrow> 'a list" where
  "drop_nth i xs = take i xs @ drop (Suc i) xs"

definition playground_mount :: "playground \<times> browser \<Rightarrow> playground \<times> browser" where
  "playground_mount sb =
     (let (s, b) = sb in
      if \<not> isLoggedIn b then (s, router_push ''/login'' b)
      else
        (case getItem ''playground_key'' b of
           Some saved \<Rightarrow>
             if saved \<noteq> [] then playground_loadModels saved (s\<lparr>pg_apiKey := saved\<rparr>, b) else (s, b)
         | None \<Rightarrow> (s, b)))"

definition handleKeyChange :: "string \<Rightarrow> playground \<times> browser \<Rightarrow> playground \<times> browser" where
  "handleKeyChange key sb =
     (let (s, b) = sb;
          sb' = (s\<lparr>pg_apiKey := key\<rparr>, setItem ''playground_key'' key b)
      in if startsWith key ''sk-'' then playground_loadModels key sb' else sb')"

section \<open>Sending\<close>

definition all_messages :: "playground \<Rightarrow> message list" where
  "all_messages s =
     (if pg_systemPrompt s \<noteq> [] then [message_of SystemRole (pg_systemPrompt s)] else [])
     @ pg_messages s @ [message_of UserRole (trim (pg_input s))]"

text \<open>\<open>handleSend\<close> up to the first \<open>await\<close>; \<open>t\<close> are the texts of the current render.\<close>

definition handleSend :: "messages \<Rightarrow> playground \<times> browser \<Rightarrow> playground \<times> browser" where
  "handleSend t sb =
     (let (s, b) = sb in
      if trim (pg_input s) = [] \<or> pg_apiKey s = [] \<or> pg_streaming s then (s, b)
      else
        (s\<lparr>pg_messages := pg_messages s @ [message_of UserRole (trim (pg_input s))],
           pg_input := [], pg_streaming := True, pg_streamText := [],
           pg_calls := pg_calls s @ [\<lparr>call_phase = AwaitResponse, call_fullText = [], call_t = t\<rparr>]\<rparr>,
         send (completion_request (pg_apiKey s) (pg_model s) (all_messages s)) b))"

definition add_assistant :: "string \<Rightarrow> playground \<Rightarrow> playground" where
  "add_assistant txt s = s\<lparr>pg_messages := pg_messages s @ [message_of AssistantRole txt]\<rparr>"

text \<open>The ends of \<open>handleSend\<close>: the answer is complete, the server refused, or it threw.\<close>

definition finish_answer :: "send_call \<Rightarrow> playground \<Rightarrow> playground" where
  "finish_answer c s =
     (add_assistant (str_or (call_fullText c) (tr (call_t c) ''playground.emptyResponse'')) s)
       \<lparr>pg_streamText := [], pg_streaming := False\<rparr>"

definition refuse_answer :: "string \<Rightarrow> playground \<Rightarrow> playground" where
  "refuse_answer err s = (add_assistant (''Error: '' @ err) s)\<lparr>pg_streaming := False\<rparr>"

definition fail_answer :: "send_call \<Rightarrow> string option \<Rightarrow> playground \<Rightarrow> playground" where
  "fail_answer c err s =
     (add_assistant
        (''Error: '' @ (case err of Some m \<Rightarrow> m | None \<Rightarrow> tr (call_t c) ''playground.requestFailed'')) s)
       \<lparr>pg_streaming := False\<rparr>"

text \<open>
  One suspended \<open>handleSend\<close> resumes: the call as it waits next, or \<^const>\<open>None\<close> when it
  returns. A settlement that the call does not wait for cannot happen and changes nothing.
\<close>

fun resume_send :: "send_call \<Rightarrow> settlement \<Rightarrow> playground \<Rightarrow> send_call option \<times> playground" where
  "resume_send c (GotFailure err) s = (None, fail_answer c err s)"
| "resume_send c (GotResponse ok hasBody) s =
     (if call_phase c \<noteq> AwaitResponse then (Some c, s)
      else if \<not> ok then (Some (c\<lparr>call_phase := AwaitErrorText\<rparr>), s)
      else if hasBody then (Some (c\<lparr>call_phase := AwaitChunk\<rparr>), s)
      else (None, finish_answer c s))"
| "resume_send c (GotErrorText err) s =
     (if call_phase c \<noteq> AwaitErrorText then (Some c, s) else (None, refuse_answer err s))"
| "resume_send c (GotChunk chunk) s =
     (if call_phase c \<noteq> AwaitChunk then (Some c, s)
      else
        (let (fullText, shown) = sse_chunk chunk (call_fullText c, pg_streamText s)
         in (Some (c\<lparr>call_fullText := fullText\<rparr>), s\<lparr>pg_streamText := shown\<rparr>)))"
| "resume_send c GotEnd s =
     (if call_phase c \<noteq> AwaitChunk then (Some c, s) else (None, finish_answer c s))"

definition send_settled :: "nat \<Rightarrow> settlement \<Rightarrow> playground \<Rightarrow> playground" where
  "send_settled i r s =
     (if i < length (pg_calls s) then
        (case resume_send (pg_calls s ! i) r s of
           (Some c, s') \<Rightarrow> s'\<lparr>pg_calls := (pg_calls s)[i := c]\<rparr>
         | (None, s') \<Rightarrow> s'\<lparr>pg_calls := drop_nth i (pg_calls s)\<rparr>)
      else s)"

section \<open>Steps\<close>

fun playground_step ::
    "messages \<Rightarrow> playground_event \<Rightarrow> playground \<times> browser \<Rightarrow> playground \<times> browser" where
  "playground_step t PgMount sb = playground_mount sb"
| "playground_step t (KeyChange key) sb = handleKeyChange key sb"
| "playground_step t (ModelChange v) (s, b) = (s\<lparr>pg_model := v\<rparr>, b)"
| "playground_step t (PromptChange v) (s, b) = (s\<lparr>pg_systemPrompt := v\<rparr>, b)"
| "playground_step t (InputChange v) (s, b) = (s\<lparr>pg_input := v\<rparr>, b)"
| "playground_step t ClearChat (s, b) = (s\<lparr>pg_messages := [], pg_streamText := []\<rparr>, b)"
| "playground_step t Send sb = handleSend t sb"
| "playground_step t (ModelsLoaded i r) (s, b) =
     (if i < length (pg_loads s)
      then ((models_loaded (pg_loads s ! i) r s)\<lparr>pg_loads := drop_nth i (pg_loads s)\<rparr>, b)
      else (s, b))"
| "playground_step t (SendSettled i r) (s, b) = (send_settled i r s, b)"
| "playground_step t (PgHeader ClickLogout) (s, b) = (s, logout b)"
| "playground_step t (PgHeader h) (s, b) = (s, b)"

section \<open>View\<close>

definition key_field :: "messages \<Rightarrow> playground \<Rightarrow> playground_event node" where
  "key_field t s =
     el ''div''
       [el ''label'' [Text (tr t ''playground.apiKey'')],
        Elem ''input''
          [(''type'', AStr ''password''), (''value'', AStr (pg_apiKey s)), (''onChange'', OnValue KeyChange),
           (''placeholder'', AStr (tr t ''playground.apiKeyPlaceholder''))] []]"

definition model_option :: "string \<Rightarrow> 'e node" where
  "model_option m = Elem ''option'' [(''key'', AStr m), (''value'', AStr m)] [Text m]"

definition model_field :: "messages \<Rightarrow> playground \<Rightarrow> playground_event node" where
  "model_field t s =
     el ''div''
       [el ''label'' [Text (tr t ''playground.model'')],
        Elem ''select'' [(''value'', AStr (pg_model s)), (''onChange'', OnValue ModelChange)]
          (if pg_models s \<noteq> [] then map model_option (pg_models s)
           else [Elem ''option'' [(''value'', AStr (pg_model s))] [Text (pg_model s)]])]"

definition clear_button :: "messages \<Rightarrow> playground_event node" where
  "clear_button t = Elem ''button'' [(''onClick'', On ClearChat)] [Text (tr t ''playground.clear'')]"

definition prompt_field :: "messages \<Rightarrow> playground \<Rightarrow> playground_event node" where
  "prompt_field t s =
     el ''div''
       [el ''label'' [Text (tr t ''playground.systemPrompt'')],
        Elem ''input''
          [(''value'', AStr (pg_systemPrompt s)), (''onChange'', OnValue PromptChange),
           (''placeholder'', AStr (tr t ''playground.systemPromptPlaceholder''))] []]"

definition bubble :: "messages \<Rightarrow> message \<Rightarrow> 'e node" where
  "bubble t m =
     el ''div''
       [Elem ''div''
          [(''style.color'',
            AStr (if msg_role m = UserRole then ''var(--primary)'' else ''var(--success)''))]
          [Text (if msg_role m = UserRole then tr t ''playground.roleYou''
                 else tr t ''playground.roleAssistant'')],
        el ''div'' [Text (msg_content m)]]"

definition transcript :: "messages \<Rightarrow> playground \<Rightarrow> 'e node" where
  "transcript t s =
     el ''div''
       (cond_nodes (pg_messages s = [] \<and> pg_streamText s = []) [el ''p'' [Text (tr t ''playground.emptyHint'')]]
        @ map (bubble t) (pg_messages s)
        @ cond_nodes (pg_streaming s \<and> pg_streamText s \<noteq> [])
            [el ''div''
               [Elem ''div'' [(''style.color'', AStr ''var(--success)'')]
                  [Text (tr t ''playground.roleAssistant'')],
                el ''div'' [Text (pg_streamText s)]]]
        @ cond_nodes (pg_streaming s \<and> pg_streamText s = []) [el ''div'' [Text (tr t ''playground.thinking'')]])"

definition message_input :: "messages \<Rightarrow> playground \<Rightarrow> playground_event node" where
  "message_input t s =
     Elem ''input''
       [(''value'', AStr (pg_input s)), (''onChange'', OnValue InputChange),
        (''onKeyDown.Enter'', On Send),
        (''placeholder'', AStr (if pg_apiKey s \<noteq> [] then tr t ''playground.messagePlaceholder''
                              else tr t ''playground.needApiKey'')),
        (''disabled'', ABool (pg_apiKey s = [] \<or> pg_streaming s))] []"

definition send_button :: "messages \<Rightarrow> playground \<Rightarrow> playground_event node" where
  "send_button t s =
     (let off = (pg_apiKey s = [] \<or> trim (pg_input s) = [] \<or> pg_streaming s) in
      Elem ''button''
        [(''onClick'', On Send), (''disabled'', ABool off),
         (''style.background'', AStr (if off then ''var(--muted)'' else ''var(--primary)''))]
        [Text (tr t ''playground.send'')])"

definition PlaygroundPage_view :: "shell \<Rightarrow> messages \<Rightarrow> playground \<Rightarrow> playground_event node" where
  "PlaygroundPage_view sh t s =
     el ''div''
       [map_node PgHeader (SiteHeader sh t (no_props\<lparr>activeNav := Some NavPlayground\<rparr>)),
        el ''div''
          [el ''div'' [key_field t s, model_field t s, clear_button t],
           prompt_field t s,
           transcript t s,
           el ''div'' [message_input t s, send_button t s]]]"

section \<open>Lemmas\<close>

lemma length_drop_nth [simp]: "i < length xs \<Longrightarrow> length (drop_nth i xs) = length xs - 1"
  by (simp add: drop_nth_def)

lemma loadModels_frame [simp]:
  "pg_calls (fst (playground_loadModels k sb)) = pg_calls (fst sb)"
  "pg_streaming (fst (playground_loadModels k sb)) = pg_streaming (fst sb)"
  "pg_messages (fst (playground_loadModels k sb)) = pg_messages (fst sb)"
  "pg_apiKey (fst (playground_loadModels k sb)) = pg_apiKey (fst sb)"
  "pg_streamText (fst (playground_loadModels k sb)) = pg_streamText (fst sb)"
  "sent (snd (playground_loadModels k sb)) = sent (snd sb) @ [models_request k]"
  by (simp_all add: playground_loadModels_def case_prod_beta)

lemma models_loaded_frame [simp]:
  "pg_calls (models_loaded c r s) = pg_calls s" "pg_streaming (models_loaded c r s) = pg_streaming s"
  "pg_messages (models_loaded c r s) = pg_messages s" "pg_apiKey (models_loaded c r s) = pg_apiKey s"
  "pg_streamText (models_loaded c r s) = pg_streamText s"
  by (simp_all add: models_loaded_def Let_def split: sum.splits)

lemma add_assistant_frame [simp]:
  "pg_messages (add_assistant m s) = pg_messages s @ [message_of AssistantRole m]"
  "pg_calls (add_assistant m s) = pg_calls s" "pg_apiKey (add_assistant m s) = pg_apiKey s"
  "pg_input (add_assistant m s) = pg_input s"
  by (simp_all add: add_assistant_def)

lemmas answer_defs = finish_answer_def refuse_answer_def fail_answer_def

text \<open>A call that returns has stopped the streaming and added one answer; one that goes on has not.\<close>

lemma resume_returns:
  "resume_send c r s = (None, s') \<Longrightarrow> \<not> pg_streaming s' \<and> pg_calls s' = pg_calls s \<and> pg_apiKey s' = pg_apiKey s \<and>
     (\<exists>m. pg_messages s' = pg_messages s @ [message_of AssistantRole m])"
  by (cases "(c, r, s)" rule: resume_send.cases)
     (auto simp: answer_defs case_prod_beta split: if_splits)

lemma resume_goes_on:
  "resume_send c r s = (Some c', s') \<Longrightarrow> pg_streaming s' = pg_streaming s \<and> pg_calls s' = pg_calls s \<and>
     pg_messages s' = pg_messages s \<and> pg_apiKey s' = pg_apiKey s"
  by (cases "(c, r, s)" rule: resume_send.cases)
     (auto simp: case_prod_beta split: if_splits)

section \<open>At most one answer at a time\<close>

text \<open>The page streams exactly while one call is suspended, and never has two.\<close>

definition one_call :: "playground \<times> browser \<Rightarrow> bool" where
  "one_call sb \<longleftrightarrow> length (pg_calls (fst sb)) = (if pg_streaming (fst sb) then 1 else 0)"

lemma one_call_settled:
  assumes "one_call (s, b)"
  shows "one_call (send_settled i r s, b)"
proof (cases "i < length (pg_calls s)")
  case True
  then have str: "pg_streaming s" "length (pg_calls s) = 1" "i = 0"
    using assms by (auto simp: one_call_def split: if_splits)
  obtain oc s' where r: "resume_send (pg_calls s ! i) r s = (oc, s')" by (rule prod.exhaust)
  show ?thesis
  proof (cases oc)
    case None
    then show ?thesis using r str True resume_returns [of "pg_calls s ! i" r s s']
      by (simp add: send_settled_def one_call_def)
  next
    case (Some c)
    then show ?thesis using r str True resume_goes_on [of "pg_calls s ! i" r s c s']
      by (simp add: send_settled_def one_call_def)
  qed
qed (use assms in \<open>simp add: send_settled_def\<close>)

lemma one_call_step: "one_call sb \<Longrightarrow> one_call (playground_step t e sb)"
proof (cases "(t, e, sb)" rule: playground_step.cases)
  case (9 t i r s b)
  assume "one_call sb"
  then show ?thesis using 9 one_call_settled by simp
qed (auto simp: one_call_def playground_mount_def handleKeyChange_def handleSend_def case_prod_beta Let_def
       split: option.splits)

text \<open>A step together with the texts of the render it happens in.\<close>

definition pg_step :: "messages \<times> playground_event \<Rightarrow> playground \<times> browser \<Rightarrow> playground \<times> browser" where
  "pg_step te = playground_step (fst te) (snd te)"

interpretation pg_one_call: machine pg_step "\<lambda>te sb. True" one_call
  by unfold_locales (simp add: pg_step_def one_call_step)

lemma one_call_init: "one_call (playground_init, b)"
  by (simp add: one_call_def playground_init_def)

section \<open>The conversation\<close>

definition alternates :: "message list \<Rightarrow> bool" where
  "alternates ms \<longleftrightarrow>
     list_all (\<lambda>i. msg_role (ms ! i) = (if even i then UserRole else AssistantRole)) [0..<length ms]"

lemma alternates_Nil [simp]: "alternates []"
  by (simp add: alternates_def)

lemma alternates_snoc [simp]:
  "alternates (ms @ [m]) \<longleftrightarrow>
     alternates ms \<and> msg_role m = (if even (length ms) then UserRole else AssistantRole)"
  by (auto simp: alternates_def list_all_iff nth_append)

definition conversation_ok :: "playground \<times> browser \<Rightarrow> bool" where
  "conversation_ok sb \<longleftrightarrow>
     one_call sb \<and> alternates (pg_messages (fst sb)) \<and>
     (pg_streaming (fst sb) \<longleftrightarrow> odd (length (pg_messages (fst sb))))"

text \<open>The chat is not cleared while an answer is on its way.\<close>

definition no_clear_midway :: "messages \<times> playground_event \<Rightarrow> playground \<times> browser \<Rightarrow> bool" where
  "no_clear_midway te sb \<longleftrightarrow> snd te = ClearChat \<longrightarrow> \<not> pg_streaming (fst sb)"

lemma msg_role_of [simp]: "msg_role (message_of r c) = r" "msg_content (message_of r c) = c"
  by (simp_all add: message_of_def)

lemma conversation_settled:
  assumes "conversation_ok (s, b)"
  shows "conversation_ok (send_settled i r s, b)"
proof (cases "i < length (pg_calls s)")
  case True
  then have str: "pg_streaming s"
    using assms by (auto simp: conversation_ok_def one_call_def split: if_splits)
  have one: "one_call (send_settled i r s, b)"
    using assms one_call_settled by (simp add: conversation_ok_def)
  obtain oc s' where r: "resume_send (pg_calls s ! i) r s = (oc, s')" by (rule prod.exhaust)
  show ?thesis
  proof (cases oc)
    case None
    then show ?thesis using r str True assms one resume_returns [of "pg_calls s ! i" r s s']
      by (auto simp: send_settled_def conversation_ok_def)
  next
    case (Some c)
    then show ?thesis using r True assms one resume_goes_on [of "pg_calls s ! i" r s c s']
      by (simp add: send_settled_def conversation_ok_def)
  qed
qed (use assms in \<open>simp add: send_settled_def\<close>)

lemma conversation_step:
  assumes "conversation_ok sb" "no_clear_midway (t, e) sb"
  shows "conversation_ok (playground_step t e sb)"
proof -
  have one: "one_call (playground_step t e sb)"
    using assms one_call_step by (simp add: conversation_ok_def)
  show ?thesis
  proof (cases "(t, e, sb)" rule: playground_step.cases)
    case (9 t i r s b)
    then show ?thesis using assms conversation_settled by simp
  qed (use assms one in \<open>auto simp: conversation_ok_def no_clear_midway_def playground_mount_def
         handleKeyChange_def handleSend_def case_prod_beta Let_def split: option.splits\<close>)
qed

interpretation pg_conversation: machine pg_step no_clear_midway conversation_ok
  by unfold_locales (simp add: pg_step_def conversation_step)

lemma conversation_init: "conversation_ok (playground_init, b)"
  using one_call_init [of b] by (simp add: conversation_ok_def playground_init_def)

section \<open>Properties\<close>

text \<open>
  C10: However user actions and network answers interleave, the playground has at most one request
  for an answer under way, and shows itself as streaming exactly while there is one; sending
  again in that time changes nothing and sends nothing.
\<close>

theorem at_most_one_answer:
  assumes "reach (\<lambda>te sb. True) pg_step (playground_init, b0) (s, b)"
  shows "length (pg_calls s) \<le> 1 \<and> (pg_streaming s \<longleftrightarrow> pg_calls s \<noteq> []) \<and>
    (pg_calls s \<noteq> [] \<longrightarrow> pg_step (t, Send) (s, b) = (s, b))"
proof -
  have "one_call (s, b)" using pg_one_call.reach_inv [OF assms one_call_init] .
  then show ?thesis by (auto simp: one_call_def pg_step_def handleSend_def split: if_splits)
qed

definition pg_browser :: browser where
  "pg_browser = \<lparr>has_window = True, storage = [''token'' \<mapsto> ''t1''], href = None, pushed = [], alerts = [], sent = []\<rparr>"

definition pg_example_events :: "(messages \<times> playground_event) list" where
  "pg_example_events =
     map (Pair (messagesMap En)) [KeyChange ''sk-1'', InputChange ''Hi'', Send]"

definition pg_example :: "playground \<times> browser" where
  "pg_example = run pg_step pg_example_events (playground_init, pg_browser)"

lemma pg_example_reach: "reach no_clear_midway pg_step (playground_init, pg_browser) pg_example"
  "reach (\<lambda>te sb. True) pg_step (playground_init, pg_browser) pg_example"
  unfolding pg_example_def
  by (rule reach_run [OF reach_start];
      simp add: pg_example_events_def no_clear_midway_def)+

lemma pg_example_state: "pg_streaming (fst pg_example)" "pg_messages (fst pg_example) = [message_of UserRole ''Hi'']"
proof -
  have "trim ''Hi'' = ''Hi''" by (rule trim_id) (simp add: is_ws_def)
  then show "pg_streaming (fst pg_example)" "pg_messages (fst pg_example) = [message_of UserRole ''Hi'']"
    by (simp_all add: pg_example_def pg_example_events_def pg_step_def handleKeyChange_def playground_loadModels_def
        handleSend_def playground_init_def)
qed

lemma at_most_one_answer_witness:
  "length (pg_calls (fst pg_example)) \<le> 1 \<and> pg_calls (fst pg_example) \<noteq> []"
  using at_most_one_answer [of pg_browser "fst pg_example" "snd pg_example"] pg_example_reach pg_example_state
  by simp

text \<open>
  C17: As long as the chat is not cleared while an answer is on its way, the conversation is a
  strict alternation of user and assistant turns that begins with the user, and it ends with the
  user's turn exactly while the answer is awaited. So every request carries the system prompt,
  if there is one, and then an alternating conversation that ends with the user's new text.
\<close>

theorem conversation_alternates:
  assumes "reach no_clear_midway pg_step (playground_init, b0) (s, b)"
  shows "alternates (pg_messages s) \<and>
    (pg_streaming s \<longleftrightarrow> pg_messages s \<noteq> [] \<and> msg_role (last (pg_messages s)) = UserRole) \<and>
    (\<not> pg_streaming s \<longrightarrow>
       (\<exists>ms. alternates ms \<and> ms \<noteq> [] \<and> last ms = message_of UserRole (trim (pg_input s)) \<and>
         all_messages s =
           (if pg_systemPrompt s = [] then ms else message_of SystemRole (pg_systemPrompt s) # ms)))"
proof -
  have c: "conversation_ok (s, b)" using pg_conversation.reach_inv [OF assms conversation_init] .
  have last: "msg_role (last ms) = (if odd (length ms) then UserRole else AssistantRole)"
    if "alternates ms" "ms \<noteq> []" for ms
    using that by (cases ms rule: rev_cases) auto
  show ?thesis
  proof (intro conjI impI)
    show "pg_streaming s \<longleftrightarrow> pg_messages s \<noteq> [] \<and> msg_role (last (pg_messages s)) = UserRole"
      using c last [of "pg_messages s"] by (cases "pg_messages s = []") (auto simp: conversation_ok_def)
    show "\<exists>ms. alternates ms \<and> ms \<noteq> [] \<and> last ms = message_of UserRole (trim (pg_input s)) \<and>
        all_messages s = (if pg_systemPrompt s = [] then ms else message_of SystemRole (pg_systemPrompt s) # ms)"
      if "\<not> pg_streaming s"
      using c that by (intro exI [of _ "pg_messages s @ [message_of UserRole (trim (pg_input s))]"])
        (simp add: conversation_ok_def all_messages_def)
  qed (use c in \<open>simp add: conversation_ok_def\<close>)
qed

lemma conversation_alternates_witness:
  "alternates (pg_messages (fst pg_example)) \<and> msg_role (last (pg_messages (fst pg_example))) = UserRole"
  using conversation_alternates [of pg_browser "fst pg_example" "snd pg_example"] pg_example_reach pg_example_state
  by simp

text \<open>
  C22: The send button and the handler agree. The button is disabled exactly when the handler would
  do nothing; when it is enabled, one click sends exactly one request, to the completions path
  with the key as bearer token, whose body parses to the chosen model, the messages in order, each
  with its role and text, and a stream flag that is set, and the page goes to streaming with an empty input.
\<close>

theorem send_button_agrees:
  "\<exists>off. attr_of ''disabled'' (send_button t s) = Some (ABool off) \<and>
     (off \<longleftrightarrow> handleSend t (s, b) = (s, b)) \<and>
     (\<not> off \<longrightarrow>
        (\<exists>s' rq. handleSend t (s, b) = (s', send rq b) \<and> pg_streaming s' \<and> pg_input s' = [] \<and>
           rq_url rq = ''/v1/chat/completions'' \<and> rq_method rq = ''POST'' \<and>
           map_of (rq_headers rq) ''Authorization'' = Some (''Bearer '' @ pg_apiKey s) \<and>
           map_option JSON_parse (rq_body rq) =
             Some (Some (JObj [(''model'', JStr (pg_model s)),
               (''messages'', JArr (map (\<lambda>m. JObj [(''role'', JStr (role_name (msg_role m))), (''content'', JStr (msg_content m))])
                  (all_messages s))),
               (''stream'', JBool True)]))))"
proof -
  have json: "completion_json mdl ms = JObj [(''model'', JStr mdl),
      (''messages'', JArr (map (\<lambda>m. JObj [(''role'', JStr (role_name (msg_role m))), (''content'', JStr (msg_content m))]) ms)),
      (''stream'', JBool True)]" for mdl ms
    by (simp add: completion_json_def message_json_def [abs_def])
  let ?off = "pg_apiKey s = [] \<or> trim (pg_input s) = [] \<or> pg_streaming s"
  have "json_wf (completion_json (pg_model s) (all_messages s))"
    by (simp add: completion_json_def message_json_def)
  then have body: "JSON_parse (JSON_stringify (completion_json (pg_model s) (all_messages s))) =
      Some (completion_json (pg_model s) (all_messages s))"
    by (rule JSON_parse_stringify)
  have "attr_of ''disabled'' (send_button t s) = Some (ABool ?off)" by (simp add: send_button_def Let_def)
  moreover have "fst (handleSend t (s, b)) \<noteq> s" if "\<not> ?off"
  proof
    assume "fst (handleSend t (s, b)) = s"
    then have "pg_streaming (fst (handleSend t (s, b))) = pg_streaming s" by simp
    then show False using that by (simp add: handleSend_def)
  qed
  moreover have "handleSend t (s, b) = (s, b)" if ?off using that by (auto simp: handleSend_def)
  ultimately show ?thesis using body
    unfolding json [symmetric] by (intro exI [of _ ?off]) (auto simp: handleSend_def completion_request_def)
qed

definition typed_example :: playground where
  "typed_example = playground_init\<lparr>pg_apiKey := ''k'', pg_input := ''Hi''\<rparr>"

lemma send_button_agrees_witness:
  "\<exists>s' rq. handleSend (messagesMap En) (typed_example, pg_browser) = (s', send rq pg_browser) \<and>
     pg_streaming s' \<and> rq_url rq = ''/v1/chat/completions''"
proof -
  have "trim ''Hi'' = ''Hi''" by (rule trim_id) (simp add: is_ws_def)
  then have on: "attr_of ''disabled'' (send_button (messagesMap En) typed_example) = Some (ABool False)"
    by (simp add: send_button_def typed_example_def playground_init_def Let_def)
  show ?thesis
    using send_button_agrees [of "messagesMap En" typed_example pg_browser] on by auto
qed

lemma pg_step_settled [simp]:
  "pg_step (t, SendSettled 0 r) (s, b) = (send_settled 0 r s, b)"
  by (simp add: pg_step_def)

lemma chunk_settled:
  assumes "pg_calls s = [c]" "call_phase c = AwaitChunk"
  shows "send_settled 0 (GotChunk chunk) s =
    (let (full, shown) = sse_chunk chunk (call_fullText c, pg_streamText s)
     in s\<lparr>pg_streamText := shown, pg_calls := [c\<lparr>call_fullText := full\<rparr>]\<rparr>)"
  using assms by (simp add: send_settled_def case_prod_beta)

lemma chunks_settled:
  assumes "pg_calls s = [c]" "call_phase c = AwaitChunk"
  shows "run pg_step (map (\<lambda>chunk. (t, SendSettled 0 (GotChunk chunk))) cs) (s, b) =
    (let (full, shown) = fold sse_chunk cs (call_fullText c, pg_streamText s)
     in (s\<lparr>pg_streamText := shown, pg_calls := [c\<lparr>call_fullText := full\<rparr>]\<rparr>, b))"
  using assms
proof (induction cs arbitrary: s c)
  case Nil
  then show ?case by simp
next
  case (Cons chunk cs)
  obtain full shown where ts: "sse_chunk chunk (call_fullText c, pg_streamText s) = (full, shown)"
    by (rule prod.exhaust)
  let ?s = "s\<lparr>pg_streamText := shown, pg_calls := [c\<lparr>call_fullText := full\<rparr>]\<rparr>"
  have "run pg_step (map (\<lambda>chunk. (t, SendSettled 0 (GotChunk chunk))) cs) (?s, b) =
      (let (full', shown') = fold sse_chunk cs (full, shown)
       in (?s\<lparr>pg_streamText := shown', pg_calls := [c\<lparr>call_fullText := full'\<rparr>]\<rparr>, b))"
    using Cons.IH [of ?s "c\<lparr>call_fullText := full\<rparr>"] Cons.prems by simp
  then show ?case using Cons.prems ts by (simp add: chunk_settled case_prod_beta Let_def)
qed

text \<open>A message is sent, accepted, and answered in the given chunks.\<close>

definition answered_with :: "messages \<Rightarrow> string list \<Rightarrow> (messages \<times> playground_event) list" where
  "answered_with t cs =
     [(t, Send), (t, SendSettled 0 (GotResponse True True))]
     @ map (\<lambda>c. (t, SendSettled 0 (GotChunk c))) cs @ [(t, SendSettled 0 GotEnd)]"

text \<open>
  C5: A streamed answer arrives intact. When the server streams the pieces of an answer as
  server-sent events and the network cuts the body at line ends, in whatever chunks, the
  conversation grows by the user's text and the concatenation of the pieces (or the notice that
  the answer is empty), and the page is ready for the next message.
\<close>

theorem streamed_answer_arrives:
  assumes "reach (\<lambda>te sb. True) pg_step (playground_init, b0) (s, b)"
    and "pg_apiKey s \<noteq> []" "trim (pg_input s) \<noteq> []" "\<not> pg_streaming s"
    and "list_all ends_line cs" "concat cs = concat (map (event_text \<circ> delta_event) ds) @ done_text"
  shows "let (s', b') = run pg_step (answered_with t cs) (s, b) in pg_messages s' = pg_messages s @
         [message_of UserRole (trim (pg_input s)),
          message_of AssistantRole (str_or (concat ds) (tr t ''playground.emptyResponse''))] \<and>
       \<not> pg_streaming s' \<and> pg_calls s' = [] \<and> pg_streamText s' = [] \<and> pg_input s' = []"
proof -
  have calls: "pg_calls s = []"
    using pg_one_call.reach_inv [OF assms(1) one_call_init] assms(4) by (simp add: one_call_def)
  let ?c = "\<lparr>call_phase = AwaitChunk, call_fullText = [], call_t = t\<rparr>"
  let ?s1 = "s\<lparr>pg_messages := pg_messages s @ [message_of UserRole (trim (pg_input s))], pg_input := [],
      pg_streaming := True, pg_streamText := [], pg_calls := [?c]\<rparr>"
  let ?b1 = "send (completion_request (pg_apiKey s) (pg_model s) (all_messages s)) b"
  have start: "pg_step (t, SendSettled 0 (GotResponse True True)) (pg_step (t, Send) (s, b)) = (?s1, ?b1)"
    using assms(2-4) calls by (simp add: pg_step_def handleSend_def send_settled_def)
  obtain full shown where fold: "fold sse_chunk cs ([], []) = (full, shown)" by (rule prod.exhaust)
  have "fst (fold sse_chunk cs ([], [])) = concat ds"
    using sse_stream_text [of ds "[]" "[]"] sse_chunks_concat [OF assms(5), of "([], [])"] assms(6) by simp
  then have full: "full = concat ds" by (simp add: fold)
  have "run pg_step (map (\<lambda>c. (t, SendSettled 0 (GotChunk c))) cs) (?s1, ?b1) =
      (?s1\<lparr>pg_streamText := shown, pg_calls := [?c\<lparr>call_fullText := full\<rparr>]\<rparr>, ?b1)"
    using chunks_settled [of ?s1 ?c t cs ?b1] fold by simp
  then show ?thesis
    by (simp add: answered_with_def run_append start send_settled_def finish_answer_def drop_nth_def full del: pg_step_settled)
       (simp add: send_settled_def finish_answer_def drop_nth_def full)
qed

definition ready_example :: "playground \<times> browser" where
  "ready_example = run pg_step (map (Pair (messagesMap En)) [KeyChange ''k'', InputChange ''Hi'']) (playground_init, pg_browser)"

definition chunks_example :: "string list" where
  "chunks_example = [event_text (delta_event ''Hel''), event_text (delta_event ''lo'') @ done_text]"

lemma streamed_answer_arrives_witness:
  "pg_messages (fst (run pg_step (answered_with (messagesMap En) chunks_example) ready_example)) =
     [message_of UserRole ''Hi'', message_of AssistantRole ''Hello'']"
proof -
  have r: "reach (\<lambda>te sb. True) pg_step (playground_init, pg_browser) (fst ready_example, snd ready_example)"
    unfolding ready_example_def prod.collapse by (rule reach_run [OF reach_start]) simp
  have s: "pg_apiKey (fst ready_example) = ''k''" "pg_input (fst ready_example) = ''Hi''"
    "\<not> pg_streaming (fst ready_example)" "pg_messages (fst ready_example) = []"
    by (simp_all add: ready_example_def pg_step_def handleKeyChange_def playground_init_def)
  have hi: "trim ''Hi'' = ''Hi''" by (rule trim_id) (simp add: is_ws_def)
  have c: "list_all ends_line chunks_example"
    "concat chunks_example = concat (map (event_text \<circ> delta_event) [''Hel'', ''lo'']) @ done_text"
    by (simp_all add: chunks_example_def ends_line_def event_text_def done_text_def)
  have "pg_apiKey (fst ready_example) \<noteq> []" "trim (pg_input (fst ready_example)) \<noteq> []"
    using s hi by simp_all
  from streamed_answer_arrives [OF r this s(3) c, of "messagesMap En"] show ?thesis
    by (simp add: case_prod_beta s hi str_or_def Let_def)
qed

text \<open>
  C18: Every failure gives the input back. While an answer is awaited, a rejected promise, and a
  response that is not ok followed by its text, each end the call: the page is no longer
  streaming, the next message can be sent, and the conversation holds one assistant turn more,
  with the error.
\<close>

theorem failures_release_the_input:
  assumes "reach (\<lambda>te sb. True) pg_step (playground_init, b0) (s, b)" "pg_streaming s"
  shows "(let (s', b') = pg_step (t, SendSettled 0 (GotFailure (Some m))) (s, b) in
      \<not> pg_streaming s' \<and> pg_calls s' = [] \<and> b' = b \<and>
      pg_messages s' = pg_messages s @ [message_of AssistantRole (''Error: '' @ m)]) \<and>
    (call_phase (hd (pg_calls s)) = AwaitResponse \<longrightarrow>
      (let (s', b') = run pg_step [(t, SendSettled 0 (GotResponse False hasBody)), (t, SendSettled 0 (GotErrorText m))]
             (s, b) in
       \<not> pg_streaming s' \<and> pg_calls s' = [] \<and> b' = b \<and>
       pg_messages s' = pg_messages s @ [message_of AssistantRole (''Error: '' @ m)]))"
proof -
  have "length (pg_calls s) = 1"
    using pg_one_call.reach_inv [OF assms(1) one_call_init] assms(2) by (simp add: one_call_def)
  then obtain c where "pg_calls s = [c]" by (auto simp: length_Suc_conv)
  then show ?thesis
    by (simp add: send_settled_def answer_defs drop_nth_def)
qed

lemma failures_release_the_input_witness:
  "\<not> pg_streaming (fst (pg_step (messagesMap En, SendSettled 0 (GotFailure (Some ''timeout''))) pg_example))"
  using failures_release_the_input [of pg_browser "fst pg_example" "snd pg_example" "messagesMap En" "''timeout''"]
    pg_example_reach pg_example_state
  by (simp add: case_prod_beta)

text \<open>
  C34: The key outlives the page. After a key that is not empty has been typed, opening the
  playground again in the same browser, while logged in, comes up with that key and asks for the
  models with it; without a session the page goes to the login page and sends nothing.
\<close>

theorem key_survives_reload:
  assumes "key \<noteq> []" "isLoggedIn b" "handleKeyChange key (s, b) = (s', b')"
  shows "playground_mount (playground_init, b') =
      (playground_init\<lparr>pg_apiKey := key, pg_loads := [pg_model playground_init]\<rparr>, send (models_request key) b') \<and>
    playground_mount (playground_init, logout b') =
      (playground_init, router_push ''/login'' (logout b'))"
proof -
  have b': "getItem ''playground_key'' b' = Some key" "isLoggedIn b'" "\<not> isLoggedIn (logout b')"
    using assms(2,3)
    by (auto simp: handleKeyChange_def Let_def playground_loadModels_def isLoggedIn_def logout_def
        local_storage.get_put split: if_splits)
  then show ?thesis using assms(1)
    by (simp add: playground_mount_def playground_loadModels_def) (simp add: playground_init_def)
qed

lemma key_survives_reload_witness:
  "pg_apiKey (fst (playground_mount (playground_init, snd (handleKeyChange ''sk-9'' (playground_init, pg_browser))))) =
     ''sk-9''"
proof -
  have "isLoggedIn pg_browser" by (simp add: isLoggedIn_def pg_browser_def getItem_def)
  from key_survives_reload [OF _ this, of "''sk-9''" playground_init "fst (handleKeyChange ''sk-9'' (playground_init, pg_browser))"
      "snd (handleKeyChange ''sk-9'' (playground_init, pg_browser))"]
  show ?thesis by simp
qed

end
