(* ===== verification/StatusPage.thy ===== *)
theory StatusPage
  imports Components JsSort
begin

text \<open>
  The provider status page (\<open>web/src/app/status/page.tsx\<close>): a poll on mount and every 30
  seconds, the last good answer with its time, and the list of providers by name. A poll that has
  not settled is counted; the polls share the texts of the first render, which their closure
  captured.
\<close>

section \<open>State and events\<close>

record ProviderHealth =
  ph_name :: string
  ph_status :: string
  ph_latency_ms :: jsnum
  ph_circuit :: string
  ph_checked_at :: string

record StatusData =
  sd_status :: string
  sd_providers :: "ProviderHealth list"

record status_page =
  st_data :: "StatusData option"
  st_error :: string
  st_lastUpdated :: "string option"
  st_polls :: nat  \<comment> \<open>polls under way\<close>
  st_t :: messages  \<comment> \<open>the texts the polls captured\<close>

definition status_init :: "messages \<Rightarrow> status_page" where
  "status_init t = \<lparr>st_data = None, st_error = [], st_lastUpdated = None, st_polls = 0, st_t = t\<rparr>"

text \<open>How a poll settles: a response that is not ok, the data, or a rejection, with the message
  when it is an \<open>Error\<close>.\<close>

datatype poll_result = PollNotOk | PollData StatusData | PollThrew "string option"

text \<open>\<open>Poll\<close> is the mount effect or a tick of the interval; \<open>PollSettled r now\<close> settles a poll
  at the time \<open>now\<close>.\<close>

datatype status_event = Poll | PollSettled poll_result string | StatusHeader header_event

definition status_request :: request where
  "status_request = \<lparr>rq_url = ''/backend/status'', rq_method = ''GET'', rq_headers = [], rq_body = None\<rparr>"

definition fetchStatus_settle :: "poll_result \<Rightarrow> string \<Rightarrow> status_page \<Rightarrow> status_page" where
  "fetchStatus_settle r now s =
     (case r of
        PollData d \<Rightarrow> s\<lparr>st_data := Some d, st_lastUpdated := Some now, st_error := []\<rparr>
      | PollNotOk \<Rightarrow> s\<lparr>st_error := tr (st_t s) ''status.fetchError''\<rparr>
      | PollThrew err \<Rightarrow>
          s\<lparr>st_error := (case err of Some m \<Rightarrow> m | None \<Rightarrow> tr (st_t s) ''status.fetchError'')\<rparr>)"

fun status_step :: "status_event \<Rightarrow> status_page \<times> browser \<Rightarrow> status_page \<times> browser" where
  "status_step Poll (s, b) = (s\<lparr>st_polls := st_polls s + 1\<rparr>, send status_request b)"
| "status_step (PollSettled r now) (s, b) =
     (if st_polls s = 0 then (s, b)
      else ((fetchStatus_settle r now s)\<lparr>st_polls := st_polls s - 1\<rparr>, b))"
| "status_step (StatusHeader h) (s, b) = (s, header_clicked h b)"

section \<open>Colours\<close>

definition statusColor :: "string \<Rightarrow> string" where
  "statusColor st =
     (if st = ''up'' \<or> st = ''operational'' then ''var(--success)''
      else if st = ''degraded'' then ''#eab308''
      else if st = ''down'' then ''var(--danger)''
      else ''var(--muted)'')"

definition statusBg :: "string \<Rightarrow> string" where
  "statusBg st =
     (if st = ''up'' \<or> st = ''operational'' then ''rgba(34, 197, 94, 0.12)''
      else if st = ''degraded'' then ''rgba(234, 179, 8, 0.12)''
      else if st = ''down'' then ''rgba(239, 68, 68, 0.12)''
      else ''var(--card)'')"

record badge =
  badge_bg :: string
  badge_color :: string

definition circuitBadge :: "string \<Rightarrow> badge" where
  "circuitBadge circuit =
     (if circuit = ''closed'' then \<lparr>badge_bg = ''rgba(34, 197, 94, 0.15)'', badge_color = ''var(--success)''\<rparr>
      else if circuit = ''half-open'' then \<lparr>badge_bg = ''rgba(234, 179, 8, 0.15)'', badge_color = ''#eab308''\<rparr>
      else if circuit = ''open'' then \<lparr>badge_bg = ''rgba(239, 68, 68, 0.15)'', badge_color = ''var(--danger)''\<rparr>
      else \<lparr>badge_bg = ''var(--card)'', badge_color = ''var(--muted)''\<rparr>)"

section \<open>View\<close>

definition name_before :: "intl \<Rightarrow> ProviderHealth \<Rightarrow> ProviderHealth \<Rightarrow> bool" where
  "name_before fmt a b = (localeCompare fmt (ph_name a) (ph_name b) \<le> 0)"

text \<open>The code sorts the array of the state in place; sorting again leaves it as it is.\<close>

definition providers_by_name :: "intl \<Rightarrow> StatusData \<Rightarrow> ProviderHealth list" where
  "providers_by_name fmt d = sort_by (name_before fmt) (sd_providers d)"

definition provider_card :: "intl \<Rightarrow> messages \<Rightarrow> ProviderHealth \<Rightarrow> 'e node" where
  "provider_card fmt t p =
     (let circuit = circuitBadge (ph_circuit p) in
      Elem ''div'' [(''key'', AStr (ph_name p))]
        [el ''div''
           [Elem ''div'' [(''style.background'', AStr (statusColor (ph_status p)))] [],
            el ''div''
              [el ''div'' [Text (ph_name p)],
               el ''div''
                 [Text (if ph_checked_at p \<noteq> [] then timeString fmt (ph_checked_at p) else ''-'')]]],
         el ''div''
           [Elem ''span''
              [(''style.background'', AStr (badge_bg circuit)), (''style.color'', AStr (badge_color circuit))]
              [Text (tr t ''status.circuitLabel''), Text '': '', Text (ph_circuit p)],
            Elem ''span'' [(''style.color'', AStr (statusColor (ph_status p)))]
              [Text (toUpperCase (ph_status p))]]])"

definition overall_status :: "intl \<Rightarrow> messages \<Rightarrow> status_page \<Rightarrow> StatusData \<Rightarrow> 'e node" where
  "overall_status fmt t s d =
     Elem ''div'' [(''style.background'', AStr (statusBg (sd_status d)))]
       ([Elem ''div'' [(''style.color'', AStr (statusColor (sd_status d)))]
           [Text (if sd_status d = ''operational'' then tr t ''status.operational'' else tr t ''status.degraded'')]]
        @ (case st_lastUpdated s of
             None \<Rightarrow> []
           | Some now \<Rightarrow>
               [el ''div'' [Text (tr t ''status.lastUpdated''), Text '': '', Text (timeString fmt now)]]))"

definition status_data_view :: "intl \<Rightarrow> messages \<Rightarrow> status_page \<Rightarrow> StatusData \<Rightarrow> 'e node list" where
  "status_data_view fmt t s d =
     [overall_status fmt t s d,
      el ''div''
        (el ''h2'' [Text (tr t ''status.providers'')]
         # (if sd_providers d = [] then [el ''p'' [Text (tr t ''status.noData'')]]
            else map (provider_card fmt t) (providers_by_name fmt d))),
      el ''div'' [Text (tr t ''status.autoRefresh'')]]"

definition StatusPage_view :: "intl \<Rightarrow> shell \<Rightarrow> messages \<Rightarrow> status_page \<Rightarrow> status_event node" where
  "StatusPage_view fmt sh t s =
     el ''div''
       [map_node StatusHeader (SiteHeader sh t no_props),
        el ''div''
          ([el ''div'' [el ''h1'' [Text (tr t ''status.title'')], el ''p'' [Text (tr t ''status.subtitle'')]]]
           @ cond_nodes (st_error s \<noteq> [])
               [Elem ''div'' [(''style.color'', AStr ''var(--danger)'')] [Text (st_error s)]]
           @ (case st_data s of None \<Rightarrow> [] | Some d \<Rightarrow> status_data_view fmt t s d)
           @ cond_nodes (st_data s = None \<and> st_error s = []) [el ''div'' [Text (tr t ''common.loading'')]])]"

section \<open>Lemmas\<close>

lemma insert_by_hd: "(\<And>y. y \<in> set ys \<Longrightarrow> le x y) \<Longrightarrow> insert_by le x ys = x # ys"
  by (cases ys) auto

lemma sort_by_sorted: "sorted_wrt le xs \<Longrightarrow> sort_by le xs = xs"
  by (induction xs) (auto simp: insert_by_hd)

text \<open>What the page remembers of a list of settled polls: the last good answer and its time.\<close>

fun last_good :: "status_event list \<Rightarrow> (StatusData \<times> string) option" where
  "last_good [] = None"
| "last_good (e # es) =
     (case last_good es of
        Some d \<Rightarrow> Some d
      | None \<Rightarrow> (case e of PollSettled (PollData d) now \<Rightarrow> Some (d, now) | _ \<Rightarrow> None))"

text \<open>The events of a page whose polls settle only after they began.\<close>

definition poll_pending :: "status_event \<Rightarrow> status_page \<times> browser \<Rightarrow> bool" where
  "poll_pending e sb = (case e of PollSettled r now \<Rightarrow> 0 < st_polls (fst sb) | _ \<Rightarrow> True)"

lemma st_data_run:
  "allowed poll_pending status_step es sb \<Longrightarrow>
     st_data (fst (run status_step es sb)) =
       (case last_good es of Some (d, now) \<Rightarrow> Some d | None \<Rightarrow> st_data (fst sb)) \<and>
     st_lastUpdated (fst (run status_step es sb)) =
       (case last_good es of Some (d, now) \<Rightarrow> Some now | None \<Rightarrow> st_lastUpdated (fst sb))"
proof (induction es arbitrary: sb)
  case (Cons e es)
  obtain s b where sb: "sb = (s, b)" by (rule prod.exhaust)
  show ?case using Cons sb
    by (cases e; cases "last_good es")
       (auto simp: poll_pending_def fetchStatus_settle_def split: poll_result.splits)
qed simp

lemma no_headings_in_header: "by_tag ''h2'' (SiteHeader sh t no_props) = []"
  by (simp add: SiteHeader_def no_props_def nav_link_def PreferencesBar_def ThemeToggle_def LocaleSwitcher_def
      LOCALES_def Let_def)

lemma headings_in_view: "by_tag ''h2'' (StatusPage_view fmt sh t s) \<noteq> [] \<longleftrightarrow> st_data s \<noteq> None"
proof -
  have "by_tag ''h2'' (provider_card fmt t p) = []" for p
    by (simp add: provider_card_def Let_def)
  then have "concat (map (by_tag ''h2'') (map (provider_card fmt t) ps)) = []" for ps
    by (induction ps) auto
  then show ?thesis
    by (cases "st_data s")
       (auto simp: StatusPage_view_def by_tag_map_node no_headings_in_header status_data_view_def
          overall_status_def concat_map_cond split: option.splits)
qed

section \<open>Properties\<close>

text \<open>
  C30: An outage never blanks the status page. However polls overlap, settle late or fail, the page
  shows the last answer that settled well, with the time it did; the heading of the
  provider list is on the page exactly when there has been one.
\<close>

theorem status_keeps_last_good:
  assumes "allowed poll_pending status_step es (status_init t0, b0)"
    and "(s, b) = run status_step es (status_init t0, b0)"
  shows "(case last_good es of
      Some (d, now) \<Rightarrow> st_data s = Some d \<and> st_lastUpdated s = Some now
    | None \<Rightarrow> st_data s = None \<and> st_lastUpdated s = None) \<and>
    (by_tag ''h2'' (StatusPage_view fmt sh t s) \<noteq> [] \<longleftrightarrow> last_good es \<noteq> None)"
proof -
  have "s = fst (run status_step es (status_init t0, b0))" using assms(2) by (metis fst_conv)
  then show ?thesis
    using st_data_run [OF assms(1)] headings_in_view [of fmt sh t s]
    by (auto simp: status_init_def split: option.splits)
qed

definition status_example_events :: "status_event list" where
  "status_example_events =
     [Poll, PollSettled (PollData \<lparr>sd_status = ''operational'', sd_providers = []\<rparr>) ''t1'', Poll, PollSettled PollNotOk ''t2'']"

lemma status_keeps_last_good_witness:
  "st_lastUpdated (fst (run status_step status_example_events
     (status_init (messagesMap En), \<lparr>has_window = True, storage = Map.empty, href = None, pushed = [], alerts = [], sent = []\<rparr>)))
   = Some ''t1''"
proof -
  let ?b = "\<lparr>has_window = True, storage = Map.empty, href = None, pushed = [], alerts = [], sent = []\<rparr>"
  let ?sb = "run status_step status_example_events (status_init (messagesMap En), ?b)"
  have "allowed poll_pending status_step status_example_events (status_init (messagesMap En), ?b)"
    by (simp add: status_example_events_def poll_pending_def status_init_def fetchStatus_settle_def)
  moreover have "last_good status_example_events = Some (\<lparr>sd_status = ''operational'', sd_providers = []\<rparr>, ''t1'')"
    by (simp add: status_example_events_def)
  ultimately show ?thesis
    using status_keeps_last_good [of status_example_events "messagesMap En" ?b "fst ?sb" "snd ?sb"] by simp
qed

text \<open>
  C31: The providers are listed by name. For a collation that is a total preorder, the cards are
  the providers of the answer, each once, in the order of their names, those whose names compare
  equal in the order of the answer; and sorting the array of the state in place, as the page does
  on each render, never changes what a later render shows.
\<close>

theorem providers_listed_by_name:
  assumes total: "\<forall>x y. localeCompare fmt x y \<le> 0 \<or> localeCompare fmt y x \<le> 0"
    and trans: "\<forall>x y z. localeCompare fmt x y \<le> 0 \<and> localeCompare fmt y z \<le> 0 \<longrightarrow> localeCompare fmt x z \<le> 0"
  shows "sorted_wrt (\<lambda>a b. localeCompare fmt (ph_name a) (ph_name b) \<le> 0) (providers_by_name fmt d) \<and>
    mset (providers_by_name fmt d) = mset (sd_providers d) \<and>
    filter (\<lambda>q. name_before fmt p q \<and> name_before fmt q p) (providers_by_name fmt d) =
      filter (\<lambda>q. name_before fmt p q \<and> name_before fmt q p) (sd_providers d) \<and>
    providers_by_name fmt (d\<lparr>sd_providers := providers_by_name fmt d\<rparr>) = providers_by_name fmt d"
proof -
  have c: "comparator (name_before fmt) (\<lambda>p. True)"
  proof unfold_locales
    show "name_before fmt x y \<or> name_before fmt y x" for x y
      using total by (simp add: name_before_def)
    show "name_before fmt x z" if "name_before fmt x y" "name_before fmt y z" for x y z
      using trans that unfolding name_before_def by (elim allE impE) (rule conjI)
  qed
  have sorted: "sorted_wrt (name_before fmt) (providers_by_name fmt d)"
    unfolding providers_by_name_def by (rule comparator.sorted_sort_by [OF c]) simp
  then have "sorted_wrt (\<lambda>a b. localeCompare fmt (ph_name a) (ph_name b) \<le> 0) (providers_by_name fmt d)"
    by (simp add: name_before_def [abs_def])
  moreover have "filter (\<lambda>q. name_before fmt p q \<and> name_before fmt q p) (providers_by_name fmt d) =
      filter (\<lambda>q. name_before fmt p q \<and> name_before fmt q p) (sd_providers d)"
    unfolding providers_by_name_def by (rule comparator.stable_sort_by [OF c]) simp_all
  moreover have "providers_by_name fmt (d\<lparr>sd_providers := providers_by_name fmt d\<rparr>) = providers_by_name fmt d"
    using sort_by_sorted [OF sorted] by (simp add: providers_by_name_def)
  ultimately show ?thesis by (simp add: providers_by_name_def)
qed

definition plain_intl :: intl where
  "plain_intl =
     \<lparr>dateTimeString = (\<lambda>s. s), dateString = (\<lambda>s. s), timeString = (\<lambda>s. s), groupedNumber = num_to_string,
      localeCompare = (\<lambda>a b. if a < b then -1 else if a = b then 0 else 1)\<rparr>"

definition status_data_example :: StatusData where
  "status_data_example = \<lparr>sd_status = ''operational'',
     sd_providers = [\<lparr>ph_name = ''openai'', ph_status = ''up'', ph_latency_ms = Fin 1,
       ph_circuit = ''closed'', ph_checked_at = []\<rparr>]\<rparr>"

lemma providers_listed_by_name_witness:
  "mset (providers_by_name plain_intl status_data_example) = mset (sd_providers status_data_example)"
proof -
  have le: "localeCompare plain_intl x y \<le> 0 \<longleftrightarrow> x \<le> y" for x y
    by (auto simp: plain_intl_def)
  have t: "\<forall>x y. localeCompare plain_intl x y \<le> 0 \<or> localeCompare plain_intl y x \<le> 0"
    unfolding le by (simp add: linear)
  have r: "\<forall>x y z. localeCompare plain_intl x y \<le> 0 \<and> localeCompare plain_intl y z \<le> 0 \<longrightarrow>
      localeCompare plain_intl x z \<le> 0"
    unfolding le by (metis order_trans)
  show ?thesis using providers_listed_by_name [OF t r, of status_data_example] by blast
qed

end
