(* ===== verification/Requests.thy ===== *)
theory Requests
  imports AdminPage DashboardPage LoginPage Middleware PlaygroundPage StatusPage
begin

text \<open>
  What the pages send, step by step: each step of a page adds requests to those of the browser, and
  each added request is one of the API clients', with the token of the moment, one of the
  playground's, or the status poll.
\<close>

section \<open>Steps and their requests\<close>

text \<open>A request that one of the two API clients builds in this browser.\<close>

definition client_request :: "browser \<Rightarrow> request \<Rightarrow> bool" where
  "client_request b rq \<longleftrightarrow> startsWith (rq_url rq) ''/api/'' \<and> rq_headers rq = auth_headers (stored_token b) []"

text \<open>The step adds requests of a kind, and takes none away.\<close>

definition sends :: "(request \<Rightarrow> bool) \<Rightarrow> browser \<Rightarrow> browser \<Rightarrow> bool" where
  "sends P b b' \<longleftrightarrow> (\<exists>rqs. sent b' = sent b @ rqs \<and> list_all P rqs)"

lemma sends_none [intro]: "sent b' = sent b \<Longrightarrow> sends P b b'"
  by (simp add: sends_def)

lemma sends_one [intro]: "P rq \<Longrightarrow> sends P b (send rq b)"
  by (auto simp: sends_def)

lemma sends_all: "sent b' = sent b @ rqs \<Longrightarrow> list_all P rqs \<Longrightarrow> sends P b b'"
  by (auto simp: sends_def)

lemma sends_mono: "sends P b b' \<Longrightarrow> (\<And>rq. P rq \<Longrightarrow> Q rq) \<Longrightarrow> sends Q b b'"
  by (auto simp: sends_def list_all_iff)

lemma sends_trans: "sends P b b' \<Longrightarrow> sends P b' b'' \<Longrightarrow> sends P b b''"
  by (auto simp: sends_def)

lemma base_request_client:
  "base = ''/api'' \<or> base = ''/api/admin'' \<Longrightarrow> startsWith path ''/'' \<Longrightarrow> init_headers init = [] \<Longrightarrow>
     client_request b (base_request base path init b)"
  by (auto simp: client_request_def base_request_def startsWith_prefix)

lemma json_init_headers [simp]: "init_headers (json_init m v) = []" "init_headers no_init = []"
  by (simp_all add: json_init_def no_init_def)

lemmas client_request_defs =
  fetchAPI_request_def adminFetch_request_def API_BASE_def ADMIN_API_BASE_def createAPIKey_request_def
  deleteAPIKey_request_def changePassword_request_def getMe_request_def updateBalance_request_def
  toggleProvider_request_def updateModel_request_def addProviderKey_request_def login_init_def register_init_def

lemma client_requests [simp, intro]:
  "client_request b (createAPIKey_request name scope b)" "client_request b (deleteAPIKey_request i b)"
  "client_request b (changePassword_request old new b)" "client_request b (getMe_request b)"
  "client_request b (updateBalance_request p q r b)" "client_request b (toggleProvider_request i c b)"
  "client_request b (updateModel_request up b)" "client_request b (addProviderKey_request p key q b)"
  "client_request b (fetchAPI_request ''/auth/login'' (login_init u v) b)"
  "client_request b (fetchAPI_request ''/auth/register'' (register_init u v w) b)"
  by (simp_all add: client_request_defs base_request_client)

lemma load_client_requests [simp, intro]: "list_all (client_request b) (load_requests b)"
  by (simp add: load_requests_def getUsageSummary_request_def getUsageByModel_request_def getAPIKeys_request_def
      getUsageDaily_request_def getUsageRecent_request_def client_request_defs base_request_client)

lemma admin_load_client_requests [simp, intro]: "list_all (client_request b) (admin_load_requests b)"
  by (simp add: admin_load_requests_def getGlobalStats_request_def getUsers_request_def getProviders_request_def
      getModels_request_def getProviderKeys_request_def client_request_defs base_request_client)

lemma sent_sign_out [simp]: "sent (sign_out b) = sent b"
  by (simp add: sign_out_def)

lemma sent_header [simp]: "sent (header_clicked h b) = sent b"
  by (simp add: header_clicked_def logout_def split: header_event.splits)

subsection \<open>The dashboard\<close>

lemma load_settled_sent: "sent (snd (load_settled i r (s, b))) = sent b"
  by (auto simp: load_settled_def settle_promise_def load_client_def load_catch_def put_load_def load_commit_def
      Let_def split: option.splits)

lemma resume_call_sends: "sends (client_request b) b (snd (resume_call c rep (s, b)))"
proof (cases rep)
  case (Success key)
  then show ?thesis
    by (cases c) (auto simp: take_reply_def loadData_def password_settled_def intro: sends_all)
qed (cases c; auto simp: take_reply_def password_settled_def)+

lemma dashboard_sends: "sends (client_request b) b (snd (dashboard_step t e (s, b)))"
proof (cases e)
  case DbMount
  then show ?thesis by (auto simp: dashboard_mount_def loadData_def intro: sends_all)
next
  case (LoadReply i r)
  then show ?thesis by (auto simp: load_settled_sent)
next
  case (CallSettled i rep)
  then show ?thesis by (auto simp: call_settled_def resume_call_sends)
qed (auto simp: handleCreateKey_def handleDeleteKey_def update_password_def)

subsection \<open>The admin page\<close>

lemma admin_load_answer_sent: "sent (snd (admin_load_answer i r (s, b))) = sent b"
  by (auto simp: admin_load_answer_def settle_promise_def admin_client_def admin_catch_def put_admin_load_def
      admin_commit_def Let_def split: option.splits slot.splits)

lemma me_settled_sends: "sends (client_request b) b (snd (me_settled rep (s, b)))"
proof (cases rep)
  case (Success role)
  then show ?thesis by (auto simp: me_settled_def take_reply_def loadAll_def Let_def intro: sends_all)
qed (auto simp: me_settled_def take_reply_def Let_def)

lemma resume_admin_sends: "sends (client_request b) b (snd (resume_admin c rep (s, b)))"
proof (cases rep)
  case (Success ok)
  then show ?thesis by (cases c) (auto simp: take_reply_def loadAll_def intro: sends_all)
qed (cases c; auto simp: take_reply_def)+

lemma admin_sends: "sends (client_request b) b (snd (admin_step e (s, b)))"
proof (cases e)
  case AdMount
  then show ?thesis by (auto simp: admin_mount_def)
next
  case (MeSettled rep)
  then show ?thesis by (simp add: me_settled_sends)
next
  case (AdAnswer i r)
  then show ?thesis by (auto simp: admin_load_answer_sent)
next
  case (AdCallSettled i rep)
  then show ?thesis by (auto simp: admin_call_settled_def resume_admin_sends)
qed (auto simp: handleUpdateBalance_def handleToggleProvider_def handleToggleModel_def handleAddKey_def)

subsection \<open>Login, playground and status\<close>

lemma login_sends: "sends (client_request b) b (snd (login_step e (s, b)))"
proof (cases e)
  case Submit
  then show ?thesis by (auto simp: handleSubmit_def Let_def)
next
  case (SubmitSettled f)
  have "sent (snd (auth_settle f b)) = sent b"
    by (auto simp: auth_settle_def api.settle_reply take_reply_def store_token_def
        split: reply.splits json.splits)
  then show ?thesis using SubmitSettled by (auto simp: submit_settled_def Let_def split: prod.splits sum.splits)
qed auto

lemma playground_sends: "sends (\<lambda>rq. startsWith (rq_url rq) ''/v1/'') b (snd (playground_step t e (s, b)))"
proof (cases e)
  case PgMount
  then show ?thesis
    by (auto simp: playground_mount_def playground_loadModels_def models_request_def split: option.splits)
next
  case (KeyChange key)
  then show ?thesis
    by (auto simp: handleKeyChange_def playground_loadModels_def models_request_def Let_def intro: sends_all)
next
  case (PgHeader h)
  then show ?thesis by (cases h) (auto simp: logout_def)
qed (auto simp: handleSend_def completion_request_def)

lemma status_sends: "sends (\<lambda>rq. rq = status_request) b (snd (status_step e (s, b)))"
  by (cases e) auto

section \<open>One browser, any page\<close>

text \<open>
  A step of whichever page is open, seen from the browser. The public pages ask for the model
  catalog; their other steps leave the browser alone.
\<close>

inductive page_step :: "browser \<Rightarrow> browser \<Rightarrow> bool" where
  dashboard_page: "dashboard_step t de (s, b) = (s', b') \<Longrightarrow> page_step b b'"
| admin_page: "admin_step ae (a, b) = (a', b') \<Longrightarrow> page_step b b'"
| login_page: "login_step le (l, b) = (l', b') \<Longrightarrow> page_step b b'"
| playground_page: "playground_step t pe (p, b) = (p', b') \<Longrightarrow> page_step b b'"
| status_page: "status_step se (u, b) = (u', b') \<Longrightarrow> page_step b b'"
| catalog_page: "page_step b (send getModelCatalog_request b)"

lemma client_request_proxied: "client_request b rq \<Longrightarrow> goes_to_backend (rq_url rq)"
  by (simp add: client_request_def goes_to_backend_def)

lemma page_step_sends: "page_step b b' \<Longrightarrow> sends (\<lambda>rq. goes_to_backend (rq_url rq)) b b'"
proof (induction rule: page_step.induct)
  case (dashboard_page t de s b s' b')
  from dashboard_sends [of b t de s] have "sends (client_request b) b b'" by (simp add: dashboard_page)
  then show ?case by (rule sends_mono) (rule client_request_proxied)
next
  case (admin_page ae a b a' b')
  from admin_sends [of b ae a] have "sends (client_request b) b b'" by (simp add: admin_page)
  then show ?case by (rule sends_mono) (rule client_request_proxied)
next
  case (login_page le l b l' b')
  from login_sends [of b le l] have "sends (client_request b) b b'" by (simp add: login_page)
  then show ?case by (rule sends_mono) (rule client_request_proxied)
next
  case (playground_page t pe p b p' b')
  have "sends (\<lambda>rq. goes_to_backend (rq_url rq)) b (snd (playground_step t pe (p, b)))"
    by (rule sends_mono [OF playground_sends]) (simp add: goes_to_backend_def)
  then show ?case using playground_page by simp
next
  case (status_page se u b u' b')
  have "sends (\<lambda>rq. goes_to_backend (rq_url rq)) b (snd (status_step se (u, b)))"
    by (rule sends_mono [OF status_sends]) (simp add: goes_to_backend_def status_request_def)
  then show ?case using status_page by simp
next
  case (catalog_page b)
  then show ?case by (intro sends_one) (simp add: goes_to_backend_def getModelCatalog_request_def API_BASE_def)
qed

lemma visit_sends: "page_step\<^sup>*\<^sup>* b b' \<Longrightarrow> sends (\<lambda>rq. goes_to_backend (rq_url rq)) b b'"
proof (induction rule: rtranclp_induct)
  case (step c d)
  from step.IH page_step_sends [OF step.hyps(2)] show ?case by (rule sends_trans)
qed auto

text \<open>How the web server routes the request of a page: it has no query.\<close>

definition routed_to :: "host_parser \<Rightarrow> string option \<Rightarrow> request \<Rightarrow> routed" where
  "routed_to hp env rq =
     middleware hp env \<lparr>wr_pathname = rq_url rq, wr_search = [], wr_headers = rq_headers rq\<rparr>"

lemma routed_proxied:
  assumes "goes_to_backend (rq_url rq)"
  shows "routed_to hp env rq =
    (case parse_url hp (BACKEND_URL env) of
       None \<Rightarrow> Raised ''Invalid URL''
     | Some u \<Rightarrow>
         if u_opaque u then Raised ''Invalid URL''
         else Rewrite (url_prefix u @ (if startsWith (rq_url rq) ''/backend/'' then drop 8 (rq_url rq) else rq_url rq))
                (AList.update ''host'' (url_host u) (rq_headers rq)))"
  using assms backend_path_cases [OF assms]
  by (simp add: routed_to_def middleware_cases backend_base_def split: option.splits)

end
