(* ===== verification/Spec2Isabelle.thy ===== *)
theory Spec2Isabelle
  imports CalculatorPage DocsPage FormatAccuracy HomePage ModelsPage Requests
begin

text \<open>
  Verification development of the UniLLM web client (\<open>src/unillm/web/src\<close>, TypeScript, Next.js and
  React). Source paths below are relative to that directory.

  \<^bold>\<open>The program.\<close> UniLLM sells access to language models through one API. The web client is a set of
  pages over two API clients: \<open>lib/api.ts\<close> for users and \<open>lib/admin-api.ts\<close> for admins. The session is a
  token in \<open>localStorage\<close>; every request carries it, and a 401 drops it and goes to the login page. The
  pages share a header, the language provider (\<open>lib/i18n\<close>) and a few components. \<open>middleware.ts\<close> forwards
  some paths of the web server to the backend. The Go backend of the repository is a separate program;
  its answers are inputs of this model.

  \<^bold>\<open>How the code is modelled.\<close> A page is a record of its React state and a step function on events: what
  the user does, effects, and promises that settle. An asynchronous handler is split where it awaits:
  the first half sends the request, and the suspended rest is part of the state until an event settles
  it, so every interleaving is a list of events. \<open>Machine\<close> has runs, reachable states and the rules that
  carry an invariant of the steps to them. A page's view is a function to a tree of elements (\<open>Vdom\<close>),
  with the attributes and handlers that carry behaviour; class names and constant styles are left out.
  A JavaScript number is \<open>jsnum\<close>: an exact rational that binary64 represents, an infinity or NaN, with
  the arithmetic rounded to nearest even. A string is the list of its UTF-8 bytes. A call that may throw
  returns a sum, with the message on the left.

  \<^bold>\<open>Theories.\<close>

    \<^item> \<open>JsPrelude\<close>, \<open>JsNumber\<close>, \<open>JsArith\<close>, \<open>JsFormat\<close>, \<open>FormatAccuracy\<close>, \<open>JsSort\<close>: the JavaScript the client
      uses: string methods, binary64 rounding and arithmetic, \<open>toFixed\<close>, \<open>toExponential\<close>, \<open>toString\<close> and
      \<open>Number\<close>, and the stable \<open>sort\<close> under a comparator (locale \<open>comparator\<close>), with how far a printed
      number is from the number.
    \<^item> \<open>Json\<close>, \<open>JsonRoundtrip\<close>: \<open>JSON.stringify\<close> and \<open>JSON.parse\<close>; every value whose numbers print is read
      back. The parser runs on fuel, twice the length of the text, which is shown to be enough.
    \<^item> \<open>Browser\<close>: storage (locale \<open>kv_store\<close>), navigation, alerts, requests sent, and the ways a \<open>fetch\<close>
      settles. \<open>Promises\<close>: waiting for several calls at once as \<open>Promise.all\<close> does (locale \<open>promise_all\<close>,
      interpreted on the dashboard's and the admin page's loads): whatever the order of the answers.
    \<^item> \<open>Api\<close>, \<open>AdminApi\<close>: \<open>lib/api.ts\<close> and \<open>lib/admin-api.ts\<close>. \<open>api_reply\<close> is the abstract outcome of an
      answer, and the settlement of a call refines it (locale \<open>authed_client\<close>).
    \<^item> \<open>Messages_En\<close>, \<open>Messages_Zh\<close>, \<open>Catalog\<close>, \<open>I18n\<close>: \<open>lib/i18n\<close>: both catalogs in full, and the provider.
    \<^item> \<open>Vdom\<close>, \<open>Components\<close>: \<open>components\<close>: header, switches, log table, usage chart.
    \<^item> \<open>HomePage\<close>, \<open>ModelsPage\<close>, \<open>CalculatorPage\<close>, \<open>LoginPage\<close>, \<open>DashboardPage\<close>, \<open>AdminPage\<close>, \<open>StatusPage\<close>: the
      page of the same name under \<open>app\<close>.
    \<^item> \<open>Sse\<close>, \<open>PlaygroundPage\<close>: \<open>app/playground\<close>: the event stream of an answer, and the page.
    \<^item> \<open>Markdown\<close>, \<open>DocsText\<close>, \<open>DocsPage\<close>: \<open>app/docs\<close>: the Markdown renderer with the code's loops and a
      recursive parser they implement, the texts of all sections, and the page.
    \<^item> \<open>Url\<close>, \<open>Middleware\<close>: \<open>middleware.ts\<close>, with the platform's URL parser as far as the code depends on
      it: when it throws, and what stands before the path.
    \<^item> \<open>Requests\<close>: what each step of each page sends, for the properties of this theory.

  \<^bold>\<open>What is shown.\<close>

    \<^item> Session: a login starts it, any 401 ends it, and the admin page sends nothing to the admin API and
      shows nothing before the server has named the user an admin.
    \<^item> Requests: the bodies of the forms parse back to what the user typed, whatever its characters; a
      toggle sends the negation of what its row shows; a key goes to the provider that was chosen, and
      a new one stays on the page; the middleware forwards to the configured address and to no other
      host, and throws when that is not a URL a path can be put on.
    \<^item> Between components (this theory): an accepted login opens the dashboard with its token and a 401
      closes it again; every request of the dashboard and the admin page carries the stored token;
      every request a page sends is forwarded to the backend; the reason of a failure reaches the user.
    \<^item> Loading: the dashboard and the admin page take over the answers of a load all together or not at
      all, in whatever order they come.
    \<^item> Playground: at most one answer is awaited, the conversation alternates, a streamed answer arrives
      whole when the chunks end at line ends, and every failure gives the input back.
    \<^item> Numbers: costs are monotone, ranked and displayed within half a unit of the last digit, and the
      bars of the usage chart stay within the chart.
    \<^item> Markdown: the loops end, within one pass per line, and implement the recursive parser; printed
      documents are read back; no character of a line is lost.
    \<^item> Languages and lists: both catalogs have the same texts, the chosen language survives a reload, the
      filters of the marketplace partition the catalog, providers are listed by name.

  \<^bold>\<open>What the environment decides\<close> is a parameter or an input: the answers of the network and the order
  in which they arrive, dates and grouped numbers in the user's locale and the collation of names
  (record \<open>intl\<close>), the theme that next-themes reports, the answer to a confirmation, the parsing of host
  names (type \<open>host_parser\<close>). An API answer enters a page as its payload; that the server sends the
  members the code's interfaces declare is assumed, as the code does, and a missing list member is
  one of the cases.

  \<^bold>\<open>Not modelled.\<close> The Go backend. \<open>app/layout.tsx\<close> and \<open>app/providers.tsx\<close>, which only nest the
  providers, and the framework's configuration. Styles, hover effects and scrolling. React itself: a
  state update is taken to be visible to the next event. \<open>trim\<close> and the case conversions cover the ASCII
  range, and strings are ordered by their bytes, which differs from \<open>sort\<close> only for characters beyond
  the basic plane. The table of vendor colours is looked up without the members every JavaScript
  object inherits. A body that is null where the code reads its members, and the drive letter of a
  \<open>file:\<close> address, are left out. The logout button of the header acts on the browser of the pages that
  have one in their state; on the public pages (home, models, calculator, documentation) the browser
  is not part of the state.
\<close>

section \<open>Properties across the components\<close>

lemma bearer_header:
  "map_of (auth_headers (stored_token b) []) ''Authorization'' =
     (if isLoggedIn b then Some (''Bearer '' @ the (getItem ''token'' b)) else None)"
  by (auto simp: stored_token_def isLoggedIn_def map_of_auth_headers split: option.splits)
     (auto simp: auth_headers_def)

lemma client_bearer:
  "client_request b rq \<Longrightarrow>
     map_of (rq_headers rq) ''Authorization'' = (if isLoggedIn b then Some (''Bearer '' @ the (getItem ''token'' b)) else None)"
  by (simp add: client_request_def bearer_header)

text \<open>
  C4: A login opens the dashboard, and a rejected session closes it. When the login page's answer is
  accepted with a token, the page goes to the dashboard; the dashboard, mounted in that browser,
  stays there and sends its five requests, each with that token. If then any one of the five calls
  is answered with a 401, whatever the other answers are and whatever is answered, clicked or typed
  on the dashboard before and after it (each call is answered once), the next visit of the
  dashboard or of the admin page sends nothing and goes to the login page.
\<close>

theorem login_opens_the_dashboard:
  assumes "reach form_submits login_step (login_page_init, b0) (s, b)" "lp_loading s" "has_window b"
    and "accepted f data" "answer_token data \<noteq> []"
    and "login_step (SubmitSettled f) (s, b) = (s1, b1)"
    and "dashboard_mount (dashboard_init, b1) = (d, b2)"
    and "(t, LoadReply 0 r) \<in> set es" "unauthorized r"
    and "\<forall>u q. (u, LoadReply 0 q) \<in> set es \<and> reply_kind q = reply_kind r \<longrightarrow> q = r"
    and "run dash_play es (d, b2) = (d3, b3)"
  shows "pushed b1 = pushed b @ [''/dashboard''] \<and> pushed b2 = pushed b1 \<and>
    sent b2 = sent b1 @ load_requests b1 \<and>
    map (\<lambda>rq. (rq_method rq, rq_url rq)) (load_requests b1) =
      [(''GET'', ''/api/usage/summary''), (''GET'', ''/api/usage/by-model''), (''GET'', ''/api/keys''),
       (''GET'', ''/api/usage/daily''), (''GET'', ''/api/usage/recent'')] \<and>
    list_all (\<lambda>rq. map_of (rq_headers rq) ''Authorization'' = Some (''Bearer '' @ answer_token data))
      (load_requests b1) \<and>
    dashboard_mount (dashboard_init, b3) = (dashboard_init, router_push ''/login'' b3) \<and>
    admin_mount (admin_init, b3) = (admin_init, router_push ''/login'' b3)"
proof -
  have "lp_submits s \<noteq> 0"
    using login_machine.reach_inv [OF assms(1)] assms(2) by (simp add: one_submit_def login_page_init_def)
  then have b1: "b1 = router_push ''/dashboard'' (setItem ''token'' (answer_token data) b)"
    using assms(6) auth_settle_accepted [OF assms(4), of b] by (auto simp: submit_settled_def Let_def)
  have token: "getItem ''token'' b1 = Some (answer_token data)" "isLoggedIn b1"
    using assms(3,5) by (simp_all add: b1)
  have mount: "d = dashboard_init\<lparr>db_loads := (\<lambda>_. fresh_load)(0 := fresh_load), db_started := 1\<rparr>"
    "b2 = fold send (load_requests b1) b1"
    using assms(7) token(2) by (simp_all add: dashboard_mount_def loadData_def dashboard_init_def)
  have "first_load_waits (reply_kind r) (d, b2)"
    by (simp add: first_load_waits_def mount slot_open_def fresh_load_def split: load_kind.splits)
  from session_lost [OF this assms(9,8,10)] have "\<not> isLoggedIn b3" by (simp only: assms(11) snd_conv not_False_eq_True)
  moreover have "list_all (\<lambda>rq. map_of (rq_headers rq) ''Authorization'' = Some (''Bearer '' @ answer_token data))
      (load_requests b1)"
    using load_client_requests [of b1] token by (auto simp: list_all_iff client_bearer)
  ultimately show ?thesis
    by (simp add: mount(2) dashboard_mount_def admin_mount_def load_urls) (simp add: b1)
qed

definition token_answer :: fetched where
  "token_answer = Responded (ok_response (JSON_stringify (JObj [(''token'', JStr ''t9'')])))"

lemma login_opens_the_dashboard_witness:
  "dashboard_mount (dashboard_init, snd (run dash_play
       [(messagesMap En, LoadReply 0 (SummaryReply (Success summary_example))),
        (messagesMap En, LoadReply 0 (DailyReply Unauthorized)), (messagesMap En, SetTab KeysTab)]
       (dashboard_mount (dashboard_init, snd (login_step (SubmitSettled token_answer) login_example))))) =
   (dashboard_init, router_push ''/login'' (snd (run dash_play
       [(messagesMap En, LoadReply 0 (SummaryReply (Success summary_example))),
        (messagesMap En, LoadReply 0 (DailyReply Unauthorized)), (messagesMap En, SetTab KeysTab)]
       (dashboard_mount (dashboard_init, snd (login_step (SubmitSettled token_answer) login_example))))))"
proof -
  have r: "reach form_submits login_step (login_page_init,
      \<lparr>has_window = True, storage = Map.empty, href = None, pushed = [], alerts = [], sent = []\<rparr>)
      (fst login_example, snd login_example)"
    unfolding login_example_def prod.collapse
    by (rule reach_run [OF reach_start]) (simp add: form_submits_def login_page_init_def)
  have s: "lp_loading (fst login_example)" "has_window (snd login_example)"
    by (simp_all add: login_example_def handleSubmit_def login_page_init_def Let_def)
  have wf: "json_wf (JObj [(''token'', JStr ''t9'')])" by simp
  have f: "accepted token_answer (JObj [(''token'', JStr ''t9'')])" "answer_token (JObj [(''token'', JStr ''t9'')]) \<noteq> []"
    using JSON_parse_stringify [OF wf]
    by (simp_all add: accepted_def answer_token_def token_answer_def api_reply_def ok_response_def res_ok_def
        res_json_def del: JSON_stringify.simps)
  let ?r1 = "login_step (SubmitSettled token_answer) (fst login_example, snd login_example)"
  let ?r2 = "dashboard_mount (dashboard_init, snd ?r1)"
  let ?es = "[(messagesMap En, LoadReply 0 (SummaryReply (Success summary_example))),
        (messagesMap En, LoadReply 0 (DailyReply Unauthorized)), (messagesMap En, SetTab KeysTab)]"
  let ?r3 = "run dash_play ?es (fst ?r2, snd ?r2)"
  have p: "?r1 = (fst ?r1, snd ?r1)" "?r2 = (fst ?r2, snd ?r2)" "?r3 = (fst ?r3, snd ?r3)" by simp_all
  have e: "(messagesMap En, LoadReply 0 (DailyReply Unauthorized)) \<in> set ?es" "unauthorized (DailyReply Unauthorized)"
    "\<forall>u q. (u, LoadReply 0 q) \<in> set ?es \<and> reply_kind q = reply_kind (DailyReply Unauthorized) \<longrightarrow> q = DailyReply Unauthorized"
    by (auto simp: unauthorized_def)
  from login_opens_the_dashboard [OF r s f p(1,2) e p(3), THEN conjunct2, THEN conjunct2, THEN conjunct2,
      THEN conjunct2, THEN conjunct2, THEN conjunct1]
  show ?thesis by (simp only: prod.collapse)
qed

text \<open>
  C9: Every request a page sends goes to the backend. However the user visits the pages, whatever is
  clicked, typed and answered, each request that is sent on the way is one the middleware proxies.
  When the configured address is a URL with a place for a path, each is rewritten to that URL's
  scheme, credentials, host and port and its own path (the status page's to the backend's status
  path), with the backend's host header; with any other address, each of them fails.
\<close>

theorem page_requests_reach_the_backend:
  assumes "page_step\<^sup>*\<^sup>* b b'"
  shows "\<exists>rqs. sent b' = sent b @ rqs \<and>
    list_all (\<lambda>rq. routed_to hp env rq =
      (case parse_url hp (BACKEND_URL env) of
         None \<Rightarrow> Raised ''Invalid URL''
       | Some u \<Rightarrow>
           if u_opaque u then Raised ''Invalid URL''
           else Rewrite (url_prefix u @ (if startsWith (rq_url rq) ''/backend/'' then drop 8 (rq_url rq) else rq_url rq))
                  (AList.update ''host'' (url_host u) (rq_headers rq)))) rqs"
  using visit_sends [OF assms] routed_proxied [of _ hp env] by (auto simp: sends_def list_all_iff)

lemma page_requests_reach_the_backend_witness:
  "map (routed_to name_parser None) (sent (snd (status_step Poll (status_init (messagesMap En), dash_browser)))) =
     [Rewrite ''http://localhost:8080/status'' [(''host'', ''localhost:8080'')]]"
proof -
  let ?b = "snd (status_step Poll (status_init (messagesMap En), dash_browser))"
  have "page_step dash_browser ?b" using status_page [of Poll "status_init (messagesMap En)" dash_browser] by simp
  then have "page_step\<^sup>*\<^sup>* dash_browser ?b" by (rule r_into_rtranclp)
  from page_requests_reach_the_backend [OF this, of name_parser None]
  obtain rqs where rqs: "sent ?b = sent dash_browser @ rqs"
    "list_all (\<lambda>rq. routed_to name_parser None rq =
       Rewrite (''http://localhost:8080'' @ (if startsWith (rq_url rq) ''/backend/'' then drop 8 (rq_url rq) else rq_url rq))
         (AList.update ''host'' ''localhost:8080'' (rq_headers rq))) rqs"
    by (auto simp: default_base url_prefix_def credentials_def url_host_def port_suffix_def port_8080)
  then have "rqs = [status_request]" by (simp add: dash_browser_def)
  then show ?thesis using rqs by (simp add: dash_browser_def status_request_def)
qed

text \<open>
  C25: A session is used for every call while it lasts and for none after it. Whatever happens on the
  dashboard or on the admin page, each request the page sends at that step carries the token that is
  stored at that moment as its bearer token, or no authorization at all when there is none.
\<close>

theorem requests_carry_the_token:
  assumes "dashboard_step t e (s, b) = (s', b') \<or> admin_step ae (a, b) = (a', b')"
  shows "\<exists>rqs. sent b' = sent b @ rqs \<and>
    list_all (\<lambda>rq. map_of (rq_headers rq) ''Authorization'' =
      (if isLoggedIn b then Some (''Bearer '' @ the (getItem ''token'' b)) else None)) rqs"
proof -
  have "sends (client_request b) b b'"
    using assms dashboard_sends [of b t e s] admin_sends [of b ae a] by auto
  then obtain rqs where rqs: "sent b' = sent b @ rqs" "\<forall>rq \<in> set rqs. client_request b rq"
    unfolding sends_def list_all_iff by blast
  have "list_all (\<lambda>rq. map_of (rq_headers rq) ''Authorization'' =
      (if isLoggedIn b then Some (''Bearer '' @ the (getItem ''token'' b)) else None)) rqs"
    unfolding list_all_iff using rqs(2) client_bearer by blast
  then show ?thesis using rqs(1) by blast
qed

lemma requests_carry_the_token_witness:
  "map (\<lambda>rq. map_of (rq_headers rq) ''Authorization'')
     (sent (snd (admin_step (ToggleModel 7 True) (admin_init, admin_browser)))) = [Some ''Bearer t1'']"
proof -
  let ?r = "admin_step (ToggleModel 7 True) (admin_init, admin_browser)"
  have "isLoggedIn admin_browser" "getItem ''token'' admin_browser = Some ''t1''"
    by (simp_all add: isLoggedIn_def admin_browser_def getItem_def)
  moreover obtain rq where "sent (snd ?r) = [rq]"
    by (simp add: handleToggleModel_def admin_browser_def)
  ultimately show ?thesis
    using requests_carry_the_token [of "messagesMap En" DbMount dashboard_init admin_browser dashboard_init "snd ?r"
        "ToggleModel 7 True" admin_init "fst ?r"]
    by (auto simp: admin_browser_def)
qed

text \<open>
  A call that fails for another reason than its session, with the text the user is to see: the
  network's, the server's own, or the status where the body is not JSON.
\<close>

definition refused_with :: "fetched \<Rightarrow> string \<Rightarrow> bool" where
  "refused_with f msg \<longleftrightarrow> msg \<noteq> [] \<and>
     (case f of
        Rejected m \<Rightarrow> msg = m
      | Responded r \<Rightarrow>
          status r \<noteq> 401 \<and> \<not> (200 \<le> status r \<and> status r \<le> 299) \<and>
          (case JSON_parse (body r) of
             None \<Rightarrow> msg = ''Request failed: '' @ int_to_string (status r)
           | Some v \<Rightarrow> (\<exists>kvs. v = JObj kvs) \<and> get_prop v ''error'' = Some (JStr msg)))"

lemma refused_reply:
  assumes "refused_with f msg"
  shows "api_reply f = Failed msg" "(\<forall>r. f = Responded r \<longrightarrow> status r \<noteq> 403) \<Longrightarrow> admin_reply f = Failed msg"
  using assms
  by (auto simp: refused_with_def api_reply_def admin_reply_def res_ok_def error_message_def
      split: fetched.splits option.splits)

text \<open>
  C37: The user sees why a call failed. When the network fails with a message, or the server refuses
  a call, other than with a 401, with an object whose \<open>error\<close> is a text that is not empty or with a
  body that is not JSON, that text ("Request failed: " and the status in the last case) reaches the
  user: the login page shows it in its error box, the keys tab and the two forms of the admin page
  alert it, and the settings tab shows it under the password form. The admin client alone replaces
  the text of a 403.
\<close>

theorem failures_reach_the_user:
  assumes "refused_with f msg"
  shows "(lp_submits l \<noteq> 0 \<longrightarrow>
      (\<exists>l'. login_step (SubmitSettled f) (l, b) = (l', b) \<and>
         Elem ''div'' [(''style.color'', AStr ''var(--danger)'')] [Text msg] \<in> set (by_tag ''div'' (LoginPage_view sh t l')))) \<and>
    (i < length (db_calls d) \<and> db_calls d ! i = CreateCall u \<longrightarrow>
      snd (dashboard_step t (CallSettled i (map_reply g (api_reply f))) (d, b)) = show_alert msg b) \<and>
    (i < length (db_calls d) \<and> db_calls d ! i = PasswordCall u \<longrightarrow>
      (\<exists>d'. dashboard_step t (CallSettled i (map_reply g (api_reply f))) (d, b) = (d', b) \<and>
         map text_of (concat (map (by_tag ''p'') (settings_tab t d'))) = [msg])) \<and>
    (i < length (ad_calls a) \<and> ad_calls a ! i \<in> {BalanceCall, AddKeyCall} \<and> (\<forall>r. f = Responded r \<longrightarrow> status r \<noteq> 403) \<longrightarrow>
      snd (admin_step (AdCallSettled i (map_reply h (admin_reply f))) (a, b)) = show_alert msg b)"
proof -
  have msg: "msg \<noteq> []" using assms by (simp add: refused_with_def)
  note rep = refused_reply [OF assms]
  have login: "\<exists>l'. login_step (SubmitSettled f) (l, b) = (l', b) \<and>
      Elem ''div'' [(''style.color'', AStr ''var(--danger)'')] [Text msg] \<in> set (by_tag ''div'' (LoginPage_view sh t l'))"
    if "lp_submits l \<noteq> 0"
    using that msg
    by (simp add: submit_settled_def auth_settle_def api.settle_reply rep take_reply_def store_token_def Let_def
        LoginPage_view_def)
  have key: "snd (dashboard_step t (CallSettled i (map_reply g (api_reply f))) (d, b)) = show_alert msg b"
    if "i < length (db_calls d) \<and> db_calls d ! i = CreateCall u"
    using that by (simp add: call_settled_def rep take_reply_def)
  have pwd: "\<exists>d'. dashboard_step t (CallSettled i (map_reply g (api_reply f))) (d, b) = (d', b) \<and>
      map text_of (concat (map (by_tag ''p'') (settings_tab t d'))) = [msg]"
    if "i < length (db_calls d) \<and> db_calls d ! i = PasswordCall u"
    using that msg by (simp add: call_settled_def password_settled_def rep take_reply_def settings_tab_def pwd_field_def)
  have admin: "snd (admin_step (AdCallSettled i (map_reply h (admin_reply f))) (a, b)) = show_alert msg b"
    if "i < length (ad_calls a) \<and> ad_calls a ! i \<in> {BalanceCall, AddKeyCall} \<and> (\<forall>r. f = Responded r \<longrightarrow> status r \<noteq> 403)"
    using that by (auto simp: admin_call_settled_def rep(2) take_reply_def)
  from conjI [OF impI [OF login] conjI [OF impI [OF key] conjI [OF impI [OF pwd] impI [OF admin]]]] show ?thesis .
qed

definition no_funds :: fetched where
  "no_funds = Responded \<lparr>status = 402, body = JSON_stringify (JObj [(''error'', JStr ''insufficient balance'')]), engine_msg = []\<rparr>"

lemma failures_reach_the_user_witness:
  "snd (dashboard_step (messagesMap En) (CallSettled 0 (map_reply (\<lambda>j. []) (api_reply no_funds))) (key_page_example, dash_browser)) =
     show_alert ''insufficient balance'' dash_browser"
proof -
  have "refused_with no_funds ''insufficient balance''"
    by (simp add: refused_with_def no_funds_def JSON_parse_stringify del: JSON_stringify.simps)
  from failures_reach_the_user [where d = key_page_example and i = 0 and b = dash_browser and t = "messagesMap En"
      and g = "\<lambda>j. []" and u = "messagesMap En", OF this, THEN conjunct2, THEN conjunct1, THEN mp]
  show ?thesis by (simp add: key_page_example_def)
qed

end
